(* ===== verification/Prelude.thy ===== *)
theory Prelude
  imports Main "HOL-Library.Multiset" "HOL-Library.State_Monad"
begin

section \<open>Prelude: Go values, errors, and the state monad\<close>

text \<open>
  What every component shares: instants and durations as nanoseconds (Go's \<open>time.Time\<close> and
  \<open>time.Duration\<close> on one time line), Go's \<open>error\<close> values with their messages and their
  \<open>%w\<close> chains, results \<open>err + 'a\<close> for a Go pair \<open>(value, err)\<close>, the unfolding rules of the
  state monad that stateful code is written in, and the list facts several components use.
\<close>

named_theorems run_simps \<open>execution of state-monad programs\<close>
named_theorems sql_simps \<open>the row-level effect of SQL statements\<close>
named_theorems keep_intros \<open>preservation of invariants by operations\<close>

subsection \<open>Time\<close>

type_synonym time = int
type_synonym duration = int

definition Millisecond :: duration where "Millisecond = 1000000"
definition Second :: duration where "Second = 1000 * Millisecond"
definition Minute :: duration where "Minute = 60 * Second"
definition Hour :: duration where "Hour = 60 * Minute"

lemmas time_units = Millisecond_def Second_def Minute_def Hour_def

subsection \<open>Errors\<close>

text \<open>
  The sentinels are those of \<open>internal/store/store.go\<close> and \<open>sql.ErrNoRows\<close>. \<open>Errorf m\<close> is \<open>fmt.Errorf(m)\<close>,
  \<open>Wrap m e\<close> is \<open>fmt.Errorf("m: %w", e)\<close>, and \<open>WrapWith e e'\<close> is
  \<open>fmt.Errorf("%w: %v", e, e')\<close>; \<open>WrapIn m e m'\<close> has the wrapped error inside its text. \<open>Driver m\<close> is an error value of a library below the code.
\<close>

datatype err =
    ErrNotFound
  | ErrAlreadyExists
  | ErrForeignKeyViolation
  | ErrNoRows
  | Driver string
  | Errorf string
  | Wrap string err
  | WrapWith err err
  | WrapIn string err string

fun err_msg :: "err \<Rightarrow> string" where
  "err_msg ErrNotFound = ''record not found''"
| "err_msg ErrAlreadyExists = ''record already exists''"
| "err_msg ErrForeignKeyViolation = ''foreign key violation''"
| "err_msg ErrNoRows = ''sql: no rows in result set''"
| "err_msg (Driver m) = m"
| "err_msg (Errorf m) = m"
| "err_msg (Wrap m e) = m @ '': '' @ err_msg e"
| "err_msg (WrapWith e e') = err_msg e @ '': '' @ err_msg e'"
| "err_msg (WrapIn m e m') = m @ err_msg e @ m'"

text \<open>\<open>errors.Is\<close> walks the \<open>%w\<close> chain; \<open>==\<close> on errors does not.\<close>

fun errors_is :: "err \<Rightarrow> err \<Rightarrow> bool" where
  "errors_is (Wrap m e) t = (Wrap m e = t \<or> errors_is e t)"
| "errors_is (WrapWith e e') t = (WrapWith e e' = t \<or> errors_is e t)"
| "errors_is (WrapIn m e m') t = (WrapIn m e m' = t \<or> errors_is e t)"
| "errors_is e t = (e = t)"

lemma errors_is_refl [simp]: "errors_is e e"
  by (cases e) auto

type_synonym 'a result = "err + 'a"

definition ok :: "'a result \<Rightarrow> bool" where
  "ok r = (case r of Inl _ \<Rightarrow> False | Inr _ \<Rightarrow> True)"

lemma ok_simps [simp]: "ok (Inr x)" "\<not> ok (Inl e)"
  by (simp_all add: ok_def)

lemma ok_iff: "ok r \<longleftrightarrow> (\<exists>x. r = Inr x)"
  by (cases r) auto

subsection \<open>Decimal numbers\<close>

text \<open>\<open>%d\<close> of \<open>fmt\<close>.\<close>

fun digits :: "nat \<Rightarrow> string" where
  "digits n = (if n < 10 then [char_of (48 + n)] else digits (n div 10) @ [char_of (48 + n mod 10)])"

declare digits.simps [simp del]

definition fmt_d :: "int \<Rightarrow> string" where
  "fmt_d i = (if i < 0 then CHR ''-'' # digits (nat (- i)) else digits (nat i))"

definition is_digit :: "char \<Rightarrow> bool" where
  "is_digit c = (48 \<le> (of_char c :: nat) \<and> (of_char c :: nat) \<le> 57)"

lemma digits_digit: "c \<in> set (digits n) \<Longrightarrow> is_digit c"
proof (induction n rule: digits.induct)
  case (1 n)
  show ?case
  proof (cases "n < 10")
    case True
    with 1 show ?thesis by (subst (asm) digits.simps) (auto simp: is_digit_def)
  next
    case False
    with "1.prems" have "c \<in> set (digits (n div 10)) \<or> c = char_of (48 + n mod 10)"
      by (subst (asm) digits.simps) auto
    moreover have "n mod 10 < 10" by simp
    then have "48 + n mod 10 < 256" "48 + n mod 10 \<le> 57" by linarith+
    then have "is_digit (char_of (48 + n mod 10))" by (simp add: is_digit_def)
    ultimately show ?thesis using "1.IH" [OF False] by auto
  qed
qed

text \<open>\<open>strconv.Atoi\<close>: an optional sign and decimal digits, within 64 bits.\<close>

definition digits_value :: "string \<Rightarrow> nat" where
  "digits_value ds = foldl (\<lambda>n c. 10 * n + (of_char c - 48)) 0 ds"

definition split_sign :: "string \<Rightarrow> bool \<times> string" where
  "split_sign s =
     (case s of
        [] \<Rightarrow> (False, [])
      | c # cs \<Rightarrow> if c = CHR ''-'' then (True, cs) else if c = CHR ''+'' then (False, cs) else (False, c # cs))"

definition signed_64 :: "bool \<Rightarrow> string \<Rightarrow> int result" where
  "signed_64 neg ds =
     (let v = (if neg then - int (digits_value ds) else int (digits_value ds))
      in if v < - (2 ^ 63) \<or> v \<ge> 2 ^ 63 then Inl (Driver ''value out of range'') else Inr v)"

definition Atoi :: "string \<Rightarrow> int result" where
  "Atoi s =
     (case split_sign s of
        (neg, ds) \<Rightarrow>
          if ds = [] \<or> \<not> list_all is_digit ds then Inl (Driver ''invalid syntax'') else signed_64 neg ds)"

lemma digits_value_snoc [simp]: "digits_value [] = 0" "digits_value (ds @ [c]) = 10 * digits_value ds + (of_char c - 48)"
  by (simp_all add: digits_value_def)

lemma digits_value_digits [simp]: "digits_value (digits n) = n"
proof (induction n rule: digits.induct)
  case (1 n)
  show ?case
  proof (cases "n < 10")
    case True
    with digits_value_snoc(2) [of "[]" "char_of (48 + n)"] show ?thesis by (subst digits.simps) simp
  next
    case False
    have "48 + n mod 10 < (256 :: nat)" by linarith
    with 1 [OF False] False show ?thesis by (subst digits.simps) simp
  qed
qed

lemma digits_not_Nil [simp]: "digits n \<noteq> []"
  by (subst digits.simps) simp

lemma is_digit_simps: "\<not> is_digit (CHR ''-'')" "\<not> is_digit (CHR ''+'')"
  by (simp_all add: is_digit_def)

lemma split_sign_fmt_d: "split_sign (fmt_d i @ t) = (i < 0, digits (nat \<bar>i\<bar>) @ t)"
proof (cases "i < 0")
  case False
  obtain c cs where c: "digits (nat i) = c # cs" by (cases "digits (nat i)") auto
  then have "is_digit c" using digits_digit [of c "nat i"] by simp
  then have "c \<noteq> CHR ''-''" "c \<noteq> CHR ''+''" using is_digit_simps by auto
  with c False show ?thesis by (simp add: fmt_d_def split_sign_def)
qed (simp add: fmt_d_def split_sign_def)

lemma signed_64_digits: "- (2 ^ 63) \<le> i \<Longrightarrow> i < 2 ^ 63 \<Longrightarrow> signed_64 (i < 0) (digits (nat \<bar>i\<bar>)) = Inr i"
  by (auto simp: signed_64_def Let_def)

subsection \<open>Running state-monad programs\<close>

abbreviation ret :: "'a \<Rightarrow> ('s, 'a) state" where
  "ret \<equiv> State_Monad.return"

lemma run_bind [run_simps]:
  "run_state (State_Monad.bind m f) s = (case run_state m s of (a, s') \<Rightarrow> run_state (f a) s')"
  by (simp add: State_Monad.bind_def split: prod.splits)

lemma run_return [run_simps]: "run_state (State_Monad.return x) s = (x, s)"
  by (simp add: State_Monad.return_def)

lemma run_get [run_simps]: "run_state State_Monad.get s = (s, s)"
  by (simp add: State_Monad.get_def)

lemma run_set [run_simps]: "run_state (State_Monad.set s') s = ((), s')"
  by (simp add: State_Monad.set_def)

lemma run_State [run_simps]: "run_state (State f) s = f s"
  by simp

text \<open>The state a program leaves, and an assertion every run of a program keeps.\<close>

definition exec :: "('s, 'a) state \<Rightarrow> 's \<Rightarrow> 's" where
  "exec m s = snd (run_state m s)"

definition keeps :: "('s \<Rightarrow> bool) \<Rightarrow> ('s, 'a) state \<Rightarrow> bool" where
  "keeps P m = (\<forall>s. P s \<longrightarrow> P (snd (run_state m s)))"

lemma keepsI: "(\<And>s. P s \<Longrightarrow> P (snd (run_state m s))) \<Longrightarrow> keeps P m"
  by (simp add: keeps_def)

lemma keepsD: "keeps P m \<Longrightarrow> P s \<Longrightarrow> P (snd (run_state m s))"
  by (simp add: keeps_def)

lemma keeps_run: "keeps P m \<Longrightarrow> P s \<Longrightarrow> run_state m s = (a, s') \<Longrightarrow> P s'"
  by (force simp: keeps_def)

lemma keeps_bind [keep_intros]:
  "keeps P m \<Longrightarrow> (\<And>a. keeps P (f a)) \<Longrightarrow> keeps P (State_Monad.bind m f)"
  by (fastforce simp: keeps_def run_bind split: prod.splits)

lemma keeps_return [keep_intros]: "keeps P (State_Monad.return x)"
  by (simp add: keeps_def run_return)

lemma keeps_get [keep_intros]: "keeps P State_Monad.get"
  by (simp add: keeps_def run_get)

lemma keeps_if [keep_intros]: "keeps P m \<Longrightarrow> keeps P n \<Longrightarrow> keeps P (if b then m else n)"
  by simp

lemma keeps_case_sum [keep_intros]:
  "(\<And>e. keeps P (f e)) \<Longrightarrow> (\<And>x. keeps P (g x)) \<Longrightarrow> keeps P (case r of Inl e \<Rightarrow> f e | Inr x \<Rightarrow> g x)"
  by (cases r) auto

lemma keeps_case_prod [keep_intros]:
  "(\<And>a b. keeps P (f a b)) \<Longrightarrow> keeps P (case p of (a, b) \<Rightarrow> f a b)"
  by (simp split: prod.split)

lemma keeps_case_option [keep_intros]:
  "keeps P m \<Longrightarrow> (\<And>x. keeps P (g x)) \<Longrightarrow> keeps P (case r of None \<Rightarrow> m | Some x \<Rightarrow> g x)"
  by (cases r) auto

subsection \<open>Lists\<close>

lemma find_Some_mem: "find P xs = Some x \<Longrightarrow> x \<in> set xs \<and> P x"
  by (auto simp: find_Some_iff)

lemma distinct_map_unique:
  "distinct (map f xs) \<Longrightarrow> x \<in> set xs \<Longrightarrow> y \<in> set xs \<Longrightarrow> f x = f y \<Longrightarrow> x = y"
  by (auto simp: distinct_map inj_on_def)

lemma find_key_Some_iff:
  "distinct (map f xs) \<Longrightarrow> find (\<lambda>x. f x = k) xs = Some x \<longleftrightarrow> x \<in> set xs \<and> f x = k"
  by (induction xs) auto

lemma find_key_None_iff: "find (\<lambda>x. f x = k) xs = None \<longleftrightarrow> k \<notin> f ` set xs"
  by (auto simp: find_None_iff)

lemma distinct_map_filter_key: "distinct (map f xs) \<Longrightarrow> distinct (map f (filter P xs))"
  by (rule distinct_map_filter)

text \<open>A window of \<open>n\<close> consecutive numbers visits every residue modulo \<open>n\<close> once.\<close>

lemma mset_cyclic_shift:
  "mset (map (\<lambda>i. (a + i) mod n) [1..<Suc n]) = mset [0..<n]"
proof (cases "n = 0")
  case False
  then have upt: "[0..<n] = 0 # [1..<n]" by (simp add: upt_conv_Cons)
  show ?thesis
  proof (induction a)
    case 0
    from False have "map (\<lambda>i. i mod n) [1..<n] = [1..<n]" by (intro map_idI) auto
    with upt False show ?case by simp
  next
    case (Suc a)
    from False have "map (\<lambda>i. (Suc a + i) mod n) [1..<Suc n] = map (\<lambda>i. (a + i) mod n) [2..<Suc (Suc n)]"
      by (intro nth_equalityI) (auto simp del: upt_Suc)
    also have "[2..<Suc (Suc n)] = [2..<Suc n] @ [Suc n]" using False by simp
    finally have "mset (map (\<lambda>i. (Suc a + i) mod n) [1..<Suc n])
        = mset (map (\<lambda>i. (a + i) mod n) [2..<Suc n]) + {#(a + Suc n) mod n#}" by simp
    also have "(a + Suc n) mod n = (a + 1) mod n" using mod_add_self2 [of "Suc a" n] by simp
    also have "mset (map (\<lambda>i. (a + i) mod n) [2..<Suc n]) + {#(a + 1) mod n#}
        = mset (map (\<lambda>i. (a + i) mod n) (1 # [2..<Suc n]))" by simp
    also have "1 # [2..<Suc n] = [1..<Suc n]" using False
      by (simp add: upt_conv_Cons numeral_2_eq_2 del: upt_Suc)
    finally show ?case using Suc by simp
  qed
qed simp

end
