(* ===== verification/Types.thy ===== *)
theory Types
  imports Prelude
begin

section \<open>The data model (internal/types)\<close>

text \<open>
  The structs of \<open>internal/types/types.go\<close> and \<open>internal/types/auth.go\<close>, one record each, with
  the fields in the order of the source. A nil-able pointer is an option, a string-typed enum is a
  datatype whose last constructor stands for any other string. Go's \<open>int\<close> is \<open>int\<close>; where its
  64-bit width matters (the selectors) it is converted to \<open>64 word\<close>.
\<close>

datatype HealthStatus = StatusHealthy | StatusUnhealthy | StatusUnknown | StatusOther string

datatype LBMethod = RoundRobin | Weighted | LBOther string

fun lb_string :: "LBMethod \<Rightarrow> string" where
  "lb_string RoundRobin = ''round_robin''"
| "lb_string Weighted = ''weighted''"
| "lb_string (LBOther s) = s"

record Config =
  cfg_ID :: string
  cfg_Name :: string
  cfg_DNSName :: string
  cfg_DNSTTL :: int
  cfg_LBMethod :: LBMethod
  cfg_CreatedAt :: time
  cfg_UpdatedAt :: time
  cfg_LastReconcileError :: string

record Backend =
  b_ID :: string
  b_ConfigID :: string
  b_IP :: string
  b_Port :: "int option"
  b_Weight :: int
  b_Enabled :: bool

record HealthCheck =
  hc_ID :: string
  hc_ConfigID :: string
  hc_Type :: string
  hc_IntervalSeconds :: int
  hc_TimeoutSeconds :: int
  hc_ThresholdHealthy :: int
  hc_ThresholdUnhealthy :: int

record HealthState =
  hs_BackendID :: string
  hs_Status :: HealthStatus
  hs_ConsecutiveSuccesses :: int
  hs_ConsecutiveFailures :: int
  hs_LastCheckAt :: "time option"
  hs_LastHealthyAt :: "time option"
  hs_LastError :: string

record DNSProviderConfig =
  dp_ID :: string
  dp_ConfigID :: string
  dp_ProviderType :: string
  dp_ConfigJSON :: string

record HealthHistoryBucket =
  hb_ID :: int
  hb_BackendID :: string
  hb_BucketStart :: time
  hb_SuccessCount :: int
  hb_FailureCount :: int
  hb_Selected :: int
  hb_CreatedAt :: time

record AuditLog =
  al_ID :: string
  al_Action :: string
  al_EntityType :: string
  al_EntityID :: string
  al_EntityName :: string
  al_ConfigID :: string
  al_Details :: string
  al_UserID :: string
  al_IPAddress :: string
  al_UserAgent :: string
  al_CreatedAt :: time

record Role =
  r_ID :: string
  r_Name :: string
  r_Description :: string
  r_CreatedAt :: time

record User =
  u_ID :: string
  u_Subject :: string
  u_Email :: string
  u_Name :: string
  u_CreatedAt :: time
  u_LastLoginAt :: time
  u_IsActive :: bool
  u_Roles :: "Role list"

record Session =
  se_JTI :: string
  se_UserID :: string
  se_Email :: string
  se_Roles :: "string list"
  se_ExpiresAt :: time

record SessionRecord =
  sr_JTI :: string
  sr_UserID :: string
  sr_CreatedAt :: time
  sr_ExpiresAt :: time
  sr_RevokedAt :: "time option"

end
