(* ===== verification/Selector.thy ===== *)
theory Selector
  imports Types "HOL-Library.Word"
begin

section \<open>Load-balancing selectors (internal/lb/selector.go)\<close>

text \<open>
  \<open>RoundRobinSelector\<close> and \<open>WeightedSelector\<close> with their 64-bit atomic counters, and
  \<open>GetHealthyBackends\<close>. A selector's state is its counter; \<open>Select\<close> returns the chosen backend
  (None for Go's nil) and the new counter. All arithmetic of the source on \<open>uint64\<close> is on
  \<open>64 word\<close>; the conversion \<open>uint64(w)\<close> of a Go \<open>int\<close> is \<open>of_int\<close>.
\<close>

type_synonym counter = "64 word"

definition AddUint64 :: "counter \<Rightarrow> 64 word \<Rightarrow> counter" where
  "AddUint64 c d = c + d"

subsection \<open>Round robin\<close>

definition RoundRobin_Select :: "counter \<Rightarrow> Backend list \<Rightarrow> Backend option \<times> counter" where
  "RoundRobin_Select counter backends =
     (if length backends = 0 then (None, counter)
      else let count = AddUint64 counter 1
           in (Some (backends ! unat (count mod word_of_nat (length backends))), count))"

subsection \<open>Weighted\<close>

text \<open>The summing loop: \<open>totalWeight\<close> is a 64-bit integer, so the sum wraps.\<close>

fun totalWeight_loop :: "64 word \<Rightarrow> Backend list \<Rightarrow> 64 word" where
  "totalWeight_loop acc [] = acc"
| "totalWeight_loop acc (b # bs) =
     totalWeight_loop (if b_Weight b > 0 then acc + of_int (b_Weight b) else acc) bs"

text \<open>The search loop: None when it runs off the end of the slice.\<close>

fun offset_loop :: "64 word \<Rightarrow> 64 word \<Rightarrow> Backend list \<Rightarrow> Backend option" where
  "offset_loop offset current [] = None"
| "offset_loop offset current (b # bs) =
     (if b_Weight b \<le> 0 then offset_loop offset current bs
      else if offset < current + of_int (b_Weight b) then Some b
      else offset_loop offset (current + of_int (b_Weight b)) bs)"

definition Weighted_Select :: "counter \<Rightarrow> Backend list \<Rightarrow> Backend option \<times> counter" where
  "Weighted_Select counter backends =
     (if length backends = 0 then (None, counter)
      else
        let totalWeight = totalWeight_loop 0 backends in
        if totalWeight = 0 then
          let count = AddUint64 counter 1
          in (Some (backends ! unat (count mod word_of_nat (length backends))), count)
        else
          let count = AddUint64 counter 1;
              offset = count mod totalWeight
          in (case offset_loop offset 0 backends of
                Some b \<Rightarrow> (Some b, count)
              | None \<Rightarrow> (Some (backends ! 0), count)))"

subsection \<open>GetHealthyBackends\<close>

fun GetHealthyBackends :: "Backend list \<Rightarrow> (string \<Rightarrow> HealthStatus option) \<Rightarrow> Backend list" where
  "GetHealthyBackends [] states = []"
| "GetHealthyBackends (b # bs) states =
     (if \<not> b_Enabled b then GetHealthyBackends bs states
      else case states (b_ID b) of
             None \<Rightarrow> b # GetHealthyBackends bs states
           | Some status \<Rightarrow>
               if status = StatusHealthy then b # GetHealthyBackends bs states
               else GetHealthyBackends bs states)"

subsection \<open>The selector interface\<close>

text \<open>
  \<open>Selector\<close> is the interface both implementations stand for. Its contract: nil exactly on the
  empty slice, otherwise an element of the slice (whose length is a Go \<open>int\<close>). A run of \<open>k\<close> calls on the same slice is
  \<open>selections\<close>.
\<close>

primrec selections :: "('c \<Rightarrow> Backend list \<Rightarrow> Backend option \<times> 'c) \<Rightarrow> nat \<Rightarrow> 'c \<Rightarrow> Backend list \<Rightarrow> Backend option list" where
  "selections sel 0 c bs = []"
| "selections sel (Suc k) c bs = (case sel c bs of (r, c') \<Rightarrow> r # selections sel k c' bs)"

locale selector =
  fixes select :: "'c \<Rightarrow> Backend list \<Rightarrow> Backend option \<times> 'c"
  assumes select_empty: "select c [] = (None, c)"
    and select_mem: "bs \<noteq> [] \<Longrightarrow> length bs < 2 ^ 63 \<Longrightarrow> \<exists>b \<in> set bs. fst (select c bs) = Some b"
begin

lemma select_None_iff: "length bs < 2 ^ 63 \<Longrightarrow> fst (select c bs) = None \<longleftrightarrow> bs = []"
proof (cases "bs = []")
  case False
  assume "length bs < 2 ^ 63"
  from select_mem [OF False this, of c] False show ?thesis by auto
qed (simp add: select_empty)

lemma selections_length: "length (selections select k c bs) = k"
  by (induction k arbitrary: c) (auto split: prod.splits)

lemma selections_mem: "bs \<noteq> [] \<Longrightarrow> length bs < 2 ^ 63 \<Longrightarrow> set (selections select k c bs) \<subseteq> Some ` set bs"
proof (induction k arbitrary: c)
  case (Suc k)
  obtain r c' where r: "select c bs = (r, c')" by (cases "select c bs")
  from select_mem [OF Suc.prems, of c] r obtain b where "b \<in> set bs" "r = Some b"
    by (metis fst_conv)
  with Suc.IH [OF Suc.prems, of c'] r show ?case by simp
qed simp

end

subsection \<open>Facts about words\<close>

lemma unat_mod_length:
  assumes "0 < n" "n < 2 ^ 64"
  shows "unat ((c :: 64 word) mod word_of_nat n) = unat c mod n"
    and "unat ((c :: 64 word) mod word_of_nat n) < n"
proof -
  have n: "unat (word_of_nat n :: 64 word) = n"
    using assms by (simp add: unat_of_nat take_bit_nat_eq_self)
  then show "unat (c mod word_of_nat n) = unat c mod n"
    by (simp add: unat_mod_distrib)
  with assms show "unat (c mod word_of_nat n) < n" by simp
qed

lemma unat_AddUint64: "unat c + 1 < 2 ^ 64 \<Longrightarrow> unat (AddUint64 c 1) = unat c + 1"
  by (simp add: AddUint64_def unat_word_ariths)

lemma unat_of_int_pos: "0 \<le> i \<Longrightarrow> i < 2^64 \<Longrightarrow> unat (of_int i :: 64 word) = nat i"
  by (simp add: unat_eq_nat_uint uint_word_of_int)

subsection \<open>Weights and slots\<close>

text \<open>
  The specification side: the total of the positive weights as a natural number, and the slot list
  in which every backend occurs as often as its weight, in slice order.
\<close>

definition weight_sum :: "Backend list \<Rightarrow> nat" where
  "weight_sum bs = (\<Sum>b\<leftarrow>bs. nat (b_Weight b))"

definition slots :: "Backend list \<Rightarrow> Backend list" where
  "slots bs = concat (map (\<lambda>b. replicate (nat (b_Weight b)) b) bs)"

lemma weight_sum_simps [simp]:
  "weight_sum [] = 0" "weight_sum (b # bs) = nat (b_Weight b) + weight_sum bs"
  by (simp_all add: weight_sum_def)

lemma slots_simps [simp]:
  "slots [] = []" "slots (b # bs) = replicate (nat (b_Weight b)) b @ slots bs"
  by (simp_all add: slots_def)

lemma length_slots [simp]: "length (slots bs) = weight_sum bs"
  by (induction bs) auto

lemma set_slots: "set (slots bs) = {b \<in> set bs. 0 < b_Weight b}"
  by (auto simp: slots_def)

lemma weight_word:
  "nat (b_Weight b) < 2 ^ 64 \<Longrightarrow> 0 \<le> b_Weight b \<Longrightarrow> unat (of_int (b_Weight b) :: 64 word) = nat (b_Weight b)"
  by (rule unat_of_int_pos) auto

lemma unat_plus_weight:
  assumes "unat (acc :: 64 word) + nat (b_Weight b) < 2 ^ 64" "0 \<le> b_Weight b"
  shows "unat (acc + of_int (b_Weight b)) = unat acc + nat (b_Weight b)"
  using assms by (simp add: unat_word_ariths weight_word)

lemma totalWeight_loop_eq:
  "unat acc + weight_sum bs < 2 ^ 64 \<Longrightarrow> unat (totalWeight_loop acc bs) = unat acc + weight_sum bs"
proof (induction bs arbitrary: acc)
  case (Cons b bs)
  show ?case
  proof (cases "b_Weight b > 0")
    case True
    with Cons.prems have "unat (acc + of_int (b_Weight b)) = unat acc + nat (b_Weight b)"
      by (intro unat_plus_weight) auto
    with True Cons show ?thesis by simp
  next
    case False
    with Cons show ?thesis by simp
  qed
qed simp

lemma offset_loop_eq:
  "unat cur + weight_sum bs < 2 ^ 64 \<Longrightarrow> unat cur \<le> unat off \<Longrightarrow>
   offset_loop off cur bs =
     (if unat off < unat cur + weight_sum bs then Some (slots bs ! (unat off - unat cur)) else None)"
proof (induction bs arbitrary: cur)
  case (Cons b bs)
  show ?case
  proof (cases "b_Weight b \<le> 0")
    case True
    with Cons show ?thesis by simp
  next
    case False
    with Cons.prems have next_cur: "unat (cur + of_int (b_Weight b)) = unat cur + nat (b_Weight b)"
      by (intro unat_plus_weight) auto
    show ?thesis
    proof (cases "unat off < unat cur + nat (b_Weight b)")
      case True
      with False next_cur Cons.prems show ?thesis
        by (simp add: word_less_nat_alt nth_append)
    next
      case beyond: False
      with Cons.IH [of "cur + of_int (b_Weight b)"] next_cur Cons.prems False show ?thesis
        by (auto simp: word_less_nat_alt nth_append algebra_simps)
    qed
  qed
qed simp

lemma totalWeight_eq: "weight_sum bs < 2 ^ 64 \<Longrightarrow> unat (totalWeight_loop 0 bs) = weight_sum bs"
  using totalWeight_loop_eq [of 0 bs] by simp

lemma offset_loop_slot:
  "weight_sum bs < 2 ^ 64 \<Longrightarrow> unat off < weight_sum bs \<Longrightarrow> offset_loop off 0 bs = Some (slots bs ! unat off)"
  using offset_loop_eq [of 0 bs off] by simp

lemma offset_loop_mem: "offset_loop off cur bs = Some b \<Longrightarrow> b \<in> set bs \<and> 0 < b_Weight b"
  by (induction bs arbitrary: cur) (auto split: if_splits)

lemma no_weight_total: "\<forall>b \<in> set bs. b_Weight b \<le> 0 \<Longrightarrow> totalWeight_loop acc bs = acc"
  by (induction bs) auto

lemma Weighted_Select_step:
  assumes "0 < weight_sum bs" "weight_sum bs < 2 ^ 64" "unat c + 1 < 2 ^ 64"
  shows "Weighted_Select c bs = (Some (slots bs ! ((unat c + 1) mod weight_sum bs)), AddUint64 c 1)"
proof -
  let ?T = "totalWeight_loop 0 bs"
  have T: "unat ?T = weight_sum bs" using assms(2) by (rule totalWeight_eq)
  with assms(1) have "?T \<noteq> 0" "bs \<noteq> []" by auto
  have off: "unat (AddUint64 c 1 mod ?T) = (unat c + 1) mod weight_sum bs"
    using assms(3) by (simp add: unat_mod_distrib T unat_AddUint64)
  with assms(1,2) have "offset_loop (AddUint64 c 1 mod ?T) 0 bs
      = Some (slots bs ! ((unat c + 1) mod weight_sum bs))"
    by (subst offset_loop_slot) auto
  with \<open>?T \<noteq> 0\<close> \<open>bs \<noteq> []\<close> show ?thesis by (simp add: Weighted_Select_def Let_def)
qed

lemma RoundRobin_Select_step:
  assumes "bs \<noteq> []" "length bs < 2 ^ 64" "unat c + 1 < 2 ^ 64"
  shows "RoundRobin_Select c bs = (Some (bs ! ((unat c + 1) mod length bs)), AddUint64 c 1)"
  using assms by (simp add: RoundRobin_Select_def Let_def unat_mod_length unat_AddUint64)

lemma selections_steps:
  assumes "\<And>c. unat c + 1 < 2 ^ 64 \<Longrightarrow> sel c bs = (Some (f (unat c + 1)), AddUint64 c 1)"
    and "unat c + k < 2 ^ 64"
  shows "selections sel k c bs = map (\<lambda>i. Some (f (unat c + i))) [1..<Suc k]"
  using assms(2)
proof (induction k arbitrary: c)
  case (Suc k)
  then have c1: "unat (AddUint64 c 1) = unat c + 1" by (intro unat_AddUint64) simp
  have "selections sel (Suc k) c bs = Some (f (unat c + 1)) # selections sel k (AddUint64 c 1) bs"
    using Suc.prems by (simp add: assms(1))
  also have "selections sel k (AddUint64 c 1) bs = map (\<lambda>i. Some (f (unat c + 1 + i))) [1..<Suc k]"
    using Suc.IH [of "AddUint64 c 1"] Suc.prems c1 by simp
  also have "\<dots> = map (\<lambda>i. Some (f (unat c + i))) [2..<Suc (Suc k)]"
    by (rule nth_equalityI) (auto simp del: upt_Suc)
  also have "Some (f (unat c + 1)) # \<dots> = map (\<lambda>i. Some (f (unat c + i))) (1 # [2..<Suc (Suc k)])"
    by simp
  also have "1 # [2..<Suc (Suc k)] = [1..<Suc (Suc k)]"
    by (simp add: upt_conv_Cons numeral_2_eq_2 del: upt_Suc)
  finally show ?case .
qed simp

lemma selections_window:
  assumes "\<And>c. unat c + 1 < 2 ^ 64 \<Longrightarrow> sel c bs = (Some (xs ! ((unat c + 1) mod length xs)), AddUint64 c 1)"
    and "unat c + length xs < 2 ^ 64"
  shows "mset (selections sel (length xs) c bs) = mset (map Some xs)"
proof -
  let ?n = "length xs"
  have "selections sel ?n c bs = map (\<lambda>i. Some (xs ! ((unat c + i) mod ?n))) [1..<Suc ?n]"
    using assms by (rule selections_steps [where f = "\<lambda>i. xs ! (i mod length xs)"])
  then have "mset (selections sel ?n c bs)
      = image_mset (\<lambda>j. Some (xs ! j)) (mset (map (\<lambda>i. (unat c + i) mod ?n) [1..<Suc ?n]))"
    by (simp add: image_mset.compositionality comp_def del: upt_Suc)
  also have "\<dots> = mset (map (\<lambda>j. Some (xs ! j)) [0..<?n])"
    by (subst mset_cyclic_shift) (simp only: mset_map)
  also have "map (\<lambda>j. Some (xs ! j)) [0..<?n] = map Some xs"
    by (rule nth_equalityI) auto
  finally show ?thesis .
qed

interpretation rr: selector RoundRobin_Select
proof (unfold_locales, goal_cases)
  case (2 bs c)
  then have "unat (AddUint64 c 1 mod word_of_nat (length bs)) < length bs"
    by (intro unat_mod_length) auto
  with 2 show ?case by (simp add: RoundRobin_Select_def Let_def)
qed (simp add: RoundRobin_Select_def)

interpretation wt: selector Weighted_Select
proof (unfold_locales, goal_cases)
  case (2 bs c)
  then have "unat (AddUint64 c 1 mod word_of_nat (length bs)) < length bs"
    by (intro unat_mod_length) auto
  with 2 show ?case
    by (auto simp: Weighted_Select_def Let_def split: option.splits dest: offset_loop_mem)
qed (simp add: Weighted_Select_def)

subsection \<open>Properties\<close>

text \<open>
  C22: The weighted selector is fair: from any counter value that does not wrap within the window,
  a window of \<open>T\<close> consecutive calls, \<open>T\<close> the sum of the positive weights, selects each backend
  exactly as often as its weight says, and backends of weight 0 or less never.
\<close>

theorem Weighted_fair:
  assumes "0 < weight_sum bs" "unat c + weight_sum bs < 2 ^ 64"
  shows "mset (selections Weighted_Select (weight_sum bs) c bs) = mset (map Some (slots bs))"
  using selections_window [of Weighted_Select bs "slots bs" c] assms
  by (simp add: Weighted_Select_step)

text \<open>
  The round-robin selector is fair: \<open>n\<close> consecutive calls on a slice of \<open>n\<close> backends select
  every backend exactly once, from any counter value that does not wrap within the window.
\<close>

theorem RoundRobin_fair:
  assumes "bs \<noteq> []" "unat c + length bs < 2 ^ 64"
  shows "mset (selections RoundRobin_Select (length bs) c bs) = mset (map Some bs)"
  using selections_window [of RoundRobin_Select bs bs c] assms
  by (simp add: RoundRobin_Select_step)

text \<open>
  Select never fails on a non-empty slice, whatever the counter and however the 64-bit sum of
  the weights wraps: it returns a backend of the slice.
\<close>

theorem Weighted_total:
  "bs \<noteq> [] \<and> length bs < 2 ^ 63 \<Longrightarrow> \<exists>b \<in> set bs. fst (Weighted_Select c bs) = Some b"
  using wt.select_mem by blast

definition ex_backend :: "string \<Rightarrow> int \<Rightarrow> Backend" where
  "ex_backend i w = \<lparr>b_ID = i, b_ConfigID = ''c'', b_IP = i, b_Port = None, b_Weight = w, b_Enabled = True\<rparr>"

definition ex_pool :: "Backend list" where
  "ex_pool = [ex_backend ''a'' 2, ex_backend ''b'' 0, ex_backend ''c'' 1]"

theorem Weighted_fair_witness:
  "mset (selections Weighted_Select (weight_sum ex_pool) 7 ex_pool)
     = mset (map Some (slots ex_pool)) \<and> weight_sum ex_pool = 3"
  using Weighted_fair [of ex_pool 7] by (simp add: ex_pool_def ex_backend_def)

theorem RoundRobin_fair_witness:
  "mset (selections RoundRobin_Select (length ex_pool) 5 ex_pool) = mset (map Some ex_pool)"
  by (rule RoundRobin_fair) (simp_all add: ex_pool_def)

theorem Weighted_total_witness: "\<exists>b \<in> set [ex_backend ''a'' (2 ^ 62)]. fst (Weighted_Select (-1) [ex_backend ''a'' (2 ^ 62)]) = Some b"
  using Weighted_total [of "[ex_backend ''a'' (2 ^ 62)]" "-1"] by simp

end
