(* ===== verification/Health_State.thy ===== *)
theory Health_State
  imports Types "HOL-Library.Sublist"
begin

section \<open>The hysteresis state machine (internal/health/state.go)\<close>

text \<open>
  \<open>StateMachine\<close> counts consecutive successes and failures and changes its status when a
  threshold is met. The mutex makes every method atomic, so a method is a function on the record;
  \<open>time.Now()\<close> is an argument. The counters are unbounded here: a Go \<open>int\<close> would need
  \<open>2 ^ 63\<close> consecutive checks to wrap.
\<close>

definition zeroTime :: time where "zeroTime = 0"

record StateMachine =
  sm_config :: HealthCheck
  sm_currentStatus :: HealthStatus
  sm_consecutiveSuccesses :: int
  sm_consecutiveFailures :: int
  sm_lastCheck :: time

definition NewStateMachine :: "HealthCheck \<Rightarrow> StateMachine" where
  "NewStateMachine config =
     \<lparr>sm_config = config, sm_currentStatus = StatusUnknown, sm_consecutiveSuccesses = 0,
      sm_consecutiveFailures = 0, sm_lastCheck = zeroTime\<rparr>"

definition ProcessResult :: "time \<Rightarrow> bool \<Rightarrow> StateMachine \<Rightarrow> HealthStatus \<times> StateMachine" where
  "ProcessResult now healthy sm0 =
     (let sm = sm0\<lparr>sm_lastCheck := now\<rparr>;
          sm' =
            (if healthy then
               let sm = sm\<lparr>sm_consecutiveSuccesses := sm_consecutiveSuccesses sm + 1\<rparr>;
                   sm = sm\<lparr>sm_consecutiveFailures := 0\<rparr>;
                   threshold = hc_ThresholdHealthy (sm_config sm);
                   threshold = (if threshold \<le> 0 then 1 else threshold)
               in if sm_consecutiveSuccesses sm \<ge> threshold then
                    (if sm_currentStatus sm \<noteq> StatusHealthy
                     then sm\<lparr>sm_currentStatus := StatusHealthy\<rparr> else sm)
                  else sm
             else
               let sm = sm\<lparr>sm_consecutiveFailures := sm_consecutiveFailures sm + 1\<rparr>;
                   sm = sm\<lparr>sm_consecutiveSuccesses := 0\<rparr>;
                   threshold = hc_ThresholdUnhealthy (sm_config sm);
                   threshold = (if threshold \<le> 0 then 1 else threshold)
               in if sm_consecutiveFailures sm \<ge> threshold then
                    (if sm_currentStatus sm \<noteq> StatusUnhealthy
                     then sm\<lparr>sm_currentStatus := StatusUnhealthy\<rparr> else sm)
                  else sm)
      in (sm_currentStatus sm', sm'))"

definition Reset :: "StateMachine \<Rightarrow> StateMachine" where
  "Reset sm = sm\<lparr>sm_currentStatus := StatusUnknown, sm_consecutiveSuccesses := 0,
                 sm_consecutiveFailures := 0, sm_lastCheck := zeroTime\<rparr>"

record StateSnapshot =
  ss_Status :: HealthStatus
  ss_ConsecutiveSuccesses :: int
  ss_ConsecutiveFailures :: int
  ss_LastCheck :: time

definition snapshot :: "StateMachine \<Rightarrow> StateSnapshot" where
  "snapshot sm =
     \<lparr>ss_Status = sm_currentStatus sm, ss_ConsecutiveSuccesses = sm_consecutiveSuccesses sm,
      ss_ConsecutiveFailures = sm_consecutiveFailures sm, ss_LastCheck = sm_lastCheck sm\<rparr>"

text \<open>A history of check results, oldest first, each with the time it was processed.\<close>

fun process_all :: "(time \<times> bool) list \<Rightarrow> StateMachine \<Rightarrow> StateMachine" where
  "process_all [] sm = sm"
| "process_all ((now, healthy) # rs) sm = process_all rs (snd (ProcessResult now healthy sm))"

subsection \<open>Runs of equal results\<close>

definition trail :: "bool \<Rightarrow> bool list \<Rightarrow> nat" where
  "trail b rs = length (takeWhile (\<lambda>r. r = b) (rev rs))"

lemma trail_simps [simp]:
  "trail b [] = 0"
  "trail b (rs @ [r]) = (if r = b then Suc (trail b rs) else 0)"
  by (simp_all add: trail_def)

lemma trail_ge_iff: "n \<le> trail b rs \<longleftrightarrow> (\<exists>us. rs = us @ replicate n b)"
proof (induction rs arbitrary: n rule: rev_induct)
  case (snoc r rs)
  show ?case
  proof (cases n)
    case (Suc m)
    have "(\<exists>us. rs @ [r] = us @ replicate (Suc m) b) \<longleftrightarrow> r = b \<and> (\<exists>us. rs = us @ replicate m b)"
      by (auto simp: replicate_append_same [symmetric])
    with Suc snoc show ?thesis by simp
  qed simp
qed simp

text \<open>
  \<open>decided b t t' rs\<close>: the history holds \<open>t\<close> consecutive results \<open>b\<close>, with no \<open>t'\<close>
  consecutive opposite results after them.
\<close>

definition decided :: "bool \<Rightarrow> nat \<Rightarrow> nat \<Rightarrow> bool list \<Rightarrow> bool" where
  "decided b t t' rs \<longleftrightarrow> (\<exists>us vs. rs = us @ replicate t b @ vs \<and> \<not> sublist (replicate t' (\<not> b)) vs)"

lemma suffix_replicate_iff: "suffix (replicate n b) rs \<longleftrightarrow> n \<le> trail b rs"
  by (auto simp: trail_ge_iff suffix_def)

lemma sublist_snoc_iff:
  "sublist (replicate n r) (xs @ [x]) \<longleftrightarrow> sublist (replicate n r) xs \<or> n \<le> trail r (xs @ [x])"
  by (subst sublist_snoc) (auto simp only: suffix_replicate_iff)

lemma sublist_trail: "n \<le> trail r xs \<Longrightarrow> sublist (replicate n r) xs"
  by (simp add: suffix_replicate_iff [symmetric] suffix_imp_sublist)

lemma trail_past:
  assumes "0 < t" "r = (\<not> b)"
  shows "trail r (us @ replicate t b @ vs) = trail r vs"
proof -
  from assms(1) obtain n where "t = Suc n" using gr0_implies_Suc by blast
  then have "rev (us @ replicate t b @ vs) = rev vs @ b # (replicate n b @ rev us)"
    by (simp add: replicate_append_same)
  with assms(2) show ?thesis by (simp add: trail_def takeWhile_tail del: rev_append)
qed

lemma decided_same:
  assumes "0 < t'"
  shows "decided b t t' (rs @ [b]) \<longleftrightarrow> t \<le> trail b (rs @ [b]) \<or> decided b t t' rs"
proof
  assume "decided b t t' (rs @ [b])"
  then obtain us vs where rs: "rs @ [b] = us @ replicate t b @ vs"
    and none: "\<not> sublist (replicate t' (\<not> b)) vs" by (auto simp: decided_def)
  show "t \<le> trail b (rs @ [b]) \<or> decided b t t' rs"
  proof (cases vs rule: rev_cases)
    case Nil
    with rs show ?thesis by (auto simp only: trail_ge_iff append_Nil2)
  next
    case (snoc ws w)
    with rs none have "rs = us @ replicate t b @ ws" "\<not> sublist (replicate t' (\<not> b)) ws"
      by (auto simp: sublist_snoc_iff)
    then show ?thesis by (auto simp: decided_def)
  qed
next
  assume "t \<le> trail b (rs @ [b]) \<or> decided b t t' rs"
  then show "decided b t t' (rs @ [b])"
  proof
    assume "t \<le> trail b (rs @ [b])"
    then obtain us where rs: "rs @ [b] = us @ replicate t b @ []"
      by (auto simp only: trail_ge_iff append_Nil2)
    moreover have "\<not> sublist (replicate t' (\<not> b)) []" using assms by simp
    ultimately show ?thesis unfolding decided_def by blast
  next
    assume "decided b t t' rs"
    then obtain us vs where "rs = us @ replicate t b @ vs" "\<not> sublist (replicate t' (\<not> b)) vs"
      by (auto simp: decided_def)
    with assms have "rs @ [b] = us @ replicate t b @ (vs @ [b])"
        "\<not> sublist (replicate t' (\<not> b)) (vs @ [b])"
      by (auto simp: sublist_snoc_iff)
    then show ?thesis unfolding decided_def by blast
  qed
qed

lemma decided_opposite:
  assumes "0 < t" "r = (\<not> b)"
  shows "decided b t t' (rs @ [r]) \<longleftrightarrow> decided b t t' rs \<and> \<not> t' \<le> trail r (rs @ [r])"
proof
  assume "decided b t t' (rs @ [r])"
  then obtain us vs where rs: "rs @ [r] = us @ replicate t b @ vs"
    and none: "\<not> sublist (replicate t' r) vs" using assms(2) by (auto simp: decided_def)
  have same: "trail r (rs @ [r]) = trail r vs" unfolding rs using assms by (rule trail_past)
  then have "vs \<noteq> []" by auto
  then obtain ws w where vs: "vs = ws @ [w]" by (cases vs rule: rev_cases) auto
  with rs none have "decided b t t' rs"
    using assms(2) by (auto simp: decided_def sublist_snoc_iff)
  moreover from none same have "\<not> t' \<le> trail r (rs @ [r])" by (auto dest: sublist_trail)
  ultimately show "decided b t t' rs \<and> \<not> t' \<le> trail r (rs @ [r])" ..
next
  assume "decided b t t' rs \<and> \<not> t' \<le> trail r (rs @ [r])"
  then obtain us vs where rs: "rs = us @ replicate t b @ vs" and none: "\<not> sublist (replicate t' r) vs"
    and short: "\<not> t' \<le> trail r (rs @ [r])" using assms(2) unfolding decided_def by blast
  from rs have "rs @ [r] = us @ replicate t b @ (vs @ [r])" by simp
  moreover from trail_past [OF assms, of us "vs @ [r]"] none short rs
  have "\<not> sublist (replicate t' r) (vs @ [r])" by (simp only: sublist_snoc_iff append_assoc) simp
  ultimately show "decided b t t' (rs @ [r])" unfolding decided_def assms(2) by blast
qed

subsection \<open>What the state machine computes\<close>

definition effective :: "int \<Rightarrow> nat" where
  "effective threshold = (if threshold \<le> 0 then 1 else nat threshold)"

lemma effective_pos [simp]: "0 < effective t"
  by (simp add: effective_def)

lemma effective_le_iff: "0 \<le> n \<Longrightarrow> (if t \<le> 0 then 1 else t) \<le> n \<longleftrightarrow> effective t \<le> nat n"
  by (auto simp: effective_def)

definition sm_spec :: "HealthCheck \<Rightarrow> bool list \<Rightarrow> HealthStatus" where
  "sm_spec hc rs =
     (let th = effective (hc_ThresholdHealthy hc); tu = effective (hc_ThresholdUnhealthy hc)
      in if decided True th tu rs then StatusHealthy
         else if decided False tu th rs then StatusUnhealthy
         else StatusUnknown)"

definition sm_tracks :: "HealthCheck \<Rightarrow> bool list \<Rightarrow> StateMachine \<Rightarrow> bool" where
  "sm_tracks hc rs sm \<longleftrightarrow>
     sm_config sm = hc \<and>
     sm_consecutiveSuccesses sm = int (trail True rs) \<and>
     sm_consecutiveFailures sm = int (trail False rs) \<and>
     sm_currentStatus sm = sm_spec hc rs"

lemma decided_Nil: "0 < t \<Longrightarrow> \<not> decided b t t' []"
  by (simp add: decided_def)

lemma decided_both:
  "0 < t \<Longrightarrow> 0 < t' \<Longrightarrow> \<not> (decided b t t' rs \<and> decided (\<not> b) t' t rs)"
proof (induction rs rule: rev_induct)
  case Nil
  then show ?case by (simp add: decided_Nil)
next
  case (snoc r rs)
  show ?case
  proof (cases "r = b")
    case True
    with snoc decided_same [of t' b t rs] decided_opposite [of t' b "\<not> b" t rs] show ?thesis by auto
  next
    case False
    with snoc decided_same [of t "\<not> b" t' rs] decided_opposite [of t "\<not> b" b t' rs] show ?thesis by auto
  qed
qed

lemma sm_spec_snoc_True:
  "sm_spec hc (rs @ [True]) =
     (if effective (hc_ThresholdHealthy hc) \<le> trail True (rs @ [True]) then StatusHealthy else sm_spec hc rs)"
  using decided_both [of "effective (hc_ThresholdHealthy hc)" "effective (hc_ThresholdUnhealthy hc)" True rs]
  by (auto simp: sm_spec_def Let_def decided_same decided_opposite simp del: trail_simps(2))

lemma sm_spec_snoc_False:
  "sm_spec hc (rs @ [False]) =
     (if effective (hc_ThresholdUnhealthy hc) \<le> trail False (rs @ [False]) then StatusUnhealthy else sm_spec hc rs)"
  using decided_both [of "effective (hc_ThresholdHealthy hc)" "effective (hc_ThresholdUnhealthy hc)" True rs]
  by (auto simp: sm_spec_def Let_def decided_same decided_opposite simp del: trail_simps(2))

lemma ProcessResult_tracks:
  assumes "sm_tracks hc rs sm"
  shows "sm_tracks hc (rs @ [healthy]) (snd (ProcessResult now healthy sm))"
proof (cases healthy)
  case True
  with assms show ?thesis
    by (auto simp: sm_tracks_def ProcessResult_def Let_def sm_spec_snoc_True effective_def)
next
  case False
  with assms show ?thesis
    by (auto simp: sm_tracks_def ProcessResult_def Let_def sm_spec_snoc_False effective_def)
qed

lemma process_all_tracks:
  "sm_tracks hc rs sm \<Longrightarrow> sm_tracks hc (rs @ map snd hist) (process_all hist sm)"
proof (induction hist arbitrary: rs sm)
  case (Cons p hist)
  obtain now healthy where p: "p = (now, healthy)" by (cases p)
  from Cons.IH [OF ProcessResult_tracks [OF Cons.prems, of healthy now]] p show ?case by simp
qed simp

lemma NewStateMachine_tracks: "sm_tracks hc [] (NewStateMachine hc)"
  by (simp add: sm_tracks_def NewStateMachine_def sm_spec_def decided_Nil)

lemma Reset_tracks: "sm_tracks (sm_config sm) [] (Reset sm)"
  by (simp add: sm_tracks_def Reset_def sm_spec_def decided_Nil)

subsection \<open>Properties\<close>

text \<open>
  C21: Hysteresis. After any history of check results a new state machine reports Healthy exactly
  when the history holds the configured number of consecutive successes with no configured number
  of consecutive failures after them, Unhealthy in the symmetric case, and Unknown otherwise
  (a threshold of 0 or less counts as 1); the two counters are the lengths of the current run.
\<close>

theorem state_machine_hysteresis:
  "sm_currentStatus (process_all hist (NewStateMachine hc)) = sm_spec hc (map snd hist) \<and>
   sm_consecutiveSuccesses (process_all hist (NewStateMachine hc)) = int (trail True (map snd hist)) \<and>
   sm_consecutiveFailures (process_all hist (NewStateMachine hc)) = int (trail False (map snd hist))"
  using process_all_tracks [OF NewStateMachine_tracks, of hc hist] by (simp add: sm_tracks_def)

text \<open>
  No flapping. In any reachable state (a machine that tracks some history, in particular after
  Reset), fewer consecutive opposite results than the threshold never change the status.
\<close>

theorem state_machine_no_flapping:
  assumes "sm_tracks hc rs sm" "trail False rs = 0" "sm_currentStatus sm = StatusHealthy"
    and "\<forall>p \<in> set hist. \<not> snd p" "length hist < effective (hc_ThresholdUnhealthy hc)"
  shows "sm_currentStatus (process_all hist sm) = StatusHealthy"
proof -
  have "sm_spec hc (rs @ replicate n False) = StatusHealthy \<and> trail False (rs @ replicate n False) = n"
    if "n < effective (hc_ThresholdUnhealthy hc)" for n
    using that
  proof (induction n)
    case 0
    with assms(1-3) show ?case by (simp add: sm_tracks_def)
  next
    case (Suc n)
    have snoc: "rs @ replicate (Suc n) False = (rs @ replicate n False) @ [False]"
      by (simp add: replicate_append_same)
    from Suc show ?case unfolding snoc by (simp add: sm_spec_snoc_False del: append_assoc)
  qed
  moreover from assms(4) have "map snd hist = replicate (length hist) False"
    by (simp add: map_replicate_const [symmetric])
  ultimately show ?thesis
    using process_all_tracks [OF assms(1), of hist] assms(5) by (auto simp: sm_tracks_def)
qed

definition ex_check :: HealthCheck where
  "ex_check = \<lparr>hc_ID = ''h'', hc_ConfigID = ''c'', hc_Type = ''tcp'', hc_IntervalSeconds = 10,
               hc_TimeoutSeconds = 5, hc_ThresholdHealthy = 2, hc_ThresholdUnhealthy = 3\<rparr>"

definition ex_machine :: StateMachine where
  "ex_machine = process_all [(1, True), (2, True)] (NewStateMachine ex_check)"

lemma ex_machine_tracks: "sm_tracks ex_check [True, True] ex_machine"
  using process_all_tracks [OF NewStateMachine_tracks, of ex_check "[(1, True), (2, True)]"]
  by (simp add: ex_machine_def)

theorem state_machine_no_flapping_witness:
  "sm_currentStatus (process_all [(3, False), (4, False)] ex_machine) = StatusHealthy"
  by (rule state_machine_no_flapping [OF ex_machine_tracks])
     (simp_all add: trail_def ex_machine_def ex_check_def NewStateMachine_def ProcessResult_def Let_def effective_def)

end
