(* ===== verification/Database.thy ===== *)
theory Database
  imports Types "HOL-Library.Sublist"
begin

section \<open>The relational database (internal/db)\<close>

text \<open>
  The tables \<open>Migrate\<close> creates, as lists of rows in insertion order, and the meaning of the SQL
  statements of \<open>internal/store\<close> on them: a primary key, UNIQUE or FOREIGN KEY violation rejects
  the whole statement, and a deletion cascades as the schema says (\<open>NewDB\<close> opens every connection
  with \<open>foreign_keys(1)\<close>). NULL in \<open>last_reconcile_error\<close> reads as the empty string
  (\<open>COALESCE\<close>), so the column is a string.

  The world a store method runs in also holds the clock readings, the UUIDs and the driver failures
  to come: statement number \<open>n\<close> fails as \<open>w_fault n\<close> says. \<open>Fail_Exec\<close> is an error before the
  statement takes effect; \<open>Fail_Scan\<close> and \<open>Fail_After\<close> are errors while reading rows, or, for
  a statement that writes, an error of \<open>RowsAffected\<close> after it took effect.
\<close>

subsection \<open>Tables\<close>

record UserRole =
  ur_UserID :: string
  ur_RoleID :: string
  ur_AssignedAt :: time
  ur_AssignedBy :: string

record ConfigRole =
  cr_ConfigID :: string
  cr_RoleID :: string

record BackendRow =
  br_Backend :: Backend
  br_CreatedAt :: time

abbreviation br_ID :: "BackendRow \<Rightarrow> string" where "br_ID r \<equiv> b_ID (br_Backend r)"
abbreviation br_ConfigID :: "BackendRow \<Rightarrow> string" where "br_ConfigID r \<equiv> b_ConfigID (br_Backend r)"

record db =
  t_configs :: "Config list"
  t_backends :: "BackendRow list"
  t_health_checks :: "HealthCheck list"
  t_health_states :: "HealthState list"
  t_dns_providers :: "DNSProviderConfig list"
  t_audit_logs :: "AuditLog list"
  t_users :: "User list"
  t_roles :: "Role list"
  t_user_roles :: "UserRole list"
  t_config_roles :: "ConfigRole list"
  t_sessions :: "SessionRecord list"
  t_health_history :: "HealthHistoryBucket list"
  t_health_history_seq :: int

definition empty_db :: db where
  "empty_db = \<lparr>t_configs = [], t_backends = [], t_health_checks = [], t_health_states = [],
     t_dns_providers = [], t_audit_logs = [], t_users = [], t_roles = [], t_user_roles = [],
     t_config_roles = [], t_sessions = [], t_health_history = [], t_health_history_seq = 0\<rparr>"

subsection \<open>The schema's constraints\<close>

text \<open>
  \<open>unique k rows\<close> is a PRIMARY KEY or UNIQUE column; \<open>references f rows k parents\<close> a FOREIGN
  KEY. \<open>db_ok\<close> collects what the CREATE TABLE statements declare.
\<close>

definition unique :: "('r \<Rightarrow> 'k) \<Rightarrow> 'r list \<Rightarrow> bool" where
  "unique k rows = distinct (map k rows)"

definition references :: "('r \<Rightarrow> 'k) \<Rightarrow> 'r list \<Rightarrow> ('p \<Rightarrow> 'k) \<Rightarrow> 'p list \<Rightarrow> bool" where
  "references f rows k parents = (\<forall>r \<in> set rows. \<exists>p \<in> set parents. k p = f r)"

definition keys_ok :: "db \<Rightarrow> bool" where
  "keys_ok d =
     (unique cfg_ID (t_configs d) \<and> unique cfg_DNSName (t_configs d) \<and>
      unique br_ID (t_backends d) \<and>
      unique hc_ID (t_health_checks d) \<and> unique hc_ConfigID (t_health_checks d) \<and>
      unique hs_BackendID (t_health_states d) \<and>
      unique dp_ID (t_dns_providers d) \<and> unique dp_ConfigID (t_dns_providers d) \<and>
      unique al_ID (t_audit_logs d) \<and>
      unique u_ID (t_users d) \<and> unique u_Subject (t_users d) \<and>
      unique r_ID (t_roles d) \<and> unique r_Name (t_roles d) \<and>
      unique (\<lambda>r. (ur_UserID r, ur_RoleID r)) (t_user_roles d) \<and>
      unique (\<lambda>r. (cr_ConfigID r, cr_RoleID r)) (t_config_roles d) \<and>
      unique sr_JTI (t_sessions d) \<and>
      unique hb_ID (t_health_history d) \<and>
      unique (\<lambda>b. (hb_BackendID b, hb_BucketStart b)) (t_health_history d) \<and>
      (\<forall>b \<in> set (t_health_history d). hb_ID b \<le> t_health_history_seq d))"

definition refs_ok :: "db \<Rightarrow> bool" where
  "refs_ok d =
     (references br_ConfigID (t_backends d) cfg_ID (t_configs d) \<and>
      references hc_ConfigID (t_health_checks d) cfg_ID (t_configs d) \<and>
      references hs_BackendID (t_health_states d) br_ID (t_backends d) \<and>
      references dp_ConfigID (t_dns_providers d) cfg_ID (t_configs d) \<and>
      references ur_UserID (t_user_roles d) u_ID (t_users d) \<and>
      references ur_RoleID (t_user_roles d) r_ID (t_roles d) \<and>
      references cr_ConfigID (t_config_roles d) cfg_ID (t_configs d) \<and>
      references cr_RoleID (t_config_roles d) r_ID (t_roles d) \<and>
      references sr_UserID (t_sessions d) u_ID (t_users d))"

definition db_ok :: "db \<Rightarrow> bool" where
  "db_ok d = (keys_ok d \<and> refs_ok d)"

subsection \<open>Statements on one table\<close>

definition rows_update :: "('r \<Rightarrow> bool) \<Rightarrow> ('r \<Rightarrow> 'r) \<Rightarrow> 'r list \<Rightarrow> 'r list" where
  "rows_update P f rows = map (\<lambda>r. if P r then f r else r) rows"

definition rows_delete :: "('r \<Rightarrow> bool) \<Rightarrow> 'r list \<Rightarrow> 'r list" where
  "rows_delete P rows = filter (\<lambda>r. \<not> P r) rows"

definition row_count :: "('r \<Rightarrow> bool) \<Rightarrow> 'r list \<Rightarrow> nat" where
  "row_count P rows = length (filter P rows)"

text \<open>\<open>ORDER BY t DESC\<close>; rows with equal keys keep their order in the table.\<close>

definition order_desc :: "('r \<Rightarrow> time) \<Rightarrow> 'r list \<Rightarrow> 'r list" where
  "order_desc t rows = sort_key (\<lambda>r. - t r) rows"

text \<open>The texts SQLite gives to constraint failures.\<close>

definition fk_error :: err where
  "fk_error = Driver ''constraint failed: FOREIGN KEY constraint failed (787)''"

definition unique_error :: "string \<Rightarrow> err" where
  "unique_error column = Driver (''constraint failed: UNIQUE constraint failed: '' @ column)"

lemma unique_Nil [simp]: "unique k []"
  by (simp add: unique_def)

lemma unique_snoc [sql_simps]: "unique k (rows @ [r]) \<longleftrightarrow> unique k rows \<and> (\<forall>r' \<in> set rows. k r' \<noteq> k r)"
  by (auto simp: unique_def image_iff)

lemma unique_delete [sql_simps]: "unique k rows \<Longrightarrow> unique k (rows_delete P rows)"
  by (simp add: unique_def rows_delete_def distinct_map_filter_key)

lemma unique_update_same_key [sql_simps]:
  "(\<And>r. r \<in> set rows \<Longrightarrow> P r \<Longrightarrow> k (f r) = k r) \<Longrightarrow> unique k (rows_update P f rows) \<longleftrightarrow> unique k rows"
  unfolding unique_def rows_update_def by (simp add: comp_def if_distrib cong: map_cong if_cong)

lemma set_rows_update: "set (rows_update P f rows) = (\<lambda>r. if P r then f r else r) ` set rows"
  by (simp add: rows_update_def)

lemma set_rows_delete: "set (rows_delete P rows) = {r \<in> set rows. \<not> P r}"
  by (auto simp: rows_delete_def)

lemma set_order_desc [simp]: "set (order_desc t rows) = set rows"
  by (simp add: order_desc_def)

lemma mset_order_desc [simp]: "mset (order_desc t rows) = mset rows"
  by (simp add: order_desc_def)

lemma row_count_0_iff: "row_count P rows = 0 \<longleftrightarrow> (\<forall>r \<in> set rows. \<not> P r)"
  by (simp add: row_count_def filter_empty_conv)

lemma row_count_unique: "unique k rows \<Longrightarrow> row_count (\<lambda>r. k r = x) rows \<le> 1"
proof (induction rows)
  case (Cons r rows)
  then show ?case
    by (cases "k r = x") (auto simp: unique_def row_count_def filter_empty_conv image_iff)
qed (simp add: row_count_def)

lemma references_mono:
  "references f rows k parents \<Longrightarrow> set rows' \<subseteq> set rows \<Longrightarrow> k ` set parents \<subseteq> k ` set parents' \<Longrightarrow>
   references f rows' k parents'"
  unfolding references_def by (metis imageE image_eqI in_mono)

lemma references_alt: "references f rows k parents \<longleftrightarrow> f ` set rows \<subseteq> k ` set parents"
  by (simp add: references_def image_subset_iff image_iff eq_commute)

lemma references_Nil [simp]: "references f [] k parents"
  by (simp add: references_def)

lemma references_snoc [sql_simps]:
  "references f (rows @ [r]) k parents \<longleftrightarrow> references f rows k parents \<and> (\<exists>p \<in> set parents. k p = f r)"
  by (auto simp: references_def)

lemma references_parent_snoc [sql_simps]:
  "references f rows k parents \<Longrightarrow> references f rows k (parents @ [p])"
  by (auto simp: references_def)

lemma references_delete [sql_simps]: "references f rows k parents \<Longrightarrow> references f (rows_delete P rows) k parents"
  by (auto simp: references_def rows_delete_def)

lemma references_update:
  "references f rows k parents \<Longrightarrow> (\<And>r. P r \<Longrightarrow> r \<in> set rows \<Longrightarrow> \<exists>p \<in> set parents. k p = f (g r)) \<Longrightarrow>
   references f (rows_update P g rows) k parents"
  by (auto simp: references_def set_rows_update)

lemma references_update_same [sql_simps]:
  assumes "\<And>r. r \<in> set rows \<Longrightarrow> P r \<Longrightarrow> f (g r) = f r"
  shows "references f (rows_update P g rows) k parents \<longleftrightarrow> references f rows k parents"
proof -
  from assms have "f ` set (rows_update P g rows) = f ` set rows"
    unfolding set_rows_update image_image by (intro image_cong) auto
  then show ?thesis by (simp add: references_alt)
qed

lemma references_parent_update [sql_simps]:
  "(\<And>p. P p \<Longrightarrow> k (g p) = k p) \<Longrightarrow>
   references f rows k (rows_update P g parents) \<longleftrightarrow> references f rows k parents"
proof -
  assume "\<And>p. P p \<Longrightarrow> k (g p) = k p"
  then have "k ` set (rows_update P g parents) = k ` set parents"
    unfolding set_rows_update image_image by (intro image_cong) auto
  then show ?thesis by (simp add: references_alt)
qed

text \<open>\<open>ON DELETE CASCADE\<close>: the child rows that refer to a deleted parent row go with it.\<close>

definition cascade :: "('r \<Rightarrow> 'k) \<Rightarrow> 'r list \<Rightarrow> ('p \<Rightarrow> 'k) \<Rightarrow> 'p list \<Rightarrow> ('p \<Rightarrow> bool) \<Rightarrow> 'r list" where
  "cascade f rows k parents P = rows_delete (\<lambda>r. \<exists>p \<in> set parents. P p \<and> k p = f r) rows"

lemma references_cascade [sql_simps]:
  "references f rows k parents \<Longrightarrow> references f (cascade f rows k parents P) k (rows_delete P parents)"
  by (fastforce simp: references_def cascade_def rows_delete_def)

lemma unique_cascade [sql_simps]: "unique k' rows \<Longrightarrow> unique k' (cascade f rows k parents P)"
  by (simp add: cascade_def unique_delete)

lemma references_cascade_child [sql_simps]:
  "references g rows k' parents' \<Longrightarrow> references g (cascade f rows k parents P) k' parents'"
  by (simp add: cascade_def references_delete)

lemma set_cascade: "set (cascade f rows k parents P) = {r \<in> set rows. \<not> (\<exists>p \<in> set parents. P p \<and> k p = f r)}"
  by (auto simp: cascade_def set_rows_delete)

subsection \<open>The world\<close>

datatype fault = Fail_Exec string | Fail_Scan string | Fail_After string

record world =
  w_db :: db
  w_now :: "nat \<Rightarrow> time"
  w_now_ix :: nat
  w_uuid :: "nat \<Rightarrow> string"
  w_uuid_ix :: nat
  w_fault :: "nat \<Rightarrow> fault option"
  w_stmt_ix :: nat

definition time_Now :: "('z world_scheme, time) state" where
  "time_Now = State (\<lambda>w. (w_now w (w_now_ix w), w\<lparr>w_now_ix := Suc (w_now_ix w)\<rparr>))"

definition uuid_New :: "('z world_scheme, string) state" where
  "uuid_New = State (\<lambda>w. (w_uuid w (w_uuid_ix w), w\<lparr>w_uuid_ix := Suc (w_uuid_ix w)\<rparr>))"

text \<open>
  \<open>ExecContext\<close>: the outer result is its error, the inner one what \<open>RowsAffected\<close> says. A
  statement maps the database to a constraint error, or to the number of rows and the new database.
\<close>

definition sql_exec :: "(db \<Rightarrow> (nat \<times> db) result) \<Rightarrow> ('z world_scheme, nat result result) state" where
  "sql_exec stmt = State (\<lambda>w.
     let w' = w\<lparr>w_stmt_ix := Suc (w_stmt_ix w)\<rparr>
     in case w_fault w (w_stmt_ix w) of
          Some (Fail_Exec m) \<Rightarrow> (Inl (Driver m), w')
        | fault \<Rightarrow>
            (case stmt (w_db w) of
               Inl e \<Rightarrow> (Inl e, w')
             | Inr (n, d) \<Rightarrow>
                 (Inr (case fault of Some (Fail_Scan m) \<Rightarrow> Inl (Driver m)
                                   | Some (Fail_After m) \<Rightarrow> Inl (Driver m)
                                   | _ \<Rightarrow> Inr n),
                  w'\<lparr>w_db := d\<rparr>)))"

text \<open>\<open>QueryRowContext(...).Scan(...)\<close> on the rows the query selects.\<close>

definition sql_row :: "(db \<Rightarrow> 'a list) \<Rightarrow> ('z world_scheme, 'a result) state" where
  "sql_row q = State (\<lambda>w.
     (case w_fault w (w_stmt_ix w) of
        Some (Fail_Exec m) \<Rightarrow> Inl (Driver m)
      | Some (Fail_Scan m) \<Rightarrow> Inl (Driver m)
      | Some (Fail_After m) \<Rightarrow> Inl (Driver m)
      | None \<Rightarrow> (case q (w_db w) of [] \<Rightarrow> Inl ErrNoRows | x # _ \<Rightarrow> Inr x),
      w\<lparr>w_stmt_ix := Suc (w_stmt_ix w)\<rparr>))"

text \<open>
  \<open>QueryContext\<close> and the loop over \<open>rows.Next()\<close>: the outer result is the query's error, the
  inner one the error of a \<open>Scan\<close> or of \<open>rows.Err()\<close>.
\<close>

datatype rows_err = ScanErr err | RowsErr err

definition sql_rows :: "(db \<Rightarrow> 'a list) \<Rightarrow> ('z world_scheme, (rows_err + 'a list) result) state" where
  "sql_rows q = State (\<lambda>w.
     (let rows = q (w_db w)
      in case w_fault w (w_stmt_ix w) of
           Some (Fail_Exec m) \<Rightarrow> Inl (Driver m)
         | Some (Fail_Scan m) \<Rightarrow> Inr (if rows = [] then Inr [] else Inl (ScanErr (Driver m)))
         | Some (Fail_After m) \<Rightarrow> Inr (Inl (RowsErr (Driver m)))
         | None \<Rightarrow> Inr (Inr rows),
      w\<lparr>w_stmt_ix := Suc (w_stmt_ix w)\<rparr>))"

text \<open>A driver that never fails.\<close>

definition healthy_driver :: "'z world_scheme \<Rightarrow> bool" where
  "healthy_driver w = (\<forall>n. w_fault w n = None)"

lemma run_time_Now [run_simps]:
  "run_state time_Now w = (w_now w (w_now_ix w), w\<lparr>w_now_ix := Suc (w_now_ix w)\<rparr>)"
  by (simp add: time_Now_def)

lemma run_uuid_New [run_simps]:
  "run_state uuid_New w = (w_uuid w (w_uuid_ix w), w\<lparr>w_uuid_ix := Suc (w_uuid_ix w)\<rparr>)"
  by (simp add: uuid_New_def)

lemma run_sql_exec_ok:
  "w_fault w (w_stmt_ix w) = None \<Longrightarrow>
   run_state (sql_exec stmt) w =
     (case stmt (w_db w) of
        Inl e \<Rightarrow> (Inl e, w\<lparr>w_stmt_ix := Suc (w_stmt_ix w)\<rparr>)
      | Inr (n, d) \<Rightarrow> (Inr (Inr n), w\<lparr>w_stmt_ix := Suc (w_stmt_ix w), w_db := d\<rparr>))"
  by (simp add: sql_exec_def Let_def split: sum.splits)

lemma run_sql_row_ok:
  "w_fault w (w_stmt_ix w) = None \<Longrightarrow>
   run_state (sql_row q) w =
     (case q (w_db w) of [] \<Rightarrow> Inl ErrNoRows | x # _ \<Rightarrow> Inr x, w\<lparr>w_stmt_ix := Suc (w_stmt_ix w)\<rparr>)"
  by (simp add: sql_row_def)

lemma run_sql_rows_ok:
  "w_fault w (w_stmt_ix w) = None \<Longrightarrow>
   run_state (sql_rows q) w = (Inr (Inr (q (w_db w))), w\<lparr>w_stmt_ix := Suc (w_stmt_ix w)\<rparr>)"
  by (simp add: sql_rows_def Let_def)

lemma healthy_driverD [simp]: "healthy_driver w \<Longrightarrow> w_fault w n = None"
  by (simp add: healthy_driver_def)

lemma healthy_driver_updates [simp]:
  "healthy_driver (w\<lparr>w_db := d\<rparr>) = healthy_driver w"
  "healthy_driver (w\<lparr>w_stmt_ix := n\<rparr>) = healthy_driver w"
  "healthy_driver (w\<lparr>w_now_ix := n\<rparr>) = healthy_driver w"
  "healthy_driver (w\<lparr>w_uuid_ix := n\<rparr>) = healthy_driver w"
  by (simp_all add: healthy_driver_def)

lemmas run_sql_ok = run_sql_exec_ok run_sql_row_ok run_sql_rows_ok

subsection \<open>What any statement keeps\<close>

lemma keeps_time_Now [keep_intros]: "keeps (\<lambda>w. P (w_db w)) time_Now"
  by (simp add: keeps_def run_simps)

lemma keeps_uuid_New [keep_intros]: "keeps (\<lambda>w. P (w_db w)) uuid_New"
  by (simp add: keeps_def run_simps)

lemma keeps_sql_row [keep_intros]: "keeps (\<lambda>w. P (w_db w)) (sql_row q)"
  by (simp add: keeps_def sql_row_def)

lemma keeps_sql_rows [keep_intros]: "keeps (\<lambda>w. P (w_db w)) (sql_rows q)"
  by (simp add: keeps_def sql_rows_def)

lemma keeps_sql_exec:
  "(\<And>d n d'. P d \<Longrightarrow> stmt d = Inr (n, d') \<Longrightarrow> P d') \<Longrightarrow> keeps (\<lambda>w. P (w_db w)) (sql_exec stmt)"
  by (auto simp: keeps_def sql_exec_def Let_def split: option.splits fault.splits sum.splits)

text \<open>A statement that fails with an error of the statement itself leaves the database alone.\<close>

lemma sql_exec_Inl: "run_state (sql_exec stmt) w = (Inl e, w') \<Longrightarrow> w_db w' = w_db w"
  by (auto simp: sql_exec_def Let_def split: option.splits fault.splits sum.splits)

lemma sql_exec_Inr:
  "run_state (sql_exec stmt) w = (Inr r, w') \<Longrightarrow> \<exists>n. stmt (w_db w) = Inr (n, w_db w') \<and> (\<forall>k. r = Inr k \<longrightarrow> k = n)"
  by (auto simp: sql_exec_def Let_def split: option.splits fault.splits sum.splits)

end
