(* ===== verification/Keyed_Store.thy ===== *)
theory Keyed_Store
  imports Database
begin

section \<open>Store methods and the keyed-table interface (internal/store)\<close>

text \<open>
  The four shapes the methods of \<open>internal/store\<close> come in (insert, update or delete by key with
  \<open>RowsAffected\<close>, one-row query, list query), the detection of foreign-key errors by their text,
  and the contract of a table whose rows have a key: seen through \<open>lookup\<close>, its statements are
  insertion, update and deletion on a map.
\<close>

subsection \<open>Error texts (internal/store/config.go)\<close>

function containsHelper_loop :: "nat \<Rightarrow> string \<Rightarrow> string \<Rightarrow> bool" where
  "containsHelper_loop i s substr =
     (if int i \<le> int (length s) - int (length substr) then
        if take (length substr) (drop i s) = substr then True
        else containsHelper_loop (i + 1) s substr
      else False)"
  by pat_completeness auto
termination
  by (relation "measure (\<lambda>(i, s, substr). Suc (length s) - i)") auto

declare containsHelper_loop.simps [simp del]

definition containsHelper :: "string \<Rightarrow> string \<Rightarrow> bool" where
  "containsHelper s substr = containsHelper_loop 0 s substr"

definition contains :: "string \<Rightarrow> string \<Rightarrow> bool" where
  "contains s substr =
     (length s \<ge> length substr \<and> (s = substr \<or> length s > 0 \<and> containsHelper s substr))"

definition isForeignKeyError :: "err \<Rightarrow> bool" where
  "isForeignKeyError e = (contains (err_msg e) ''FOREIGN KEY'' \<or> contains (err_msg e) ''foreign key'')"

lemma containsHelper_loop_iff:
  "containsHelper_loop i s t \<longleftrightarrow> (\<exists>j \<ge> i. j + length t \<le> length s \<and> take (length t) (drop j s) = t)"
proof (induction i s t rule: containsHelper_loop.induct)
  case (1 i s t)
  let ?at = "\<lambda>j. j + length t \<le> length s \<and> take (length t) (drop j s) = t"
  consider "\<not> i + length t \<le> length s" | "?at i" | "i + length t \<le> length s" "\<not> ?at i" by blast
  then show ?case
  proof cases
    case 3
    then have "containsHelper_loop i s t = containsHelper_loop (i + 1) s t"
      by (subst containsHelper_loop.simps) auto
    also have "\<dots> = (\<exists>j \<ge> i + 1. ?at j)" using 3 by (intro "1.IH") auto
    also have "\<dots> = (\<exists>j \<ge> i. ?at j)" using 3(2) by (metis Suc_eq_plus1 Suc_leD Suc_leI le_neq_implies_less)
    finally show ?thesis .
  qed (subst containsHelper_loop.simps, auto)+
qed

lemma contains_iff: "contains s t \<longleftrightarrow> sublist t s"
proof
  assume "contains s t"
  then have "s = t \<or> (\<exists>j. take (length t) (drop j s) = t)"
    by (auto simp: contains_def containsHelper_def containsHelper_loop_iff)
  then show "sublist t s"
    by (metis sublist_drop sublist_order.order.trans sublist_order.order_refl sublist_take)
next
  assume "sublist t s"
  then obtain us vs where s: "s = us @ t @ vs" by (auto simp: sublist_def)
  then have "take (length t) (drop (length us) s) = t" "length us + length t \<le> length s" by simp_all
  then have "containsHelper s t" unfolding containsHelper_def containsHelper_loop_iff by blast
  with s show "contains s t" by (cases s) (auto simp: contains_def)
qed

definition fk_wrap :: "string \<Rightarrow> err \<Rightarrow> err" where
  "fk_wrap msg e = (if isForeignKeyError e then WrapWith ErrForeignKeyViolation e else Wrap msg e)"

subsection \<open>The shapes of the methods\<close>

definition insert_method :: "(err \<Rightarrow> err) \<Rightarrow> (db \<Rightarrow> (nat \<times> db) result) \<Rightarrow> ('z world_scheme, unit result) state" where
  "insert_method wrap stmt = do {
     r \<leftarrow> sql_exec stmt;
     ret (case r of Inl e \<Rightarrow> Inl (wrap e) | Inr _ \<Rightarrow> Inr ())
   }"

definition affect_method :: "(err \<Rightarrow> err) \<Rightarrow> (db \<Rightarrow> (nat \<times> db) result) \<Rightarrow> ('z world_scheme, unit result) state" where
  "affect_method wrap stmt = do {
     r \<leftarrow> sql_exec stmt;
     ret (case r of
            Inl e \<Rightarrow> Inl (wrap e)
          | Inr (Inl e) \<Rightarrow> Inl (Wrap ''rows affected'' e)
          | Inr (Inr rows) \<Rightarrow> if rows = 0 then Inl ErrNotFound else Inr ())
   }"

definition row_method :: "string \<Rightarrow> (db \<Rightarrow> 'a list) \<Rightarrow> ('z world_scheme, 'a result) state" where
  "row_method msg q = do {
     r \<leftarrow> sql_row q;
     ret (case r of
            Inl e \<Rightarrow> Inl (if errors_is e ErrNoRows then ErrNotFound else Wrap msg e)
          | Inr x \<Rightarrow> Inr x)
   }"

definition rows_method :: "(err \<Rightarrow> err) \<Rightarrow> (err \<Rightarrow> err) \<Rightarrow> (err \<Rightarrow> err) \<Rightarrow> (db \<Rightarrow> 'a list) \<Rightarrow> ('z world_scheme, 'a list result) state" where
  "rows_method qwrap swrap rwrap q = do {
     r \<leftarrow> sql_rows q;
     ret (case r of
            Inl e \<Rightarrow> Inl (qwrap e)
          | Inr (Inl (ScanErr e)) \<Rightarrow> Inl (swrap e)
          | Inr (Inl (RowsErr e)) \<Rightarrow> Inl (rwrap e)
          | Inr (Inr rows) \<Rightarrow> Inr rows)
   }"

lemma run_insert_method:
  "w_fault w (w_stmt_ix w) = None \<Longrightarrow>
   run_state (insert_method wrap stmt) w =
     (case stmt (w_db w) of
        Inl e \<Rightarrow> (Inl (wrap e), w\<lparr>w_stmt_ix := Suc (w_stmt_ix w)\<rparr>)
      | Inr (n, d) \<Rightarrow> (Inr (), w\<lparr>w_stmt_ix := Suc (w_stmt_ix w), w_db := d\<rparr>))"
  by (simp add: insert_method_def run_simps run_sql_ok split: sum.splits)

lemma run_affect_method:
  "w_fault w (w_stmt_ix w) = None \<Longrightarrow>
   run_state (affect_method wrap stmt) w =
     (case stmt (w_db w) of
        Inl e \<Rightarrow> (Inl (wrap e), w\<lparr>w_stmt_ix := Suc (w_stmt_ix w)\<rparr>)
      | Inr (n, d) \<Rightarrow> (if n = 0 then Inl ErrNotFound else Inr (),
                        w\<lparr>w_stmt_ix := Suc (w_stmt_ix w), w_db := d\<rparr>))"
  by (simp add: affect_method_def run_simps run_sql_ok split: sum.splits)

lemma run_row_method:
  "w_fault w (w_stmt_ix w) = None \<Longrightarrow>
   run_state (row_method msg q) w =
     (case q (w_db w) of [] \<Rightarrow> Inl ErrNotFound | x # _ \<Rightarrow> Inr x, w\<lparr>w_stmt_ix := Suc (w_stmt_ix w)\<rparr>)"
  by (simp add: row_method_def run_simps run_sql_ok split: list.splits)

lemma run_rows_method:
  "w_fault w (w_stmt_ix w) = None \<Longrightarrow>
   run_state (rows_method a b c q) w = (Inr (q (w_db w)), w\<lparr>w_stmt_ix := Suc (w_stmt_ix w)\<rparr>)"
  by (simp add: rows_method_def run_simps run_sql_ok)

lemmas run_methods = run_insert_method run_affect_method run_row_method run_rows_method

lemma keeps_insert_method:
  "(\<And>d n d'. P d \<Longrightarrow> stmt d = Inr (n, d') \<Longrightarrow> P d') \<Longrightarrow> keeps (\<lambda>w. P (w_db w)) (insert_method wrap stmt)"
  unfolding insert_method_def by (intro keep_intros keeps_sql_exec) blast

lemma keeps_affect_method:
  "(\<And>d n d'. P d \<Longrightarrow> stmt d = Inr (n, d') \<Longrightarrow> P d') \<Longrightarrow> keeps (\<lambda>w. P (w_db w)) (affect_method wrap stmt)"
  unfolding affect_method_def by (intro keep_intros keeps_sql_exec) blast

lemma keeps_row_method [keep_intros]: "keeps (\<lambda>w. P (w_db w)) (row_method msg q)"
  unfolding row_method_def by (intro keep_intros)

lemma keeps_rows_method [keep_intros]: "keeps (\<lambda>w. P (w_db w)) (rows_method a b c q)"
  unfolding rows_method_def by (intro keep_intros)

lemma insert_method_Inl: "run_state (insert_method wrap stmt) w = (Inl e, w') \<Longrightarrow> w_db w' = w_db w"
  by (auto simp: insert_method_def run_simps split: prod.splits sum.splits dest: sql_exec_Inl)

lemma insert_method_Inr: "run_state (insert_method wrap stmt) w = (Inr u, w') \<Longrightarrow> \<exists>n. stmt (w_db w) = Inr (n, w_db w')"
  by (auto simp: insert_method_def run_simps split: prod.splits sum.splits dest!: sql_exec_Inr)

lemma affect_method_Inr:
  "run_state (affect_method wrap stmt) w = (Inr u, w') \<Longrightarrow> \<exists>n > 0. stmt (w_db w) = Inr (n, w_db w')"
  by (auto simp: affect_method_def run_simps split: prod.splits sum.splits if_splits dest!: sql_exec_Inr)

lemma row_method_db: "run_state (row_method msg q) w = (r, w') \<Longrightarrow> w_db w' = w_db w"
  by (auto simp: row_method_def run_simps sql_row_def)

lemma row_method_Inr: "run_state (row_method msg q) w = (Inr x, w') \<Longrightarrow> \<exists>xs. q (w_db w) = x # xs"
  by (auto simp: row_method_def run_simps sql_row_def split: option.splits fault.splits list.splits if_splits)

lemma rows_method_Inr: "run_state (rows_method a b c q) w = (Inr xs, w') \<Longrightarrow> q (w_db w) = xs \<and> w_db w' = w_db w"
  by (auto simp: rows_method_def run_simps sql_rows_def Let_def
      split: option.splits fault.splits if_splits)

lemma rows_method_db: "run_state (rows_method a b c q) w = (r, w') \<Longrightarrow> w_db w' = w_db w"
  by (auto simp: rows_method_def run_simps sql_rows_def)

subsection \<open>The interface of a keyed table\<close>

definition first_row :: "'r list \<Rightarrow> 'r option" where
  "first_row rows = (case rows of [] \<Rightarrow> None | r # _ \<Rightarrow> Some r)"

lemma first_row_simps [simp]: "first_row [] = None" "first_row (r # rs) = Some r"
  by (simp_all add: first_row_def)

lemma first_row_filter: "first_row (filter P rows) = find P rows"
  by (induction rows) auto

lemma first_row_map: "first_row (map f rows) = map_option f (first_row rows)"
  by (cases rows) auto

lemma find_snoc: "find P (xs @ [x]) = (case find P xs of Some y \<Rightarrow> Some y | None \<Rightarrow> if P x then Some x else None)"
  by (induction xs) auto

lemma find_rows_update:
  assumes "\<And>r. r \<in> set rows \<Longrightarrow> key r = u \<Longrightarrow> key (f r) = u"
  shows "find (\<lambda>r. key r = k) (rows_update (\<lambda>r. key r = u) f rows) =
    (if k = u then map_option f (find (\<lambda>r. key r = k) rows) else find (\<lambda>r. key r = k) rows)"
  using assms by (induction rows) (auto simp: rows_update_def)

lemma find_rows_delete:
  "find (\<lambda>r. key r = k) (rows_delete (\<lambda>r. key r = u) rows) = (if k = u then None else find (\<lambda>r. key r = k) rows)"
  by (induction rows) (auto simp: rows_delete_def)

lemma find_absent: "\<forall>r \<in> set rows. key r \<noteq> k \<Longrightarrow> find (\<lambda>r. key r = k) rows = None"
  by (simp add: find_None_iff)

lemma row_count_find: "row_count P rows = 0 \<longleftrightarrow> find P rows = None"
  by (auto simp: row_count_0_iff find_None_iff)

lemma row_count_pos: "0 < row_count P rows \<longleftrightarrow> find P rows \<noteq> None"
  using row_count_find [of P rows] by auto

datatype ('i, 'u, 'k) table_op = Ins 'i | Upd 'u | Del 'k

locale keyed_store =
  fixes invar :: "db \<Rightarrow> bool"
    and select :: "'k \<Rightarrow> db \<Rightarrow> 'r list"
    and ins :: "'i \<Rightarrow> db \<Rightarrow> (nat \<times> db) result"
    and upd :: "'u \<Rightarrow> db \<Rightarrow> (nat \<times> db) result"
    and del :: "'k \<Rightarrow> db \<Rightarrow> (nat \<times> db) result"
    and ikey :: "'i \<Rightarrow> 'k"
    and stored :: "'i \<Rightarrow> 'r"
    and ukey :: "'u \<Rightarrow> 'k"
    and merged :: "'u \<Rightarrow> 'r \<Rightarrow> 'r"
  assumes ins_lookup: "invar d \<Longrightarrow> ins r d = Inr (n, d') \<Longrightarrow>
      first_row (select (ikey r) d) = None \<and>
      (\<forall>k. first_row (select k d') = (if k = ikey r then Some (stored r) else first_row (select k d)))"
    and upd_lookup: "invar d \<Longrightarrow> upd u d = Inr (n, d') \<Longrightarrow>
      (n = 0 \<longleftrightarrow> first_row (select (ukey u) d) = None) \<and>
      (\<forall>k. first_row (select k d') =
        (if k = ukey u then map_option (merged u) (first_row (select k d)) else first_row (select k d)))"
    and del_lookup: "invar d \<Longrightarrow> del k d = Inr (n, d') \<Longrightarrow>
      (n = 0 \<longleftrightarrow> first_row (select k d) = None) \<and>
      (\<forall>k'. first_row (select k' d') = (if k' = k then None else first_row (select k' d)))"
    and ins_invar: "invar d \<Longrightarrow> ins r d = Inr (n, d') \<Longrightarrow> invar d'"
    and upd_invar: "invar d \<Longrightarrow> upd u d = Inr (n, d') \<Longrightarrow> invar d'"
    and del_invar: "invar d \<Longrightarrow> del k d = Inr (n, d') \<Longrightarrow> invar d'"
begin

definition lookup :: "db \<Rightarrow> 'k \<Rightarrow> 'r option" where
  "lookup d = (\<lambda>k. first_row (select k d))"

text \<open>A statement on the table, and the map operation it implements.\<close>

primrec stmt :: "('i, 'u, 'k) table_op \<Rightarrow> db \<Rightarrow> (nat \<times> db) result" where
  "stmt (Ins r) = ins r"
| "stmt (Upd u) = upd u"
| "stmt (Del k) = del k"

primrec map_op :: "('i, 'u, 'k) table_op \<Rightarrow> ('k \<rightharpoonup> 'r) \<Rightarrow> ('k \<rightharpoonup> 'r)" where
  "map_op (Ins r) m = m(ikey r \<mapsto> stored r)"
| "map_op (Upd u) m = m(ukey u := map_option (merged u) (m (ukey u)))"
| "map_op (Del k) m = m(k := None)"

lemma stmt_refines:
  assumes "invar d" "stmt x d = Inr (n, d')"
  shows "lookup d' = map_op x (lookup d) \<and> invar d'"
  using assms
  by (cases x) (auto simp: lookup_def fun_eq_iff dest: ins_lookup upd_lookup del_lookup ins_invar upd_invar del_invar)

text \<open>A run executes the statements in order; a rejected statement changes nothing.\<close>

primrec run_table :: "('i, 'u, 'k) table_op list \<Rightarrow> db \<Rightarrow> ('i, 'u, 'k) table_op list \<times> db" where
  "run_table [] d = ([], d)"
| "run_table (x # xs) d =
     (case stmt x d of
        Inl e \<Rightarrow> run_table xs d
      | Inr (n, d') \<Rightarrow> (case run_table xs d' of (acc, d'') \<Rightarrow> (x # acc, d'')))"

lemma run_table_refines:
  "invar d \<Longrightarrow> run_table xs d = (acc, d') \<Longrightarrow> lookup d' = fold map_op acc (lookup d) \<and> invar d'"
proof (induction xs arbitrary: d acc d')
  case (Cons x xs)
  show ?case
  proof (cases "stmt x d")
    case (Inl e)
    with Cons show ?thesis by simp
  next
    case (Inr p)
    then obtain n d1 where x: "stmt x d = Inr (n, d1)" by (cases p) auto
    obtain acc' where "run_table xs d1 = (acc', d')" "acc = x # acc'"
      using Cons.prems(2) x by (auto split: prod.splits)
    with Cons.IH stmt_refines [OF Cons.prems(1) x] show ?thesis by auto
  qed
qed simp

lemma method_insert:
  assumes "invar (w_db w)" "run_state (insert_method wrap (ins r)) w = (Inr u, w')"
  shows "lookup (w_db w) (ikey r) = None" "lookup (w_db w') = (lookup (w_db w))(ikey r \<mapsto> stored r)"
    "invar (w_db w')"
proof -
  from insert_method_Inr [OF assms(2)] obtain n where st: "ins r (w_db w) = Inr (n, w_db w')" by blast
  with assms(1) show "lookup (w_db w) (ikey r) = None" "invar (w_db w')"
    by (auto simp: lookup_def dest: ins_lookup ins_invar)
  from ins_lookup [OF assms(1) st] show "lookup (w_db w') = (lookup (w_db w))(ikey r \<mapsto> stored r)"
    by (auto simp: lookup_def)
qed

lemma method_update:
  assumes "invar (w_db w)" "run_state (affect_method wrap (upd x)) w = (Inr u, w')"
  shows "\<exists>old. lookup (w_db w) (ukey x) = Some old \<and> lookup (w_db w') = (lookup (w_db w))(ukey x \<mapsto> merged x old)"
    and "invar (w_db w')"
proof -
  from affect_method_Inr [OF assms(2)] obtain n where n: "0 < n" and st: "upd x (w_db w) = Inr (n, w_db w')"
    by blast
  from upd_lookup [OF assms(1) st] n
  show "\<exists>old. lookup (w_db w) (ukey x) = Some old \<and> lookup (w_db w') = (lookup (w_db w))(ukey x \<mapsto> merged x old)"
    by (auto simp: lookup_def fun_eq_iff)
  from assms(1) st show "invar (w_db w')" by (rule upd_invar)
qed

lemma method_delete:
  assumes "invar (w_db w)" "run_state (affect_method wrap (del k)) w = (Inr u, w')"
  shows "lookup (w_db w) k \<noteq> None" "lookup (w_db w') = (lookup (w_db w))(k := None)" "invar (w_db w')"
proof -
  from affect_method_Inr [OF assms(2)] obtain n where n: "0 < n" and st: "del k (w_db w) = Inr (n, w_db w')"
    by blast
  from del_lookup [OF assms(1) st] n show "lookup (w_db w) k \<noteq> None"
    and "lookup (w_db w') = (lookup (w_db w))(k := None)"
    by (auto simp: lookup_def)
  from assms(1) st show "invar (w_db w')" by (rule del_invar)
qed

lemma method_get:
  "w_fault w (w_stmt_ix w) = None \<Longrightarrow>
   fst (run_state (row_method msg (select k)) w) =
     (case lookup (w_db w) k of None \<Rightarrow> Inl ErrNotFound | Some r \<Rightarrow> Inr r)"
  by (auto simp: run_row_method lookup_def split: list.splits)

end

end
