(* ===== verification/Store_Config.thy ===== *)
theory Store_Config
  imports Keyed_Store
begin

section \<open>Backends and configurations (internal/store/backend.go, config.go)\<close>

text \<open>
  The statements of the two stores and the Go methods over them. Creating a record mutates the
  caller's struct (its ID and timestamps), so those methods return it next to their error.
  Deleting a backend takes its health state along; deleting a configuration takes along its
  backends with their health states, its health check, its DNS provider and its role assignments.
\<close>

subsection \<open>Statements on backends\<close>

definition config_exists :: "string \<Rightarrow> db \<Rightarrow> bool" where
  "config_exists cid d = (\<exists>c \<in> set (t_configs d). cfg_ID c = cid)"

definition select_backend :: "string \<Rightarrow> db \<Rightarrow> Backend list" where
  "select_backend i d = map br_Backend (filter (\<lambda>r. br_ID r = i) (t_backends d))"

definition insert_backend :: "Backend \<times> time \<Rightarrow> db \<Rightarrow> (nat \<times> db) result" where
  "insert_backend = (\<lambda>(b, createdAt) d.
     if \<exists>r \<in> set (t_backends d). br_ID r = b_ID b then Inl (unique_error ''backends.id (1555)'')
     else if \<not> config_exists (b_ConfigID b) d then Inl fk_error
     else Inr (1, d\<lparr>t_backends := t_backends d @ [\<lparr>br_Backend = b, br_CreatedAt = createdAt\<rparr>]\<rparr>))"

definition set_backend_row :: "Backend \<Rightarrow> Backend \<Rightarrow> Backend" where
  "set_backend_row b old = old\<lparr>b_ConfigID := b_ConfigID b, b_IP := b_IP b, b_Port := b_Port b,
                               b_Weight := b_Weight b, b_Enabled := b_Enabled b\<rparr>"

definition update_backend :: "Backend \<Rightarrow> db \<Rightarrow> (nat \<times> db) result" where
  "update_backend b d =
     (let hit = (\<lambda>r. br_ID r = b_ID b); n = row_count hit (t_backends d)
      in if n = 0 then Inr (0, d)
         else if \<not> config_exists (b_ConfigID b) d then Inl fk_error
         else Inr (n, d\<lparr>t_backends :=
                rows_update hit (\<lambda>r. r\<lparr>br_Backend := set_backend_row b (br_Backend r)\<rparr>) (t_backends d)\<rparr>))"

definition delete_backend :: "string \<Rightarrow> db \<Rightarrow> (nat \<times> db) result" where
  "delete_backend i d =
     (let hit = (\<lambda>r. br_ID r = i)
      in Inr (row_count hit (t_backends d),
              d\<lparr>t_backends := rows_delete hit (t_backends d),
                t_health_states := cascade hs_BackendID (t_health_states d) br_ID (t_backends d) hit\<rparr>))"

definition select_backends :: "string \<Rightarrow> db \<Rightarrow> Backend list" where
  "select_backends configID d =
     map br_Backend (order_desc br_CreatedAt (filter (\<lambda>r. br_ConfigID r = configID) (t_backends d)))"

subsection \<open>Statements on configurations\<close>

definition select_config :: "string \<Rightarrow> db \<Rightarrow> Config list" where
  "select_config i d = filter (\<lambda>c. cfg_ID c = i) (t_configs d)"

definition new_config_row :: "Config \<Rightarrow> Config" where
  "new_config_row cfg = cfg\<lparr>cfg_LastReconcileError := ''''\<rparr>"

definition insert_config :: "Config \<Rightarrow> db \<Rightarrow> (nat \<times> db) result" where
  "insert_config cfg d =
     (if \<exists>c \<in> set (t_configs d). cfg_ID c = cfg_ID cfg then Inl (unique_error ''configs.id (1555)'')
      else if \<exists>c \<in> set (t_configs d). cfg_DNSName c = cfg_DNSName cfg
      then Inl (unique_error ''configs.dns_name (2067)'')
      else Inr (1, d\<lparr>t_configs := t_configs d @ [new_config_row cfg]\<rparr>))"

definition set_config_row :: "Config \<Rightarrow> Config \<Rightarrow> Config" where
  "set_config_row cfg old = old\<lparr>cfg_Name := cfg_Name cfg, cfg_DNSName := cfg_DNSName cfg,
     cfg_DNSTTL := cfg_DNSTTL cfg, cfg_LBMethod := cfg_LBMethod cfg, cfg_UpdatedAt := cfg_UpdatedAt cfg\<rparr>"

definition update_config :: "Config \<Rightarrow> db \<Rightarrow> (nat \<times> db) result" where
  "update_config cfg d =
     (let hit = (\<lambda>c. cfg_ID c = cfg_ID cfg); n = row_count hit (t_configs d)
      in if n = 0 then Inr (0, d)
         else if \<exists>c \<in> set (t_configs d). cfg_ID c \<noteq> cfg_ID cfg \<and> cfg_DNSName c = cfg_DNSName cfg
         then Inl (unique_error ''configs.dns_name (2067)'')
         else Inr (n, d\<lparr>t_configs := rows_update hit (set_config_row cfg) (t_configs d)\<rparr>))"

definition delete_config :: "string \<Rightarrow> db \<Rightarrow> (nat \<times> db) result" where
  "delete_config i d =
     (let hit = (\<lambda>c. cfg_ID c = i);
          orphan = (\<lambda>r. \<exists>c \<in> set (t_configs d). hit c \<and> cfg_ID c = br_ConfigID r)
      in Inr (row_count hit (t_configs d),
              d\<lparr>t_configs := rows_delete hit (t_configs d),
                t_backends := rows_delete orphan (t_backends d),
                t_health_states := cascade hs_BackendID (t_health_states d) br_ID (t_backends d) orphan,
                t_health_checks := cascade hc_ConfigID (t_health_checks d) cfg_ID (t_configs d) hit,
                t_dns_providers := cascade dp_ConfigID (t_dns_providers d) cfg_ID (t_configs d) hit,
                t_config_roles := cascade cr_ConfigID (t_config_roles d) cfg_ID (t_configs d) hit\<rparr>))"

definition select_configs :: "db \<Rightarrow> Config list" where
  "select_configs d = order_desc cfg_CreatedAt (t_configs d)"

definition update_reconcile_error :: "string \<Rightarrow> string \<Rightarrow> db \<Rightarrow> (nat \<times> db) result" where
  "update_reconcile_error i errMsg d =
     (let hit = (\<lambda>c. cfg_ID c = i)
      in Inr (row_count hit (t_configs d),
              d\<lparr>t_configs := rows_update hit (\<lambda>c. c\<lparr>cfg_LastReconcileError := errMsg\<rparr>) (t_configs d)\<rparr>))"

subsection \<open>The backend store\<close>

definition CreateBackend :: "Backend \<Rightarrow> ('z world_scheme, Backend \<times> unit result) state" where
  "CreateBackend b0 = do {
     b \<leftarrow> (if b_ID b0 = '''' then do { u \<leftarrow> uuid_New; ret (b0\<lparr>b_ID := u\<rparr>) } else ret b0);
     createdAt \<leftarrow> time_Now;
     r \<leftarrow> insert_method (fk_wrap ''insert backend'') (insert_backend (b, createdAt));
     ret (b, r)
   }"

definition GetBackend :: "string \<Rightarrow> ('z world_scheme, Backend result) state" where
  "GetBackend i = row_method ''query backend'' (select_backend i)"

definition UpdateBackend :: "Backend \<Rightarrow> ('z world_scheme, unit result) state" where
  "UpdateBackend b = affect_method (fk_wrap ''update backend'') (update_backend b)"

definition DeleteBackend :: "string \<Rightarrow> ('z world_scheme, unit result) state" where
  "DeleteBackend i = affect_method (Wrap ''delete backend'') (delete_backend i)"

definition ListBackends :: "string \<Rightarrow> ('z world_scheme, Backend list result) state" where
  "ListBackends configID =
     rows_method (Wrap ''query backends'') (Wrap ''scan backend'') (Wrap ''rows error'') (select_backends configID)"

subsection \<open>The configuration store\<close>

definition CreateConfig :: "Config \<Rightarrow> ('z world_scheme, Config \<times> unit result) state" where
  "CreateConfig cfg0 = do {
     cfg \<leftarrow> (if cfg_ID cfg0 = '''' then do { u \<leftarrow> uuid_New; ret (cfg0\<lparr>cfg_ID := u\<rparr>) } else ret cfg0);
     t1 \<leftarrow> time_Now;
     t2 \<leftarrow> time_Now;
     let cfg = cfg\<lparr>cfg_CreatedAt := t1, cfg_UpdatedAt := t2\<rparr>;
     r \<leftarrow> insert_method (fk_wrap ''insert config'') (insert_config cfg);
     ret (cfg, r)
   }"

definition GetConfig :: "string \<Rightarrow> ('z world_scheme, Config result) state" where
  "GetConfig i = row_method ''query config'' (select_config i)"

definition UpdateConfig :: "Config \<Rightarrow> ('z world_scheme, Config \<times> unit result) state" where
  "UpdateConfig cfg0 = do {
     now \<leftarrow> time_Now;
     let cfg = cfg0\<lparr>cfg_UpdatedAt := now\<rparr>;
     r \<leftarrow> affect_method (Wrap ''update config'') (update_config cfg);
     ret (cfg, r)
   }"

definition DeleteConfig :: "string \<Rightarrow> ('z world_scheme, unit result) state" where
  "DeleteConfig i = affect_method (Wrap ''delete config'') (delete_config i)"

definition ListConfigs :: "('z world_scheme, Config list result) state" where
  "ListConfigs =
     rows_method (Wrap ''query configs'') (Wrap ''scan config'') (Wrap ''rows error'') select_configs"

text \<open>Both branches of the source run one UPDATE; the empty message writes NULL.\<close>

definition SetConfigReconcileError :: "string \<Rightarrow> string \<Rightarrow> ('z world_scheme, unit result) state" where
  "SetConfigReconcileError i errMsg = insert_method (\<lambda>e. e) (update_reconcile_error i errMsg)"

subsection \<open>The schema's constraints are kept\<close>

lemma insert_backend_ok: "db_ok d \<Longrightarrow> insert_backend x d = Inr (n, d') \<Longrightarrow> db_ok d'"
  by (auto simp: insert_backend_def db_ok_def keys_ok_def refs_ok_def sql_simps config_exists_def
      split: prod.splits if_splits)

lemma update_backend_ok:
  assumes "db_ok d" "update_backend b d = Inr (n, d')"
  shows "db_ok d'"
proof (cases "n = 0")
  case True
  with assms show ?thesis by (auto simp: update_backend_def Let_def split: if_splits)
next
  case False
  let ?hit = "\<lambda>r. br_ID r = b_ID b"
  let ?rows = "rows_update ?hit (\<lambda>r. r\<lparr>br_Backend := set_backend_row b (br_Backend r)\<rparr>) (t_backends d)"
  from False assms(2) have cfg: "config_exists (b_ConfigID b) d" and d': "d' = d\<lparr>t_backends := ?rows\<rparr>"
    by (auto simp: update_backend_def Let_def split: if_splits)
  have "references br_ConfigID ?rows cfg_ID (t_configs d)"
  proof (rule references_update)
    show "references br_ConfigID (t_backends d) cfg_ID (t_configs d)"
      using assms(1) by (simp add: db_ok_def refs_ok_def)
  qed (use cfg in \<open>simp add: set_backend_row_def config_exists_def\<close>)
  moreover have "unique br_ID ?rows" "references hs_BackendID (t_health_states d) br_ID ?rows"
    using assms(1) by (simp_all add: db_ok_def keys_ok_def refs_ok_def unique_update_same_key
        references_parent_update set_backend_row_def)
  ultimately show ?thesis
    using assms(1) unfolding d' by (simp add: db_ok_def keys_ok_def refs_ok_def)
qed

lemma delete_backend_ok: "db_ok d \<Longrightarrow> delete_backend i d = Inr (n, d') \<Longrightarrow> db_ok d'"
  by (auto simp: delete_backend_def db_ok_def keys_ok_def refs_ok_def sql_simps Let_def)

lemma insert_config_ok: "db_ok d \<Longrightarrow> insert_config c d = Inr (n, d') \<Longrightarrow> db_ok d'"
  by (auto simp: insert_config_def db_ok_def keys_ok_def refs_ok_def sql_simps new_config_row_def split: if_splits)

lemma delete_config_ok:
  assumes "db_ok d" "delete_config i d = Inr (n, d')"
  shows "db_ok d'"
proof -
  let ?hit = "\<lambda>c. cfg_ID c = i"
  let ?orphan = "\<lambda>r. \<exists>c \<in> set (t_configs d). ?hit c \<and> cfg_ID c = br_ConfigID r"
  have "references br_ConfigID (t_backends d) cfg_ID (t_configs d)"
    using assms(1) by (simp add: db_ok_def refs_ok_def)
  then have "references br_ConfigID (rows_delete ?orphan (t_backends d)) cfg_ID (rows_delete ?hit (t_configs d))"
    unfolding cascade_def [symmetric] by (rule references_cascade)
  with assms show ?thesis
    by (auto simp: delete_config_def db_ok_def keys_ok_def refs_ok_def sql_simps Let_def)
qed

lemma update_reconcile_error_ok: "db_ok d \<Longrightarrow> update_reconcile_error i m d = Inr (n, d') \<Longrightarrow> db_ok d'"
  by (auto simp: update_reconcile_error_def db_ok_def keys_ok_def refs_ok_def sql_simps Let_def)

lemma unique_update_column:
  assumes "unique k rows" "\<And>r. P r \<Longrightarrow> k (f r) = x" "\<forall>r \<in> set rows. \<not> P r \<longrightarrow> k r \<noteq> x"
    and "row_count P rows \<le> 1"
  shows "unique k (rows_update P f rows)"
  using assms
proof (induction rows)
  case (Cons r rows)
  show ?case
  proof (cases "P r")
    case True
    with Cons.prems(4) have "\<forall>r' \<in> set rows. \<not> P r'"
      by (auto simp: row_count_def filter_empty_conv)
    with True Cons.prems show ?thesis
      by (auto simp: unique_def rows_update_def image_iff comp_def cong: map_cong)
  next
    case False
    with Cons show ?thesis by (auto simp: unique_def rows_update_def row_count_def image_iff)
  qed
qed (simp add: unique_def rows_update_def)

lemma update_config_ok:
  assumes "db_ok d" "update_config c d = Inr (n, d')"
  shows "db_ok d'"
proof (cases "n = 0")
  case True
  with assms show ?thesis by (auto simp: update_config_def Let_def split: if_splits)
next
  case False
  let ?hit = "\<lambda>r. cfg_ID r = cfg_ID c"
  from False assms(2) have free: "\<forall>r \<in> set (t_configs d). \<not> ?hit r \<longrightarrow> cfg_DNSName r \<noteq> cfg_DNSName c"
    and d': "d' = d\<lparr>t_configs := rows_update ?hit (set_config_row c) (t_configs d)\<rparr>"
    by (auto simp: update_config_def Let_def split: if_splits)
  from assms(1) have ids: "unique cfg_ID (t_configs d)" and names: "unique cfg_DNSName (t_configs d)"
    by (auto simp: db_ok_def keys_ok_def)
  from names free row_count_unique [OF ids] have "unique cfg_DNSName (t_configs d')"
    unfolding d' by (simp, intro unique_update_column [where x = "cfg_DNSName c"]) (auto simp: set_config_row_def)
  with assms(1) show ?thesis
    unfolding d' by (auto simp: db_ok_def keys_ok_def refs_ok_def sql_simps set_config_row_def)
qed

lemmas config_stmts_ok [sql_simps] =
  insert_backend_ok update_backend_ok delete_backend_ok insert_config_ok update_config_ok
  delete_config_ok update_reconcile_error_ok

text \<open>Every method keeps the constraints, whatever the driver's failures.\<close>

abbreviation keeps_db_ok :: "('z world_scheme, 'a) state \<Rightarrow> bool" where
  "keeps_db_ok m \<equiv> keeps (\<lambda>w. db_ok (w_db w)) m"

lemma keeps_CreateBackend [keep_intros]: "keeps_db_ok (CreateBackend b)"
  unfolding CreateBackend_def
  by (intro keep_intros keeps_insert_method) (erule (1) insert_backend_ok)

lemma keeps_GetBackend [keep_intros]: "keeps (\<lambda>w. P (w_db w)) (GetBackend i)"
  unfolding GetBackend_def by (intro keep_intros)

lemma keeps_UpdateBackend [keep_intros]: "keeps_db_ok (UpdateBackend b)"
  unfolding UpdateBackend_def by (rule keeps_affect_method) (erule (1) update_backend_ok)

lemma keeps_DeleteBackend [keep_intros]: "keeps_db_ok (DeleteBackend i)"
  unfolding DeleteBackend_def by (rule keeps_affect_method) (erule (1) delete_backend_ok)

lemma keeps_ListBackends [keep_intros]: "keeps (\<lambda>w. P (w_db w)) (ListBackends i)"
  unfolding ListBackends_def by (intro keep_intros)

lemma keeps_CreateConfig [keep_intros]: "keeps_db_ok (CreateConfig c)"
  unfolding CreateConfig_def Let_def
  by (intro keep_intros keeps_insert_method) (erule (1) insert_config_ok)

lemma keeps_GetConfig [keep_intros]: "keeps (\<lambda>w. P (w_db w)) (GetConfig i)"
  unfolding GetConfig_def by (intro keep_intros)

lemma keeps_UpdateConfig [keep_intros]: "keeps_db_ok (UpdateConfig c)"
  unfolding UpdateConfig_def Let_def by (intro keep_intros keeps_affect_method) (erule (1) update_config_ok)

lemma keeps_DeleteConfig [keep_intros]: "keeps_db_ok (DeleteConfig i)"
  unfolding DeleteConfig_def by (rule keeps_affect_method) (erule (1) delete_config_ok)

lemma keeps_ListConfigs [keep_intros]: "keeps (\<lambda>w. P (w_db w)) ListConfigs"
  unfolding ListConfigs_def by (intro keep_intros)

lemma keeps_SetConfigReconcileError [keep_intros]: "keeps_db_ok (SetConfigReconcileError i m)"
  unfolding SetConfigReconcileError_def by (rule keeps_insert_method) (erule (1) update_reconcile_error_ok)

subsection \<open>Both tables implement a map\<close>

lemma first_select_config: "first_row (select_config k d) = find (\<lambda>c. cfg_ID c = k) (t_configs d)"
  by (simp add: select_config_def first_row_filter)

lemma first_select_backend:
  "first_row (select_backend k d) = map_option br_Backend (find (\<lambda>r. br_ID r = k) (t_backends d))"
  by (simp add: select_backend_def first_row_map first_row_filter)

interpretation config_table: keyed_store db_ok select_config insert_config update_config delete_config
  cfg_ID new_config_row cfg_ID set_config_row
proof (unfold_locales, goal_cases)
  case (1 d r n d')
  then show ?case
    by (auto simp: insert_config_def first_select_config find_snoc find_absent new_config_row_def
        split: if_splits option.splits)
next
  case (2 d u n d')
  then show ?case
    by (auto simp: update_config_def Let_def first_select_config row_count_find row_count_pos find_rows_update set_config_row_def
        split: if_splits)
next
  case (3 d k n d')
  then show ?case
    by (auto simp: delete_config_def Let_def first_select_config row_count_find find_rows_delete)
qed (fact insert_config_ok update_config_ok delete_config_ok)+

interpretation backend_table: keyed_store db_ok select_backend insert_backend update_backend delete_backend
  "\<lambda>p. b_ID (fst p)" fst b_ID set_backend_row
proof (unfold_locales, goal_cases)
  case (1 d r n d')
  then show ?case
    by (auto simp: insert_backend_def first_select_backend find_snoc find_absent
        split: if_splits option.splits prod.splits)
next
  case (2 d u n d')
  then show ?case
    by (auto simp: update_backend_def Let_def first_select_backend row_count_find row_count_pos find_rows_update set_backend_row_def
        option.map_comp comp_def split: if_splits)
next
  case (3 d k n d')
  then show ?case
    by (auto simp: delete_backend_def Let_def first_select_backend row_count_find find_rows_delete)
qed (fact insert_backend_ok update_backend_ok delete_backend_ok)+

end
