(* ===== verification/Store_Health.thy ===== *)
theory Store_Health
  imports Store_Config
begin

section \<open>Health checks, health states and probe history (internal/store/health.go, health_history.go)\<close>

text \<open>
  A configuration has at most one health check, keyed by \<open>config_id\<close>; a backend has at most one
  health state, written by upsert. The history accumulates probe counts per backend and 5-minute
  bucket. \<open>CURRENT_TIMESTAMP\<close> of the history table is a clock reading.
\<close>

subsection \<open>Statements\<close>

definition backend_exists :: "string \<Rightarrow> db \<Rightarrow> bool" where
  "backend_exists i d = (\<exists>r \<in> set (t_backends d). br_ID r = i)"

definition insert_health_check :: "HealthCheck \<Rightarrow> db \<Rightarrow> (nat \<times> db) result" where
  "insert_health_check hc d =
     (if \<exists>r \<in> set (t_health_checks d). hc_ID r = hc_ID hc then Inl (unique_error ''health_checks.id (1555)'')
      else if \<exists>r \<in> set (t_health_checks d). hc_ConfigID r = hc_ConfigID hc
      then Inl (unique_error ''health_checks.config_id (2067)'')
      else if \<not> config_exists (hc_ConfigID hc) d then Inl fk_error
      else Inr (1, d\<lparr>t_health_checks := t_health_checks d @ [hc]\<rparr>))"

definition select_health_check :: "string \<Rightarrow> db \<Rightarrow> HealthCheck list" where
  "select_health_check configID d = filter (\<lambda>r. hc_ConfigID r = configID) (t_health_checks d)"

definition set_health_check_row :: "HealthCheck \<Rightarrow> HealthCheck \<Rightarrow> HealthCheck" where
  "set_health_check_row hc old = old\<lparr>hc_Type := hc_Type hc, hc_IntervalSeconds := hc_IntervalSeconds hc,
     hc_TimeoutSeconds := hc_TimeoutSeconds hc, hc_ThresholdHealthy := hc_ThresholdHealthy hc,
     hc_ThresholdUnhealthy := hc_ThresholdUnhealthy hc\<rparr>"

definition update_health_check :: "HealthCheck \<Rightarrow> db \<Rightarrow> (nat \<times> db) result" where
  "update_health_check hc d =
     (let hit = (\<lambda>r. hc_ConfigID r = hc_ConfigID hc)
      in Inr (row_count hit (t_health_checks d),
              d\<lparr>t_health_checks := rows_update hit (set_health_check_row hc) (t_health_checks d)\<rparr>))"

definition delete_health_check :: "string \<Rightarrow> db \<Rightarrow> (nat \<times> db) result" where
  "delete_health_check configID d =
     (let hit = (\<lambda>r. hc_ConfigID r = configID)
      in Inr (row_count hit (t_health_checks d),
              d\<lparr>t_health_checks := rows_delete hit (t_health_checks d)\<rparr>))"

definition upsert_health_state :: "HealthState \<Rightarrow> db \<Rightarrow> (nat \<times> db) result" where
  "upsert_health_state s d =
     (let hit = (\<lambda>r. hs_BackendID r = hs_BackendID s)
      in if \<exists>r \<in> set (t_health_states d). hit r
         then Inr (1, d\<lparr>t_health_states := rows_update hit (\<lambda>_. s) (t_health_states d)\<rparr>)
         else if \<not> backend_exists (hs_BackendID s) d then Inl fk_error
         else Inr (1, d\<lparr>t_health_states := t_health_states d @ [s]\<rparr>))"

definition select_health_state :: "string \<Rightarrow> db \<Rightarrow> HealthState list" where
  "select_health_state backendID d = filter (\<lambda>r. hs_BackendID r = backendID) (t_health_states d)"

definition select_health_states :: "string \<Rightarrow> db \<Rightarrow> HealthState list" where
  "select_health_states configID d =
     concat (map (\<lambda>s. map (\<lambda>_. s) (filter (\<lambda>r. br_ID r = hs_BackendID s \<and> br_ConfigID r = configID) (t_backends d)))
                 (t_health_states d))"

definition merge_history :: "HealthHistoryBucket \<Rightarrow> HealthHistoryBucket \<Rightarrow> HealthHistoryBucket" where
  "merge_history b r = r\<lparr>
     hb_SuccessCount := hb_SuccessCount r + hb_SuccessCount b,
     hb_FailureCount := hb_FailureCount r + hb_FailureCount b,
     hb_Selected := max (hb_Selected r) (hb_Selected b)\<rparr>"

definition upsert_history :: "time \<Rightarrow> HealthHistoryBucket \<Rightarrow> db \<Rightarrow> (nat \<times> db) result" where
  "upsert_history now b d =
     (let hit = (\<lambda>r. hb_BackendID r = hb_BackendID b \<and> hb_BucketStart r = hb_BucketStart b)
      in if \<exists>r \<in> set (t_health_history d). hit r
         then Inr (1, d\<lparr>t_health_history := rows_update hit (merge_history b) (t_health_history d)\<rparr>)
         else Inr (1, d\<lparr>t_health_history := t_health_history d @
                [b\<lparr>hb_ID := t_health_history_seq d + 1, hb_CreatedAt := now\<rparr>],
                t_health_history_seq := t_health_history_seq d + 1\<rparr>))"

definition select_history :: "string \<Rightarrow> time \<Rightarrow> db \<Rightarrow> HealthHistoryBucket list" where
  "select_history backendID since d =
     sort_key hb_BucketStart (filter (\<lambda>b. hb_BackendID b = backendID \<and> hb_BucketStart b \<ge> since) (t_health_history d))"

definition delete_history :: "time \<Rightarrow> db \<Rightarrow> (nat \<times> db) result" where
  "delete_history cutoff d =
     (let hit = (\<lambda>b. hb_BucketStart b < cutoff)
      in Inr (row_count hit (t_health_history d),
              d\<lparr>t_health_history := rows_delete hit (t_health_history d)\<rparr>))"

subsection \<open>Methods\<close>

definition CreateHealthCheck :: "HealthCheck \<Rightarrow> ('z world_scheme, HealthCheck \<times> unit result) state" where
  "CreateHealthCheck hc0 = do {
     hc \<leftarrow> (if hc_ID hc0 = '''' then do { u \<leftarrow> uuid_New; ret (hc0\<lparr>hc_ID := u\<rparr>) } else ret hc0);
     r \<leftarrow> insert_method (fk_wrap ''insert health check'') (insert_health_check hc);
     ret (hc, r)
   }"

definition GetHealthCheck :: "string \<Rightarrow> ('z world_scheme, HealthCheck result) state" where
  "GetHealthCheck configID = row_method ''query health check'' (select_health_check configID)"

definition UpdateHealthCheck :: "HealthCheck \<Rightarrow> ('z world_scheme, unit result) state" where
  "UpdateHealthCheck hc = affect_method (fk_wrap ''update health check'') (update_health_check hc)"

definition DeleteHealthCheck :: "string \<Rightarrow> ('z world_scheme, unit result) state" where
  "DeleteHealthCheck configID = affect_method (Wrap ''delete health check'') (delete_health_check configID)"

definition UpdateHealthState :: "HealthState \<Rightarrow> ('z world_scheme, unit result) state" where
  "UpdateHealthState s = insert_method (fk_wrap ''update health state'') (upsert_health_state s)"

definition GetHealthState :: "string \<Rightarrow> ('z world_scheme, HealthState result) state" where
  "GetHealthState backendID = row_method ''query health state'' (select_health_state backendID)"

definition GetHealthStates :: "string \<Rightarrow> ('z world_scheme, (string \<Rightarrow> HealthState option) result) state" where
  "GetHealthStates configID = do {
     r \<leftarrow> rows_method (Wrap ''query health states'') (Wrap ''scan health state'') (Wrap ''rows error'')
            (select_health_states configID);
     ret (case r of
            Inl e \<Rightarrow> Inl e
          | Inr rows \<Rightarrow> Inr (foldl (\<lambda>states s. states(hs_BackendID s \<mapsto> s)) (\<lambda>_. None) rows))
   }"

definition UpsertHealthHistoryBucket :: "HealthHistoryBucket \<Rightarrow> ('z world_scheme, unit result) state" where
  "UpsertHealthHistoryBucket b = do {
     now \<leftarrow> time_Now;
     insert_method (Wrap ''upsert health history bucket'') (upsert_history now b)
   }"

definition GetHealthHistory :: "string \<Rightarrow> time \<Rightarrow> ('z world_scheme, HealthHistoryBucket list result) state" where
  "GetHealthHistory backendID since =
     rows_method (Wrap ''get health history'') (Wrap ''scan health history row'') (\<lambda>e. e)
       (select_history backendID since)"

definition DeleteOldHealthHistory :: "duration \<Rightarrow> ('z world_scheme, nat result) state" where
  "DeleteOldHealthHistory olderThan = do {
     now \<leftarrow> time_Now;
     let cutoff = now - olderThan;
     r \<leftarrow> sql_exec (delete_history cutoff);
     ret (case r of
            Inl e \<Rightarrow> Inl (Wrap ''delete old health history'' e)
          | Inr (Inl _) \<Rightarrow> Inr 0
          | Inr (Inr n) \<Rightarrow> Inr n)
   }"

subsection \<open>Constraints\<close>

lemma insert_health_check_ok: "db_ok d \<Longrightarrow> insert_health_check hc d = Inr (n, d') \<Longrightarrow> db_ok d'"
  by (auto simp: insert_health_check_def db_ok_def keys_ok_def refs_ok_def sql_simps config_exists_def split: if_splits)

lemma update_health_check_ok: "db_ok d \<Longrightarrow> update_health_check hc d = Inr (n, d') \<Longrightarrow> db_ok d'"
  by (auto simp: update_health_check_def db_ok_def keys_ok_def refs_ok_def sql_simps set_health_check_row_def Let_def)

lemma delete_health_check_ok: "db_ok d \<Longrightarrow> delete_health_check i d = Inr (n, d') \<Longrightarrow> db_ok d'"
  by (auto simp: delete_health_check_def db_ok_def keys_ok_def refs_ok_def sql_simps Let_def)

lemma upsert_health_state_ok:
  assumes "db_ok d" "upsert_health_state s d = Inr (n, d')"
  shows "db_ok d'"
proof (cases "\<exists>r \<in> set (t_health_states d). hs_BackendID r = hs_BackendID s")
  case True
  with assms show ?thesis
    by (auto simp: upsert_health_state_def Let_def db_ok_def keys_ok_def refs_ok_def sql_simps)
next
  case False
  with assms show ?thesis
    by (auto simp: upsert_health_state_def db_ok_def keys_ok_def refs_ok_def sql_simps backend_exists_def Let_def
        split: if_splits)
qed

text \<open>An upsert of a probe bucket touches the history table alone and keeps its keys.\<close>

definition history_ok :: "HealthHistoryBucket list \<Rightarrow> int \<Rightarrow> bool" where
  "history_ok rows n = (unique hb_ID rows \<and> unique (\<lambda>b. (hb_BackendID b, hb_BucketStart b)) rows \<and>
     (\<forall>b \<in> set rows. hb_ID b \<le> n))"

lemma db_ok_history:
  "db_ok d \<Longrightarrow> history_ok rows n \<Longrightarrow> db_ok (d\<lparr>t_health_history := rows, t_health_history_seq := n\<rparr>)"
  by (simp add: db_ok_def keys_ok_def refs_ok_def history_ok_def)

lemma db_ok_historyD: "db_ok d \<Longrightarrow> history_ok (t_health_history d) (t_health_history_seq d)"
  by (simp add: db_ok_def keys_ok_def history_ok_def)

lemma history_ok_update:
  "history_ok rows n \<Longrightarrow> (\<And>r. hb_ID (f r) = hb_ID r \<and> hb_BackendID (f r) = hb_BackendID r \<and>
     hb_BucketStart (f r) = hb_BucketStart r) \<Longrightarrow> history_ok (rows_update P f rows) n"
  by (auto simp: history_ok_def unique_update_same_key set_rows_update)

lemma history_ok_snoc:
  assumes "history_ok rows n" "hb_ID b = n + 1"
    and "\<forall>r \<in> set rows. (hb_BackendID r, hb_BucketStart r) \<noteq> (hb_BackendID b, hb_BucketStart b)"
  shows "history_ok (rows @ [b]) (n + 1)"
proof -
  from assms(1,2) have "\<forall>r \<in> set rows. hb_ID r \<noteq> hb_ID b" "\<forall>r \<in> set rows. hb_ID r \<le> n + 1"
    by (fastforce simp: history_ok_def)+
  with assms show ?thesis by (simp add: history_ok_def unique_snoc)
qed

lemma upsert_history_ok:
  assumes "db_ok d" "upsert_history now b d = Inr (n, d')"
  shows "db_ok d'"
proof (cases "\<exists>r \<in> set (t_health_history d). hb_BackendID r = hb_BackendID b \<and> hb_BucketStart r = hb_BucketStart b")
  case True
  with assms(2) have d': "d' = d\<lparr>t_health_history := rows_update
      (\<lambda>r. hb_BackendID r = hb_BackendID b \<and> hb_BucketStart r = hb_BucketStart b) (merge_history b) (t_health_history d)\<rparr>"
    by (auto simp: upsert_history_def Let_def)
  have "history_ok (t_health_history d') (t_health_history_seq d)"
    unfolding d' using db_ok_historyD [OF assms(1)] by (simp add: history_ok_update merge_history_def)
  from db_ok_history [OF assms(1) this] show ?thesis by (simp add: d')
next
  case False
  let ?b = "b\<lparr>hb_ID := t_health_history_seq d + 1, hb_CreatedAt := now\<rparr>"
  from False assms(2) have d': "d' = d\<lparr>t_health_history := t_health_history d @ [?b],
      t_health_history_seq := t_health_history_seq d + 1\<rparr>"
    by (auto simp: upsert_history_def Let_def split: if_splits)
  show ?thesis
    unfolding d' using False
    by (intro db_ok_history [OF assms(1)] history_ok_snoc [OF db_ok_historyD [OF assms(1)]]) auto
qed

lemma delete_history_ok: "db_ok d \<Longrightarrow> delete_history c d = Inr (n, d') \<Longrightarrow> db_ok d'"
  by (auto simp: delete_history_def db_ok_def keys_ok_def refs_ok_def sql_simps set_rows_delete Let_def)

lemma keeps_CreateHealthCheck [keep_intros]: "keeps_db_ok (CreateHealthCheck hc)"
  unfolding CreateHealthCheck_def by (intro keep_intros keeps_insert_method) (erule (1) insert_health_check_ok)

lemma keeps_GetHealthCheck [keep_intros]: "keeps (\<lambda>w. P (w_db w)) (GetHealthCheck i)"
  unfolding GetHealthCheck_def by (intro keep_intros)

lemma keeps_UpdateHealthCheck [keep_intros]: "keeps_db_ok (UpdateHealthCheck hc)"
  unfolding UpdateHealthCheck_def by (rule keeps_affect_method) (erule (1) update_health_check_ok)

lemma keeps_DeleteHealthCheck [keep_intros]: "keeps_db_ok (DeleteHealthCheck i)"
  unfolding DeleteHealthCheck_def by (rule keeps_affect_method) (erule (1) delete_health_check_ok)

lemma keeps_UpdateHealthState [keep_intros]: "keeps_db_ok (UpdateHealthState s)"
  unfolding UpdateHealthState_def by (rule keeps_insert_method) (erule (1) upsert_health_state_ok)

lemma keeps_GetHealthState [keep_intros]: "keeps (\<lambda>w. P (w_db w)) (GetHealthState i)"
  unfolding GetHealthState_def by (intro keep_intros)

lemma keeps_GetHealthStates [keep_intros]: "keeps (\<lambda>w. P (w_db w)) (GetHealthStates i)"
  unfolding GetHealthStates_def by (intro keep_intros)

lemma keeps_UpsertHealthHistoryBucket [keep_intros]: "keeps_db_ok (UpsertHealthHistoryBucket b)"
  unfolding UpsertHealthHistoryBucket_def by (intro keep_intros keeps_insert_method) (erule (1) upsert_history_ok)

lemma keeps_GetHealthHistory [keep_intros]: "keeps (\<lambda>w. P (w_db w)) (GetHealthHistory i t)"
  unfolding GetHealthHistory_def by (intro keep_intros)

lemma keeps_DeleteOldHealthHistory [keep_intros]: "keeps_db_ok (DeleteOldHealthHistory t)"
  unfolding DeleteOldHealthHistory_def Let_def by (intro keep_intros keeps_sql_exec) (erule (1) delete_history_ok)

subsection \<open>The tables as maps\<close>

lemma first_select_health_check:
  "first_row (select_health_check k d) = find (\<lambda>r. hc_ConfigID r = k) (t_health_checks d)"
  by (simp add: select_health_check_def first_row_filter)

lemma first_select_health_state:
  "first_row (select_health_state k d) = find (\<lambda>r. hs_BackendID r = k) (t_health_states d)"
  by (simp add: select_health_state_def first_row_filter)

interpretation health_check_table: keyed_store db_ok select_health_check insert_health_check
  update_health_check delete_health_check hc_ConfigID "\<lambda>hc. hc" hc_ConfigID set_health_check_row
proof (unfold_locales, goal_cases)
  case (1 d r n d')
  then show ?case
    by (auto simp: insert_health_check_def first_select_health_check find_snoc find_absent
        split: if_splits option.splits)
next
  case (2 d u n d')
  then show ?case
    by (auto simp: update_health_check_def Let_def first_select_health_check row_count_find row_count_pos
        find_rows_update set_health_check_row_def)
next
  case (3 d k n d')
  then show ?case
    by (auto simp: delete_health_check_def Let_def first_select_health_check row_count_find find_rows_delete)
qed (fact insert_health_check_ok update_health_check_ok delete_health_check_ok)+

text \<open>An upsert of a health state is what the next read of that backend's state returns.\<close>

lemma upsert_health_state_lookup:
  assumes "upsert_health_state s d = Inr (n, d')"
  shows "first_row (select_health_state k d') =
    (if k = hs_BackendID s then Some s else first_row (select_health_state k d))"
proof (cases "find (\<lambda>r. hs_BackendID r = hs_BackendID s) (t_health_states d)")
  case None
  then have "\<not> (\<exists>r \<in> set (t_health_states d). hs_BackendID r = hs_BackendID s)"
    by (auto simp: find_None_iff)
  with None assms show ?thesis
    by (auto simp: upsert_health_state_def Let_def first_select_health_state find_snoc
        split: if_splits option.splits)
next
  case (Some r)
  with find_Some_mem [OF Some] have "\<exists>r \<in> set (t_health_states d). hs_BackendID r = hs_BackendID s"
    by blast
  with Some assms show ?thesis
    by (auto simp: upsert_health_state_def Let_def first_select_health_state find_rows_update)
qed

lemma UpdateHealthState_lookup:
  assumes "run_state (UpdateHealthState s) w = (Inr u, w')"
  shows "first_row (select_health_state k (w_db w')) =
     (if k = hs_BackendID s then Some s else first_row (select_health_state k (w_db w)))"
  using assms upsert_health_state_lookup unfolding UpdateHealthState_def by (blast dest: insert_method_Inr)

lemma foldl_states:
  "foldl (\<lambda>m s. m(hs_BackendID s \<mapsto> s)) m rows i =
     (case find (\<lambda>s. hs_BackendID s = i) (rev rows) of None \<Rightarrow> m i | Some s \<Rightarrow> Some s)"
  by (induction rows arbitrary: m rule: rev_induct) auto

end
