(* ===== verification/Aggregator.thy ===== *)
theory Aggregator
  imports Store_Health
begin

section \<open>Probe history aggregation (internal/health/aggregator.go)\<close>

text \<open>
  The aggregator counts probes and selections in memory, per backend and 5-minute bucket, and
  writes every completed bucket to the history table. \<open>a.buckets\<close> is an association list with
  distinct keys; Go's map iteration order is the argument \<open>ord\<close> of \<open>flush\<close>. The world of the store
  is extended by the buckets.
\<close>

type_synonym bucketKey = "string \<times> time"

record bucketData =
  bd_successCount :: int
  bd_failureCount :: int
  bd_selected :: bool

type_synonym buckets = "(bucketKey \<times> bucketData) list"

record agg_world = world +
  ag_buckets :: buckets

definition bucketDuration :: duration where
  "bucketDuration = 5 * Minute"

definition bucketFloor :: "time \<Rightarrow> time" where
  "bucketFloor t = t - t mod bucketDuration"

definition new_bucketData :: bucketData where
  "new_bucketData = \<lparr>bd_successCount = 0, bd_failureCount = 0, bd_selected = False\<rparr>"

text \<open>\<open>getOrCreateBucket\<close>, followed by a write through the pointer it returns.\<close>

definition getOrCreateBucket :: "bucketKey \<Rightarrow> buckets \<Rightarrow> buckets" where
  "getOrCreateBucket key bs =
     (case map_of bs key of None \<Rightarrow> bs @ [(key, new_bucketData)] | Some _ \<Rightarrow> bs)"

definition modify_bucket :: "bucketKey \<Rightarrow> (bucketData \<Rightarrow> bucketData) \<Rightarrow> buckets \<Rightarrow> buckets" where
  "modify_bucket key f bs = map (\<lambda>(k, v). (k, if k = key then f v else v)) bs"

definition set_buckets :: "(buckets \<Rightarrow> buckets) \<Rightarrow> ('z agg_world_scheme, unit) state" where
  "set_buckets f = State (\<lambda>w. ((), w\<lparr>ag_buckets := f (ag_buckets w)\<rparr>))"

definition count_probe :: "bool \<Rightarrow> bucketData \<Rightarrow> bucketData" where
  "count_probe healthy b =
     (if healthy then b\<lparr>bd_successCount := bd_successCount b + 1\<rparr>
      else b\<lparr>bd_failureCount := bd_failureCount b + 1\<rparr>)"

definition RecordProbe :: "string \<Rightarrow> bool \<Rightarrow> ('z agg_world_scheme, unit) state" where
  "RecordProbe backendID healthy = do {
     now \<leftarrow> time_Now;
     let key = (backendID, bucketFloor now);
     set_buckets (\<lambda>bs. modify_bucket key (count_probe healthy) (getOrCreateBucket key bs))
   }"

definition RecordSelection :: "string \<Rightarrow> ('z agg_world_scheme, unit) state" where
  "RecordSelection backendID = do {
     now \<leftarrow> time_Now;
     let key = (backendID, bucketFloor now);
     set_buckets (\<lambda>bs. modify_bucket key (\<lambda>b. b\<lparr>bd_selected := True\<rparr>) (getOrCreateBucket key bs))
   }"

definition drain :: "time \<Rightarrow> ('z agg_world_scheme, buckets) state" where
  "drain currentBucket = State (\<lambda>w.
     (filter (\<lambda>(k, v). snd k \<noteq> currentBucket) (ag_buckets w),
      w\<lparr>ag_buckets := filter (\<lambda>(k, v). snd k = currentBucket) (ag_buckets w)\<rparr>))"

definition history_bucket :: "bucketKey \<Rightarrow> bucketData \<Rightarrow> HealthHistoryBucket" where
  "history_bucket key data = \<lparr>hb_ID = 0, hb_BackendID = fst key, hb_BucketStart = snd key,
     hb_SuccessCount = bd_successCount data, hb_FailureCount = bd_failureCount data,
     hb_Selected = (if bd_selected data then 1 else 0), hb_CreatedAt = 0\<rparr>"

text \<open>The loop over the drained buckets; an error of the store is logged.\<close>

primrec flush_loop :: "buckets \<Rightarrow> ('z agg_world_scheme, unit) state" where
  "flush_loop [] = ret ()"
| "flush_loop (kv # toFlush) = do {
     _ \<leftarrow> UpsertHealthHistoryBucket (history_bucket (fst kv) (snd kv));
     flush_loop toFlush
   }"

definition flush :: "(buckets \<Rightarrow> buckets) \<Rightarrow> ('z agg_world_scheme, unit) state" where
  "flush ord = do {
     now \<leftarrow> time_Now;
     toFlush \<leftarrow> drain (bucketFloor now);
     flush_loop (ord toFlush)
   }"

text \<open>The background loop: a tick flushes, a cancelled context flushes once more and ends.\<close>

datatype agg_signal = Agg_Tick | Agg_Done

fun agg_loop :: "(buckets \<Rightarrow> buckets) \<Rightarrow> agg_signal list \<Rightarrow> ('z agg_world_scheme, unit) state" where
  "agg_loop ord [] = ret ()"
| "agg_loop ord (Agg_Done # _) = flush ord"
| "agg_loop ord (Agg_Tick # evs) = do { flush ord; agg_loop ord evs }"

subsection \<open>Buckets\<close>

lemma bucketDuration_pos: "0 < bucketDuration"
  by (simp add: bucketDuration_def time_units)

lemma bucketFloor_le: "bucketFloor t \<le> t \<and> t < bucketFloor t + bucketDuration"
  using bucketDuration_pos by (simp add: bucketFloor_def pos_mod_bound)

lemma bucketFloor_idem: "bucketFloor (bucketFloor t) = bucketFloor t"
  by (simp add: bucketFloor_def mod_diff_left_eq [symmetric] mod_diff_eq)

definition keys_distinct :: "buckets \<Rightarrow> bool" where
  "keys_distinct bs = distinct (map fst bs)"

lemma map_of_getOrCreate:
  "map_of (getOrCreateBucket key bs) k =
     (if k = key \<and> map_of bs key = None then Some new_bucketData else map_of bs k)"
  by (auto simp: getOrCreateBucket_def map_add_def split: option.splits)

lemma map_of_modify:
  "map_of (modify_bucket key f bs) k = (if k = key then map_option f (map_of bs k) else map_of bs k)"
  by (induction bs) (auto simp: modify_bucket_def)

lemma keys_getOrCreate: "keys_distinct bs \<Longrightarrow> keys_distinct (getOrCreateBucket key bs)"
  by (auto simp: keys_distinct_def getOrCreateBucket_def map_of_eq_None_iff split: option.splits)

lemma keys_modify [simp]: "keys_distinct (modify_bucket key f bs) = keys_distinct bs"
  by (simp add: keys_distinct_def modify_bucket_def comp_def case_prod_beta')

lemma keys_filter: "keys_distinct bs \<Longrightarrow> keys_distinct (filter P bs)"
  by (simp add: keys_distinct_def distinct_map_filter)

lemma map_of_filter_key:
  "map_of (filter (\<lambda>(k, v). P k) bs) k = (if P k then map_of bs k else None)"
  by (induction bs) auto

subsection \<open>Counting\<close>

text \<open>
  \<open>db_count\<close> is what the history table says of one backend and bucket, \<open>mem_count\<close> what the
  memory still holds; \<open>sel\<close> selects the successes or the failures.
\<close>

definition db_count :: "(HealthHistoryBucket \<Rightarrow> int) \<Rightarrow> bucketKey \<Rightarrow> db \<Rightarrow> int" where
  "db_count sel k d = (\<Sum>b\<leftarrow>t_health_history d. if (hb_BackendID b, hb_BucketStart b) = k then sel b else 0)"

definition mem_count :: "(bucketData \<Rightarrow> int) \<Rightarrow> bucketKey \<Rightarrow> buckets \<Rightarrow> int" where
  "mem_count sel k bs = (case map_of bs k of None \<Rightarrow> 0 | Some b \<Rightarrow> sel b)"

definition total_count :: "bool \<Rightarrow> bucketKey \<Rightarrow> 'z agg_world_scheme \<Rightarrow> int" where
  "total_count healthy k w =
     db_count (if healthy then hb_SuccessCount else hb_FailureCount) k (w_db w) +
     mem_count (if healthy then bd_successCount else bd_failureCount) k (ag_buckets w)"

lemma sum_list_update_at:
  fixes sel :: "'r \<Rightarrow> int"
  assumes "distinct (map key rows)" "r \<in> set rows" "key r = k" "key' r = key r"
    and "\<And>r'. r' \<in> set rows \<Longrightarrow> key (f r') = key r' \<and> sel (f r') = sel r' + delta"
  shows "(\<Sum>x\<leftarrow>rows_update (\<lambda>r. key r = k) f rows. if key x = k' then sel x else 0) =
    (\<Sum>x\<leftarrow>rows. if key x = k' then sel x else 0) + (if k' = k then delta else 0)"
  using assms
proof (induction rows)
  case (Cons x rows)
  show ?case
  proof (cases "key x = k")
    case True
    with Cons.prems(1) have "\<forall>y \<in> set rows. key y \<noteq> k" by (auto simp: image_iff)
    then have "rows_update (\<lambda>r. key r = k) f rows = rows"
      unfolding rows_update_def by (intro map_idI) auto
    with True Cons.prems(5) [of x] show ?thesis by (simp add: rows_update_def)
  next
    case False
    with Cons.prems have "r \<in> set rows" by auto
    with Cons.IH Cons.prems False show ?thesis by (simp add: rows_update_def)
  qed
qed simp

lemma db_count_upsert:
  assumes "db_ok d" "upsert_history now b d = Inr (n, d')"
    and "sel = hb_SuccessCount \<or> sel = hb_FailureCount"
  shows "db_count sel k d' = db_count sel k d + (if k = (hb_BackendID b, hb_BucketStart b) then sel b else 0)"
proof -
  let ?key = "\<lambda>r. (hb_BackendID r, hb_BucketStart r)"
  let ?f = "merge_history b"
  show ?thesis
  proof (cases "\<exists>r \<in> set (t_health_history d). ?key r = ?key b")
    case True
    then obtain r where r: "r \<in> set (t_health_history d)" "?key r = ?key b" by blast
    from True assms(2) have "t_health_history d' = rows_update (\<lambda>r. ?key r = ?key b) ?f (t_health_history d)"
      by (auto simp: upsert_history_def Let_def split: if_splits)
    moreover from assms(1) have "distinct (map ?key (t_health_history d))"
      by (simp add: db_ok_def keys_ok_def unique_def)
    ultimately show ?thesis
      using sum_list_update_at [of ?key _ r "?key b" ?key ?f sel "sel b" k] r assms(3)
      by (auto simp: db_count_def merge_history_def)
  next
    case False
    with assms(2,3) show ?thesis by (cases k) (auto simp: upsert_history_def Let_def db_count_def split: if_splits)
  qed
qed

lemma upsert_history_Inr: "\<exists>n d'. upsert_history now b d = Inr (n, d')"
  by (simp add: upsert_history_def Let_def)

lemma run_UpsertHealthHistoryBucket:
  assumes "healthy_driver w" "upsert_history (w_now w (w_now_ix w)) b (w_db w) = Inr (n, d')"
  shows "run_state (UpsertHealthHistoryBucket b) w = (Inr (),
    w\<lparr>w_now_ix := Suc (w_now_ix w), w_stmt_ix := Suc (w_stmt_ix w), w_db := d'\<rparr>)"
  unfolding UpsertHealthHistoryBucket_def run_bind run_time_Now prod.case
proof (subst run_insert_method)
qed (use assms in simp_all)

definition drained_count :: "bool \<Rightarrow> bucketKey \<Rightarrow> buckets \<Rightarrow> int" where
  "drained_count healthy k bs =
     (\<Sum>(k', v)\<leftarrow>bs. if k' = k then (if healthy then bd_successCount v else bd_failureCount v) else 0)"

lemma flush_loop_count:
  assumes "healthy_driver w" "db_ok (w_db w)"
  shows "total_count h k (exec (flush_loop bs) w) = total_count h k w + drained_count h k bs"
    and "healthy_driver (exec (flush_loop bs) w)" and "db_ok (w_db (exec (flush_loop bs) w))"
    and "ag_buckets (exec (flush_loop bs) w) = ag_buckets w" and "w_now (exec (flush_loop bs) w) = w_now w"
proof -
  have "total_count h k (exec (flush_loop bs) w) = total_count h k w + drained_count h k bs \<and>
    healthy_driver (exec (flush_loop bs) w) \<and> db_ok (w_db (exec (flush_loop bs) w)) \<and>
    ag_buckets (exec (flush_loop bs) w) = ag_buckets w \<and> w_now (exec (flush_loop bs) w) = w_now w"
    using assms
  proof (induction bs arbitrary: w)
    case Nil
    then show ?case by (simp add: exec_def run_simps drained_count_def)
  next
    case (Cons kv bs)
    let ?b = "history_bucket (fst kv) (snd kv)"
    obtain n d' where up: "upsert_history (w_now w (w_now_ix w)) ?b (w_db w) = Inr (n, d')"
      using upsert_history_Inr by blast
    let ?w = "w\<lparr>w_now_ix := Suc (w_now_ix w), w_stmt_ix := Suc (w_stmt_ix w), w_db := d'\<rparr>"
    have step: "exec (flush_loop (kv # bs)) w = exec (flush_loop bs) ?w"
      using run_UpsertHealthHistoryBucket [OF Cons.prems(1) up] by (simp add: exec_def run_simps)
    have "healthy_driver ?w" "db_ok (w_db ?w)"
      using Cons.prems upsert_history_ok [OF Cons.prems(2) up] by simp_all
    note IH = Cons.IH [OF this]
    have "total_count h k ?w = total_count h k w + drained_count h k [kv]"
      using db_count_upsert [OF Cons.prems(2) up, of "if h then hb_SuccessCount else hb_FailureCount" k]
      by (cases kv) (auto simp: total_count_def drained_count_def history_bucket_def)
    with IH show ?case unfolding step by (simp add: drained_count_def)
  qed
  then show "total_count h k (exec (flush_loop bs) w) = total_count h k w + drained_count h k bs"
    "healthy_driver (exec (flush_loop bs) w)" "db_ok (w_db (exec (flush_loop bs) w))"
    "ag_buckets (exec (flush_loop bs) w) = ag_buckets w" "w_now (exec (flush_loop bs) w) = w_now w" by blast+
qed

lemma drained_count_mem:
  "keys_distinct bs \<Longrightarrow> drained_count h k bs = mem_count (if h then bd_successCount else bd_failureCount) k bs"
proof (induction bs)
  case (Cons kv bs)
  obtain k' v where kv: "kv = (k', v)" by (cases kv)
  show ?case
  proof (cases "k' = k")
    case True
    with Cons.prems kv have "map_of bs k = None" by (auto simp: keys_distinct_def map_of_eq_None_iff)
    with True kv Cons show ?thesis by (simp add: drained_count_def mem_count_def keys_distinct_def)
  next
    case False
    with kv Cons show ?thesis by (simp add: drained_count_def mem_count_def keys_distinct_def)
  qed
qed (simp add: drained_count_def mem_count_def)

lemma drained_count_perm: "mset bs = mset bs' \<Longrightarrow> drained_count h k bs = drained_count h k bs'"
  unfolding drained_count_def sum_mset_sum_list [symmetric] mset_map by simp

subsection \<open>Runs of the aggregator\<close>

datatype agg_event = Probe string bool | Selection string | Flush

primrec agg_step :: "(buckets \<Rightarrow> buckets) \<Rightarrow> agg_event \<Rightarrow> ('z agg_world_scheme, unit) state" where
  "agg_step ord (Probe i h) = RecordProbe i h"
| "agg_step ord (Selection i) = RecordSelection i"
| "agg_step ord Flush = flush ord"

text \<open>A run, and the probes it records: backend, bucket of the clock at that moment, outcome.\<close>

primrec agg_run :: "(buckets \<Rightarrow> buckets) \<Rightarrow> agg_event list \<Rightarrow> 'z agg_world_scheme \<Rightarrow> (bucketKey \<times> bool) list \<times> 'z agg_world_scheme" where
  "agg_run ord [] w = ([], w)"
| "agg_run ord (e # es) w =
     (case agg_run ord es (exec (agg_step ord e) w) of
        (log, w') \<Rightarrow> ((case e of Probe i h \<Rightarrow> [((i, bucketFloor (w_now w (w_now_ix w))), h)] | _ \<Rightarrow> []) @ log, w'))"

definition agg_ok :: "'z agg_world_scheme \<Rightarrow> bool" where
  "agg_ok w = (healthy_driver w \<and> db_ok (w_db w) \<and> keys_distinct (ag_buckets w))"

lemma exec_RecordProbe:
  "exec (RecordProbe i h) w = w\<lparr>w_now_ix := Suc (w_now_ix w),
     ag_buckets := modify_bucket (i, bucketFloor (w_now w (w_now_ix w))) (count_probe h)
       (getOrCreateBucket (i, bucketFloor (w_now w (w_now_ix w))) (ag_buckets w))\<rparr>"
  by (simp add: exec_def RecordProbe_def run_simps set_buckets_def Let_def)

lemma exec_RecordSelection:
  "exec (RecordSelection i) w = w\<lparr>w_now_ix := Suc (w_now_ix w),
     ag_buckets := modify_bucket (i, bucketFloor (w_now w (w_now_ix w))) (\<lambda>b. b\<lparr>bd_selected := True\<rparr>)
       (getOrCreateBucket (i, bucketFloor (w_now w (w_now_ix w))) (ag_buckets w))\<rparr>"
  by (simp add: exec_def RecordSelection_def run_simps set_buckets_def Let_def)

lemma agg_ok_updates [simp]:
  "agg_ok (w\<lparr>w_now_ix := n, ag_buckets := bs\<rparr>) = (healthy_driver w \<and> db_ok (w_db w) \<and> keys_distinct bs)"
  by (simp add: agg_ok_def healthy_driver_def)

lemma RecordProbe_count:
  assumes "agg_ok w"
  shows "agg_ok (exec (RecordProbe i h) w)"
    and "total_count h' k (exec (RecordProbe i h) w) =
      total_count h' k w + (if k = (i, bucketFloor (w_now w (w_now_ix w))) \<and> h' = h then 1 else 0)"
  using assms
  by (auto simp: exec_RecordProbe agg_ok_def healthy_driver_def keys_getOrCreate total_count_def mem_count_def map_of_modify
      map_of_getOrCreate count_probe_def new_bucketData_def split: option.splits)

lemma RecordSelection_count:
  assumes "agg_ok w"
  shows "agg_ok (exec (RecordSelection i) w)"
    and "total_count h' k (exec (RecordSelection i) w) = total_count h' k w"
  using assms
  by (auto simp: exec_RecordSelection agg_ok_def healthy_driver_def keys_getOrCreate total_count_def mem_count_def map_of_modify
      map_of_getOrCreate new_bucketData_def split: option.splits)

lemma flush_count:
  assumes "agg_ok w" "\<And>bs. mset (ord bs) = mset bs"
  shows "agg_ok (exec (flush ord) w)" and "total_count h k (exec (flush ord) w) = total_count h k w"
proof -
  let ?cur = "bucketFloor (w_now w (w_now_ix w))"
  let ?out = "filter (\<lambda>(k, v). snd k \<noteq> ?cur) (ag_buckets w)"
  let ?in = "filter (\<lambda>(k, v). snd k = ?cur) (ag_buckets w)"
  let ?w = "w\<lparr>w_now_ix := Suc (w_now_ix w), ag_buckets := ?in\<rparr>"
  have run: "exec (flush ord) w = exec (flush_loop (ord ?out)) ?w"
    by (simp add: exec_def flush_def drain_def run_simps)
  have ok: "healthy_driver ?w" "db_ok (w_db ?w)" "keys_distinct ?out" "keys_distinct ?in"
    using assms(1) by (simp_all add: agg_ok_def healthy_driver_def keys_filter)
  note loop = flush_loop_count [OF ok(1,2)]
  show "agg_ok (exec (flush ord) w)"
    using loop ok unfolding run by (simp add: agg_ok_def)
  have "drained_count h k (ord ?out) = mem_count (if h then bd_successCount else bd_failureCount) k ?out"
    using drained_count_mem [OF ok(3)] drained_count_perm [OF assms(2)] by simp
  then show "total_count h k (exec (flush ord) w) = total_count h k w"
    using loop(1) [of h k "ord ?out"] unfolding run
    by (simp add: total_count_def mem_count_def map_of_filter_key)
qed

text \<open>
  C20: No probe is lost or counted twice: over any run of recordings, selections and flushes on a
  driver that does not fail, whatever order the flushes visit the map in, the count of a backend's
  bucket in the history table plus the count still in memory grows by exactly the number of probes
  recorded for that backend while the clock was in that bucket, successes and failures apart.
\<close>

theorem aggregator_conserves_probes:
  assumes "agg_ok w" "\<And>bs. mset (ord bs) = mset bs" "agg_run ord es w = (log, w')"
  shows "total_count h k w' = total_count h k w + int (length (filter (\<lambda>p. p = (k, h)) log))"
proof -
  have "agg_ok w' \<and> total_count h k w' = total_count h k w + int (length (filter (\<lambda>p. p = (k, h)) log))"
    using assms(1,3)
  proof (induction es arbitrary: w log)
    case (Cons e es)
    obtain log1 where run: "agg_run ord es (exec (agg_step ord e) w) = (log1, w')"
      using Cons.prems(2) by (auto split: prod.splits)
    have ok: "agg_ok (exec (agg_step ord e) w)"
      using RecordProbe_count(1) RecordSelection_count(1) flush_count(1) [of w ord] Cons.prems(1) assms(2)
      by (cases e) simp_all
    from Cons.IH [OF ok run] Cons.prems run show ?case
      using RecordProbe_count(2) [OF Cons.prems(1)] RecordSelection_count(2) [OF Cons.prems(1)]
        flush_count(2) [OF Cons.prems(1) assms(2)]
      by (cases e) auto
  qed simp
  then show ?thesis by blast
qed

definition ex_agg_world :: agg_world where
  "ex_agg_world = \<lparr>w_db = empty_db, w_now = (\<lambda>n. int n * Minute), w_now_ix = 0, w_uuid = (\<lambda>n. ''u''),
     w_uuid_ix = 0, w_fault = (\<lambda>_. None), w_stmt_ix = 0, ag_buckets = []\<rparr>"

theorem aggregator_conserves_probes_witness:
  "total_count True (''b'', 0) (snd (agg_run rev [Probe ''b'' True, Probe ''b'' False, Probe ''b'' True, Flush] ex_agg_world)) = 2"
proof -
  have "agg_ok ex_agg_world"
    by (simp add: agg_ok_def ex_agg_world_def healthy_driver_def keys_distinct_def db_ok_def keys_ok_def
        refs_ok_def empty_db_def)
  from aggregator_conserves_probes [OF this, of rev "[Probe ''b'' True, Probe ''b'' False, Probe ''b'' True, Flush]"
      _ _ True "(''b'', 0)"]
  show ?thesis
    by (simp add: exec_RecordProbe split: prod.splits)
      (simp add: ex_agg_world_def total_count_def db_count_def mem_count_def empty_db_def bucketFloor_def
        bucketDuration_def time_units)
qed

end
