(* ===== verification/Checker.thy ===== *)
theory Checker
  imports Types
begin

section \<open>Health checkers (internal/health/checker.go, tcp.go, icmp.go)\<close>

text \<open>
  Check requests and results, the checker factory, and the two checkers. The network is a
  parameter: \<open>ne_dial\<close> is the outcome of a TCP dial, \<open>ne_parseIP\<close> and \<open>ne_lookup\<close> are the address
  parser and the resolver, and a socket that was opened delivers the packets of \<open>so_packets\<close>, in
  order, until its deadline or an error. \<open>net.SplitHostPort\<close> and \<open>net.JoinHostPort\<close> are written
  out, because the address that is probed depends on them.
\<close>

record CheckRequest =
  cr_BackendID :: string
  cr_Type :: string
  cr_Target :: string
  cr_Timeout :: duration

record CheckResult =
  re_BackendID :: string
  re_Healthy :: bool
  re_Error :: "err option"
  re_Duration :: duration

text \<open>\<open>NewChecker\<close>: an unknown type yields a checker that always reports unhealthy.\<close>

datatype HealthChecker =
    ICMPChecker string duration
  | TCPChecker string duration
  | unknownChecker string string

definition NewChecker :: "CheckRequest \<Rightarrow> HealthChecker" where
  "NewChecker req =
     (if cr_Type req = ''icmp'' then ICMPChecker (cr_Target req) (cr_Timeout req)
      else if cr_Type req = ''tcp'' then TCPChecker (cr_Target req) (cr_Timeout req)
      else unknownChecker (cr_Target req) (cr_Type req))"

fun Target :: "HealthChecker \<Rightarrow> string" where
  "Target (ICMPChecker target _) = target"
| "Target (TCPChecker target _) = target"
| "Target (unknownChecker target _) = target"

subsection \<open>Host and port (package net)\<close>

definition colon :: char where "colon = CHR '':''"
definition lbracket :: char where "lbracket = CHR ''[''"
definition rbracket :: char where "rbracket = CHR '']''"

text \<open>The text up to the last colon and after it; None when there is no colon.\<close>

fun split_last_colon :: "string \<Rightarrow> (string \<times> string) option" where
  "split_last_colon [] = None"
| "split_last_colon (c # s) =
     (case split_last_colon s of
        Some (h, p) \<Rightarrow> Some (c # h, p)
      | None \<Rightarrow> if c = colon then Some ([], s) else None)"

definition addrErr :: "string \<Rightarrow> string \<Rightarrow> err" where
  "addrErr addr why = Driver (''address '' @ addr @ '': '' @ why)"

definition SplitHostPort :: "string \<Rightarrow> (string \<times> string) result" where
  "SplitHostPort hostport =
     (case split_last_colon hostport of
        None \<Rightarrow> Inl (addrErr hostport ''missing port in address'')
      | Some (before, port) \<Rightarrow>
          if hostport \<noteq> [] \<and> hd hostport = lbracket then
            (if rbracket \<notin> set hostport then Inl (addrErr hostport ''missing ']' in address'')
             else
               let host = takeWhile (\<lambda>c. c \<noteq> rbracket) (tl hostport);
                   rest = tl (dropWhile (\<lambda>c. c \<noteq> rbracket) hostport)
               in if rest = [] then Inl (addrErr hostport ''missing port in address'')
                  else if length host + 2 \<noteq> length before then
                    Inl (addrErr hostport (if hd rest = colon then ''too many colons in address''
                                           else ''missing port in address''))
                  else if lbracket \<in> set (tl hostport) then Inl (addrErr hostport ''unexpected '[' in address'')
                  else if rbracket \<in> set rest then Inl (addrErr hostport ''unexpected ']' in address'')
                  else Inr (host, port))
          else if colon \<in> set before then Inl (addrErr hostport ''too many colons in address'')
          else if lbracket \<in> set hostport then Inl (addrErr hostport ''unexpected '[' in address'')
          else if rbracket \<in> set hostport then Inl (addrErr hostport ''unexpected ']' in address'')
          else Inr (before, port))"

definition JoinHostPort :: "string \<Rightarrow> string \<Rightarrow> string" where
  "JoinHostPort host port =
     (if colon \<in> set host then lbracket # host @ rbracket # colon # port else host @ colon # port)"

subsection \<open>The network\<close>

type_synonym ip = "nat list"

text \<open>The implementations of \<open>net.Addr\<close> that the ICMP code tells apart; the third is any other, by its text.\<close>

datatype net_addr = IPAddr ip | UDPAddr ip | OtherAddr string

text \<open>A packet as \<open>icmp.ParseMessage\<close> sees it, with the address it came from.\<close>

datatype icmp_body = Echo nat nat | OtherBody

datatype packet =
    Malformed
  | Message bool icmp_body net_addr

text \<open>A failed read: a \<open>net.Error\<close> with the answer of its \<open>Timeout\<close> method, or another error.\<close>

datatype read_error = NetError bool err | PlainError err

record socket =
  so_deadline :: "err option"
  so_send :: "net_addr \<Rightarrow> err option"
  so_packets :: "packet list"
  so_end :: read_error

record net_env =
  ne_dial :: "string \<Rightarrow> err option"
  ne_setDeadline :: "err option"
  ne_parseIP :: "string \<Rightarrow> ip option"
  ne_lookup :: "string \<Rightarrow> string list result"
  ne_listen :: "string \<Rightarrow> string \<Rightarrow> socket result"
  ne_ident :: nat
  ne_marshal :: "nat \<Rightarrow> nat \<Rightarrow> err option"

subsection \<open>TCP\<close>

text \<open>The target that is dialled: a target without a port gets port 80.\<close>

definition TCP_Check :: "net_env \<Rightarrow> string \<Rightarrow> bool \<times> err option" where
  "TCP_Check net target0 =
     (let (target, port) =
            (case SplitHostPort target0 of
               Inl _ \<Rightarrow> (JoinHostPort target0 ''80'', ''80'')
             | Inr (h, p) \<Rightarrow> (target0, p))
      in if port = '''' then (False, Some (Errorf (''no port specified for TCP check: '' @ target)))
         else case ne_dial net target of
                Some e \<Rightarrow> (False, Some (Wrap ''TCP connection failed'' e))
              | None \<Rightarrow>
                  (case ne_setDeadline net of
                     Some e \<Rightarrow> (False, Some (Wrap ''failed to set connection deadline'' e))
                   | None \<Rightarrow> (True, None)))"

subsection \<open>ICMP\<close>

definition To4 :: "ip \<Rightarrow> ip option" where
  "To4 a =
     (if length a = 4 then Some a
      else if length a = 16 \<and> take 12 a = replicate 10 0 @ [255, 255] then Some (drop 12 a)
      else None)"

definition ip_Equal :: "ip option \<Rightarrow> ip \<Rightarrow> bool" where
  "ip_Equal p a = (case p of None \<Rightarrow> False | Some b \<Rightarrow> b = a \<or> To4 b = Some a)"

text \<open>\<open>net.IP.String\<close> on the four bytes of an IPv4 address.\<close>

definition ip_String :: "ip \<Rightarrow> string" where
  "ip_String a = drop 1 (concat (map (\<lambda>n. CHR ''.'' # digits n) a))"

definition openICMPConn :: "net_env \<Rightarrow> (socket \<times> string) result" where
  "openICMPConn net =
     (case ne_listen net ''udp4'' '''' of
        Inr conn \<Rightarrow> Inr (conn, ''udp4'')
      | Inl _ \<Rightarrow>
          (case ne_listen net ''ip4:icmp'' ''0.0.0.0'' of
             Inl e \<Rightarrow> Inl e
           | Inr conn \<Rightarrow> Inr (conn, ''ip4:icmp'')))"

definition writeAddr :: "string \<Rightarrow> ip \<Rightarrow> net_addr" where
  "writeAddr network addr = (if network = ''udp4'' then UDPAddr addr else IPAddr addr)"

text \<open>The host of another address is empty when it does not split, and \<open>net.ParseIP\<close> may refuse it.\<close>

fun peerToIP :: "(string \<Rightarrow> ip option) \<Rightarrow> net_addr \<Rightarrow> ip option" where
  "peerToIP parseIP (IPAddr a) = Some a"
| "peerToIP parseIP (UDPAddr a) = Some a"
| "peerToIP parseIP (OtherAddr text) = parseIP (case SplitHostPort text of Inl _ \<Rightarrow> '''' | Inr (host, _) \<Rightarrow> host)"

fun isNetTimeout :: "read_error option \<Rightarrow> bool" where
  "isNetTimeout None = False"
| "isNetTimeout (Some (NetError t _)) = t"
| "isNetTimeout (Some (PlainError _)) = False"

fun read_err :: "read_error \<Rightarrow> err" where
  "read_err (NetError _ e) = e"
| "read_err (PlainError e) = e"

text \<open>The read loop: packets that are not the awaited reply are skipped.\<close>

fun read_loop :: "(string \<Rightarrow> ip option) \<Rightarrow> string \<Rightarrow> nat \<Rightarrow> nat \<Rightarrow> ip \<Rightarrow> packet list \<Rightarrow> read_error \<Rightarrow> bool \<times> err option" where
  "read_loop parseIP network ident seq addr [] e =
     (if isNetTimeout (Some e) then (False, None) else (False, Some (Wrap ''read ICMP'' (read_err e))))"
| "read_loop parseIP network ident seq addr (Malformed # ps) fin = read_loop parseIP network ident seq addr ps fin"
| "read_loop parseIP network ident seq addr (Message reply body peer # ps) fin =
     (if \<not> reply then read_loop parseIP network ident seq addr ps fin
      else case body of
             OtherBody \<Rightarrow> read_loop parseIP network ident seq addr ps fin
           | Echo eid eseq \<Rightarrow>
               if network = ''udp4''
               then if eseq = seq then (True, None) else read_loop parseIP network ident seq addr ps fin
               else if eid = ident \<and> eseq = seq \<and> ip_Equal (peerToIP parseIP peer) addr then (True, None)
               else read_loop parseIP network ident seq addr ps fin)"

definition ICMP_resolve :: "net_env \<Rightarrow> string \<Rightarrow> ip result" where
  "ICMP_resolve net target =
     (let host = (case SplitHostPort target of Inr (h, _) \<Rightarrow> h | Inl _ \<Rightarrow> target);
          resolved = (case ne_parseIP net host of
                        Some a \<Rightarrow> Inr (Some a)
                      | None \<Rightarrow>
                          (case ne_lookup net host of
                             Inl e \<Rightarrow> Inl (Wrap (''failed to resolve '' @ host) e)
                           | Inr [] \<Rightarrow> Inl (Errorf (''failed to resolve '' @ host @ '': %!w(<nil>)''))
                           | Inr (a # _) \<Rightarrow> Inr (ne_parseIP net a)))
      in case resolved of
           Inl e \<Rightarrow> Inl e
         | Inr a \<Rightarrow>
             (case Option.bind a To4 of
                None \<Rightarrow> Inl (Errorf (''only IPv4 targets are supported, got '' @ host))
              | Some addr \<Rightarrow> Inr addr))"

definition ICMP_Check :: "net_env \<Rightarrow> string \<Rightarrow> bool \<times> err option" where
  "ICMP_Check net target =
     (case ICMP_resolve net target of
        Inl e \<Rightarrow> (False, Some e)
      | Inr addr \<Rightarrow>
          (case openICMPConn net of
             Inl e \<Rightarrow> (False, Some (Wrap ''failed to open ICMP socket'' e))
           | Inr (conn, network) \<Rightarrow>
               (case so_deadline conn of
                  Some e \<Rightarrow> (False, Some (Wrap ''set deadline'' e))
                | None \<Rightarrow>
                    (case ne_marshal net (ne_ident net) 1 of
                       Some e \<Rightarrow> (False, Some (Wrap ''marshal ICMP'' e))
                     | None \<Rightarrow>
                         (case so_send conn (writeAddr network addr) of
                            Some e \<Rightarrow> (False, Some (Wrap (''send ICMP echo to '' @ ip_String addr) e))
                          | None \<Rightarrow> read_loop (ne_parseIP net) network (ne_ident net) 1 addr (so_packets conn) (so_end conn))))))"

fun Check :: "net_env \<Rightarrow> HealthChecker \<Rightarrow> bool \<times> err option" where
  "Check net (ICMPChecker target _) = ICMP_Check net target"
| "Check net (TCPChecker target _) = TCP_Check net target"
| "Check net (unknownChecker _ _) = (False, None)"

subsection \<open>What the checkers report\<close>

lemma TCP_Check_healthy: "TCP_Check net t = (h, e) \<Longrightarrow> h \<longleftrightarrow> e = None"
  by (auto simp: TCP_Check_def Let_def split: sum.splits option.splits if_splits prod.splits)

lemma read_loop_healthy:
  "fst (read_loop parseIP network ident seq addr ps fin) \<longleftrightarrow>
   (\<exists>eid eseq peer. Message True (Echo eid eseq) peer \<in> set ps \<and> eseq = seq \<and>
      (network = ''udp4'' \<or> eid = ident \<and> ip_Equal (peerToIP parseIP peer) addr))"
proof (induction parseIP network ident seq addr ps fin rule: read_loop.induct)
  case (3 parseIP network ident seq addr reply body peer ps fin)
  then show ?case by (cases body) auto
qed auto

text \<open>
  C29: An ICMP check reports healthy exactly when the target resolves to an IPv4 address, a socket
  opens and the request goes out, and before the deadline an echo reply with this check's sequence
  number arrives, which on a raw socket must also carry this check's identifier and come from that
  address; no other packet, in whatever order, makes a backend healthy or unhealthy.
\<close>

theorem ICMP_Check_exact:
  "fst (ICMP_Check net target) \<longleftrightarrow>
   (\<exists>addr conn network. ICMP_resolve net target = Inr addr \<and> openICMPConn net = Inr (conn, network) \<and>
      so_deadline conn = None \<and> ne_marshal net (ne_ident net) 1 = None \<and> so_send conn (writeAddr network addr) = None \<and>
      (\<exists>eid peer. Message True (Echo eid 1) peer \<in> set (so_packets conn) \<and>
         (network = ''udp4'' \<or> eid = ne_ident net \<and> ip_Equal (peerToIP (ne_parseIP net) peer) addr)))"
  by (auto simp: ICMP_Check_def read_loop_healthy split: sum.split option.split)

lemma Check_healthy_no_error: "Check net c = (True, e) \<Longrightarrow> e = None"
proof (cases c)
  case (ICMPChecker t d)
  have "\<And>parseIP network ident seq addr ps fin e. read_loop parseIP network ident seq addr ps fin = (True, e) \<Longrightarrow> e = None"
    subgoal for parseIP network ident seq addr ps fin e
      by (induction parseIP network ident seq addr ps fin rule: read_loop.induct) (auto split: if_splits icmp_body.splits)
    done
  with ICMPChecker show "Check net c = (True, e) \<Longrightarrow> e = None"
    by (auto simp: ICMP_Check_def split: sum.splits option.splits prod.splits)
qed (use TCP_Check_healthy in auto)

lemma split_last_colon_None: "split_last_colon s = None \<longleftrightarrow> colon \<notin> set s"
  by (induction s) (auto split: option.splits prod.splits)

lemma split_last_colon_append: "colon \<notin> set p \<Longrightarrow> split_last_colon (h @ colon # p) = Some (h, p)"
  by (induction h) (simp_all add: split_last_colon_None [THEN iffD2])

definition plain_host :: "string \<Rightarrow> bool" where
  "plain_host h = (colon \<notin> set h \<and> lbracket \<notin> set h \<and> rbracket \<notin> set h)"

lemma bracket_neq [simp]: "colon \<noteq> lbracket" "colon \<noteq> rbracket" "lbracket \<noteq> rbracket"
  "lbracket \<noteq> colon" "rbracket \<noteq> colon" "rbracket \<noteq> lbracket"
  by (simp_all add: colon_def lbracket_def rbracket_def)

lemma not_digit: "\<not> is_digit colon" "\<not> is_digit lbracket" "\<not> is_digit rbracket"
  by (simp_all add: is_digit_def colon_def lbracket_def rbracket_def)

lemma plain_fmt_d: "0 < p \<Longrightarrow> plain_host (fmt_d p)"
  using not_digit digits_digit by (auto simp: plain_host_def fmt_d_def)

text \<open>On a plain host name or IPv4 address splitting inverts joining.\<close>

lemma SplitHostPort_JoinHostPort:
  assumes "plain_host h" "plain_host p"
  shows "SplitHostPort (JoinHostPort h p) = Inr (h, p)"
proof -
  have "split_last_colon (h @ colon # p) = Some (h, p)"
    using assms by (intro split_last_colon_append) (simp add: plain_host_def)
  with assms show ?thesis
    by (cases h) (auto simp: SplitHostPort_def JoinHostPort_def plain_host_def split: option.splits)
qed

lemma SplitHostPort_too_many:
  assumes "colon \<in> set h" "colon \<notin> set p" "hd h \<noteq> lbracket"
  shows "SplitHostPort (h @ colon # p) = Inl (addrErr (h @ colon # p) ''too many colons in address'')"
  using assms by (auto simp: SplitHostPort_def split_last_colon_append hd_append)

end
