(* ===== verification/Engine.thy ===== *)
theory Engine
  imports Checker
begin

section \<open>The health-check engine (internal/health/engine.go)\<close>

text \<open>
  The worker pool as a step relation over interleavings: an unbuffered request channel, on which a
  submitter blocks until an idle worker takes its request, workers that execute a check and then
  wait to send its result, and a result channel of capacity \<open>10 * workerCount\<close>. A result is
  discarded when the engine shuts down or when the channel stays full for 100 ms; the timer is a
  step that may always fire. Each step carries an event, so a run leaves the list of what happened.
\<close>

datatype worker = Idle | Busy CheckRequest | Sending CheckResult | Exited

record Engine =
  en_workerCount :: nat
  en_running :: bool
  en_ctxDone :: bool
  en_workers :: "worker list"
  en_blocked :: "CheckRequest list"
  en_resultChan :: "CheckResult list"

definition NewEngine :: "int \<Rightarrow> Engine" where
  "NewEngine workerCount =
     \<lparr>en_workerCount = (if workerCount \<le> 0 then 4 else nat workerCount), en_running = False,
      en_ctxDone = False, en_workers = [], en_blocked = [], en_resultChan = []\<rparr>"

definition resultCap :: "Engine \<Rightarrow> nat" where
  "resultCap e = en_workerCount e * 10"

definition Engine_Start :: "Engine \<Rightarrow> Engine" where
  "Engine_Start e =
     (if en_running e then e
      else e\<lparr>en_running := True, en_workers := en_workers e @ replicate (en_workerCount e) Idle\<rparr>)"

text \<open>\<open>Stop\<close> up to \<open>e.wg.Wait()\<close>, which returns once every worker has exited.\<close>

definition Engine_Stop :: "Engine \<Rightarrow> Engine" where
  "Engine_Stop e = (if \<not> en_running e then e else e\<lparr>en_running := False, en_ctxDone := True\<rparr>)"

definition stop_returns :: "Engine \<Rightarrow> bool" where
  "stop_returns e = list_all (\<lambda>w. w = Exited) (en_workers e)"

text \<open>\<open>cancelled\<close> says which branch of Submit's select fired; \<open>ctx.Done()\<close> can only after Stop.\<close>

definition Submit :: "bool \<Rightarrow> Engine \<Rightarrow> CheckRequest \<Rightarrow> unit result" where
  "Submit cancelled e req =
     (if \<not> en_running e then Inl (Errorf ''engine is not running'')
      else if cancelled then Inl (Errorf ''engine is shutting down'')
      else Inr ())"

definition executeCheck :: "net_env \<Rightarrow> duration \<Rightarrow> CheckRequest \<Rightarrow> CheckResult" where
  "executeCheck net elapsed req =
     (case Check net (NewChecker req) of
        (healthy, e) \<Rightarrow> \<lparr>re_BackendID = cr_BackendID req, re_Healthy = healthy, re_Error = e, re_Duration = elapsed\<rparr>)"

datatype engine_event =
    Ev_Start
  | Ev_Stop
  | Ev_Submit CheckRequest
  | Ev_Refused CheckRequest
  | Ev_Cancelled CheckRequest
  | Ev_Accept CheckRequest
  | Ev_Checked CheckResult
  | Ev_Send CheckResult
  | Ev_Discard CheckResult
  | Ev_Receive CheckResult
  | Ev_Exit

inductive engine_step :: "Engine \<Rightarrow> engine_event \<Rightarrow> Engine \<Rightarrow> bool" where
  start: "engine_step e Ev_Start (Engine_Start e)"
| stop: "engine_step e Ev_Stop (Engine_Stop e)"
| refused: "Submit False e req = Inl m \<Longrightarrow> engine_step e (Ev_Refused req) e"
| submit: "Submit False e req = Inr () \<Longrightarrow>
    engine_step e (Ev_Submit req) (e\<lparr>en_blocked := en_blocked e @ [req]\<rparr>)"
| cancelled: "en_ctxDone e \<Longrightarrow> req \<in> set (en_blocked e) \<Longrightarrow>
    engine_step e (Ev_Cancelled req) (e\<lparr>en_blocked := remove1 req (en_blocked e)\<rparr>)"
| accept: "i < length (en_workers e) \<Longrightarrow> en_workers e ! i = Idle \<Longrightarrow> req \<in> set (en_blocked e) \<Longrightarrow>
    engine_step e (Ev_Accept req)
      (e\<lparr>en_blocked := remove1 req (en_blocked e), en_workers := (en_workers e)[i := Busy req]\<rparr>)"
| checked: "i < length (en_workers e) \<Longrightarrow> en_workers e ! i = Busy req \<Longrightarrow> res = executeCheck net elapsed req \<Longrightarrow>
    engine_step e (Ev_Checked res) (e\<lparr>en_workers := (en_workers e)[i := Sending res]\<rparr>)"
| send: "i < length (en_workers e) \<Longrightarrow> en_workers e ! i = Sending res \<Longrightarrow> length (en_resultChan e) < resultCap e \<Longrightarrow>
    engine_step e (Ev_Send res)
      (e\<lparr>en_workers := (en_workers e)[i := Idle], en_resultChan := en_resultChan e @ [res]\<rparr>)"
| discard: "i < length (en_workers e) \<Longrightarrow> en_workers e ! i = Sending res \<Longrightarrow>
    engine_step e (Ev_Discard res) (e\<lparr>en_workers := (en_workers e)[i := Idle]\<rparr>)"
| receive: "en_resultChan e = res # rest \<Longrightarrow> engine_step e (Ev_Receive res) (e\<lparr>en_resultChan := rest\<rparr>)"
| exit: "i < length (en_workers e) \<Longrightarrow> en_workers e ! i = Idle \<Longrightarrow> en_ctxDone e \<Longrightarrow>
    engine_step e Ev_Exit (e\<lparr>en_workers := (en_workers e)[i := Exited]\<rparr>)"

inductive_cases engine_stepE: "engine_step e ev e'"

inductive engine_run :: "Engine \<Rightarrow> engine_event list \<Rightarrow> Engine \<Rightarrow> bool" where
  run_nil: "engine_run e [] e"
| run_snoc: "engine_run e evs e' \<Longrightarrow> engine_step e' ev e'' \<Longrightarrow> engine_run e (evs @ [ev]) e''"

inductive_simps engine_run_Nil [simp]: "engine_run e [] e'"

subsection \<open>Where a request is\<close>

text \<open>The requests accepted in a run, and the results that left the engine.\<close>

definition accepted :: "engine_event list \<Rightarrow> string multiset" where
  "accepted evs = mset (concat (map (\<lambda>ev. case ev of Ev_Accept req \<Rightarrow> [cr_BackendID req] | _ \<Rightarrow> []) evs))"

definition delivered :: "engine_event list \<Rightarrow> string multiset" where
  "delivered evs = mset (concat (map (\<lambda>ev. case ev of Ev_Receive res \<Rightarrow> [re_BackendID res] | _ \<Rightarrow> []) evs))"

definition discarded :: "engine_event list \<Rightarrow> string multiset" where
  "discarded evs = mset (concat (map (\<lambda>ev. case ev of Ev_Discard res \<Rightarrow> [re_BackendID res] | _ \<Rightarrow> []) evs))"

fun held :: "worker \<Rightarrow> string multiset" where
  "held Idle = {#}"
| "held (Busy req) = {#cr_BackendID req#}"
| "held (Sending res) = {#re_BackendID res#}"
| "held Exited = {#}"

definition in_flight :: "Engine \<Rightarrow> string multiset" where
  "in_flight e = \<Sum>\<^sub># (mset (map held (en_workers e))) + mset (map re_BackendID (en_resultChan e))"

lemma log_snoc [simp]:
  "accepted (evs @ [ev]) = accepted evs + (case ev of Ev_Accept req \<Rightarrow> {#cr_BackendID req#} | _ \<Rightarrow> {#})"
  "delivered (evs @ [ev]) = delivered evs + (case ev of Ev_Receive res \<Rightarrow> {#re_BackendID res#} | _ \<Rightarrow> {#})"
  "discarded (evs @ [ev]) = discarded evs + (case ev of Ev_Discard res \<Rightarrow> {#re_BackendID res#} | _ \<Rightarrow> {#})"
  by (simp_all add: accepted_def delivered_def discarded_def split: engine_event.splits)

lemma log_Nil [simp]: "accepted [] = {#}" "delivered [] = {#}" "discarded [] = {#}"
  by (simp_all add: accepted_def delivered_def discarded_def)

lemma sum_update:
  "i < length ws \<Longrightarrow>
   \<Sum>\<^sub># (mset (map f (ws[i := x]))) + f (ws ! i) = \<Sum>\<^sub># (mset (map f ws)) + (f x :: 'b multiset)"
proof (induction ws arbitrary: i)
  case (Cons w ws)
  show ?case
  proof (cases i)
    case (Suc j)
    with Cons.IH [of j] Cons.prems show ?thesis by (simp add: ac_simps)
  qed (simp add: ac_simps)
qed simp

lemma held_move:
  "i < length ws \<Longrightarrow> ws ! i = w \<Longrightarrow> held w = {#} \<Longrightarrow>
   \<Sum>\<^sub># (image_mset held (mset (ws[i := x]))) = \<Sum>\<^sub># (image_mset held (mset ws)) + held x"
  "i < length ws \<Longrightarrow> ws ! i = w \<Longrightarrow> held x = held w \<Longrightarrow>
   \<Sum>\<^sub># (image_mset held (mset (ws[i := x]))) = \<Sum>\<^sub># (image_mset held (mset ws))"
  "i < length ws \<Longrightarrow> ws ! i = w \<Longrightarrow> held x = {#} \<Longrightarrow>
   \<Sum>\<^sub># (image_mset held (mset ws)) = \<Sum>\<^sub># (image_mset held (mset (ws[i := x]))) + held w"
  using sum_update [of i ws held x] unfolding mset_map by auto

lemma held_idle [simp]: "\<Sum>\<^sub># (mset (map held (replicate n Idle))) = {#}"
  by (induction n) auto

lemma executeCheck_backend [simp]: "re_BackendID (executeCheck net t req) = cr_BackendID req"
  by (simp add: executeCheck_def split: prod.splits)

text \<open>What every step keeps: the channel's bound, the size of the pool, and the account.\<close>

definition engine_inv :: "engine_event list \<Rightarrow> Engine \<Rightarrow> bool" where
  "engine_inv evs e =
     (length (en_resultChan e) \<le> resultCap e \<and>
      accepted evs = delivered evs + discarded evs + in_flight e)"

lemma engine_step_inv:
  assumes "engine_step e ev e'" "engine_inv evs e"
  shows "engine_inv (evs @ [ev]) e'"
  using assms
proof (cases rule: engine_step.cases)
  case (accept i req)
  with assms(2) show ?thesis
    by (simp add: engine_inv_def in_flight_def resultCap_def held_move(1))
next
  case (checked i req res net elapsed)
  with assms(2) show ?thesis
    by (simp add: engine_inv_def in_flight_def resultCap_def held_move(2))
next
  case (send i res)
  with assms(2) held_move(3) [of i "en_workers e" "Sending res" Idle] show ?thesis
    by (simp add: engine_inv_def in_flight_def resultCap_def)
next
  case (discard i res)
  with assms(2) held_move(3) [of i "en_workers e" "Sending res" Idle] show ?thesis
    by (simp add: engine_inv_def in_flight_def resultCap_def)
next
  case (exit i)
  with assms(2) show ?thesis
    by (simp add: engine_inv_def in_flight_def resultCap_def held_move(2))
qed (auto simp: engine_inv_def in_flight_def resultCap_def Engine_Start_def Engine_Stop_def)

lemma engine_run_inv: "engine_run (NewEngine n) evs e \<Longrightarrow> engine_inv evs e"
proof (induction "NewEngine n" evs e rule: engine_run.induct)
  case run_nil
  show ?case by (simp add: engine_inv_def NewEngine_def in_flight_def)
next
  case (run_snoc evs e' ev e'')
  then show ?case using engine_step_inv by blast
qed

text \<open>
  C6: In every interleaving of submitters, workers, shutdown and readers, each accepted request is
  accounted for exactly once: its result was delivered, was discarded, or is still in flight in a
  worker or in the result channel; and the channel never exceeds its capacity.
\<close>

theorem engine_accounts_for_requests:
  "engine_run (NewEngine n) evs e \<Longrightarrow>
   accepted evs = delivered evs + discarded evs + in_flight e \<and> length (en_resultChan e) \<le> resultCap e"
  using engine_run_inv unfolding engine_inv_def by blast

definition ex_request :: CheckRequest where
  "ex_request = \<lparr>cr_BackendID = ''b'', cr_Type = ''http'', cr_Target = ''10.0.0.1'', cr_Timeout = Second\<rparr>"

definition ex_running :: Engine where
  "ex_running = (NewEngine 1)\<lparr>en_running := True, en_workers := [Busy ex_request]\<rparr>"

lemma ex_engine_run:
  "engine_run (NewEngine 1) [Ev_Start, Ev_Submit ex_request, Ev_Accept ex_request] ex_running"
proof -
  let ?e1 = "Engine_Start (NewEngine 1)"
  let ?e2 = "?e1\<lparr>en_blocked := en_blocked ?e1 @ [ex_request]\<rparr>"
  have "engine_run (NewEngine 1) [Ev_Start] ?e1"
    using engine_run.run_snoc [OF engine_run.run_nil engine_step.start] by simp
  moreover have "engine_step ?e1 (Ev_Submit ex_request) ?e2"
    by (rule engine_step.submit) (simp add: Submit_def Engine_Start_def NewEngine_def)
  ultimately have "engine_run (NewEngine 1) [Ev_Start, Ev_Submit ex_request] ?e2"
    using engine_run.run_snoc by fastforce
  moreover have "engine_step ?e2 (Ev_Accept ex_request)
      (?e2\<lparr>en_blocked := remove1 ex_request (en_blocked ?e2), en_workers := (en_workers ?e2)[0 := Busy ex_request]\<rparr>)"
    by (rule engine_step.accept) (simp_all add: Engine_Start_def NewEngine_def)
  ultimately have "engine_run (NewEngine 1) ([Ev_Start, Ev_Submit ex_request] @ [Ev_Accept ex_request])
      (?e2\<lparr>en_blocked := remove1 ex_request (en_blocked ?e2), en_workers := (en_workers ?e2)[0 := Busy ex_request]\<rparr>)"
    by (rule engine_run.run_snoc)
  then show ?thesis by (simp add: ex_running_def Engine_Start_def NewEngine_def)
qed

theorem engine_accounts_for_requests_witness:
  "accepted [Ev_Start, Ev_Submit ex_request, Ev_Accept ex_request] = {#''b''#} \<and> in_flight ex_running = {#''b''#}"
  using engine_accounts_for_requests [OF ex_engine_run]
  by (simp add: accepted_def delivered_def discarded_def ex_request_def ex_running_def in_flight_def NewEngine_def)

subsection \<open>Stop returns\<close>

text \<open>
  Once the context is cancelled and no new request is let in, each worker can take only boundedly
  many steps. \<open>todo\<close> is the number of steps a worker has left before it exits, and a submitter that
  still blocks can send a worker through one more check.
\<close>

fun todo :: "worker \<Rightarrow> nat" where
  "todo Idle = 1"
| "todo (Busy req) = 3"
| "todo (Sending res) = 2"
| "todo Exited = 0"

definition drain_bound :: "Engine \<Rightarrow> nat" where
  "drain_bound e = sum_list (map todo (en_workers e)) + 3 * length (en_blocked e)"

fun worker_event :: "engine_event \<Rightarrow> bool" where
  "worker_event (Ev_Accept req) = True"
| "worker_event (Ev_Checked res) = True"
| "worker_event (Ev_Send res) = True"
| "worker_event (Ev_Discard res) = True"
| "worker_event Ev_Exit = True"
| "worker_event ev = False"

lemma todo_update:
  "i < length ws \<Longrightarrow> sum_list (map todo (ws[i := x])) + todo (ws ! i) = sum_list (map todo ws) + todo x"
proof (induction ws arbitrary: i)
  case (Cons w ws)
  then show ?case by (cases i) force+
qed simp

definition draining :: "Engine \<Rightarrow> bool" where
  "draining e = (\<not> en_running e \<and> en_ctxDone e)"

lemma draining_step:
  assumes "engine_step e ev e'" "draining e" "ev \<noteq> Ev_Start"
  shows "draining e' \<and> drain_bound e' + (if worker_event ev then 1 else 0) \<le> drain_bound e"
  using assms
proof (cases rule: engine_step.cases)
  case (accept i req)
  then have "length (en_blocked e) = Suc (length (remove1 req (en_blocked e)))"
    by (simp add: length_remove1 Suc_pred [symmetric] del: Suc_pred, cases "en_blocked e") auto
  with accept assms(2) todo_update [of i "en_workers e" "Busy req"] show ?thesis
    by (simp add: drain_bound_def draining_def)
next
  case (checked i req res net elapsed)
  with assms(2) todo_update [of i "en_workers e" "Sending res"] show ?thesis
    by (simp add: drain_bound_def draining_def)
next
  case (send i res)
  with assms(2) todo_update [of i "en_workers e" Idle] show ?thesis
    by (simp add: drain_bound_def draining_def)
next
  case (discard i res)
  with assms(2) todo_update [of i "en_workers e" Idle] show ?thesis
    by (simp add: drain_bound_def draining_def)
next
  case (exit i)
  with assms(2) todo_update [of i "en_workers e" Exited] show ?thesis
    by (simp add: drain_bound_def draining_def)
qed (auto simp: drain_bound_def draining_def Engine_Stop_def Submit_def length_remove1)

lemma draining_run:
  "engine_run e evs e' \<Longrightarrow> draining e \<Longrightarrow> Ev_Start \<notin> set evs \<Longrightarrow>
   draining e' \<and> drain_bound e' + length (filter worker_event evs) \<le> drain_bound e"
proof (induction rule: engine_run.induct)
  case (run_snoc e evs e' ev e'')
  then have "draining e'" "ev \<noteq> Ev_Start" by auto
  from draining_step [OF run_snoc.hyps(2) this] run_snoc show ?case by (cases "worker_event ev") auto
qed simp

text \<open>A worker that has not exited can always take a step: a check has a deadline of its own.\<close>

lemma draining_progress:
  assumes "draining e" "\<not> stop_returns e"
  shows "\<exists>ev e'. worker_event ev \<and> engine_step e ev e'"
proof -
  from assms(2) obtain i where i: "i < length (en_workers e)" "en_workers e ! i \<noteq> Exited"
    by (auto simp: stop_returns_def list_all_length)
  show ?thesis
  proof (cases "en_workers e ! i")
    case Idle
    with i assms(1) show ?thesis using engine_step.exit worker_event.simps(5) by (metis draining_def)
  next
    case (Busy req)
    with i show ?thesis using engine_step.checked worker_event.simps(2) by metis
  next
    case (Sending res)
    with i show ?thesis using engine_step.discard worker_event.simps(4) by metis
  qed (use i in simp)
qed

text \<open>
  C7: After Stop has been called on a running engine, the workers take at most \<open>drain_bound\<close> steps,
  whatever submitters and readers do, unless the engine is started again; and until every worker has
  exited some worker can take a step. So Stop returns, without a reader of the result channel.
\<close>

theorem engine_stop_returns:
  assumes "en_running e" "engine_run (Engine_Stop e) evs e'" "Ev_Start \<notin> set evs"
  shows "length (filter worker_event evs) \<le> 3 * (length (en_workers e) + length (en_blocked e)) \<and>
    (stop_returns e' \<or> (\<exists>ev e''. worker_event ev \<and> engine_step e' ev e''))"
proof -
  have draining: "draining (Engine_Stop e)" using assms(1) by (simp add: draining_def Engine_Stop_def)
  have "sum_list (map todo ws) \<le> 3 * length ws" for ws
  proof (induction ws)
    case (Cons w ws)
    then show ?case by (cases w) auto
  qed simp
  then have "drain_bound (Engine_Stop e) \<le> 3 * (length (en_workers e) + length (en_blocked e))"
    by (simp add: drain_bound_def Engine_Stop_def add_mult_distrib2)
  with draining_run [OF assms(2) draining assms(3)] draining_progress [of e'] show ?thesis by fastforce
qed

lemma ex_stopped_run:
  "engine_run (Engine_Stop (Engine_Start (NewEngine 1))) [Ev_Exit]
     ((Engine_Stop (Engine_Start (NewEngine 1)))\<lparr>en_workers := [Exited]\<rparr>)"
  using engine_run.run_snoc [OF engine_run.run_nil
      engine_step.exit [of 0 "Engine_Stop (Engine_Start (NewEngine 1))"]]
  by (simp add: Engine_Start_def NewEngine_def Engine_Stop_def)

theorem engine_stop_returns_witness:
  "length (filter worker_event [Ev_Exit]) \<le> 3 \<and>
   stop_returns ((Engine_Stop (Engine_Start (NewEngine 1)))\<lparr>en_workers := [Exited]\<rparr>)"
  using engine_stop_returns [OF _ ex_stopped_run]
  by (simp add: NewEngine_def Engine_Start_def Engine_Stop_def stop_returns_def)

end
