(* ===== verification/Scheduler.thy ===== *)
theory Scheduler
  imports Aggregator Engine Health_State
begin

section \<open>The health-check scheduler (internal/health/scheduler.go)\<close>

text \<open>
  \<open>scheduleChecks\<close> submits one request per enabled backend of every configuration with a health
  check; \<open>handleResult\<close> turns a result into the backend's stored health state. The world is the
  store, the aggregator's buckets, the engine, and the requests the engine took. Log output is
  left out. The scheduler's own state (running flag and stop channel) is a record of its own.
\<close>

record sched_world = agg_world +
  sw_engine :: Engine
  sw_submitted :: "CheckRequest list"

subsection \<open>Scheduling checks\<close>

definition formatTarget :: "string \<Rightarrow> int option \<Rightarrow> string" where
  "formatTarget ip port =
     (case port of
        Some p \<Rightarrow> if p > 0 then ip @ CHR '':'' # fmt_d p else ip
      | None \<Rightarrow> ip)"

definition check_request :: "HealthCheck \<Rightarrow> Backend \<Rightarrow> CheckRequest" where
  "check_request hc b = \<lparr>cr_BackendID = b_ID b, cr_Type = hc_Type hc,
     cr_Target = formatTarget (b_IP b) (b_Port b), cr_Timeout = hc_TimeoutSeconds hc * Second\<rparr>"

definition engine_Submit :: "CheckRequest \<Rightarrow> ('z sched_world_scheme, unit result) state" where
  "engine_Submit req = State (\<lambda>w.
     case Submit (en_ctxDone (sw_engine w)) (sw_engine w) req of
       Inl e \<Rightarrow> (Inl e, w)
     | Inr u \<Rightarrow> (Inr u, w\<lparr>sw_submitted := sw_submitted w @ [req]\<rparr>))"

primrec backends_loop :: "HealthCheck \<Rightarrow> Backend list \<Rightarrow> ('z sched_world_scheme, unit) state" where
  "backends_loop hc [] = ret ()"
| "backends_loop hc (b # bs) = do {
     (if \<not> b_Enabled b then ret ()
      else do { _ \<leftarrow> engine_Submit (check_request hc b); ret () });
     backends_loop hc bs
   }"

primrec configs_loop :: "Config list \<Rightarrow> ('z sched_world_scheme, unit) state" where
  "configs_loop [] = ret ()"
| "configs_loop (config # configs) = do {
     r \<leftarrow> GetHealthCheck (cfg_ID config);
     (case r of
        Inl _ \<Rightarrow> ret ()
      | Inr hc \<Rightarrow> do {
          rs \<leftarrow> ListBackends (cfg_ID config);
          (case rs of Inl _ \<Rightarrow> ret () | Inr backends \<Rightarrow> backends_loop hc backends)
        });
     configs_loop configs
   }"

definition scheduleChecks :: "('z sched_world_scheme, unit) state" where
  "scheduleChecks = do {
     r \<leftarrow> ListConfigs;
     (case r of Inl _ \<Rightarrow> ret () | Inr configs \<Rightarrow> configs_loop configs)
   }"

subsection \<open>Handling results\<close>

definition determineHealthStatus :: "HealthState \<Rightarrow> int \<Rightarrow> int \<Rightarrow> HealthStatus" where
  "determineHealthStatus state thresholdHealthy thresholdUnhealthy =
     (if hs_ConsecutiveSuccesses state \<ge> thresholdHealthy then StatusHealthy
      else if hs_ConsecutiveFailures state \<ge> thresholdUnhealthy then StatusUnhealthy
      else StatusUnknown)"

definition fresh_state :: "string \<Rightarrow> HealthState" where
  "fresh_state i = \<lparr>hs_BackendID = i, hs_Status = StatusUnknown, hs_ConsecutiveSuccesses = 0,
     hs_ConsecutiveFailures = 0, hs_LastCheckAt = None, hs_LastHealthyAt = None, hs_LastError = ''''\<rparr>"

definition count_result :: "time \<Rightarrow> CheckResult \<Rightarrow> HealthState \<Rightarrow> HealthState" where
  "count_result now result state0 =
     (let state = state0\<lparr>hs_LastCheckAt := Some now\<rparr>
      in case re_Error result of
           Some e \<Rightarrow> state\<lparr>hs_ConsecutiveFailures := hs_ConsecutiveFailures state + 1,
                          hs_ConsecutiveSuccesses := 0, hs_LastError := err_msg e\<rparr>
         | None \<Rightarrow>
             if re_Healthy result
             then state\<lparr>hs_ConsecutiveSuccesses := hs_ConsecutiveSuccesses state + 1,
                        hs_ConsecutiveFailures := 0, hs_LastError := '''', hs_LastHealthyAt := Some now\<rparr>
             else state\<lparr>hs_ConsecutiveFailures := hs_ConsecutiveFailures state + 1,
                        hs_ConsecutiveSuccesses := 0\<rparr>)"

definition lookup_thresholds :: "string \<Rightarrow> ('z world_scheme, int \<times> int) state" where
  "lookup_thresholds backendID = do {
     rb \<leftarrow> GetBackend backendID;
     (case rb of
        Inl _ \<Rightarrow> ret (2, 2)
      | Inr backend \<Rightarrow> do {
          rh \<leftarrow> GetHealthCheck (b_ConfigID backend);
          ret (case rh of
                 Inl _ \<Rightarrow> (2, 2)
               | Inr hc \<Rightarrow> (if hc_ThresholdHealthy hc > 0 then hc_ThresholdHealthy hc else 2,
                             if hc_ThresholdUnhealthy hc > 0 then hc_ThresholdUnhealthy hc else 2))
        })
   }"

text \<open>\<open>attached\<close>: whether an aggregator was set.\<close>

definition handleResult :: "bool \<Rightarrow> CheckResult \<Rightarrow> ('z agg_world_scheme, unit) state" where
  "handleResult attached result = do {
     (if attached then RecordProbe (re_BackendID result) (re_Healthy result \<and> re_Error result = None)
      else ret ());
     r \<leftarrow> GetHealthState (re_BackendID result);
     now \<leftarrow> time_Now;
     let state = count_result now result (case r of Inl _ \<Rightarrow> fresh_state (re_BackendID result) | Inr s \<Rightarrow> s);
     th \<leftarrow> lookup_thresholds (re_BackendID result);
     let state = state\<lparr>hs_Status := determineHealthStatus state (fst th) (snd th)\<rparr>;
     _ \<leftarrow> UpdateHealthState state;
     ret ()
   }"

primrec handle_all :: "bool \<Rightarrow> CheckResult list \<Rightarrow> ('z agg_world_scheme, unit) state" where
  "handle_all attached [] = ret ()"
| "handle_all attached (r # rs) = do { handleResult attached r; handle_all attached rs }"

text \<open>What the result processor receives: its context is done, the stop channel is closed, or a result.\<close>

datatype result_event = Proc_Done | Proc_Stopped | Proc_Result CheckResult

fun processResults :: "bool \<Rightarrow> result_event list \<Rightarrow> ('z agg_world_scheme, unit) state" where
  "processResults attached [] = ret ()"
| "processResults attached (Proc_Done # _) = ret ()"
| "processResults attached (Proc_Stopped # _) = ret ()"
| "processResults attached (Proc_Result r # evs) = do { handleResult attached r; processResults attached evs }"

text \<open>The results that were received before the processor ended.\<close>

fun received :: "result_event list \<Rightarrow> CheckResult list" where
  "received (Proc_Result r # evs) = r # received evs"
| "received evs = []"

lemma processResults_handle_all: "processResults attached evs = handle_all attached (received evs)"
  by (induction evs rule: received.induct) simp_all

subsection \<open>The loops and their life cycle\<close>

text \<open>What the scheduler's goroutine receives: its context is done, the stop channel is closed, or a tick.\<close>

datatype sched_event = Ctx_Done | Stop_Closed | Tick

fun sched_loop :: "sched_event list \<Rightarrow> ('z sched_world_scheme, unit) state" where
  "sched_loop [] = ret ()"
| "sched_loop (Ctx_Done # _) = ret ()"
| "sched_loop (Stop_Closed # _) = ret ()"
| "sched_loop (Tick # evs) = do { scheduleChecks; sched_loop evs }"

definition sched_run :: "sched_event list \<Rightarrow> ('z sched_world_scheme, unit) state" where
  "sched_run evs = do { scheduleChecks; sched_loop evs }"

record Scheduler =
  sd_interval :: duration
  sd_running :: bool
  sd_stopClosed :: bool
  sd_goroutines :: nat

definition NewScheduler :: "duration \<Rightarrow> Scheduler" where
  "NewScheduler interval = \<lparr>sd_interval = (if interval \<le> 0 then 10 * Second else interval),
     sd_running = False, sd_stopClosed = False, sd_goroutines = 0\<rparr>"

definition Scheduler_Start :: "Scheduler \<Rightarrow> unit result \<times> Scheduler" where
  "Scheduler_Start s =
     (if sd_running s then (Inl (Errorf ''scheduler already running''), s)
      else (Inr (), s\<lparr>sd_running := True, sd_goroutines := sd_goroutines s + 1\<rparr>))"

definition StartResultProcessor :: "Scheduler \<Rightarrow> Scheduler" where
  "StartResultProcessor s = s\<lparr>sd_goroutines := sd_goroutines s + 1\<rparr>"

text \<open>None is Go's panic: closing a channel that is closed. All goroutines have ended when Stop returns.\<close>

definition Scheduler_Stop :: "Scheduler \<Rightarrow> Scheduler option" where
  "Scheduler_Stop s =
     (if \<not> sd_running s then Some s
      else if sd_stopClosed s then None
      else Some (s\<lparr>sd_running := False, sd_stopClosed := True, sd_goroutines := 0\<rparr>))"

subsection \<open>Runs on a driver that does not fail\<close>

definition health_lookup :: "db \<Rightarrow> string \<Rightarrow> HealthState option" where
  "health_lookup d k = first_row (select_health_state k d)"

definition backend_lookup :: "db \<Rightarrow> string \<Rightarrow> Backend option" where
  "backend_lookup d k = first_row (select_backend k d)"

definition check_lookup :: "db \<Rightarrow> string \<Rightarrow> HealthCheck option" where
  "check_lookup d k = first_row (select_health_check k d)"

lemma run_query:
  "w_fault w (w_stmt_ix w) = None \<Longrightarrow>
   run_state (row_method msg q) w =
     (case first_row (q (w_db w)) of None \<Rightarrow> Inl ErrNotFound | Some x \<Rightarrow> Inr x, w\<lparr>w_stmt_ix := Suc (w_stmt_ix w)\<rparr>)"
  by (auto simp: run_row_method split: list.splits)

definition thresholds_of :: "db \<Rightarrow> string \<Rightarrow> int \<times> int" where
  "thresholds_of d i =
     (case Option.bind (backend_lookup d i) (\<lambda>b. check_lookup d (b_ConfigID b)) of
        None \<Rightarrow> (2, 2)
      | Some hc \<Rightarrow> (if hc_ThresholdHealthy hc > 0 then hc_ThresholdHealthy hc else 2,
                    if hc_ThresholdUnhealthy hc > 0 then hc_ThresholdUnhealthy hc else 2))"

lemma thresholds_pos: "0 < fst (thresholds_of d i)" "0 < snd (thresholds_of d i)"
  by (simp_all add: thresholds_of_def split: option.splits)

lemma run_lookup_thresholds:
  assumes "healthy_driver w"
  shows "\<exists>n. run_state (lookup_thresholds i) w = (thresholds_of (w_db w) i, w\<lparr>w_stmt_ix := n\<rparr>)"
proof (cases "backend_lookup (w_db w) i")
  case None
  with assms have "run_state (lookup_thresholds i) w = (thresholds_of (w_db w) i, w\<lparr>w_stmt_ix := Suc (w_stmt_ix w)\<rparr>)"
    by (simp add: lookup_thresholds_def GetBackend_def run_simps run_query backend_lookup_def thresholds_of_def)
  then show ?thesis by blast
next
  case (Some b)
  with assms have "run_state (lookup_thresholds i) w
      = (thresholds_of (w_db w) i, w\<lparr>w_stmt_ix := Suc (Suc (w_stmt_ix w))\<rparr>)"
    by (simp add: lookup_thresholds_def GetBackend_def GetHealthCheck_def run_simps run_query
        backend_lookup_def check_lookup_def thresholds_of_def split: option.splits)
  then show ?thesis by blast
qed

text \<open>The state a result leads to, as a function of the stored one.\<close>

definition next_state :: "db \<Rightarrow> time \<Rightarrow> CheckResult \<Rightarrow> HealthState" where
  "next_state d now result =
     (let i = re_BackendID result;
          state = count_result now result (case health_lookup d i of None \<Rightarrow> fresh_state i | Some s \<Rightarrow> s)
      in state\<lparr>hs_Status := determineHealthStatus state (fst (thresholds_of d i)) (snd (thresholds_of d i))\<rparr>)"

lemma count_result_backend [simp]: "hs_BackendID (count_result now r s) = hs_BackendID s"
  by (simp add: count_result_def Let_def split: option.splits)

lemma health_lookup_key: "health_lookup d i = Some s \<Longrightarrow> hs_BackendID s = i"
  by (auto simp: health_lookup_def first_select_health_state dest: find_Some_mem)

lemma next_state_backend [simp]: "hs_BackendID (next_state d now r) = re_BackendID r"
  by (auto simp: next_state_def Let_def fresh_state_def dest: health_lookup_key split: option.splits)

lemma backend_lookup_exists: "backend_lookup d i \<noteq> None \<longleftrightarrow> backend_exists i d"
  by (auto simp: backend_lookup_def first_select_backend backend_exists_def find_None_iff)

lemma upsert_health_state_Inr:
  "backend_exists (hs_BackendID s) d \<Longrightarrow> \<exists>rows. upsert_health_state s d = Inr (1, d\<lparr>t_health_states := rows\<rparr>)"
  by (auto simp: upsert_health_state_def Let_def)

text \<open>The effect of \<open>handleResult\<close>, up to the clock and statement counters and the buckets.\<close>

lemma run_UpdateHealthState:
  assumes "healthy_driver w" "upsert_health_state s (w_db w) = Inr (n, d')"
  shows "run_state (UpdateHealthState s) w = (Inr (), w\<lparr>w_stmt_ix := Suc (w_stmt_ix w), w_db := d'\<rparr>)"
  using assms by (simp add: UpdateHealthState_def run_insert_method)

lemma exec_handleResult_probe:
  "exec (handleResult True result) w =
   exec (handleResult False result)
     (exec (RecordProbe (re_BackendID result) (re_Healthy result \<and> re_Error result = None)) w)"
  by (simp add: exec_def handleResult_def run_simps split: prod.splits)

lemma exec_handleResult_False:
  assumes "healthy_driver w" "backend_exists (re_BackendID result) (w_db w)"
  shows "\<exists>n m d'. upsert_health_state (next_state (w_db w) (w_now w (w_now_ix w)) result) (w_db w) = Inr (1, d') \<and>
    exec (handleResult False result) w = w\<lparr>w_stmt_ix := n, w_now_ix := m, w_db := d'\<rparr>"
proof -
  let ?i = "re_BackendID result" and ?now = "w_now w (w_now_ix w)"
  let ?s = "next_state (w_db w) ?now result"
  let ?w1 = "w\<lparr>w_stmt_ix := Suc (w_stmt_ix w), w_now_ix := Suc (w_now_ix w)\<rparr>"
  obtain d' where up: "upsert_health_state ?s (w_db w) = Inr (1, d')"
    using upsert_health_state_Inr [of ?s "w_db w"] assms(2) by auto
  obtain n where th: "run_state (lookup_thresholds ?i) ?w1 = (thresholds_of (w_db w) ?i, ?w1\<lparr>w_stmt_ix := n\<rparr>)"
    using run_lookup_thresholds [of ?w1 ?i] assms(1) by auto
  have "run_state (UpdateHealthState ?s) (?w1\<lparr>w_stmt_ix := n\<rparr>)
      = (Inr (), w\<lparr>w_stmt_ix := Suc n, w_now_ix := Suc (w_now_ix w), w_db := d'\<rparr>)"
    using run_UpdateHealthState [of "?w1\<lparr>w_stmt_ix := n\<rparr>" ?s 1 d'] up assms(1) by simp
  then have "exec (handleResult False result) w = w\<lparr>w_stmt_ix := Suc n, w_now_ix := Suc (w_now_ix w), w_db := d'\<rparr>"
    using th assms(1)
    by (simp add: exec_def handleResult_def GetHealthState_def run_simps run_query health_lookup_def [symmetric]
        next_state_def Let_def split: option.splits)
  with up show ?thesis by blast
qed

subsection \<open>The effect of results\<close>

definition only_health :: "db \<Rightarrow> db \<Rightarrow> bool" where
  "only_health d d' = (\<exists>rows. d' = d\<lparr>t_health_states := rows\<rparr>)"

lemma only_health_refl [simp]: "only_health d d"
  unfolding only_health_def by (rule exI [of _ "t_health_states d"]) simp

lemma only_health_trans: "only_health d d' \<Longrightarrow> only_health d' d'' \<Longrightarrow> only_health d d''"
  by (auto simp: only_health_def)

lemma only_health_thresholds: "only_health d d' \<Longrightarrow> thresholds_of d' i = thresholds_of d i"
  by (auto simp: only_health_def thresholds_of_def backend_lookup_def check_lookup_def select_backend_def
      select_health_check_def)

lemma only_health_exists: "only_health d d' \<Longrightarrow> backend_exists i d' = backend_exists i d"
  by (auto simp: only_health_def backend_exists_def)

lemma upsert_only_health: "upsert_health_state s d = Inr (n, d') \<Longrightarrow> only_health d d'"
  by (auto simp: upsert_health_state_def only_health_def Let_def split: if_splits)

lemma exec_handleResult:
  assumes "healthy_driver w" "backend_exists (re_BackendID result) (w_db w)"
  shows "\<exists>now. upsert_health_state (next_state (w_db w) now result) (w_db w)
      = Inr (1, w_db (exec (handleResult attached result) w)) \<and>
    healthy_driver (exec (handleResult attached result) w)"
proof (cases attached)
  case False
  with exec_handleResult_False [OF assms] assms(1) show ?thesis by auto
next
  case True
  let ?w = "exec (RecordProbe (re_BackendID result) (re_Healthy result \<and> re_Error result = None)) w"
  have w: "w_db ?w = w_db w" "healthy_driver ?w"
    using assms(1) by (simp_all add: exec_RecordProbe healthy_driver_def)
  with exec_handleResult_False [of ?w result] assms True show ?thesis
    by (auto simp: exec_handleResult_probe)
qed

lemma health_lookup_upsert:
  "upsert_health_state s d = Inr (n, d') \<Longrightarrow> health_lookup d' = (health_lookup d)(hs_BackendID s \<mapsto> s)"
  by (auto simp: health_lookup_def fun_eq_iff upsert_health_state_lookup)

definition succeeded :: "CheckResult \<Rightarrow> bool" where
  "succeeded r = (re_Healthy r \<and> re_Error r = None)"

definition outcomes :: "string \<Rightarrow> CheckResult list \<Rightarrow> bool list" where
  "outcomes i rs = map succeeded (filter (\<lambda>r. re_BackendID r = i) rs)"

definition trailing_state :: "int \<times> int \<Rightarrow> bool list \<Rightarrow> HealthState \<Rightarrow> bool" where
  "trailing_state th os s =
     (hs_ConsecutiveSuccesses s = int (trail True os) \<and> hs_ConsecutiveFailures s = int (trail False os) \<and>
      hs_Status s = (if fst th \<le> int (trail True os) then StatusHealthy
                     else if snd th \<le> int (trail False os) then StatusUnhealthy else StatusUnknown))"

lemma next_state_trailing:
  assumes "case health_lookup d (re_BackendID r) of None \<Rightarrow> os = [] | Some s \<Rightarrow> trailing_state th os s"
    and "th = thresholds_of d (re_BackendID r)"
  shows "trailing_state th (os @ [succeeded r]) (next_state d now r)"
  using assms
  by (auto simp: trailing_state_def next_state_def count_result_def succeeded_def fresh_state_def Let_def
      determineHealthStatus_def trail_def split: option.splits)

lemma handle_all_trailing:
  assumes "healthy_driver w" "\<forall>r \<in> set rs. backend_exists (re_BackendID r) (w_db w)"
    and "case health_lookup (w_db w) i of None \<Rightarrow> os = [] | Some s \<Rightarrow> os \<noteq> [] \<and> trailing_state (thresholds_of (w_db w) i) os s"
  shows "only_health (w_db w) (w_db (exec (handle_all attached rs) w)) \<and>
    (case health_lookup (w_db (exec (handle_all attached rs) w)) i of
       None \<Rightarrow> os @ outcomes i rs = []
     | Some s \<Rightarrow> os @ outcomes i rs \<noteq> [] \<and> trailing_state (thresholds_of (w_db w) i) (os @ outcomes i rs) s)"
  using assms
proof (induction rs arbitrary: w os)
  case Nil
  then show ?case by (auto simp: exec_def run_simps outcomes_def split: option.splits)
next
  case (Cons r rs)
  let ?w = "exec (handleResult attached r) w"
  from exec_handleResult [of w r attached] Cons.prems(1,2) obtain now where
    up: "upsert_health_state (next_state (w_db w) now r) (w_db w) = Inr (1, w_db ?w)" and ok: "healthy_driver ?w"
    by auto
  have oh: "only_health (w_db w) (w_db ?w)" using up by (rule upsert_only_health)
  have run: "exec (handle_all attached (r # rs)) w = exec (handle_all attached rs) ?w"
    by (simp add: exec_def run_simps split: prod.splits)
  let ?os = "os @ outcomes i [r]"
  have "case health_lookup (w_db ?w) i of None \<Rightarrow> ?os = []
      | Some s \<Rightarrow> ?os \<noteq> [] \<and> trailing_state (thresholds_of (w_db ?w) i) ?os s"
  proof (cases "re_BackendID r = i")
    case True
    then have "trailing_state (thresholds_of (w_db w) i) ?os (next_state (w_db w) now r)"
      using next_state_trailing [where d = "w_db w" and r = r and os = os and now = now] Cons.prems(3)
      by (auto simp: outcomes_def split: option.splits)
    with True show ?thesis
      by (simp add: health_lookup_upsert [OF up] only_health_thresholds [OF oh] outcomes_def)
  next
    case False
    with Cons.prems(3) show ?thesis
      by (auto simp: health_lookup_upsert [OF up] only_health_thresholds [OF oh] outcomes_def split: option.splits)
  qed
  from Cons.IH [OF ok _ this] Cons.prems(2) show ?case
    unfolding run using only_health_trans [OF oh]
    by (auto simp: only_health_exists [OF oh] only_health_thresholds [OF oh] outcomes_def split: option.splits if_splits)
qed

subsection \<open>The checks that are due\<close>

text \<open>
  The specification writes the request out: the address of the backend, with its port when it has a
  positive one, and the timeout of the health check in nanoseconds.
\<close>

definition due_request :: "HealthCheck \<Rightarrow> Backend \<Rightarrow> CheckRequest" where
  "due_request hc b = \<lparr>cr_BackendID = b_ID b, cr_Type = hc_Type hc,
     cr_Target = (if \<exists>p. b_Port b = Some p \<and> 0 < p then b_IP b @ '':'' @ fmt_d (the (b_Port b)) else b_IP b),
     cr_Timeout = 1000000000 * hc_TimeoutSeconds hc\<rparr>"

definition due_for :: "db \<Rightarrow> Config \<Rightarrow> CheckRequest list" where
  "due_for d c =
     (case check_lookup d (cfg_ID c) of
        None \<Rightarrow> []
      | Some hc \<Rightarrow> map (due_request hc) (filter b_Enabled (select_backends (cfg_ID c) d)))"

lemma check_request_due: "check_request hc b = due_request hc b"
  by (auto simp: check_request_def due_request_def formatTarget_def time_units split: option.split)

definition due_checks :: "db \<Rightarrow> CheckRequest list" where
  "due_checks d = concat (map (due_for d) (select_configs d))"

definition engine_open :: "Engine \<Rightarrow> bool" where
  "engine_open e = (en_running e \<and> \<not> en_ctxDone e)"

lemma run_backends_loop:
  "engine_open (sw_engine w) \<Longrightarrow>
   run_state (backends_loop hc bs) w = ((), w\<lparr>sw_submitted := sw_submitted w @ map (due_request hc) (filter b_Enabled bs)\<rparr>)"
  by (induction bs arbitrary: w) (auto simp: run_simps engine_Submit_def Submit_def engine_open_def check_request_due)

lemma run_configs_loop:
  assumes "healthy_driver w" "engine_open (sw_engine w)"
  shows "\<exists>n. run_state (configs_loop cs) w = ((), w\<lparr>w_stmt_ix := n, sw_submitted := sw_submitted w @
    concat (map (due_for (w_db w)) cs)\<rparr>)"
  using assms
proof (induction cs arbitrary: w)
  case Nil
  show ?case by (intro exI [of _ "w_stmt_ix w"]) (simp add: run_simps)
next
  case (Cons c cs)
  let ?due = "due_for (w_db w) c"
  obtain m where step: "run_state (configs_loop (c # cs)) w =
      run_state (configs_loop cs) (w\<lparr>w_stmt_ix := m, sw_submitted := sw_submitted w @ ?due\<rparr>)"
  proof (cases "check_lookup (w_db w) (cfg_ID c)")
    case None
    with Cons.prems have "run_state (configs_loop (c # cs)) w =
        run_state (configs_loop cs) (w\<lparr>w_stmt_ix := Suc (w_stmt_ix w), sw_submitted := sw_submitted w @ ?due\<rparr>)"
      by (simp add: run_simps GetHealthCheck_def run_query check_lookup_def due_for_def)
    then show ?thesis by (rule that)
  next
    case (Some hc)
    with Cons.prems have "run_state (configs_loop (c # cs)) w =
        run_state (configs_loop cs) (w\<lparr>w_stmt_ix := Suc (Suc (w_stmt_ix w)), sw_submitted := sw_submitted w @ ?due\<rparr>)"
      by (simp add: run_simps GetHealthCheck_def ListBackends_def run_query run_rows_method check_lookup_def run_backends_loop due_for_def)
    then show ?thesis by (rule that)
  qed
  let ?w = "w\<lparr>w_stmt_ix := m, sw_submitted := sw_submitted w @ ?due\<rparr>"
  have "healthy_driver ?w" "engine_open (sw_engine ?w)"
    using Cons.prems by (simp_all add: healthy_driver_def)
  from Cons.IH [OF this] step show ?case by auto
qed

subsection \<open>Properties\<close>

text \<open>What is stored for a backend; one that was never probed counts as unknown, with no results.\<close>

definition stored_state :: "db \<Rightarrow> string \<Rightarrow> HealthState" where
  "stored_state d i =
     (case health_lookup d i of
        Some s \<Rightarrow> s
      | None \<Rightarrow> \<lparr>hs_BackendID = i, hs_Status = StatusUnknown, hs_ConsecutiveSuccesses = 0, hs_ConsecutiveFailures = 0,
                  hs_LastCheckAt = None, hs_LastHealthyAt = None, hs_LastError = ''''\<rparr>)"

lemma next_state_fields:
  fixes d :: db and r :: CheckResult and now :: time
  defines "old \<equiv> stored_state d (re_BackendID r)" and "th \<equiv> thresholds_of d (re_BackendID r)" and "s \<equiv> next_state d now r"
  shows "hs_LastCheckAt s = Some now"
    and "succeeded r \<Longrightarrow> hs_ConsecutiveSuccesses s = hs_ConsecutiveSuccesses old + 1 \<and> hs_ConsecutiveFailures s = 0 \<and>
      hs_LastError s = '''' \<and> hs_LastHealthyAt s = Some now"
    and "\<not> succeeded r \<Longrightarrow> hs_ConsecutiveSuccesses s = 0 \<and> hs_ConsecutiveFailures s = hs_ConsecutiveFailures old + 1 \<and>
      hs_LastError s = (case re_Error r of Some e \<Rightarrow> err_msg e | None \<Rightarrow> hs_LastError old) \<and>
      hs_LastHealthyAt s = hs_LastHealthyAt old"
    and "hs_Status s = (if hs_ConsecutiveSuccesses s \<ge> fst th then StatusHealthy
      else if hs_ConsecutiveFailures s \<ge> snd th then StatusUnhealthy else StatusUnknown)"
  unfolding old_def th_def s_def
  by (auto simp: next_state_def stored_state_def count_result_def fresh_state_def succeeded_def determineHealthStatus_def Let_def
      split: option.split)

text \<open>
  C4: On a driver that does not fail, handling a result of an existing backend stores one state for
  that backend and changes nothing else in the database. The state carries the time of the check; a
  success (healthy and without error) adds one to the stored successes, sets the failures to zero,
  clears the last error and notes the time as the last healthy one; anything else adds one to the
  stored failures, sets the successes to zero, keeps the last healthy time and replaces the last error
  when the check reported one; and the status is healthy when the new successes reach the backend's
  healthy threshold, else unhealthy when the new failures reach its unhealthy threshold, else unknown.
\<close>

theorem handleResult_correct:
  fixes w :: "'z agg_world_scheme" and result :: CheckResult and attached :: bool
  defines "i \<equiv> re_BackendID result"
  defines "old \<equiv> stored_state (w_db w) i" and "th \<equiv> thresholds_of (w_db w) i"
    and "d' \<equiv> w_db (exec (handleResult attached result) w)"
  assumes "healthy_driver w" "backend_exists i (w_db w)"
  shows "\<exists>now s rows. d' = w_db w\<lparr>t_health_states := rows\<rparr> \<and> health_lookup d' = (health_lookup (w_db w))(i \<mapsto> s) \<and>
    hs_BackendID s = i \<and> hs_LastCheckAt s = Some now \<and>
    (if re_Healthy result \<and> re_Error result = None
     then hs_ConsecutiveSuccesses s = hs_ConsecutiveSuccesses old + 1 \<and> hs_ConsecutiveFailures s = 0 \<and>
       hs_LastError s = '''' \<and> hs_LastHealthyAt s = Some now
     else hs_ConsecutiveSuccesses s = 0 \<and> hs_ConsecutiveFailures s = hs_ConsecutiveFailures old + 1 \<and>
       hs_LastError s = (case re_Error result of Some e \<Rightarrow> err_msg e | None \<Rightarrow> hs_LastError old) \<and>
       hs_LastHealthyAt s = hs_LastHealthyAt old) \<and>
    hs_Status s = (if hs_ConsecutiveSuccesses s \<ge> fst th then StatusHealthy
      else if hs_ConsecutiveFailures s \<ge> snd th then StatusUnhealthy else StatusUnknown)"
proof -
  from exec_handleResult [OF assms(5) assms(6) [unfolded i_def]] obtain now where
    up: "upsert_health_state (next_state (w_db w) now result) (w_db w) = Inr (1, d')" unfolding d'_def by blast
  let ?s = "next_state (w_db w) now result"
  obtain rows where rows: "d' = w_db w\<lparr>t_health_states := rows\<rparr>" using upsert_only_health [OF up] by (auto simp: only_health_def)
  have look: "health_lookup d' = (health_lookup (w_db w))(i \<mapsto> ?s)" using health_lookup_upsert [OF up] by (simp add: i_def)
  show ?thesis
    using next_state_fields [where d = "w_db w" and now = now and r = result] rows look unfolding old_def th_def i_def succeeded_def
    by (intro exI [of _ now] exI [of _ ?s] exI [of _ rows]) simp
qed

text \<open>
  C5: From a backend that was never probed, after any sequence of results of any existing
  backends, the stored counters of the backend are the lengths of its trailing runs of successes
  and of failures, and its status is healthy, unhealthy or unknown by comparing those runs with
  the configured thresholds.
\<close>

theorem scheduler_tracks_trailing_runs:
  assumes "healthy_driver w" "\<forall>r \<in> set rs. backend_exists (re_BackendID r) (w_db w)"
    and "health_lookup (w_db w) i = None" "outcomes i rs \<noteq> []"
  shows "\<exists>s. health_lookup (w_db (exec (handle_all attached rs) w)) i = Some s \<and>
    trailing_state (thresholds_of (w_db w) i) (outcomes i rs) s"
  using handle_all_trailing [OF assms(1,2), where i = i and os = "[]" and attached = attached] assms(3,4)
  by (simp split: option.splits)

text \<open>
  The stored status has no hysteresis: a healthy backend whose unhealthy threshold is above
  one becomes unknown with its first failed probe, long before the threshold is reached.
\<close>

theorem first_failure_leaves_healthy:
  assumes "healthy_driver w" "backend_exists (re_BackendID result) (w_db w)"
    and "health_lookup (w_db w) (re_BackendID result) = Some s"
    and "hs_Status s = StatusHealthy \<and> hs_ConsecutiveFailures s = 0"
    and "1 < snd (thresholds_of (w_db w) (re_BackendID result))" "\<not> succeeded result"
  shows "map_option hs_Status (health_lookup (w_db (exec (handleResult attached result) w)) (re_BackendID result))
    = Some StatusUnknown"
proof -
  from exec_handleResult [OF assms(1,2)] obtain now where
    up: "upsert_health_state (next_state (w_db w) now result) (w_db w)
      = Inr (1, w_db (exec (handleResult attached result) w))" by blast
  have "hs_Status (next_state (w_db w) now result) = StatusUnknown"
    using assms(3-6) thresholds_pos(1) [of "w_db w" "re_BackendID result"]
    by (auto simp: next_state_def count_result_def determineHealthStatus_def succeeded_def Let_def split: option.splits)
  with health_lookup_upsert [OF up] show ?thesis by simp
qed

text \<open>
  C28: On a driver that does not fail and a running engine, a scheduling pass submits exactly one
  request per enabled backend of every configuration that has a health check, in the order the
  store lists them, and leaves the database alone. The request names the backend and the type of
  that check, its target is the backend's address, followed by a colon and the port when the backend
  has a positive one, and its timeout is the check's timeout in seconds times one billion nanoseconds.
\<close>

theorem scheduleChecks_complete:
  assumes "healthy_driver w" "engine_open (sw_engine w)"
  shows "sw_submitted (exec scheduleChecks w) = sw_submitted w @ due_checks (w_db w) \<and>
    w_db (exec scheduleChecks w) = w_db w"
proof -
  let ?w = "w\<lparr>w_stmt_ix := Suc (w_stmt_ix w)\<rparr>"
  have "run_state scheduleChecks w = run_state (configs_loop (select_configs (w_db w))) ?w"
    using assms(1) by (simp add: scheduleChecks_def ListConfigs_def run_simps run_rows_method)
  moreover have "healthy_driver ?w" "engine_open (sw_engine ?w)" using assms by simp_all
  ultimately show ?thesis
    using run_configs_loop [of ?w "select_configs (w_db w)"] by (auto simp: exec_def due_checks_def)
qed

text \<open>
  The scheduler cannot be restarted: after a start and a stop, a second start succeeds but
  the stop that follows it panics, because the stop channel is closed once and never remade.
\<close>

theorem second_stop_panics:
  assumes "\<not> sd_running s" "\<not> sd_stopClosed s"
  shows "\<exists>s1 s2 s3. Scheduler_Start s = (Inr (), s1) \<and> Scheduler_Stop s1 = Some s2 \<and>
    Scheduler_Start s2 = (Inr (), s3) \<and> Scheduler_Stop s3 = None"
  using assms by (simp add: Scheduler_Start_def Scheduler_Stop_def)

text \<open>
  A TCP check of a backend dials exactly the backend's IP and port, when the IP is an IPv4
  address or a plain host name (no colon, no bracket), and reports healthy when that dial succeeds.
\<close>

theorem tcp_check_dials_backend:
  assumes "plain_host ip" "0 < p" "ne_setDeadline net = None"
  shows "fst (Check net (NewChecker (check_request (hc\<lparr>hc_Type := ''tcp''\<rparr>)
      \<lparr>b_ID = i, b_ConfigID = c, b_IP = ip, b_Port = Some p, b_Weight = w, b_Enabled = en\<rparr>)))
    \<longleftrightarrow> ne_dial net (ip @ CHR '':'' # fmt_d p) = None"
proof -
  have "plain_host (fmt_d p)" using assms(2) by (rule plain_fmt_d)
  then have "SplitHostPort (ip @ colon # fmt_d p) = Inr (ip, fmt_d p)"
    using SplitHostPort_JoinHostPort [OF assms(1)] assms(1) by (simp add: JoinHostPort_def plain_host_def)
  moreover have "fmt_d p \<noteq> ''''" using assms(2) by (simp add: fmt_d_def digits.simps [of "nat p"])
  ultimately show ?thesis
    using assms by (auto simp: NewChecker_def check_request_def formatTarget_def TCP_Check_def colon_def
        split: option.splits)
qed

text \<open>
  For an IPv6 backend the TCP check dials another address than the backend's: the target is
  joined without brackets, fails to split, and port 80 of the whole text is dialled instead.
\<close>

theorem tcp_check_misdials_ipv6:
  assumes "colon \<in> set ip" "hd ip \<noteq> lbracket" "0 < p"
  shows "fst (Check net (NewChecker (check_request (hc\<lparr>hc_Type := ''tcp''\<rparr>)
      \<lparr>b_ID = i, b_ConfigID = c, b_IP = ip, b_Port = Some p, b_Weight = w, b_Enabled = en\<rparr>)))
    \<longleftrightarrow> ne_dial net (''['' @ ip @ CHR '':'' # fmt_d p @ '']:80'') = None \<and> ne_setDeadline net = None"
proof -
  have "colon \<notin> set (fmt_d p)"
    using plain_fmt_d [OF assms(3)] by (simp add: plain_host_def)
  from SplitHostPort_too_many [OF assms(1) this assms(2)]
  have "SplitHostPort (ip @ colon # fmt_d p) = Inl (addrErr (ip @ colon # fmt_d p) ''too many colons in address'')" .
  with assms show ?thesis
    by (auto simp: NewChecker_def check_request_def formatTarget_def TCP_Check_def JoinHostPort_def
        colon_def lbracket_def rbracket_def split: option.splits)
qed

subsection \<open>Witnesses\<close>

definition ex_config :: Config where
  "ex_config = \<lparr>cfg_ID = ''c'', cfg_Name = ''web'', cfg_DNSName = ''app.example.com'', cfg_DNSTTL = 60,
     cfg_LBMethod = RoundRobin, cfg_CreatedAt = 0, cfg_UpdatedAt = 0, cfg_LastReconcileError = ''''\<rparr>"

definition ex_probe_check :: HealthCheck where
  "ex_probe_check = \<lparr>hc_ID = ''h'', hc_ConfigID = ''c'', hc_Type = ''tcp'', hc_IntervalSeconds = 10,
     hc_TimeoutSeconds = 5, hc_ThresholdHealthy = 2, hc_ThresholdUnhealthy = 3\<rparr>"

definition ex_row :: "string \<Rightarrow> string \<Rightarrow> bool \<Rightarrow> BackendRow" where
  "ex_row i addr en = \<lparr>br_Backend = \<lparr>b_ID = i, b_ConfigID = ''c'', b_IP = addr, b_Port = Some 80, b_Weight = 1,
     b_Enabled = en\<rparr>, br_CreatedAt = 0\<rparr>"

definition ex_healthy :: HealthState where
  "ex_healthy = (fresh_state ''b'')\<lparr>hs_Status := StatusHealthy, hs_ConsecutiveSuccesses := 2\<rparr>"

definition ex_db :: db where
  "ex_db = empty_db\<lparr>t_configs := [ex_config], t_health_checks := [ex_probe_check],
     t_backends := [ex_row ''a'' ''10.0.0.1'' True, ex_row ''b'' ''10.0.0.2'' True, ex_row ''x'' ''10.0.0.3'' False],
     t_health_states := [ex_healthy]\<rparr>"

definition ex_world :: sched_world where
  "ex_world = \<lparr>w_db = ex_db, w_now = (\<lambda>n. int n * Minute), w_now_ix = 0, w_uuid = (\<lambda>n. ''u''),
     w_uuid_ix = 0, w_fault = (\<lambda>_. None), w_stmt_ix = 0, ag_buckets = [],
     sw_engine = Engine_Start (NewEngine 1), sw_submitted = []\<rparr>"

definition ex_result :: "string \<Rightarrow> bool \<Rightarrow> CheckResult" where
  "ex_result i h = \<lparr>re_BackendID = i, re_Healthy = h, re_Error = None, re_Duration = Millisecond\<rparr>"

lemmas ex_world_defs = ex_world_def ex_db_def ex_config_def ex_probe_check_def ex_row_def ex_healthy_def empty_db_def

lemma ex_world_healthy: "healthy_driver ex_world" "w_db ex_world = ex_db"
  by (simp_all add: healthy_driver_def ex_world_def)

lemma ex_db_backends: "backend_exists ''a'' ex_db" "backend_exists ''b'' ex_db"
  by (simp_all add: backend_exists_def ex_world_defs)

lemma ex_db_health: "health_lookup ex_db ''b'' = Some ex_healthy" "health_lookup ex_db ''a'' = None"
  by (simp_all add: health_lookup_def first_select_health_state ex_world_defs fresh_state_def)

lemma ex_db_thresholds: "thresholds_of ex_db ''a'' = (2, 3)" "thresholds_of ex_db ''b'' = (2, 3)"
  by (simp_all add: thresholds_of_def backend_lookup_def check_lookup_def first_select_backend
      first_select_health_check ex_world_defs)

theorem handleResult_correct_witness:
  "\<exists>s. health_lookup (w_db (exec (handleResult True (ex_result ''b'' False)) ex_world)) ''b'' = Some s \<and>
     hs_ConsecutiveSuccesses s = 0 \<and> hs_ConsecutiveFailures s = 1 \<and> hs_Status s = StatusUnknown"
  using handleResult_correct [of ex_world "ex_result ''b'' False" True]
  by (auto simp: ex_world_healthy ex_db_backends ex_db_health ex_db_thresholds stored_state_def ex_result_def ex_healthy_def
      fresh_state_def)

theorem scheduler_tracks_trailing_runs_witness:
  "\<exists>s. health_lookup (w_db (exec (handle_all False [ex_result ''a'' True, ex_result ''a'' True]) ex_world)) ''a'' = Some s \<and>
    hs_Status s = StatusHealthy"
  using scheduler_tracks_trailing_runs [of ex_world "[ex_result ''a'' True, ex_result ''a'' True]" "''a''" False]
  by (auto simp: ex_world_healthy ex_db_backends ex_db_health ex_db_thresholds ex_result_def outcomes_def succeeded_def
      trailing_state_def trail_def)

theorem first_failure_leaves_healthy_witness:
  "map_option hs_Status (health_lookup (w_db (exec (handleResult False (ex_result ''b'' False)) ex_world)) ''b'') = Some StatusUnknown"
  using first_failure_leaves_healthy [of ex_world "ex_result ''b'' False" ex_healthy False]
  by (simp add: ex_world_healthy ex_db_backends ex_db_health ex_db_thresholds ex_result_def succeeded_def)
    (simp add: ex_healthy_def fresh_state_def)

lemma ex_port: "fmt_d 80 = ''80''"
  by code_simp

theorem scheduleChecks_complete_witness:
  "map cr_Target (sw_submitted (exec scheduleChecks ex_world)) = [''10.0.0.1:80'', ''10.0.0.2:80'']"
proof -
  have "engine_open (sw_engine ex_world)"
    by (simp add: engine_open_def ex_world_def Engine_Start_def NewEngine_def)
  from scheduleChecks_complete [OF ex_world_healthy(1) this] show ?thesis
    by (simp add: ex_world_def due_checks_def due_for_def select_configs_def check_lookup_def first_select_health_check
        select_backends_def order_desc_def due_request_def ex_port ex_db_def
        ex_config_def ex_probe_check_def ex_row_def empty_db_def)
qed

theorem second_stop_panics_witness:
  "\<exists>s1 s2 s3. Scheduler_Start (NewScheduler Second) = (Inr (), s1) \<and> Scheduler_Stop s1 = Some s2 \<and>
    Scheduler_Start s2 = (Inr (), s3) \<and> Scheduler_Stop s3 = None"
  by (rule second_stop_panics) (simp_all add: NewScheduler_def)

definition ex_net :: net_env where
  "ex_net = \<lparr>ne_dial = (\<lambda>t. if t = ''10.0.0.1:80'' then None else Some (Driver ''refused'')), ne_setDeadline = None,
     ne_parseIP = (\<lambda>_. None), ne_lookup = (\<lambda>_. Inr []), ne_listen = (\<lambda>_ _. Inl (Driver ''permission'')), ne_ident = 1, ne_marshal = (\<lambda>_ _. None)\<rparr>"

theorem tcp_check_dials_backend_witness:
  "fst (Check ex_net (NewChecker (check_request (ex_probe_check\<lparr>hc_Type := ''tcp''\<rparr>)
     \<lparr>b_ID = ''a'', b_ConfigID = ''c'', b_IP = ''10.0.0.1'', b_Port = Some 80, b_Weight = 1, b_Enabled = True\<rparr>)))"
  by (subst tcp_check_dials_backend)
    (simp_all add: plain_host_def colon_def lbracket_def rbracket_def ex_net_def ex_port)

theorem tcp_check_misdials_ipv6_witness:
  "\<not> fst (Check ex_net (NewChecker (check_request (ex_probe_check\<lparr>hc_Type := ''tcp''\<rparr>)
     \<lparr>b_ID = ''a'', b_ConfigID = ''c'', b_IP = ''::1'', b_Port = Some 80, b_Weight = 1, b_Enabled = True\<rparr>)))"
  by (subst tcp_check_misdials_ipv6)
    (simp_all add: colon_def lbracket_def ex_net_def ex_port)

end
