(* ===== verification/Provider.thy ===== *)
theory Provider
  imports Aggregator "HOL-Library.AList"
begin

section \<open>DNS providers (internal/dns/provider.go, mock.go, cloudflare.go)\<close>

text \<open>
  A provider is an interface value: its name and its two operations on the world, which extends
  the store's world by the mock providers that were created (each with its records) and by the
  remote state of the Cloudflare service. The Cloudflare client is a library: \<open>cloudflare_client\<close>
  is its interface, a parameter. Decoding a provider's JSON configuration into its struct is a
  parameter as well.
\<close>

subsection \<open>Requests\<close>

record UpsertRequest =
  ur_ZoneID :: string
  ur_Name :: string
  ur_TTL :: int
  ur_Records :: "string list"

record DeleteRequest =
  dr_ZoneID :: string
  dr_Name :: string

definition check_records :: "string list \<Rightarrow> unit result" where
  "check_records records =
     (if list_ex (\<lambda>record. record = '''') records then Inl (Errorf ''record cannot be empty'') else Inr ())"

definition ValidateUpsertRequest :: "UpsertRequest \<Rightarrow> unit result" where
  "ValidateUpsertRequest req =
     (if ur_Name req = '''' then Inl (Errorf ''name is required'')
      else if ur_TTL req \<le> 0 then Inl (Errorf ''ttl must be greater than 0'')
      else if ur_Records req = [] then Inl (Errorf ''at least one record is required'')
      else check_records (ur_Records req))"

definition ValidateDeleteRequest :: "DeleteRequest \<Rightarrow> unit result" where
  "ValidateDeleteRequest req =
     (if dr_Name req = '''' then Inl (Errorf ''name is required'') else Inr ())"

definition parseConfig :: "(string \<Rightarrow> 'c result) \<Rightarrow> string \<Rightarrow> 'c result" where
  "parseConfig unmarshal configJSON =
     (if configJSON = '''' then Inl (Errorf ''config is required'')
      else case unmarshal configJSON of
             Inl e \<Rightarrow> Inl (Wrap ''failed to parse config'' e)
           | Inr cfg \<Rightarrow> Inr cfg)"

subsection \<open>The world\<close>

record MockDNSRecord =
  mr_Name :: string
  mr_ZoneID :: string
  mr_Type :: string
  mr_TTL :: int
  mr_Records :: "string list"
  mr_CreatedAt :: time
  mr_UpdatedAt :: time

type_synonym mock_records = "(string \<times> MockDNSRecord) list"

record 'a dns_world = agg_world +
  dw_mocks :: "mock_records list"
  dw_remote :: 'a

record 'w DNSProvider =
  pv_Name :: string
  pv_UpsertRecord :: "UpsertRequest \<Rightarrow> ('w, unit result) state"
  pv_DeleteRecord :: "DeleteRequest \<Rightarrow> ('w, unit result) state"

subsection \<open>The mock provider\<close>

text \<open>\<open>p\<close> is the address of a mock provider: its index among those created. Its zone is "mock-zone".\<close>

definition recordKey :: "string \<Rightarrow> string \<Rightarrow> string" where
  "recordKey zoneID name = zoneID @ ''/'' @ name"

definition mock_zone :: "string \<Rightarrow> string" where
  "mock_zone zoneID = (if zoneID = '''' then ''mock-zone'' else zoneID)"

definition get_mock :: "nat \<Rightarrow> (('a, 'z) dns_world_scheme, mock_records) state" where
  "get_mock p = State (\<lambda>w. (if p < length (dw_mocks w) then dw_mocks w ! p else [], w))"

definition put_mock :: "nat \<Rightarrow> mock_records \<Rightarrow> (('a, 'z) dns_world_scheme, unit) state" where
  "put_mock p recs = State (\<lambda>w. ((), w\<lparr>dw_mocks := (dw_mocks w)[p := recs]\<rparr>))"

definition Mock_UpsertRecord :: "nat \<Rightarrow> UpsertRequest \<Rightarrow> (('a, 'z) dns_world_scheme, unit result) state" where
  "Mock_UpsertRecord p req =
     (let zoneID = mock_zone (ur_ZoneID req) in
      if ur_Name req = '''' then ret (Inl (Errorf ''name is required''))
      else if ur_TTL req \<le> 0 then ret (Inl (Errorf ''ttl must be greater than 0''))
      else case check_records (ur_Records req) of
             Inl e \<Rightarrow> ret (Inl e)
           | Inr _ \<Rightarrow> do {
               let key = recordKey zoneID (ur_Name req);
               now \<leftarrow> time_Now;
               records \<leftarrow> get_mock p;
               (case map_of records key of
                  Some existing \<Rightarrow>
                    put_mock p (AList.update key (existing\<lparr>mr_Records := ur_Records req, mr_TTL := ur_TTL req,
                      mr_UpdatedAt := now\<rparr>) records)
                | None \<Rightarrow>
                    put_mock p (AList.update key \<lparr>mr_Name = ur_Name req, mr_ZoneID = zoneID, mr_Type = ''A'',
                      mr_TTL = ur_TTL req, mr_Records = ur_Records req, mr_CreatedAt = now, mr_UpdatedAt = now\<rparr> records));
               ret (Inr ())
             })"

definition Mock_DeleteRecord :: "nat \<Rightarrow> DeleteRequest \<Rightarrow> (('a, 'z) dns_world_scheme, unit result) state" where
  "Mock_DeleteRecord p req =
     (let zoneID = mock_zone (dr_ZoneID req) in
      if dr_Name req = '''' then ret (Inl (Errorf ''name is required''))
      else do {
        let key = recordKey zoneID (dr_Name req);
        records \<leftarrow> get_mock p;
        (case map_of records key of
           None \<Rightarrow> ret (Inl (Errorf (''record not found: '' @ dr_Name req)))
         | Some _ \<Rightarrow> do {
             _ \<leftarrow> put_mock p (AList.delete key records);
             ret (Inr ())
           })
      })"

definition Mock_GetRecord :: "nat \<Rightarrow> string \<Rightarrow> string \<Rightarrow> (('a, 'z) dns_world_scheme, MockDNSRecord option) state" where
  "Mock_GetRecord p zoneID name = do { records \<leftarrow> get_mock p; ret (map_of records (recordKey zoneID name)) }"

definition Mock_Clear :: "nat \<Rightarrow> (('a, 'z) dns_world_scheme, unit) state" where
  "Mock_Clear p = put_mock p []"

definition Mock_RecordCount :: "nat \<Rightarrow> (('a, 'z) dns_world_scheme, nat) state" where
  "Mock_RecordCount p = do { records \<leftarrow> get_mock p; ret (length records) }"

definition mock_provider :: "nat \<Rightarrow> string \<Rightarrow> ('a, 'z) dns_world_scheme DNSProvider" where
  "mock_provider p name = \<lparr>pv_Name = name, pv_UpsertRecord = Mock_UpsertRecord p, pv_DeleteRecord = Mock_DeleteRecord p\<rparr>"

text \<open>\<open>NewMockProvider\<close>: an invalid configuration falls back to the defaults.\<close>

definition NewMockProvider :: "(string \<Rightarrow> string result) \<Rightarrow> string \<Rightarrow>
    (('a, 'z) dns_world_scheme, ('a, 'z) dns_world_scheme DNSProvider result) state" where
  "NewMockProvider unmarshal configJSON =
     (let cfgName = (if configJSON \<noteq> '''' then
                       (case parseConfig unmarshal configJSON of Inl _ \<Rightarrow> ''mock'' | Inr n \<Rightarrow> n)
                     else '''');
          name = (if cfgName = '''' then ''mock'' else cfgName)
      in State (\<lambda>w. (Inr (mock_provider (length (dw_mocks w)) name), w\<lparr>dw_mocks := dw_mocks w @ [[]]\<rparr>)))"

subsection \<open>The Cloudflare provider\<close>

record DNSRecord =
  rec_ID :: string
  rec_Name :: string
  rec_Type :: string
  rec_Content :: string
  rec_TTL :: int

text \<open>
  The calls of the client the provider makes, each on the remote state: list by zone, name and
  type; delete by id; update and create. \<open>cf_StatusCode\<close> reads the status of a \<open>cloudflare.Error\<close>.
\<close>

record 'a cloudflare_client =
  cf_List :: "string \<Rightarrow> string \<Rightarrow> string \<Rightarrow> 'a \<Rightarrow> DNSRecord list result \<times> 'a"
  cf_Delete :: "string \<Rightarrow> string \<Rightarrow> 'a \<Rightarrow> unit result \<times> 'a"
  cf_Update :: "string \<Rightarrow> DNSRecord \<Rightarrow> 'a \<Rightarrow> unit result \<times> 'a"
  cf_Create :: "string \<Rightarrow> string \<Rightarrow> string \<Rightarrow> string \<Rightarrow> int \<Rightarrow> 'a \<Rightarrow> unit result \<times> 'a"
  cf_StatusCode :: "err \<Rightarrow> int option"

definition remote :: "('a \<Rightarrow> 'r \<times> 'a) \<Rightarrow> (('a, 'z) dns_world_scheme, 'r) state" where
  "remote f = State (\<lambda>w. case f (dw_remote w) of (r, a) \<Rightarrow> (r, w\<lparr>dw_remote := a\<rparr>))"

definition cf_zone :: "string \<Rightarrow> string \<Rightarrow> string" where
  "cf_zone zoneID reqZone = (if reqZone = '''' then zoneID else reqZone)"

text \<open>\<open>existingByIP\<close>: a later record of the listing replaces an earlier one with the same content.\<close>

definition existingByIP :: "DNSRecord list \<Rightarrow> (string \<times> DNSRecord) list" where
  "existingByIP existing = foldl (\<lambda>m r. AList.update (rec_Content r) r m) [] existing"

text \<open>Delete records that are no longer wanted; \<open>m\<close> is the map in the order Go iterates it.\<close>

fun cf_delete_loop :: "'a cloudflare_client \<Rightarrow> string \<Rightarrow> string list \<Rightarrow> (string \<times> DNSRecord) list \<Rightarrow> 'a \<Rightarrow> unit result \<times> 'a" where
  "cf_delete_loop c zone desired [] a = (Inr (), a)"
| "cf_delete_loop c zone desired ((ip, r) # m) a =
     (if ip \<in> set desired then cf_delete_loop c zone desired m a
      else case cf_Delete c zone (rec_ID r) a of
             (Inl e, a') \<Rightarrow> (Inl (Wrap (''failed to delete DNS record '' @ ip) e), a')
           | (Inr _, a') \<Rightarrow> cf_delete_loop c zone desired m a')"

fun cf_create_loop :: "'a cloudflare_client \<Rightarrow> string \<Rightarrow> string \<Rightarrow> int \<Rightarrow> (string \<times> DNSRecord) list \<Rightarrow> string list \<Rightarrow> 'a \<Rightarrow> unit result \<times> 'a" where
  "cf_create_loop c zone name ttl m [] a = (Inr (), a)"
| "cf_create_loop c zone name ttl m (ip # ips) a =
     (case map_of m ip of
        Some r \<Rightarrow>
          if rec_TTL r \<noteq> ttl then
            (case cf_Update c zone \<lparr>rec_ID = rec_ID r, rec_Name = name, rec_Type = ''A'', rec_Content = ip, rec_TTL = ttl\<rparr> a of
               (Inl e, a') \<Rightarrow> (Inl (Wrap (''failed to update DNS record '' @ ip) e), a')
             | (Inr _, a') \<Rightarrow> cf_create_loop c zone name ttl m ips a')
          else cf_create_loop c zone name ttl m ips a
      | None \<Rightarrow>
          (case cf_Create c zone name ''A'' ip ttl a of
             (Inl e, a') \<Rightarrow> (Inl (Wrap (''failed to create DNS record '' @ ip) e), a')
           | (Inr _, a') \<Rightarrow> cf_create_loop c zone name ttl m ips a'))"

definition cf_upsert :: "'a cloudflare_client \<Rightarrow> ((string \<times> DNSRecord) list \<Rightarrow> (string \<times> DNSRecord) list) \<Rightarrow> string \<Rightarrow>
    UpsertRequest \<Rightarrow> 'a \<Rightarrow> unit result \<times> 'a" where
  "cf_upsert c ord zoneID req a =
     (case ValidateUpsertRequest req of
        Inl e \<Rightarrow> (Inl e, a)
      | Inr _ \<Rightarrow>
          (let zone = cf_zone zoneID (ur_ZoneID req) in
           case cf_List c zone (ur_Name req) ''A'' a of
             (Inl e, a1) \<Rightarrow> (Inl (Wrap ''failed to list DNS records'' e), a1)
           | (Inr existing, a1) \<Rightarrow>
               (let m = existingByIP existing in
                case cf_delete_loop c zone (ur_Records req) (ord m) a1 of
                  (Inl e, a2) \<Rightarrow> (Inl e, a2)
                | (Inr _, a2) \<Rightarrow> cf_create_loop c zone (ur_Name req) (ur_TTL req) m (ur_Records req) a2)))"

definition isNotFoundError :: "'a cloudflare_client \<Rightarrow> err \<Rightarrow> bool" where
  "isNotFoundError c e = (case cf_StatusCode c e of None \<Rightarrow> False | Some code \<Rightarrow> code = 404)"

fun cf_delete_all :: "'a cloudflare_client \<Rightarrow> string \<Rightarrow> DNSRecord list \<Rightarrow> 'a \<Rightarrow> unit result \<times> 'a" where
  "cf_delete_all c zone [] a = (Inr (), a)"
| "cf_delete_all c zone (r # rs) a =
     (case cf_Delete c zone (rec_ID r) a of
        (Inr _, a') \<Rightarrow> cf_delete_all c zone rs a'
      | (Inl e, a') \<Rightarrow>
          if isNotFoundError c e then cf_delete_all c zone rs a'
          else (Inl (Wrap ''failed to delete DNS record'' e), a'))"

definition cf_delete :: "'a cloudflare_client \<Rightarrow> string \<Rightarrow> DeleteRequest \<Rightarrow> 'a \<Rightarrow> unit result \<times> 'a" where
  "cf_delete c zoneID req a =
     (case ValidateDeleteRequest req of
        Inl e \<Rightarrow> (Inl e, a)
      | Inr _ \<Rightarrow>
          (let zone = cf_zone zoneID (dr_ZoneID req) in
           case cf_List c zone (dr_Name req) ''A'' a of
             (Inl e, a1) \<Rightarrow> (Inl (Wrap ''failed to list DNS records'' e), a1)
           | (Inr records, a1) \<Rightarrow> if records = [] then (Inr (), a1) else cf_delete_all c zone records a1))"

definition cloudflare_provider :: "'a cloudflare_client \<Rightarrow> ((string \<times> DNSRecord) list \<Rightarrow> (string \<times> DNSRecord) list) \<Rightarrow> string \<Rightarrow>
    ('a, 'z) dns_world_scheme DNSProvider" where
  "cloudflare_provider c ord zoneID = \<lparr>pv_Name = ''cloudflare'',
     pv_UpsertRecord = (\<lambda>req. remote (cf_upsert c ord zoneID req)),
     pv_DeleteRecord = (\<lambda>req. remote (cf_delete c zoneID req))\<rparr>"

text \<open>\<open>connect\<close> is \<open>cloudflare.NewWithAPIToken\<close>; \<open>unmarshal\<close> yields the token and the zone.\<close>

definition NewCloudflareProvider :: "(string \<Rightarrow> (string \<times> string) result) \<Rightarrow> (string \<Rightarrow> 'a cloudflare_client result) \<Rightarrow>
    ((string \<times> DNSRecord) list \<Rightarrow> (string \<times> DNSRecord) list) \<Rightarrow> string \<Rightarrow> ('a, 'z) dns_world_scheme DNSProvider result" where
  "NewCloudflareProvider unmarshal connect ord configJSON =
     (case parseConfig unmarshal configJSON of
        Inl e \<Rightarrow> Inl e
      | Inr (token, zoneID) \<Rightarrow>
          if token = '''' then Inl (Errorf ''api_token is required for Cloudflare provider'')
          else if zoneID = '''' then Inl (Errorf ''zone_id is required for Cloudflare provider'')
          else case connect token of
                 Inl e \<Rightarrow> Inl (Wrap ''failed to create Cloudflare client'' e)
               | Inr c \<Rightarrow> Inr (cloudflare_provider c ord zoneID))"

subsection \<open>The registry\<close>

record 'a provider_env =
  pe_mockConfig :: "string \<Rightarrow> string result"
  pe_cloudflareConfig :: "string \<Rightarrow> (string \<times> string) result"
  pe_connect :: "string \<Rightarrow> 'a cloudflare_client result"
  pe_order :: "(string \<times> DNSRecord) list \<Rightarrow> (string \<times> DNSRecord) list"

definition CreateProvider :: "'a provider_env \<Rightarrow> string \<Rightarrow> string \<Rightarrow>
    (('a, 'z) dns_world_scheme, ('a, 'z) dns_world_scheme DNSProvider result) state" where
  "CreateProvider env providerType configJSON =
     (if providerType = ''cloudflare''
      then ret (NewCloudflareProvider (pe_cloudflareConfig env) (pe_connect env) (pe_order env) configJSON)
      else if providerType = ''mock'' then NewMockProvider (pe_mockConfig env) configJSON
      else ret (Inl (Errorf (''unknown provider type: '' @ providerType))))"

subsection \<open>The interface\<close>

text \<open>
  The contract both providers satisfy: through \<open>published\<close>, the addresses a name resolves to, a
  successful upsert sets exactly the requested addresses and a successful delete removes the name;
  either way, and also on an error, no other name changes, and of the world only the providers'
  own state and the clock do. Requests leave the zone to the provider.
\<close>

definition dns_frame :: "('a, 'z) dns_world_scheme \<Rightarrow> ('a, 'z) dns_world_scheme \<Rightarrow> bool" where
  "dns_frame w w' = (\<exists>mocks rem now. w' = w\<lparr>w_now_ix := now, dw_mocks := mocks, dw_remote := rem\<rparr>)"

lemma dns_frame_refl [simp]: "dns_frame w w"
  unfolding dns_frame_def
  by (intro exI [of _ "dw_mocks w"] exI [of _ "dw_remote w"] exI [of _ "w_now_ix w"]) simp

lemma dns_frame_updates [simp]:
  "dns_frame w (w\<lparr>w_now_ix := n, dw_mocks := m\<rparr>)"
  "dns_frame w (w\<lparr>dw_mocks := m\<rparr>)"
  "dns_frame w (w\<lparr>dw_remote := a\<rparr>)"
  unfolding dns_frame_def
    apply (intro exI [of _ m] exI [of _ "dw_remote w"] exI [of _ n], simp)
   apply (intro exI [of _ m] exI [of _ "dw_remote w"] exI [of _ "w_now_ix w"], simp)
  apply (intro exI [of _ "dw_mocks w"] exI [of _ a] exI [of _ "w_now_ix w"], simp)
  done

lemma dns_frame_db: "dns_frame w w' \<Longrightarrow> w_db w' = w_db w \<and> healthy_driver w' = healthy_driver w"
  by (auto simp: dns_frame_def healthy_driver_def)

locale dns_provider =
  fixes provider :: "('a, 'z) dns_world_scheme DNSProvider"
    and invar :: "('a, 'z) dns_world_scheme \<Rightarrow> bool"
    and published :: "('a, 'z) dns_world_scheme \<Rightarrow> string \<Rightarrow> string set"
  assumes upsert_ok: "invar w \<Longrightarrow> ur_ZoneID req = '''' \<Longrightarrow> run_state (pv_UpsertRecord provider req) w = (Inr u, w') \<Longrightarrow>
      invar w' \<and> published w' = (published w)(ur_Name req := set (ur_Records req))"
    and upsert_err: "invar w \<Longrightarrow> ur_ZoneID req = '''' \<Longrightarrow> run_state (pv_UpsertRecord provider req) w = (Inl e, w') \<Longrightarrow>
      invar w' \<and> (\<forall>n. n \<noteq> ur_Name req \<longrightarrow> published w' n = published w n)"
    and delete_ok: "invar w \<Longrightarrow> dr_ZoneID dreq = '''' \<Longrightarrow> run_state (pv_DeleteRecord provider dreq) w = (Inr u, w') \<Longrightarrow>
      invar w' \<and> published w' = (published w)(dr_Name dreq := {})"
    and delete_err: "invar w \<Longrightarrow> dr_ZoneID dreq = '''' \<Longrightarrow> run_state (pv_DeleteRecord provider dreq) w = (Inl e, w') \<Longrightarrow>
      invar w' \<and> (\<forall>n. n \<noteq> dr_Name dreq \<longrightarrow> published w' n = published w n)"
    and upsert_frame: "run_state (pv_UpsertRecord provider req) w = (r, w') \<Longrightarrow> dns_frame w w'"
    and delete_frame: "run_state (pv_DeleteRecord provider dreq) w = (r, w') \<Longrightarrow> dns_frame w w'"
    and invar_world: "invar w \<Longrightarrow> dw_mocks w' = dw_mocks w \<Longrightarrow> dw_remote w' = dw_remote w \<Longrightarrow> invar w'"
    and published_world: "dw_mocks w' = dw_mocks w \<Longrightarrow> dw_remote w' = dw_remote w \<Longrightarrow> published w' = published w"
begin

lemma upsert_invar: "invar w \<Longrightarrow> ur_ZoneID req = '''' \<Longrightarrow> invar (exec (pv_UpsertRecord provider req) w)"
  unfolding exec_def
  by (cases "run_state (pv_UpsertRecord provider req) w"; cases "fst (run_state (pv_UpsertRecord provider req) w)")
    (auto dest: upsert_ok upsert_err)

lemma delete_invar: "invar w \<Longrightarrow> dr_ZoneID dreq = '''' \<Longrightarrow> invar (exec (pv_DeleteRecord provider dreq) w)"
  unfolding exec_def
  by (cases "run_state (pv_DeleteRecord provider dreq) w"; cases "fst (run_state (pv_DeleteRecord provider dreq) w)")
    (auto dest: delete_ok delete_err)

end

subsection \<open>The mock provider satisfies it\<close>

definition mock_published :: "nat \<Rightarrow> ('a, 'z) dns_world_scheme \<Rightarrow> string \<Rightarrow> string set" where
  "mock_published p w name =
     (case map_of (if p < length (dw_mocks w) then dw_mocks w ! p else []) (recordKey ''mock-zone'' name) of
        None \<Rightarrow> {} | Some r \<Rightarrow> set (mr_Records r))"

lemma recordKey_inject [simp]: "recordKey z n = recordKey z n' \<longleftrightarrow> n = n'"
  by (simp add: recordKey_def)

lemmas mock_run = run_simps get_mock_def put_mock_def Let_def mock_zone_def

interpretation mock: dns_provider "mock_provider p name" "\<lambda>w. p < length (dw_mocks w)" "mock_published p"
proof (unfold_locales, goal_cases)
  case (1 w req u w')
  then show ?case
    by (auto simp: mock_provider_def Mock_UpsertRecord_def mock_run mock_published_def update_conv fun_eq_iff
        split: if_splits sum.splits option.splits)
next
  case (2 w req e w')
  then show ?case
    by (auto simp: mock_provider_def Mock_UpsertRecord_def mock_run split: if_splits sum.splits option.splits)
next
  case (3 w req u w')
  then show ?case
    by (auto simp: mock_provider_def Mock_DeleteRecord_def mock_run mock_published_def delete_conv fun_eq_iff
        split: if_splits option.splits)
next
  case (4 w req e w')
  then show ?case
    by (auto simp: mock_provider_def Mock_DeleteRecord_def mock_run split: if_splits option.splits)
next
  case (5 req w r w')
  then show ?case
    by (auto simp: mock_provider_def Mock_UpsertRecord_def mock_run split: if_splits sum.splits option.splits)
next
  case (6 req w r w')
  then show ?case
    by (auto simp: mock_provider_def Mock_DeleteRecord_def mock_run split: if_splits option.splits)
qed (auto simp: mock_published_def fun_eq_iff)

end
