(* ===== verification/Cloudflare.thy ===== *)
theory Cloudflare
  imports Provider
begin

section \<open>Correctness of the Cloudflare provider\<close>

text \<open>
  What the provider relies on of the Cloudflare service, as the hypothesis \<open>api_laws\<close> on the
  client and on the zones it stands for (\<open>zone a z\<close>, the records of zone \<open>z\<close>): a listing returns
  exactly the records of a name and type, a deletion removes an id, an update replaces the record
  of an id, a creation adds a record under a fresh id and is refused when an identical record
  exists, an error changes nothing, and status 404 means there is no such id. From it the set-diff
  of \<open>UpsertRecord\<close> and the deletion are proved to satisfy the provider interface.
\<close>

definition A_rec :: "string \<Rightarrow> DNSRecord \<Rightarrow> bool" where
  "A_rec n r = (rec_Name r = n \<and> rec_Type r = ''A'')"

definition same_data :: "DNSRecord \<Rightarrow> DNSRecord \<Rightarrow> bool" where
  "same_data r r' = (rec_Name r = rec_Name r' \<and> rec_Type r = rec_Type r' \<and> rec_Content r = rec_Content r')"

definition zone_ok :: "DNSRecord list \<Rightarrow> bool" where
  "zone_ok Z = (\<forall>r \<in> set Z. \<forall>r' \<in> set Z. rec_ID r = rec_ID r' \<or> same_data r r' \<longrightarrow> r = r')"

definition law_list :: "'a cloudflare_client \<Rightarrow> ('a \<Rightarrow> string \<Rightarrow> DNSRecord list) \<Rightarrow> bool" where
  "law_list c zone \<longleftrightarrow> (\<forall>z n t a.
     zone (snd (cf_List c z n t a)) = zone a \<and>
     (case fst (cf_List c z n t a) of
        Inl _ \<Rightarrow> True
      | Inr rs \<Rightarrow> set rs = {x \<in> set (zone a z). rec_Name x = n \<and> rec_Type x = t}))"

definition law_delete :: "'a cloudflare_client \<Rightarrow> ('a \<Rightarrow> string \<Rightarrow> DNSRecord list) \<Rightarrow> bool" where
  "law_delete c zone \<longleftrightarrow> (\<forall>z i a.
     case fst (cf_Delete c z i a) of
       Inl e \<Rightarrow> zone (snd (cf_Delete c z i a)) = zone a \<and>
                 (cf_StatusCode c e = Some 404 \<longrightarrow> i \<notin> rec_ID ` set (zone a z))
     | Inr _ \<Rightarrow> zone (snd (cf_Delete c z i a)) = (zone a)(z := filter (\<lambda>x. rec_ID x \<noteq> i) (zone a z)))"

definition law_update :: "'a cloudflare_client \<Rightarrow> ('a \<Rightarrow> string \<Rightarrow> DNSRecord list) \<Rightarrow> bool" where
  "law_update c zone \<longleftrightarrow> (\<forall>z p a.
     case fst (cf_Update c z p a) of
       Inl _ \<Rightarrow> zone (snd (cf_Update c z p a)) = zone a
     | Inr _ \<Rightarrow> zone (snd (cf_Update c z p a)) =
                 (zone a)(z := map (\<lambda>x. if rec_ID x = rec_ID p then p else x) (zone a z)))"

definition law_create :: "'a cloudflare_client \<Rightarrow> ('a \<Rightarrow> string \<Rightarrow> DNSRecord list) \<Rightarrow> bool" where
  "law_create c zone \<longleftrightarrow> (\<forall>z n t ip ttl a.
     case fst (cf_Create c z n t ip ttl a) of
       Inl _ \<Rightarrow> zone (snd (cf_Create c z n t ip ttl a)) = zone a
     | Inr _ \<Rightarrow> (\<exists>i. zone (snd (cf_Create c z n t ip ttl a)) = (zone a)(z := zone a z @
                    [\<lparr>rec_ID = i, rec_Name = n, rec_Type = t, rec_Content = ip, rec_TTL = ttl\<rparr>]) \<and>
                  (\<forall>x \<in> set (zone a z). rec_ID x \<noteq> i \<and>
                     \<not> (rec_Name x = n \<and> rec_Type x = t \<and> rec_Content x = ip))))"

definition api_laws :: "'a cloudflare_client \<Rightarrow> ('a \<Rightarrow> string \<Rightarrow> DNSRecord list) \<Rightarrow> bool" where
  "api_laws c zone = (law_list c zone \<and> law_delete c zone \<and> law_update c zone \<and> law_create c zone)"

lemma api_list:
  assumes "api_laws c zone" "cf_List c z n t a = (r, a')"
  shows "zone a' = zone a"
proof -
  from assms(1) have "law_list c zone" by (simp add: api_laws_def)
  from this [unfolded law_list_def, rule_format, of z n t a] assms(2) show ?thesis by simp
qed

lemma api_list_set:
  assumes "api_laws c zone" "cf_List c z n t a = (Inr rs, a')"
  shows "set rs = {x \<in> set (zone a z). rec_Name x = n \<and> rec_Type x = t}"
proof -
  from assms(1) have "law_list c zone" by (simp add: api_laws_def)
  from this [unfolded law_list_def, rule_format, of z n t a] assms(2) show ?thesis by simp
qed

lemma api_delete:
  assumes "api_laws c zone" "cf_Delete c z i a = (Inr u, a')"
  shows "zone a' = (zone a)(z := filter (\<lambda>x. rec_ID x \<noteq> i) (zone a z))"
proof -
  from assms(1) have "law_delete c zone" by (simp add: api_laws_def)
  from this [unfolded law_delete_def, rule_format, of z i a] assms(2) show ?thesis by simp
qed

lemma api_delete_err:
  assumes "api_laws c zone" "cf_Delete c z i a = (Inl e, a')"
  shows "zone a' = zone a" and "isNotFoundError c e \<Longrightarrow> i \<notin> rec_ID ` set (zone a z)"
proof -
  from assms(1) have "law_delete c zone" by (simp add: api_laws_def)
  from this [unfolded law_delete_def, rule_format, of z i a] assms(2)
  show "zone a' = zone a" "isNotFoundError c e \<Longrightarrow> i \<notin> rec_ID ` set (zone a z)"
    by (auto simp: isNotFoundError_def split: option.splits)
qed

lemma api_update:
  assumes "api_laws c zone" "cf_Update c z p a = (r, a')"
  shows "zone a' = (case r of Inl _ \<Rightarrow> zone a
    | Inr _ \<Rightarrow> (zone a)(z := map (\<lambda>x. if rec_ID x = rec_ID p then p else x) (zone a z)))"
proof -
  from assms(1) have "law_update c zone" by (simp add: api_laws_def)
  from this [unfolded law_update_def, rule_format, of z p a] assms(2) show ?thesis by (cases r) simp_all
qed

lemma api_create_err:
  assumes "api_laws c zone" "cf_Create c z n t ip ttl a = (Inl e, a')"
  shows "zone a' = zone a"
proof -
  from assms(1) have "law_create c zone" by (simp add: api_laws_def)
  from this [unfolded law_create_def, rule_format, of z n t ip ttl a] assms(2) show ?thesis by simp
qed

lemma api_create:
  assumes "api_laws c zone" "cf_Create c z n t ip ttl a = (Inr u, a')"
  obtains r where "zone a' = (zone a)(z := zone a z @ [r])" "rec_Name r = n" "rec_Type r = t" "rec_Content r = ip"
    "rec_TTL r = ttl" "\<forall>x \<in> set (zone a z). rec_ID x \<noteq> rec_ID r \<and> \<not> same_data x r"
proof -
  from assms(1) have "law_create c zone" by (simp add: api_laws_def)
  from this [unfolded law_create_def, rule_format, of z n t ip ttl a] assms(2)
  obtain i where "zone a' = (zone a)(z := zone a z @
      [\<lparr>rec_ID = i, rec_Name = n, rec_Type = t, rec_Content = ip, rec_TTL = ttl\<rparr>])"
    "\<forall>x \<in> set (zone a z). rec_ID x \<noteq> i \<and> \<not> (rec_Name x = n \<and> rec_Type x = t \<and> rec_Content x = ip)"
    by auto
  then show thesis by (intro that) (auto simp: same_data_def)
qed

subsection \<open>The listing as a map\<close>

lemma map_of_existingByIP:
  "map_of (existingByIP rs) ip = find (\<lambda>r. rec_Content r = ip) (rev rs)"
proof -
  have "map_of (foldl (\<lambda>m r. AList.update (rec_Content r) r m) m0 rs) ip =
      (case find (\<lambda>r. rec_Content r = ip) (rev rs) of None \<Rightarrow> map_of m0 ip | Some r \<Rightarrow> Some r)" for m0
    by (induction rs rule: rev_induct) (auto simp: update_conv)
  then show ?thesis by (simp add: existingByIP_def split: option.splits)
qed

lemma distinct_existingByIP: "distinct (map fst (existingByIP rs))"
proof -
  have "distinct (map fst m0) \<Longrightarrow> distinct (map fst (foldl (\<lambda>m r. AList.update (rec_Content r) r m) m0 rs))" for m0
    by (induction rs arbitrary: m0) (auto simp: distinct_update)
  then show ?thesis by (simp add: existingByIP_def)
qed

lemma existingByIP_mem: "(ip, r) \<in> set (existingByIP rs) \<Longrightarrow> r \<in> set rs \<and> rec_Content r = ip"
proof -
  assume "(ip, r) \<in> set (existingByIP rs)"
  then have "find (\<lambda>r. rec_Content r = ip) (rev rs) = Some r"
    using distinct_existingByIP by (simp add: map_of_existingByIP [symmetric])
  then show ?thesis by (auto dest: find_Some_mem)
qed

lemma existingByIP_covers: "r \<in> set rs \<Longrightarrow> \<exists>r'. map_of (existingByIP rs) (rec_Content r) = Some r'"
  by (auto simp: map_of_existingByIP find_None_iff split: option.splits)
     (metis (mono_tags, lifting) find_None_iff not_Some_eq set_rev)

subsection \<open>One name's records\<close>

definition contents :: "string \<Rightarrow> DNSRecord list \<Rightarrow> string set" where
  "contents n Z = rec_Content ` {r \<in> set Z. A_rec n r}"

text \<open>
  What any of the calls does to a zone: the invariant holds on, and the addresses of every other
  name stay.
\<close>

definition name_step :: "string \<Rightarrow> DNSRecord list \<Rightarrow> DNSRecord list \<Rightarrow> bool" where
  "name_step n Z Z' = ((zone_ok Z \<longrightarrow> zone_ok Z') \<and> (\<forall>n'. n' \<noteq> n \<longrightarrow> contents n' Z' = contents n' Z))"

lemma name_step_refl [simp]: "name_step n Z Z"
  by (simp add: name_step_def)

lemma name_step_trans: "name_step n Z Z' \<Longrightarrow> name_step n Z' Z'' \<Longrightarrow> name_step n Z Z''"
  by (auto simp: name_step_def)

lemma zone_ok_id: "zone_ok Z \<Longrightarrow> r \<in> set Z \<Longrightarrow> r' \<in> set Z \<Longrightarrow> rec_ID r = rec_ID r' \<Longrightarrow> r = r'"
  unfolding zone_ok_def by blast

lemma zone_ok_same: "zone_ok Z \<Longrightarrow> r \<in> set Z \<Longrightarrow> r' \<in> set Z \<Longrightarrow> rec_ID r = rec_ID r' \<Longrightarrow> same_data r r'"
  using zone_ok_id unfolding same_data_def by blast

lemma zone_ok_data: "zone_ok Z \<Longrightarrow> r \<in> set Z \<Longrightarrow> r' \<in> set Z \<Longrightarrow> same_data r r' \<Longrightarrow> r = r'"
  unfolding zone_ok_def by blast

lemma zone_ok_mono: "zone_ok Z \<Longrightarrow> set Z' \<subseteq> set Z \<Longrightarrow> zone_ok Z'"
  unfolding zone_ok_def by blast

lemma name_step_delete:
  assumes "\<forall>x \<in> set Z. rec_ID x = i \<longrightarrow> A_rec n x"
  shows "name_step n Z (filter (\<lambda>x. rec_ID x \<noteq> i) Z)"
  using assms unfolding name_step_def contents_def
  by (auto simp: A_rec_def intro: zone_ok_mono)

lemma name_step_create:
  assumes "A_rec n r" "\<forall>x \<in> set Z. rec_ID x \<noteq> rec_ID r \<and> \<not> same_data x r"
  shows "name_step n Z (Z @ [r])"
  using assms unfolding name_step_def contents_def zone_ok_def
  by (auto simp: A_rec_def same_data_def)

lemma contents_same: "(\<And>x. x \<in> set Z \<Longrightarrow> same_data (f x) x) \<Longrightarrow> contents n (map f Z) = contents n Z"
  by (force simp: contents_def same_data_def A_rec_def image_iff)

lemma zone_ok_map:
  assumes "zone_ok Z" "\<And>x. x \<in> set Z \<Longrightarrow> rec_ID (f x) = rec_ID x" "\<And>x. x \<in> set Z \<Longrightarrow> same_data (f x) x"
  shows "zone_ok (map f Z)"
  unfolding zone_ok_def
proof (intro ballI impI)
  fix r r' assume "r \<in> set (map f Z)" "r' \<in> set (map f Z)" and eq: "rec_ID r = rec_ID r' \<or> same_data r r'"
  then obtain x x' where x: "x \<in> set Z" "r = f x" "x' \<in> set Z" "r' = f x'" by auto
  with assms(2,3) [of x] assms(2,3) [of x'] eq have "rec_ID x = rec_ID x' \<or> same_data x x'"
    by (simp add: same_data_def)
  with x assms(1) show "r = r'" unfolding zone_ok_def by blast
qed

lemma name_step_update:
  assumes "zone_ok Z" "\<forall>x \<in> set Z. rec_ID x = rec_ID p \<longrightarrow> same_data p x"
  shows "name_step n Z (map (\<lambda>x. if rec_ID x = rec_ID p then p else x) Z)"
    and "contents n (map (\<lambda>x. if rec_ID x = rec_ID p then p else x) Z) = contents n Z"
proof -
  let ?f = "\<lambda>x. if rec_ID x = rec_ID p then p else x"
  have same: "\<And>x. x \<in> set Z \<Longrightarrow> same_data (?f x) x" using assms(2) by (auto simp: same_data_def)
  from contents_same [OF same] show "contents n (map ?f Z) = contents n Z" by blast
  have "zone_ok (map ?f Z)" using assms(1) by (rule zone_ok_map) (use same in auto)
  with contents_same [OF same] show "name_step n Z (map ?f Z)" by (simp add: name_step_def)
qed

subsection \<open>The loops\<close>

text \<open>\<open>listed n m Z\<close>: the entries of the map are records of the name, and their ids are theirs in \<open>Z\<close>.\<close>

definition listed :: "string \<Rightarrow> (string \<times> DNSRecord) list \<Rightarrow> DNSRecord list \<Rightarrow> bool" where
  "listed n m Z = (\<forall>(ip, x) \<in> set m. A_rec n x \<and> rec_Content x = ip \<and>
     (\<forall>y \<in> set Z. rec_ID y = rec_ID x \<longrightarrow> same_data y x))"

lemma listed_mono: "listed n m Z \<Longrightarrow> set Z' \<subseteq> set Z \<Longrightarrow> set m' \<subseteq> set m \<Longrightarrow> listed n m' Z'"
  unfolding listed_def by blast

lemma cf_delete_loop_step:
  assumes "api_laws c zone" "cf_delete_loop c z desired m a = (r, a')" "listed n m (zone a z)"
  shows "name_step n (zone a z) (zone a' z) \<and>
    (case r of Inl _ \<Rightarrow> True | Inr _ \<Rightarrow> set (zone a' z) =
      {y \<in> set (zone a z). \<not> (\<exists>(ip, x) \<in> set m. ip \<notin> set desired \<and> rec_ID y = rec_ID x)})"
  using assms(2-3)
proof (induction m arbitrary: a)
  case (Cons p m)
  obtain ip x where p: "p = (ip, x)" by (cases p)
  have tl: "listed n m (zone a z)" using Cons.prems(2) by (rule listed_mono) auto
  show ?case
  proof (cases "ip \<in> set desired")
    case True
    with Cons.IH [OF _ tl] Cons.prems(1) p show ?thesis by (auto split: sum.splits)
  next
    case False
    obtain s a1 where del: "cf_Delete c z (rec_ID x) a = (s, a1)" by (cases "cf_Delete c z (rec_ID x) a")
    show ?thesis
    proof (cases s)
      case (Inl e)
      with False p del Cons.prems(1) have "zone a' = zone a" "r = Inl (Wrap (''failed to delete DNS record '' @ ip) e)"
        using api_delete_err(1) [OF assms(1)] by auto
      then show ?thesis by simp
    next
      case (Inr u)
      with del have z1: "zone a1 z = filter (\<lambda>y. rec_ID y \<noteq> rec_ID x) (zone a z)"
        using api_delete [OF assms(1)] by simp
      have step: "name_step n (zone a z) (zone a1 z)"
        unfolding z1 using Cons.prems(2) p
        by (intro name_step_delete) (fastforce simp: listed_def A_rec_def same_data_def)
      have "listed n m (zone a1 z)" using tl by (rule listed_mono) (auto simp: z1)
      moreover have "cf_delete_loop c z desired m a1 = (r, a')" using Cons.prems(1) False p del Inr by simp
      ultimately have IH: "name_step n (zone a1 z) (zone a' z)"
        "case r of Inl _ \<Rightarrow> True | Inr _ \<Rightarrow> set (zone a' z) =
          {y \<in> set (zone a1 z). \<not> (\<exists>(ip, x) \<in> set m. ip \<notin> set desired \<and> rec_ID y = rec_ID x)}"
        using Cons.IH by blast+
      from name_step_trans [OF step IH(1)] IH(2) False p show ?thesis by (auto simp: z1 split: sum.splits)
    qed
  qed
qed (simp split: sum.splits)

text \<open>Records of the name that still have another TTL than asked for are entries awaiting their update.\<close>

definition ttl_pending :: "string \<Rightarrow> int \<Rightarrow> (string \<times> DNSRecord) list \<Rightarrow> string set \<Rightarrow> DNSRecord list \<Rightarrow> bool" where
  "ttl_pending n ttl m ips Z = (\<forall>y \<in> set Z. A_rec n y \<longrightarrow> rec_TTL y = ttl \<or>
     (rec_Content y \<in> ips \<and> (\<exists>x. map_of m (rec_Content y) = Some x \<and> rec_ID x = rec_ID y \<and> rec_TTL x \<noteq> ttl)))"

lemma ttl_pending_skip:
  "map_of m ip = None \<or> (\<exists>x. map_of m ip = Some x \<and> rec_TTL x = ttl) \<Longrightarrow>
   ttl_pending n ttl m (insert ip ips) Z \<Longrightarrow> ttl_pending n ttl m ips Z"
  unfolding ttl_pending_def by fastforce

definition kept :: "string \<Rightarrow> (string \<times> DNSRecord) list \<Rightarrow> string set \<Rightarrow> DNSRecord list \<Rightarrow> bool" where
  "kept n m ips Z = (\<forall>ip \<in> ips. \<forall>x. map_of m ip = Some x \<longrightarrow>
     A_rec n x \<and> rec_Content x = ip \<and> (\<exists>y \<in> set Z. rec_ID y = rec_ID x \<and> same_data y x))"

lemma kept_mono: "kept n m ips Z \<Longrightarrow> ips' \<subseteq> ips \<Longrightarrow> set Z \<subseteq> set Z' \<Longrightarrow> kept n m ips' Z'"
  unfolding kept_def by blast

lemma kept_map:
  assumes "kept n m ips Z" "\<And>y. y \<in> set Z \<Longrightarrow> rec_ID (f y) = rec_ID y" "\<And>y. y \<in> set Z \<Longrightarrow> same_data (f y) y"
  shows "kept n m ips (map f Z)"
  unfolding kept_def
proof (intro ballI allI impI)
  fix ip x assume "ip \<in> ips" "map_of m ip = Some x"
  with assms(1) obtain y where "A_rec n x \<and> rec_Content x = ip" "y \<in> set Z" "rec_ID y = rec_ID x" "same_data y x"
    unfolding kept_def by blast
  moreover with assms(2,3) [of y] have "rec_ID (f y) = rec_ID x" "same_data (f y) x" by (simp_all add: same_data_def)
  ultimately show "A_rec n x \<and> rec_Content x = ip \<and> (\<exists>y \<in> set (map f Z). rec_ID y = rec_ID x \<and> same_data y x)"
    by auto
qed

lemma update_step:
  assumes "zone_ok Z" "kept n m (insert ip ips) Z" "ttl_pending n ttl m (insert ip ips) Z" "map_of m ip = Some x"
    and p: "p = \<lparr>rec_ID = rec_ID x, rec_Name = n, rec_Type = ''A'', rec_Content = ip, rec_TTL = ttl\<rparr>"
    and Z': "Z' = map (\<lambda>y. if rec_ID y = rec_ID p then p else y) Z"
  shows "name_step n Z Z'" "contents n Z' = contents n Z" "kept n m ips Z'" "ttl_pending n ttl m ips Z'"
    and "ip \<in> contents n Z"
proof -
  from assms(2,4) obtain y0 where x: "A_rec n x" "rec_Content x = ip" and y0: "y0 \<in> set Z" "rec_ID y0 = rec_ID x" "same_data y0 x"
    unfolding kept_def by blast
  show "ip \<in> contents n Z"
    unfolding contents_def by (rule image_eqI [of _ _ y0]) (use x y0 in \<open>auto simp: A_rec_def same_data_def\<close>)
  have same: "\<forall>y \<in> set Z. rec_ID y = rec_ID p \<longrightarrow> same_data p y"
  proof (intro ballI impI)
    fix y assume "y \<in> set Z" "rec_ID y = rec_ID p"
    then have "y0 = y" using zone_ok_id [OF assms(1) y0(1)] y0(2) by (simp add: p)
    with x y0 show "same_data p y" by (simp add: p same_data_def A_rec_def)
  qed
  from name_step_update [OF assms(1) same] show "name_step n Z Z'" "contents n Z' = contents n Z"
    unfolding Z' by blast+
  have "kept n m ips Z" using assms(2) by (rule kept_mono) auto
  then show "kept n m ips Z'" unfolding Z' by (rule kept_map) (use same in \<open>auto simp: same_data_def\<close>)
  show "ttl_pending n ttl m ips Z'"
    unfolding ttl_pending_def
  proof (intro ballI impI)
    fix y' assume "y' \<in> set Z'" "A_rec n y'"
    then obtain y where y: "y \<in> set Z" "y' = (if rec_ID y = rec_ID p then p else y)" unfolding Z' by auto
    show "rec_TTL y' = ttl \<or> rec_Content y' \<in> ips \<and>
        (\<exists>x. map_of m (rec_Content y') = Some x \<and> rec_ID x = rec_ID y' \<and> rec_TTL x \<noteq> ttl)"
    proof (cases "rec_ID y = rec_ID p")
      case True
      with y show ?thesis by (simp add: p)
    next
      case False
      with y \<open>A_rec n y'\<close> assms(3,4) show ?thesis
        unfolding ttl_pending_def p by fastforce
    qed
  qed
qed

lemma ttl_pending_snoc: "ttl_pending n ttl m ips Z \<Longrightarrow> rec_TTL x = ttl \<Longrightarrow> ttl_pending n ttl m ips (Z @ [x])"
  by (simp add: ttl_pending_def ball_Un)

lemma contents_snoc: "A_rec n x \<Longrightarrow> contents n (Z @ [x]) = insert (rec_Content x) (contents n Z)"
  unfolding contents_def by fastforce

lemma cf_create_loop_step:
  assumes "api_laws c zone" "cf_create_loop c z n ttl m ips a = (r, a')"
    and "zone_ok (zone a z)" "kept n m (set ips) (zone a z)" "ttl_pending n ttl m (set ips) (zone a z)"
  shows "name_step n (zone a z) (zone a' z) \<and>
    (case r of Inl _ \<Rightarrow> True | Inr _ \<Rightarrow>
       contents n (zone a' z) = contents n (zone a z) \<union> set ips \<and> ttl_pending n ttl m {} (zone a' z) \<and>
       distinct (filter (\<lambda>ip. map_of m ip = None) ips) \<and>
       (\<forall>ip \<in> set ips. map_of m ip = None \<longrightarrow> ip \<notin> contents n (zone a z)))"
  using assms(2-5)
proof (induction ips arbitrary: a)
  case Nil
  then show ?case by (simp split: sum.splits)
next
  case (Cons ip ips)
  have kept: "kept n m (set ips) (zone a z)" using Cons.prems(3) by (rule kept_mono) auto
  have go: ?case if "name_step n (zone a z) (zone a1 z)" "kept n m (set ips) (zone a1 z)"
    "ttl_pending n ttl m (set ips) (zone a1 z)" "cf_create_loop c z n ttl m ips a1 = (r, a')"
    "contents n (zone a1 z) = insert ip (contents n (zone a z))"
    "map_of m ip = None \<Longrightarrow> ip \<notin> contents n (zone a z)" for a1
  proof -
    from that(1) Cons.prems(2) have "zone_ok (zone a1 z)" by (simp add: name_step_def)
    from Cons.IH [OF that(4) this that(2,3)] name_step_trans [OF that(1)] that(5,6) show ?thesis
      by (auto split: sum.splits)
  qed
  show ?case
  proof (cases "map_of m ip")
    case None
    obtain s a1 where cr: "cf_Create c z n ''A'' ip ttl a = (s, a1)" by (cases "cf_Create c z n ''A'' ip ttl a")
    show ?thesis
    proof (cases s)
      case (Inl e)
      with None cr Cons.prems(1) have "zone a' = zone a" "r = Inl (Wrap (''failed to create DNS record '' @ ip) e)"
        using api_create_err [OF assms(1)] by auto
      then show ?thesis by simp
    next
      case (Inr u)
      with cr obtain x where x: "zone a1 = (zone a)(z := zone a z @ [x])" "rec_Name x = n" "rec_Type x = ''A''"
        "rec_Content x = ip" "rec_TTL x = ttl" "\<forall>y \<in> set (zone a z). rec_ID y \<noteq> rec_ID x \<and> \<not> same_data y x"
        using api_create [OF assms(1)] by metis
      then have z1: "zone a1 z = zone a z @ [x]" by simp
      show ?thesis
      proof (rule go)
        show "name_step n (zone a z) (zone a1 z)"
          unfolding z1 using x by (intro name_step_create) (simp_all add: A_rec_def)
        show "kept n m (set ips) (zone a1 z)" using kept by (rule kept_mono) (auto simp: z1)
        have "ttl_pending n ttl m (set ips) (zone a z)"
          using Cons.prems(4) None ttl_pending_skip [of m ip ttl n "set ips"] by simp
        then show "ttl_pending n ttl m (set ips) (zone a1 z)" unfolding z1 using x(5) by (rule ttl_pending_snoc)
        show "cf_create_loop c z n ttl m ips a1 = (r, a')" using Cons.prems(1) None cr Inr by simp
        show "contents n (zone a1 z) = insert ip (contents n (zone a z))"
          unfolding z1 using x(2-4) contents_snoc [of n x] by (simp add: A_rec_def)
        show "ip \<notin> contents n (zone a z)"
          using x(2-4,6) by (auto simp: contents_def A_rec_def same_data_def)
      qed
    qed
  next
    case (Some x)
    let ?p = "\<lparr>rec_ID = rec_ID x, rec_Name = n, rec_Type = ''A'', rec_Content = ip, rec_TTL = ttl\<rparr>"
    have prems: "kept n m (insert ip (set ips)) (zone a z)" "ttl_pending n ttl m (insert ip (set ips)) (zone a z)"
      using Cons.prems(3,4) by simp_all
    note upd = update_step [OF Cons.prems(2) prems Some refl refl]
    have ip: "ip \<in> contents n (zone a z)" by (rule upd(5))
    show ?thesis
    proof (cases "rec_TTL x = ttl")
      case True
      show ?thesis
      proof (rule go)
        show "ttl_pending n ttl m (set ips) (zone a z)"
          using Cons.prems(4) Some True ttl_pending_skip [of m ip ttl n "set ips"] by simp
        show "cf_create_loop c z n ttl m ips a = (r, a')" using Cons.prems(1) Some True by simp
      qed (use kept ip Some in auto)
    next
      case False
      obtain s a1 where up: "cf_Update c z ?p a = (s, a1)" by (cases "cf_Update c z ?p a")
      show ?thesis
      proof (cases s)
        case (Inl e)
        with Some False up Cons.prems(1) have "zone a' = zone a" "r = Inl (Wrap (''failed to update DNS record '' @ ip) e)"
          using api_update [OF assms(1) up] by auto
        then show ?thesis by simp
      next
        case (Inr u)
        with up have z1: "zone a1 z = map (\<lambda>y. if rec_ID y = rec_ID ?p then ?p else y) (zone a z)"
          using api_update [OF assms(1) up] by simp
        have "contents n (zone a1 z) = insert ip (contents n (zone a z))"
          unfolding z1 upd(2) using ip by blast
        moreover have "cf_create_loop c z n ttl m ips a1 = (r, a')" using Cons.prems(1) Some False up Inr by simp
        moreover have "map_of m ip = None \<Longrightarrow> ip \<notin> contents n (zone a z)" using Some by simp
        ultimately show ?thesis using upd(1,3,4) unfolding z1 [symmetric] by (intro go)
      qed
    qed
  qed
qed

lemma cf_delete_all_step:
  assumes "api_laws c zone" "cf_delete_all c z rs a = (r, a')" "\<forall>x \<in> set rs. \<forall>y \<in> set (zone a z). rec_ID y = rec_ID x \<longrightarrow> A_rec n y"
  shows "name_step n (zone a z) (zone a' z) \<and>
    (case r of Inl _ \<Rightarrow> True | Inr _ \<Rightarrow> set (zone a' z) = {y \<in> set (zone a z). rec_ID y \<notin> rec_ID ` set rs})"
  using assms(2-3)
proof (induction rs arbitrary: a)
  case (Cons x rs)
  obtain s a1 where del: "cf_Delete c z (rec_ID x) a = (s, a1)" by (cases "cf_Delete c z (rec_ID x) a")
  show ?case
  proof (cases "\<exists>e. s = Inl e \<and> \<not> isNotFoundError c e")
    case True
    with del Cons.prems(1) have "zone a' = zone a" "isl r"
      using api_delete_err(1) [OF assms(1)] by auto
    then show ?thesis by (auto split: sum.splits)
  next
    case False
    have z1: "zone a1 z = filter (\<lambda>y. rec_ID y \<noteq> rec_ID x) (zone a z)"
    proof (cases s)
      case (Inr u)
      with api_delete [OF assms(1)] del show ?thesis by simp
    next
      case (Inl e)
      with del api_delete_err [OF assms(1)] False have "zone a1 = zone a" "rec_ID x \<notin> rec_ID ` set (zone a z)" by auto
      moreover from this(2) have "filter (\<lambda>y. rec_ID y \<noteq> rec_ID x) (zone a z) = zone a z"
        by (intro filter_True) (metis image_eqI)
      ultimately show ?thesis by simp
    qed
    have run: "cf_delete_all c z rs a1 = (r, a')" using Cons.prems(1) del False by (cases s) auto
    have step: "name_step n (zone a z) (zone a1 z)"
      unfolding z1 using Cons.prems(2) by (intro name_step_delete) simp
    have "\<forall>x \<in> set rs. \<forall>y \<in> set (zone a1 z). rec_ID y = rec_ID x \<longrightarrow> A_rec n y"
      using Cons.prems(2) by (simp add: z1)
    from Cons.IH [OF run this] name_step_trans [OF step] show ?thesis
      by (auto simp: z1 split: sum.splits)
  qed
qed (simp split: sum.splits)

text \<open>The listing of a name, as a map, picks each of its records.\<close>

lemma existingByIP_listing:
  assumes "zone_ok Z" "set rs = {x \<in> set Z. rec_Name x = n \<and> rec_Type x = ''A''}"
  shows "map_of (existingByIP rs) ip = Some x \<longleftrightarrow> x \<in> set Z \<and> A_rec n x \<and> rec_Content x = ip"
proof
  assume "map_of (existingByIP rs) ip = Some x"
  then have "x \<in> set rs \<and> rec_Content x = ip" by (intro existingByIP_mem map_of_SomeD)
  with assms(2) show "x \<in> set Z \<and> A_rec n x \<and> rec_Content x = ip" by (auto simp: A_rec_def)
next
  assume x: "x \<in> set Z \<and> A_rec n x \<and> rec_Content x = ip"
  with assms(2) have "x \<in> set rs" by (simp add: A_rec_def)
  then obtain x' where x': "map_of (existingByIP rs) ip = Some x'" using existingByIP_covers x by blast
  then have "x' \<in> set rs" "rec_Content x' = ip" using existingByIP_mem map_of_SomeD by metis+
  with x assms(2) have "x' = x" by (intro zone_ok_data [OF assms(1)]) (auto simp: A_rec_def same_data_def)
  with x' show "map_of (existingByIP rs) ip = Some x" by simp
qed

lemma cf_upsert_correct:
  assumes "api_laws c zone" "\<And>m. set (ord m) = set m" "zone_ok (zone a zid)" "ur_ZoneID req = ''''"
    and "cf_upsert c ord zid req a = (r, a')"
  shows "name_step (ur_Name req) (zone a zid) (zone a' zid) \<and>
    (case r of Inl _ \<Rightarrow> True | Inr _ \<Rightarrow>
       contents (ur_Name req) (zone a' zid) = set (ur_Records req) \<and>
       (\<forall>y \<in> set (zone a' zid). A_rec (ur_Name req) y \<longrightarrow> rec_TTL y = ur_TTL req) \<and>
       distinct (filter (\<lambda>ip. ip \<notin> contents (ur_Name req) (zone a zid)) (ur_Records req)))"
proof (cases "ValidateUpsertRequest req")
  case (Inl e)
  with assms(5) have "r = Inl e" "a' = a" by (simp_all add: cf_upsert_def)
  then show ?thesis by simp
next
  case valid: (Inr v)
  let ?n = "ur_Name req" and ?Z = "zone a zid" and ?ips = "ur_Records req"
  obtain l a1 where list: "cf_List c zid ?n ''A'' a = (l, a1)" by (cases "cf_List c zid ?n ''A'' a")
  have Z1: "zone a1 = zone a" using api_list [OF assms(1) list] .
  show ?thesis
  proof (cases l)
    case (Inl e)
    with valid list assms(4,5) Z1 show ?thesis by (auto simp: cf_upsert_def cf_zone_def)
  next
    case (Inr rs)
    let ?m = "existingByIP rs"
    have rs: "set rs = {x \<in> set ?Z. rec_Name x = ?n \<and> rec_Type x = ''A''}"
      using api_list_set [OF assms(1)] list Inr by blast
    note listing = existingByIP_listing [OF assms(3) rs]
    obtain s a2 where del: "cf_delete_loop c zid ?ips (ord ?m) a1 = (s, a2)"
      by (cases "cf_delete_loop c zid ?ips (ord ?m) a1")
    have run: "(case s of Inl e \<Rightarrow> (Inl e, a2) | Inr _ \<Rightarrow> cf_create_loop c zid ?n (ur_TTL req) ?m ?ips a2) = (r, a')"
      using assms(4,5) valid list Inr del by (auto simp: cf_upsert_def cf_zone_def Let_def split: sum.splits)
    have mem: "(ip, x) \<in> set ?m \<longleftrightarrow> x \<in> set ?Z \<and> A_rec ?n x \<and> rec_Content x = ip" for ip x
      using listing [of ip x] distinct_existingByIP by simp
    have "listed ?n (ord ?m) (zone a1 zid)"
      unfolding listed_def assms(2) Z1 by (auto simp: mem zone_ok_same [OF assms(3)])
    from cf_delete_loop_step [OF assms(1) del this] have step: "name_step ?n ?Z (zone a2 zid)"
      and Z2: "case s of Inl _ \<Rightarrow> True | Inr _ \<Rightarrow> set (zone a2 zid) =
        {y \<in> set ?Z. \<not> (\<exists>(ip, x) \<in> set ?m. ip \<notin> set ?ips \<and> rec_ID y = rec_ID x)}"
      unfolding Z1 assms(2) by blast+
    show ?thesis
    proof (cases s)
      case (Inl e)
      with run step show ?thesis by auto
    next
      case (Inr u)
      have gone: "(\<exists>(ip, x) \<in> set ?m. ip \<notin> set ?ips \<and> rec_ID y = rec_ID x) \<longleftrightarrow> A_rec ?n y \<and> rec_Content y \<notin> set ?ips"
        if "y \<in> set ?Z" for y
      proof
        assume "\<exists>(ip, x) \<in> set ?m. ip \<notin> set ?ips \<and> rec_ID y = rec_ID x"
        then obtain ip x where x: "(ip, x) \<in> set ?m" "ip \<notin> set ?ips" "rec_ID y = rec_ID x" by blast
        from x(1) have mx: "x \<in> set ?Z \<and> A_rec ?n x \<and> rec_Content x = ip" unfolding mem .
        then have "y = x" using zone_ok_id [OF assms(3) that _ x(3)] by simp
        with x(2) mx show "A_rec ?n y \<and> rec_Content y \<notin> set ?ips" by simp
      next
        assume "A_rec ?n y \<and> rec_Content y \<notin> set ?ips"
        with that have "(rec_Content y, y) \<in> set ?m" "rec_Content y \<notin> set ?ips" by (simp_all add: mem)
        then show "\<exists>(ip, x) \<in> set ?m. ip \<notin> set ?ips \<and> rec_ID y = rec_ID x" by blast
      qed
      from Z2 Inr have Z2': "set (zone a2 zid) =
        {y \<in> set ?Z. \<not> (\<exists>(ip, x) \<in> set ?m. ip \<notin> set ?ips \<and> rec_ID y = rec_ID x)}" by simp
      have Z2: "y \<in> set (zone a2 zid) \<longleftrightarrow> y \<in> set ?Z \<and> (A_rec ?n y \<longrightarrow> rec_Content y \<in> set ?ips)" for y
        unfolding Z2' using gone [of y] by (simp only: mem_Collect_eq) blast
      have ok2: "zone_ok (zone a2 zid)" using step assms(3) by (simp add: name_step_def)
      have kept2: "kept ?n ?m (set ?ips) (zone a2 zid)"
        unfolding kept_def listing by (auto simp: Z2 same_data_def intro!: bexI)
      have pending: "ttl_pending ?n (ur_TTL req) ?m (set ?ips) (zone a2 zid)"
        unfolding ttl_pending_def listing by (auto simp: Z2)
      have "cf_create_loop c zid ?n (ur_TTL req) ?m ?ips a2 = (r, a')" using run Inr by simp
      note create = cf_create_loop_step [OF assms(1) this ok2 kept2 pending]
      have new: "map_of ?m ip = None \<longleftrightarrow> ip \<notin> contents ?n ?Z" for ip
      proof (cases "map_of ?m ip")
        case (Some x)
        with listing [of ip x] show ?thesis by (auto simp: contents_def)
      qed (use listing [of ip] in \<open>auto simp: contents_def\<close>)
      have "contents ?n (zone a2 zid) \<subseteq> set ?ips" by (auto simp: contents_def Z2)
      with create name_step_trans [OF step] show ?thesis
        by (auto simp: ttl_pending_def new split: sum.splits)
    qed
  qed
qed

lemma cf_delete_correct:
  assumes "api_laws c zone" "zone_ok (zone a zid)" "dr_ZoneID req = ''''" "cf_delete c zid req a = (r, a')"
  shows "name_step (dr_Name req) (zone a zid) (zone a' zid) \<and>
    (case r of Inl _ \<Rightarrow> True | Inr _ \<Rightarrow> contents (dr_Name req) (zone a' zid) = {})"
proof (cases "ValidateDeleteRequest req")
  case (Inl e)
  with assms(4) have "r = Inl e" "a' = a" by (simp_all add: cf_delete_def)
  then show ?thesis by simp
next
  case valid: (Inr v)
  let ?n = "dr_Name req" and ?Z = "zone a zid"
  obtain l a1 where list: "cf_List c zid ?n ''A'' a = (l, a1)" by (cases "cf_List c zid ?n ''A'' a")
  have Z1: "zone a1 = zone a" using api_list [OF assms(1) list] .
  show ?thesis
  proof (cases l)
    case (Inl e)
    with valid list assms(3,4) Z1 show ?thesis by (auto simp: cf_delete_def cf_zone_def)
  next
    case (Inr rs)
    have rs: "set rs = {x \<in> set ?Z. rec_Name x = ?n \<and> rec_Type x = ''A''}"
      using api_list_set [OF assms(1)] list Inr by blast
    have run: "cf_delete_all c zid rs a1 = (r, a')"
      using assms(3,4) valid list Inr by (auto simp: cf_delete_def cf_zone_def Let_def split: if_splits)
    have "\<forall>x \<in> set rs. \<forall>y \<in> set (zone a1 zid). rec_ID y = rec_ID x \<longrightarrow> A_rec ?n y"
      using zone_ok_id [OF assms(2)] unfolding Z1 rs A_rec_def by blast
    from cf_delete_all_step [OF assms(1) run this] rs show ?thesis
      by (auto simp: Z1 contents_def A_rec_def split: sum.splits)
  qed
qed

subsection \<open>The provider interface\<close>

definition cf_published :: "('a \<Rightarrow> string \<Rightarrow> DNSRecord list) \<Rightarrow> string \<Rightarrow> ('a, 'z) dns_world_scheme \<Rightarrow> string \<Rightarrow> string set" where
  "cf_published zone zid w n = contents n (zone (dw_remote w) zid)"

definition cf_invar :: "('a \<Rightarrow> string \<Rightarrow> DNSRecord list) \<Rightarrow> string \<Rightarrow> ('a, 'z) dns_world_scheme \<Rightarrow> bool" where
  "cf_invar zone zid w = zone_ok (zone (dw_remote w) zid)"

lemma run_remote:
  "run_state (remote f) w = (r, w') \<longleftrightarrow> (\<exists>a. f (dw_remote w) = (r, a) \<and> w' = w\<lparr>dw_remote := a\<rparr>)"
  by (auto simp: remote_def split: prod.splits)

lemma cloudflare_provider_laws:
  assumes "api_laws c zone" "\<And>m. set (ord m) = set m"
  shows "dns_provider (cloudflare_provider c ord zid) (cf_invar zone zid) (cf_published zone zid)"
proof (unfold_locales, goal_cases)
  case (1 w req u w')
  then obtain a where "cf_upsert c ord zid req (dw_remote w) = (Inr u, a)" "w' = w\<lparr>dw_remote := a\<rparr>"
    by (auto simp: cloudflare_provider_def run_remote)
  with cf_upsert_correct [OF assms, of "dw_remote w" zid req "Inr u" a] 1 show ?case
    by (auto simp: cf_invar_def cf_published_def name_step_def fun_eq_iff)
next
  case (2 w req e w')
  then obtain a where "cf_upsert c ord zid req (dw_remote w) = (Inl e, a)" "w' = w\<lparr>dw_remote := a\<rparr>"
    by (auto simp: cloudflare_provider_def run_remote)
  with cf_upsert_correct [OF assms, of "dw_remote w" zid req "Inl e" a] 2 show ?case
    by (auto simp: cf_invar_def cf_published_def name_step_def)
next
  case (3 w req u w')
  then obtain a where "cf_delete c zid req (dw_remote w) = (Inr u, a)" "w' = w\<lparr>dw_remote := a\<rparr>"
    by (auto simp: cloudflare_provider_def run_remote)
  with cf_delete_correct [OF assms(1), of "dw_remote w" zid req "Inr u" a] 3 show ?case
    by (auto simp: cf_invar_def cf_published_def name_step_def fun_eq_iff)
next
  case (4 w req e w')
  then obtain a where "cf_delete c zid req (dw_remote w) = (Inl e, a)" "w' = w\<lparr>dw_remote := a\<rparr>"
    by (auto simp: cloudflare_provider_def run_remote)
  with cf_delete_correct [OF assms(1), of "dw_remote w" zid req "Inl e" a] 4 show ?case
    by (auto simp: cf_invar_def cf_published_def name_step_def)
qed (auto simp: cloudflare_provider_def run_remote cf_invar_def cf_published_def fun_eq_iff)

text \<open>
  A successful Cloudflare upsert converges the zone: afterwards the A records of the name are
  exactly the requested addresses, all with the requested TTL, whatever records were there before
  and in whatever order the client's map is iterated; and whether it succeeds or fails, the
  addresses of every other name stay as they were.
\<close>

theorem cloudflare_upsert_converges:
  assumes "api_laws c zone" "\<And>m. set (ord m) = set m" "zone_ok (zone a zid)" "ur_ZoneID req = ''''"
    and "cf_upsert c ord zid req a = (r, a')"
  shows "(ok r \<longrightarrow> contents (ur_Name req) (zone a' zid) = set (ur_Records req) \<and>
      (\<forall>y \<in> set (zone a' zid). A_rec (ur_Name req) y \<longrightarrow> rec_TTL y = ur_TTL req)) \<and>
    (\<forall>n. n \<noteq> ur_Name req \<longrightarrow> contents n (zone a' zid) = contents n (zone a zid))"
  using cf_upsert_correct [OF assms] by (auto simp: name_step_def ok_iff)

text \<open>
  Two backends with the same new address break a Cloudflare upsert: when the requested
  addresses hold one twice that the zone does not have yet, the upsert fails, because the service
  refuses to create the identical record again.
\<close>

theorem duplicate_address_fails:
  assumes "api_laws c zone" "\<And>m. set (ord m) = set m" "zone_ok (zone a zid)" "ur_ZoneID req = ''''"
    and "\<not> distinct (filter (\<lambda>ip. ip \<notin> contents (ur_Name req) (zone a zid)) (ur_Records req))"
  shows "\<not> ok (fst (cf_upsert c ord zid req a))"
  using cf_upsert_correct [OF assms(1-4) prod.collapse [symmetric]] assms(5) by (auto simp: ok_def split: sum.splits)

subsection \<open>A service that satisfies the laws\<close>

text \<open>The zones in memory; a new id is longer than every id of the zone.\<close>

definition memory_client :: "(string \<Rightarrow> DNSRecord list) cloudflare_client" where
  "memory_client = \<lparr>
     cf_List = (\<lambda>z n t a. (Inr (filter (\<lambda>x. rec_Name x = n \<and> rec_Type x = t) (a z)), a)),
     cf_Delete = (\<lambda>z i a. if i \<in> rec_ID ` set (a z) then (Inr (), a(z := filter (\<lambda>x. rec_ID x \<noteq> i) (a z)))
                          else (Inl (Driver ''record not found (81044)''), a)),
     cf_Update = (\<lambda>z p a. if rec_ID p \<in> rec_ID ` set (a z)
                          then (Inr (), a(z := map (\<lambda>x. if rec_ID x = rec_ID p then p else x) (a z)))
                          else (Inl (Driver ''record not found (81044)''), a)),
     cf_Create = (\<lambda>z n t ip ttl a.
        if list_ex (\<lambda>x. rec_Name x = n \<and> rec_Type x = t \<and> rec_Content x = ip) (a z)
        then (Inl (Driver ''an identical record already exists (81058)''), a)
        else (Inr (), a(z := a z @ [\<lparr>rec_ID = CHR ''r'' # concat (map rec_ID (a z)), rec_Name = n, rec_Type = t,
                                      rec_Content = ip, rec_TTL = ttl\<rparr>]))),
     cf_StatusCode = (\<lambda>e. if e = Driver ''record not found (81044)'' then Some 404 else None)\<rparr>"

lemma fresh_id: "x \<in> set rs \<Longrightarrow> rec_ID x \<noteq> CHR ''r'' # concat (map rec_ID rs)"
proof -
  assume "x \<in> set rs"
  then have "length (rec_ID x) \<le> length (concat (map rec_ID rs))"
    by (induction rs) auto
  then show ?thesis by (metis impossible_Cons)
qed

lemma memory_client_laws: "api_laws memory_client (\<lambda>a. a)"
  unfolding api_laws_def law_list_def law_delete_def law_update_def law_create_def
  by (auto simp: memory_client_def list_ex_iff fresh_id)

interpretation memory: dns_provider "cloudflare_provider memory_client (\<lambda>m. m) zid"
  "cf_invar (\<lambda>a. a) zid" "cf_published (\<lambda>a. a) zid"
  by (rule cloudflare_provider_laws) (simp_all add: memory_client_laws)

definition ex_zone :: "string \<Rightarrow> DNSRecord list" where
  "ex_zone = (\<lambda>_. [])(''z'' := [
     \<lparr>rec_ID = ''1'', rec_Name = ''app'', rec_Type = ''A'', rec_Content = ''10.0.0.1'', rec_TTL = 300\<rparr>,
     \<lparr>rec_ID = ''2'', rec_Name = ''app'', rec_Type = ''A'', rec_Content = ''10.0.0.9'', rec_TTL = 60\<rparr>,
     \<lparr>rec_ID = ''3'', rec_Name = ''www'', rec_Type = ''A'', rec_Content = ''10.0.0.9'', rec_TTL = 60\<rparr>])"

theorem duplicate_address_fails_witness:
  "\<not> ok (fst (cf_upsert memory_client (\<lambda>m. m) ''z''
     \<lparr>ur_ZoneID = '''', ur_Name = ''app'', ur_TTL = 60, ur_Records = [''10.0.0.1'', ''10.0.0.1'']\<rparr> (\<lambda>_. [])))"
  by (rule duplicate_address_fails [OF memory_client_laws]) (simp_all add: zone_ok_def contents_def)

definition ex_upsert :: UpsertRequest where
  "ex_upsert = \<lparr>ur_ZoneID = '''', ur_Name = ''app'', ur_TTL = 60, ur_Records = [''10.0.0.1'', ''10.0.0.2'']\<rparr>"

theorem cloudflare_upsert_converges_witness:
  "contents ''app'' (snd (cf_upsert memory_client (\<lambda>m. m) ''z'' ex_upsert ex_zone) ''z'') = {''10.0.0.1'', ''10.0.0.2''}"
proof -
  let ?run = "cf_upsert memory_client (\<lambda>m. m) ''z'' ex_upsert ex_zone"
  have ok: "ok (fst ?run)"
    by (simp add: cf_upsert_def ex_upsert_def ex_zone_def memory_client_def ValidateUpsertRequest_def check_records_def
        cf_zone_def existingByIP_def)
  have zone: "zone_ok (ex_zone ''z'')" by (simp add: zone_ok_def ex_zone_def same_data_def)
  show ?thesis
    using cloudflare_upsert_converges [OF memory_client_laws, of "\<lambda>m. m" ex_zone "''z''" ex_upsert "fst ?run" "snd ?run"]
      ok zone by (simp add: ex_upsert_def)
qed

end
