(* ===== verification/Crypto.thy ===== *)
theory Crypto
  imports Prelude "HOL-Library.Sublist"
begin

section \<open>Encryption at rest (internal/crypto/crypto.go)\<close>

text \<open>
  Strings are byte sequences. AES-GCM is a parameter, a record of the AEAD operations the code
  calls; \<open>aead_ok\<close> is what it relies on. Base64 is written out: the standard alphabet with padding,
  and the decoder that skips line breaks and rejects everything else. A nil encryptor is None.
\<close>

subsection \<open>Base64 (encoding/base64, StdEncoding)\<close>

definition b64_alphabet :: string where
  "b64_alphabet = ''ABCDEFGHIJKLMNOPQRSTUVWXYZabcdefghijklmnopqrstuvwxyz0123456789+/''"

definition b64_char :: "nat \<Rightarrow> char" where
  "b64_char n = b64_alphabet ! n"

fun find_index :: "char \<Rightarrow> string \<Rightarrow> nat option" where
  "find_index c [] = None"
| "find_index c (d # ds) = (if c = d then Some 0 else map_option Suc (find_index c ds))"

definition b64_index :: "char \<Rightarrow> nat option" where
  "b64_index c = find_index c b64_alphabet"

definition byte :: "char \<Rightarrow> nat" where
  "byte c = of_char c"

fun b64_encode :: "string \<Rightarrow> string" where
  "b64_encode [] = []"
| "b64_encode [a] =
     (let v = byte a * 65536
      in [b64_char (v div 262144), b64_char (v div 4096 mod 64), CHR ''='', CHR ''=''])"
| "b64_encode [a, b] =
     (let v = byte a * 65536 + byte b * 256
      in [b64_char (v div 262144), b64_char (v div 4096 mod 64), b64_char (v div 64 mod 64), CHR ''=''])"
| "b64_encode (a # b # c # rest) =
     (let v = byte a * 65536 + byte b * 256 + byte c
      in b64_char (v div 262144) # b64_char (v div 4096 mod 64) # b64_char (v div 64 mod 64) #
         b64_char (v mod 64) # b64_encode rest)"

definition b64_quad :: "nat \<Rightarrow> nat \<Rightarrow> nat \<Rightarrow> nat \<Rightarrow> string" where
  "b64_quad p q r s =
     (let v = p * 262144 + q * 4096 + r * 64 + s
      in [char_of (v div 65536), char_of (v div 256 mod 256), char_of (v mod 256)])"

fun b64_groups :: "string \<Rightarrow> string option" where
  "b64_groups [] = Some []"
| "b64_groups (p # q # r # s # rest) =
     (case (b64_index p, b64_index q, b64_index r, b64_index s) of
        (Some p', Some q', Some r', Some s') \<Rightarrow> map_option (\<lambda>bs. b64_quad p' q' r' s' @ bs) (b64_groups rest)
      | (Some p', Some q', Some r', None) \<Rightarrow>
          if s = CHR ''='' \<and> rest = [] then Some (take 2 (b64_quad p' q' r' 0)) else None
      | (Some p', Some q', None, None) \<Rightarrow>
          if r = CHR ''='' \<and> s = CHR ''='' \<and> rest = [] then Some (take 1 (b64_quad p' q' 0 0)) else None
      | _ \<Rightarrow> None)"
| "b64_groups _ = None"

definition b64_decode :: "string \<Rightarrow> string result" where
  "b64_decode s =
     (case b64_groups (filter (\<lambda>c. c \<noteq> CHR 0x0A \<and> c \<noteq> CHR 0x0D) s) of
        None \<Rightarrow> Inl (Driver ''illegal base64 data'')
      | Some bs \<Rightarrow> Inr bs)"

lemma b64_index_char: "n < 64 \<Longrightarrow> b64_index (b64_char n) = Some n"
proof -
  have "list_all (\<lambda>n. b64_index (b64_char n) = Some n) [0..<64]" by code_simp
  moreover assume "n < 64"
  ultimately show ?thesis by (simp add: list_all_iff)
qed

lemma b64_char_text: "n < 64 \<Longrightarrow> b64_char n \<noteq> CHR 0x0A \<and> b64_char n \<noteq> CHR 0x0D"
proof -
  have "list_all (\<lambda>n. b64_char n \<noteq> CHR 0x0A \<and> b64_char n \<noteq> CHR 0x0D) [0..<64]" by code_simp
  moreover assume "n < 64"
  ultimately show ?thesis by (simp add: list_all_iff)
qed

lemma b64_index_pad: "b64_index (CHR ''='') = None"
  by code_simp

lemma byte_less: "byte c < 256"
  by (simp add: byte_def)

lemma char_of_byte: "char_of (byte c) = c"
  by (simp add: byte_def)

lemma sextets:
  fixes v :: nat
  shows "v div 262144 * 262144 + v div 4096 mod 64 * 4096 + v div 64 mod 64 * 64 + v mod 64 = v"
proof -
  have "v = v div 64 * 64 + v mod 64" by simp
  also have "v div 64 = v div 4096 * 64 + v div 64 mod 64"
    using div_mult_mod_eq [of "v div 64" 64] by (simp add: div_mult2_eq [symmetric])
  also have "v div 4096 = v div 262144 * 64 + v div 4096 mod 64"
    using div_mult_mod_eq [of "v div 4096" 64] by (simp add: div_mult2_eq [symmetric])
  finally show ?thesis by (simp add: algebra_simps)
qed

lemma quad_bytes:
  assumes v: "v = byte a * 65536 + byte b * 256 + byte c"
  shows "b64_quad (v div 262144) (v div 4096 mod 64) (v div 64 mod 64) (v mod 64) = [a, b, c]"
    and "v div 262144 < 64"
proof -
  define x where "x = byte a * 256 + byte b"
  have v': "v = x * 256 + byte c" unfolding v x_def by simp
  have d: "v div 256 = byte a * 256 + byte b" unfolding v' x_def [symmetric] using byte_less [of c] by simp
  have "v div 65536 = v div 256 div 256" by (simp add: div_mult2_eq [symmetric])
  then have "v div 65536 = byte a" unfolding d using byte_less [of b] by simp
  moreover have "v div 256 mod 256 = byte b" unfolding d using byte_less [of b] by simp
  moreover have "v mod 256 = byte c" unfolding v' using byte_less [of c] by simp
  ultimately show "b64_quad (v div 262144) (v div 4096 mod 64) (v div 64 mod 64) (v mod 64) = [a, b, c]"
    unfolding b64_quad_def sextets by (simp only: char_of_byte Let_def)
  have "v < 64 * 262144" unfolding v using byte_less [of a] byte_less [of b] byte_less [of c] by linarith
  then show "v div 262144 < 64" by (rule less_mult_imp_div_less)
qed

lemma pad_sextets:
  "byte a * 65536 div 64 mod 64 = 0" "byte a * 65536 mod 64 = 0" "(byte a * 65536 + byte b * 256) mod 64 = 0"
proof -
  have "byte a * 65536 = byte a * 16 * 64 * 64" by simp
  then show "byte a * 65536 div 64 mod 64 = 0" "byte a * 65536 mod 64 = 0"
    by (metis nonzero_mult_div_cancel_right mod_mult_self2_is_0 zero_neq_numeral)+
  have "byte a * 65536 + byte b * 256 = (byte a * 1024 + byte b * 4) * 64" by simp
  then show "(byte a * 65536 + byte b * 256) mod 64 = 0" by (metis mod_mult_self2_is_0)
qed

lemma byte_zero: "byte (CHR 0x00) = 0"
  by (simp add: byte_def)

lemma b64_roundtrip_groups: "b64_groups (b64_encode bs) = Some bs"
proof (induction bs rule: b64_encode.induct)
  case (2 a)
  let ?v = "byte a * 65536"
  have v: "?v = byte a * 65536 + byte (CHR 0x00) * 256 + byte (CHR 0x00)" by (simp add: byte_zero)
  from quad_bytes [OF v] pad_sextets(1,2) [of a] show ?case
    by (simp add: Let_def b64_index_char b64_index_pad)
next
  case (3 a b)
  let ?v = "byte a * 65536 + byte b * 256"
  have v: "?v = byte a * 65536 + byte b * 256 + byte (CHR 0x00)" by (simp add: byte_zero)
  from quad_bytes [OF v] pad_sextets(3) [of a b] show ?case
    by (simp add: Let_def b64_index_char b64_index_pad)
next
  case (4 a b c rest)
  with quad_bytes [OF refl, of a b c] show ?case by (simp add: Let_def b64_index_char)
qed simp

lemma b64_encode_text: "filter (\<lambda>c. c \<noteq> CHR 0x0A \<and> c \<noteq> CHR 0x0D) (b64_encode bs) = b64_encode bs"
proof (induction bs rule: b64_encode.induct)
  case (2 a)
  then show ?case using quad_bytes(2) [of "byte a * 65536" a "CHR 0x00" "CHR 0x00"]
    by (simp add: Let_def b64_char_text byte_zero)
next
  case (3 a b)
  then show ?case using quad_bytes(2) [of "byte a * 65536 + byte b * 256" a b "CHR 0x00"]
    by (simp add: Let_def b64_char_text byte_zero)
next
  case (4 a b c rest)
  then show ?case using quad_bytes(2) [OF refl, of a b c] by (simp add: Let_def b64_char_text)
qed simp

lemma b64_roundtrip: "b64_decode (b64_encode bs) = Inr bs"
  by (simp add: b64_decode_def b64_encode_text b64_roundtrip_groups)

subsection \<open>The encryptor\<close>

record aead =
  ae_NonceSize :: nat
  ae_Seal :: "string \<Rightarrow> string \<Rightarrow> string"
  ae_Open :: "string \<Rightarrow> string \<Rightarrow> string result"

text \<open>What the code relies on of GCM: opening a sealed text under the same nonce returns it.\<close>

definition aead_ok :: "aead \<Rightarrow> bool" where
  "aead_ok gcm = (\<forall>nonce p. length nonce = ae_NonceSize gcm \<longrightarrow> ae_Open gcm nonce (ae_Seal gcm nonce p) = Inr p)"

definition encryptedPrefix :: string where "encryptedPrefix = ''enc:''"

text \<open>\<open>aes\<close> is \<open>aes.NewCipher\<close> followed by \<open>cipher.NewGCM\<close>.\<close>

definition NewEncryptor :: "(string \<Rightarrow> aead result) \<Rightarrow> string \<Rightarrow> aead result" where
  "NewEncryptor aes key =
     (if length key \<noteq> 32
      then Inl (Errorf (''encryption key must be exactly 32 bytes, got '' @ fmt_d (int (length key))))
      else case aes key of Inl e \<Rightarrow> Inl (Wrap ''creating AES cipher'' e) | Inr gcm \<Rightarrow> Inr gcm)"

text \<open>\<open>nonce\<close> is what \<open>rand.Read\<close> delivers.\<close>

definition Encrypt :: "aead option \<Rightarrow> string result \<Rightarrow> string \<Rightarrow> string result" where
  "Encrypt e nonce plaintext =
     (case e of
        None \<Rightarrow> Inr plaintext
      | Some gcm \<Rightarrow>
          (case nonce of
             Inl err \<Rightarrow> Inl (Wrap ''generating nonce'' err)
           | Inr n \<Rightarrow> Inr (encryptedPrefix @ b64_encode (n @ ae_Seal gcm n plaintext))))"

definition IsEncrypted :: "string \<Rightarrow> bool" where
  "IsEncrypted s = prefix encryptedPrefix s"

definition Decrypt :: "aead option \<Rightarrow> string \<Rightarrow> string result" where
  "Decrypt e s =
     (case e of
        None \<Rightarrow> Inr s
      | Some gcm \<Rightarrow>
          if \<not> prefix encryptedPrefix s then Inr s
          else case b64_decode (drop (length encryptedPrefix) s) of
                 Inl err \<Rightarrow> Inl (Wrap ''decoding ciphertext'' err)
               | Inr raw \<Rightarrow>
                   let nonceSize = ae_NonceSize gcm in
                   if length raw < nonceSize then Inl (Errorf ''ciphertext too short'')
                   else (case ae_Open gcm (take nonceSize raw) (drop nonceSize raw) of
                           Inl err \<Rightarrow> Inl (Wrap ''decrypting'' err)
                         | Inr plaintext \<Rightarrow> Inr plaintext))"

definition nonce_ok :: "aead option \<Rightarrow> string result \<Rightarrow> bool" where
  "nonce_ok e nonce = (case (e, nonce) of (Some gcm, Inr n) \<Rightarrow> length n = ae_NonceSize gcm | _ \<Rightarrow> True)"

definition encryptor_ok :: "aead option \<Rightarrow> bool" where
  "encryptor_ok e = (case e of None \<Rightarrow> True | Some gcm \<Rightarrow> aead_ok gcm)"

lemma Decrypt_Encrypt:
  assumes "encryptor_ok e" "nonce_ok e nonce" "Encrypt e nonce p = Inr s"
  shows "Decrypt e s = Inr p"
proof (cases e)
  case None
  with assms(3) show ?thesis by (simp add: Encrypt_def Decrypt_def)
next
  case (Some gcm)
  with assms(3) obtain n where n: "nonce = Inr n" and s: "s = encryptedPrefix @ b64_encode (n @ ae_Seal gcm n p)"
    by (cases nonce) (auto simp: Encrypt_def)
  with Some assms(1,2) have "length n = ae_NonceSize gcm" "ae_Open gcm n (ae_Seal gcm n p) = Inr p"
    by (auto simp: nonce_ok_def encryptor_ok_def aead_ok_def)
  with Some show ?thesis by (simp add: Decrypt_def s b64_roundtrip)
qed

text \<open>
  What Encrypt produces, Decrypt returns: for every AEAD whose Open inverts its Seal, every
  nonce of the right size and every text, and likewise without an encryptor; through the prefix,
  the Base64 text and the split into nonce and ciphertext.
\<close>

theorem encryption_roundtrip:
  "encryptor_ok e \<Longrightarrow> nonce_ok e nonce \<Longrightarrow> Encrypt e nonce p = Inr s \<Longrightarrow> Decrypt e s = Inr p"
  by (rule Decrypt_Encrypt)

text \<open>An AEAD for the witness: a shift by the length of the nonce, with a one-byte tag.\<close>

definition ex_aead :: aead where
  "ex_aead = \<lparr>ae_NonceSize = 2, ae_Seal = (\<lambda>n p. CHR ''t'' # rev p),
     ae_Open = (\<lambda>n c. case c of t # p \<Rightarrow> if t = CHR ''t'' then Inr (rev p) else Inl (Driver ''authentication failed'')
                       | [] \<Rightarrow> Inl (Driver ''authentication failed''))\<rparr>"

theorem encryption_roundtrip_witness:
  "Decrypt (Some ex_aead) ''enc:bjF0dGVyY2Vz'' = Inr ''secret''"
proof (rule encryption_roundtrip [of "Some ex_aead" "Inr ''n1''"])
  show "encryptor_ok (Some ex_aead)" "nonce_ok (Some ex_aead) (Inr ''n1'')"
    by (simp_all add: encryptor_ok_def aead_ok_def nonce_ok_def ex_aead_def)
  show "Encrypt (Some ex_aead) (Inr ''n1'') ''secret'' = Inr ''enc:bjF0dGVyY2Vz''"
    by (simp add: Encrypt_def ex_aead_def encryptedPrefix_def byte_def b64_char_def b64_alphabet_def)
qed

end
