(* ===== verification/Store_DNS.thy ===== *)
theory Store_DNS
  imports Store_Config Crypto
begin

section \<open>DNS provider configurations (internal/store/dns_provider.go)\<close>

text \<open>
  A configuration has at most one DNS provider. Its JSON configuration, which holds the API token,
  is encrypted before it is written and decrypted after it is read; \<open>enc\<close> is the store's
  encryptor (None for nil) and \<open>nonce\<close> what the random source delivers to one encryption.
\<close>

definition insert_dns_provider :: "DNSProviderConfig \<Rightarrow> db \<Rightarrow> (nat \<times> db) result" where
  "insert_dns_provider p d =
     (if \<exists>r \<in> set (t_dns_providers d). dp_ID r = dp_ID p then Inl (unique_error ''dns_providers.id (1555)'')
      else if \<exists>r \<in> set (t_dns_providers d). dp_ConfigID r = dp_ConfigID p
      then Inl (unique_error ''dns_providers.config_id (2067)'')
      else if \<not> config_exists (dp_ConfigID p) d then Inl fk_error
      else Inr (1, d\<lparr>t_dns_providers := t_dns_providers d @ [p]\<rparr>))"

definition select_dns_provider :: "string \<Rightarrow> db \<Rightarrow> DNSProviderConfig list" where
  "select_dns_provider configID d = filter (\<lambda>r. dp_ConfigID r = configID) (t_dns_providers d)"

definition set_dns_provider_row :: "DNSProviderConfig \<Rightarrow> DNSProviderConfig \<Rightarrow> DNSProviderConfig" where
  "set_dns_provider_row p old = old\<lparr>dp_ProviderType := dp_ProviderType p, dp_ConfigJSON := dp_ConfigJSON p\<rparr>"

definition update_dns_provider :: "DNSProviderConfig \<Rightarrow> db \<Rightarrow> (nat \<times> db) result" where
  "update_dns_provider p d =
     (let hit = (\<lambda>r. dp_ConfigID r = dp_ConfigID p)
      in Inr (row_count hit (t_dns_providers d),
              d\<lparr>t_dns_providers := rows_update hit (set_dns_provider_row p) (t_dns_providers d)\<rparr>))"

definition delete_dns_provider :: "string \<Rightarrow> db \<Rightarrow> (nat \<times> db) result" where
  "delete_dns_provider configID d =
     (let hit = (\<lambda>r. dp_ConfigID r = configID)
      in Inr (row_count hit (t_dns_providers d),
              d\<lparr>t_dns_providers := rows_delete hit (t_dns_providers d)\<rparr>))"

subsection \<open>Methods\<close>

definition CreateDNSProvider :: "aead option \<Rightarrow> string result \<Rightarrow> DNSProviderConfig \<Rightarrow>
    ('z world_scheme, DNSProviderConfig \<times> unit result) state" where
  "CreateDNSProvider enc nonce p0 = do {
     p \<leftarrow> (if dp_ID p0 = '''' then do { u \<leftarrow> uuid_New; ret (p0\<lparr>dp_ID := u\<rparr>) } else ret p0);
     (case Encrypt enc nonce (dp_ConfigJSON p) of
        Inl e \<Rightarrow> ret (p, Inl (Wrap ''encrypting config_json'' e))
      | Inr encJSON \<Rightarrow> do {
          r \<leftarrow> insert_method (fk_wrap ''insert dns provider'') (insert_dns_provider (p\<lparr>dp_ConfigJSON := encJSON\<rparr>));
          ret (p, r)
        })
   }"

definition decrypt_row :: "aead option \<Rightarrow> DNSProviderConfig \<Rightarrow> DNSProviderConfig result" where
  "decrypt_row enc row =
     (case Decrypt enc (dp_ConfigJSON row) of
        Inl e \<Rightarrow> Inl (Wrap ''decrypting config_json'' e)
      | Inr json \<Rightarrow> Inr (row\<lparr>dp_ConfigJSON := json\<rparr>))"

definition GetDNSProvider :: "aead option \<Rightarrow> string \<Rightarrow> ('z world_scheme, DNSProviderConfig result) state" where
  "GetDNSProvider enc configID = do {
     r \<leftarrow> row_method ''query dns provider'' (select_dns_provider configID);
     ret (case r of Inl e \<Rightarrow> Inl e | Inr row \<Rightarrow> decrypt_row enc row)
   }"

definition UpdateDNSProvider :: "aead option \<Rightarrow> string result \<Rightarrow> DNSProviderConfig \<Rightarrow> ('z world_scheme, unit result) state" where
  "UpdateDNSProvider enc nonce p =
     (case Encrypt enc nonce (dp_ConfigJSON p) of
        Inl e \<Rightarrow> ret (Inl (Wrap ''encrypting config_json'' e))
      | Inr encJSON \<Rightarrow>
          affect_method (fk_wrap ''update dns provider'') (update_dns_provider (p\<lparr>dp_ConfigJSON := encJSON\<rparr>)))"

definition DeleteDNSProvider :: "string \<Rightarrow> ('z world_scheme, unit result) state" where
  "DeleteDNSProvider configID = affect_method (Wrap ''delete dns provider'') (delete_dns_provider configID)"

subsection \<open>Constraints\<close>

lemma insert_dns_provider_ok: "db_ok d \<Longrightarrow> insert_dns_provider p d = Inr (n, d') \<Longrightarrow> db_ok d'"
  by (auto simp: insert_dns_provider_def db_ok_def keys_ok_def refs_ok_def sql_simps config_exists_def split: if_splits)

lemma update_dns_provider_ok: "db_ok d \<Longrightarrow> update_dns_provider p d = Inr (n, d') \<Longrightarrow> db_ok d'"
  by (auto simp: update_dns_provider_def db_ok_def keys_ok_def refs_ok_def sql_simps set_dns_provider_row_def Let_def)

lemma delete_dns_provider_ok: "db_ok d \<Longrightarrow> delete_dns_provider i d = Inr (n, d') \<Longrightarrow> db_ok d'"
  by (auto simp: delete_dns_provider_def db_ok_def keys_ok_def refs_ok_def sql_simps Let_def)

lemma keeps_CreateDNSProvider [keep_intros]: "keeps_db_ok (CreateDNSProvider enc nonce p)"
  unfolding CreateDNSProvider_def by (intro keep_intros keeps_insert_method) (erule (1) insert_dns_provider_ok)

lemma keeps_GetDNSProvider [keep_intros]: "keeps (\<lambda>w. P (w_db w)) (GetDNSProvider enc i)"
  unfolding GetDNSProvider_def by (intro keep_intros)

lemma keeps_UpdateDNSProvider [keep_intros]: "keeps_db_ok (UpdateDNSProvider enc nonce p)"
  unfolding UpdateDNSProvider_def by (intro keep_intros keeps_affect_method) (erule (1) update_dns_provider_ok)

lemma keeps_DeleteDNSProvider [keep_intros]: "keeps_db_ok (DeleteDNSProvider i)"
  unfolding DeleteDNSProvider_def by (rule keeps_affect_method) (erule (1) delete_dns_provider_ok)

subsection \<open>The table as a map\<close>

lemma first_select_dns_provider:
  "first_row (select_dns_provider k d) = find (\<lambda>r. dp_ConfigID r = k) (t_dns_providers d)"
  by (simp add: select_dns_provider_def first_row_filter)

interpretation dns_table: keyed_store db_ok select_dns_provider insert_dns_provider
  update_dns_provider delete_dns_provider dp_ConfigID "\<lambda>p. p" dp_ConfigID set_dns_provider_row
proof (unfold_locales, goal_cases)
  case (1 d r n d')
  then show ?case
    by (auto simp: insert_dns_provider_def first_select_dns_provider find_snoc find_absent split: if_splits option.splits)
next
  case (2 d u n d')
  then show ?case
    by (auto simp: update_dns_provider_def Let_def first_select_dns_provider row_count_find row_count_pos
        find_rows_update set_dns_provider_row_def)
next
  case (3 d k n d')
  then show ?case
    by (auto simp: delete_dns_provider_def Let_def first_select_dns_provider row_count_find find_rows_delete)
qed (fact insert_dns_provider_ok update_dns_provider_ok delete_dns_provider_ok)+

text \<open>What \<open>GetDNSProvider\<close> returns on a driver that does not fail.\<close>

lemma run_GetDNSProvider:
  "w_fault w (w_stmt_ix w) = None \<Longrightarrow>
   run_state (GetDNSProvider enc k) w =
     (case dns_table.lookup (w_db w) k of None \<Rightarrow> Inl ErrNotFound | Some row \<Rightarrow> decrypt_row enc row,
      w\<lparr>w_stmt_ix := Suc (w_stmt_ix w)\<rparr>)"
  by (auto simp: GetDNSProvider_def run_simps run_row_method dns_table.lookup_def split: list.splits)

lemma GetDNSProvider_frame:
  "run_state (GetDNSProvider enc k) w = (r, w') \<Longrightarrow> w' = w\<lparr>w_stmt_ix := Suc (w_stmt_ix w)\<rparr>"
  by (auto simp: GetDNSProvider_def row_method_def sql_row_def run_simps)

text \<open>
  C23: A provider configuration survives storage: a successful create answers the configuration it
  was given, its type, configuration and JSON unchanged, with a fresh ID when it had none; the table
  then holds it under its configuration with the JSON replaced by its encryption, and no other
  configuration's provider changes; and reading it back from a driver that does not fail returns it
  with the JSON as it was given.
\<close>

theorem dns_provider_stored:
  assumes "db_ok (w_db w)" "encryptor_ok enc" "nonce_ok enc nonce"
    and "run_state (CreateDNSProvider enc nonce p) w = ((p', Inr u), w')" "healthy_driver w'"
  shows "p' = p\<lparr>dp_ID := (if dp_ID p = '''' then w_uuid w (w_uuid_ix w) else dp_ID p)\<rparr> \<and>
    (\<exists>s. Encrypt enc nonce (dp_ConfigJSON p) = Inr s \<and>
       dns_table.lookup (w_db w') = (dns_table.lookup (w_db w))(dp_ConfigID p \<mapsto> p'\<lparr>dp_ConfigJSON := s\<rparr>)) \<and>
    fst (run_state (GetDNSProvider enc (dp_ConfigID p)) w') = Inr p'"
proof -
  let ?w1 = "if dp_ID p = '''' then w\<lparr>w_uuid_ix := Suc (w_uuid_ix w)\<rparr> else w"
  have w1: "w_db ?w1 = w_db w" by simp
  from assms(4) obtain s where p': "p' = p\<lparr>dp_ID := (if dp_ID p = '''' then w_uuid w (w_uuid_ix w) else dp_ID p)\<rparr>"
    and enc: "Encrypt enc nonce (dp_ConfigJSON p) = Inr s"
    and ins: "run_state (insert_method (fk_wrap ''insert dns provider'') (insert_dns_provider (p'\<lparr>dp_ConfigJSON := s\<rparr>))) ?w1
      = (Inr u, w')"
    by (auto simp: CreateDNSProvider_def run_simps split: if_splits sum.splits prod.splits)
  from dns_table.method_insert(2) [OF _ ins] assms(1) w1 p'
  have lookup: "dns_table.lookup (w_db w') = (dns_table.lookup (w_db w))(dp_ConfigID p \<mapsto> p'\<lparr>dp_ConfigJSON := s\<rparr>)"
    by simp
  from Decrypt_Encrypt [OF assms(2,3) enc] have "decrypt_row enc (p'\<lparr>dp_ConfigJSON := s\<rparr>) = Inr p'"
    by (simp add: decrypt_row_def p')
  with lookup assms(5) have "fst (run_state (GetDNSProvider enc (dp_ConfigID p)) w') = Inr p'"
    by (simp add: run_GetDNSProvider)
  with p' enc lookup show ?thesis by blast
qed

definition ex_dns_world :: world where
  "ex_dns_world = \<lparr>w_db = empty_db\<lparr>t_configs := [\<lparr>cfg_ID = ''c'', cfg_Name = ''web'', cfg_DNSName = ''app'',
       cfg_DNSTTL = 60, cfg_LBMethod = RoundRobin, cfg_CreatedAt = 0, cfg_UpdatedAt = 0, cfg_LastReconcileError = ''''\<rparr>]\<rparr>,
     w_now = (\<lambda>n. int n), w_now_ix = 0, w_uuid = (\<lambda>n. ''u''), w_uuid_ix = 0, w_fault = (\<lambda>_. None), w_stmt_ix = 0\<rparr>"

definition ex_provider :: DNSProviderConfig where
  "ex_provider = \<lparr>dp_ID = '''', dp_ConfigID = ''c'', dp_ProviderType = ''mock'', dp_ConfigJSON = ''{}''\<rparr>"

theorem dns_provider_stored_witness:
  "fst (run_state (GetDNSProvider (Some ex_aead) ''c'')
      (snd (run_state (CreateDNSProvider (Some ex_aead) (Inr ''n1'') ex_provider) ex_dns_world)))
    = Inr (ex_provider\<lparr>dp_ID := ''u''\<rparr>)"
proof -
  let ?w' = "snd (run_state (CreateDNSProvider (Some ex_aead) (Inr ''n1'') ex_provider) ex_dns_world)"
  have run: "run_state (CreateDNSProvider (Some ex_aead) (Inr ''n1'') ex_provider) ex_dns_world
      = ((ex_provider\<lparr>dp_ID := ''u''\<rparr>, Inr ()), ?w')" and ok: "healthy_driver ?w'"
    by (simp_all add: CreateDNSProvider_def ex_provider_def ex_dns_world_def run_simps Encrypt_def run_insert_method
        insert_dns_provider_def config_exists_def empty_db_def healthy_driver_def)
  have "db_ok (w_db ex_dns_world)" "encryptor_ok (Some ex_aead)" "nonce_ok (Some ex_aead) (Inr ''n1'')"
    by (simp_all add: ex_dns_world_def db_ok_def keys_ok_def refs_ok_def empty_db_def unique_def
        encryptor_ok_def aead_ok_def nonce_ok_def ex_aead_def)
  from dns_provider_stored [OF this run ok] show ?thesis by (simp add: ex_provider_def)
qed

end
