(* ===== verification/Reconciler.thy ===== *)
theory Reconciler
  imports Scheduler Cloudflare Store_DNS "HOL-Library.List_Lexorder" "HOL-Library.Char_ord"
begin

section \<open>The DNS reconciler (internal/dns/reconciler.go)\<close>

text \<open>
  A pass reads the configurations, picks for each the healthy backends to publish, and upserts or
  deletes the DNS record when the sorted IPs differ from those it published last. The world is the
  providers' world with \<open>lastRecords\<close>. \<open>sort.Strings\<close> is sorting by the bytewise lexicographic order.
  The record \<open>Reconciler\<close> holds what a reconciler is created with: the fallback provider
  (None for nil), the selection callback, the provider registry and the store's encryptor.
\<close>

record 'a rec_world = "'a dns_world" +
  rw_lastRecords :: "string \<Rightarrow> string list option"

record ('a, 'w) Reconciler =
  rc_provider :: "'w DNSProvider option"
  rc_OnBackendSelected :: "(string \<Rightarrow> ('w, unit) state) option"
  rc_env :: "'a provider_env"
  rc_enc :: "aead option"

type_synonym ('a, 'z) rec_reconciler = "('a, ('a, 'z) rec_world_scheme) Reconciler"

subsection \<open>Choosing backends\<close>

fun selectWeighted_loop :: "Backend \<Rightarrow> Backend list \<Rightarrow> Backend" where
  "selectWeighted_loop best [] = best"
| "selectWeighted_loop best (h # hs) =
     (let bw = b_Weight h;
          bestw = b_Weight best;
          bw = (if bw \<le> 0 then 1 else bw);
          bestw = (if bestw \<le> 0 then 1 else bestw)
      in selectWeighted_loop (if bw < bestw then h else best) hs)"

definition selectWeighted :: "Backend list \<Rightarrow> Backend option" where
  "selectWeighted healthy = (case healthy of [] \<Rightarrow> None | h # hs \<Rightarrow> Some (selectWeighted_loop h hs))"

definition is_publishable :: "(string \<Rightarrow> HealthState option) \<Rightarrow> Backend \<Rightarrow> bool" where
  "is_publishable states b =
     (if \<not> b_Enabled b then False
      else case states (b_ID b) of None \<Rightarrow> False | Some s \<Rightarrow> hs_Status s = StatusHealthy)"

definition getHealthyBackends :: "string \<Rightarrow> ('z world_scheme, Backend list result) state" where
  "getHealthyBackends configID = do {
     rb \<leftarrow> ListBackends configID;
     (case rb of
        Inl e \<Rightarrow> ret (Inl (Wrap ''failed to list backends'' e))
      | Inr backends \<Rightarrow> do {
          rs \<leftarrow> GetHealthStates configID;
          ret (case rs of
                 Inl e \<Rightarrow> Inl (Wrap ''failed to get health states'' e)
               | Inr states \<Rightarrow> Inr (filter (is_publishable states) backends))
        })
   }"

definition backends_for_DNS :: "LBMethod \<Rightarrow> Backend list \<Rightarrow> Backend list" where
  "backends_for_DNS m healthy =
     (case m of
        Weighted \<Rightarrow> (case selectWeighted healthy of Some b \<Rightarrow> [b] | None \<Rightarrow> [])
      | _ \<Rightarrow> healthy)"

definition extractIPs :: "Backend list \<Rightarrow> string list" where
  "extractIPs backends = sort (filter (\<lambda>ip. ip \<noteq> '''') (map b_IP backends))"

fun differ_loop :: "string list \<Rightarrow> string list \<Rightarrow> bool" where
  "differ_loop (x # xs) (y # ys) = (if x \<noteq> y then True else differ_loop xs ys)"
| "differ_loop _ _ = False"

definition needsUpdate :: "(string \<Rightarrow> string list option) \<Rightarrow> string \<Rightarrow> string list \<Rightarrow> bool" where
  "needsUpdate lastRecords configID newIPs =
     (case lastRecords configID of
        None \<Rightarrow> True
      | Some lastIPs \<Rightarrow> if length lastIPs \<noteq> length newIPs then True else differ_loop lastIPs newIPs)"

subsection \<open>Updating DNS\<close>

definition resolveProvider :: "('a, 'z) rec_reconciler \<Rightarrow> string \<Rightarrow>
    (('a, 'z) rec_world_scheme, ('a, 'z) rec_world_scheme DNSProvider option) state" where
  "resolveProvider r configID = do {
     res \<leftarrow> GetDNSProvider (rc_enc r) configID;
     (case res of
        Inl _ \<Rightarrow> ret (rc_provider r)
      | Inr dbCfg \<Rightarrow> do {
          p \<leftarrow> CreateProvider (rc_env r) (dp_ProviderType dbCfg) (dp_ConfigJSON dbCfg);
          ret (case p of Inl _ \<Rightarrow> rc_provider r | Inr p \<Rightarrow> Some p)
        })
   }"

definition set_lastRecords :: "string \<Rightarrow> string list \<Rightarrow> (('a, 'z) rec_world_scheme, unit) state" where
  "set_lastRecords configID ips = State (\<lambda>w. ((), w\<lparr>rw_lastRecords := (rw_lastRecords w)(configID \<mapsto> ips)\<rparr>))"

definition get_lastRecords :: "(('a, 'z) rec_world_scheme, string \<Rightarrow> string list option) state" where
  "get_lastRecords = State (\<lambda>w. (rw_lastRecords w, w))"

definition publish :: "('a, 'z) rec_world_scheme DNSProvider \<Rightarrow> Config \<Rightarrow> string list \<Rightarrow>
    (('a, 'z) rec_world_scheme, unit result) state" where
  "publish p cfg ips =
     (if length ips = 0 then do {
        _ \<leftarrow> pv_DeleteRecord p \<lparr>dr_ZoneID = '''', dr_Name = cfg_DNSName cfg\<rparr>;
        ret (Inr ())
      } else do {
        u \<leftarrow> pv_UpsertRecord p \<lparr>ur_ZoneID = '''', ur_Name = cfg_DNSName cfg, ur_TTL = cfg_DNSTTL cfg, ur_Records = ips\<rparr>;
        ret (case u of Inl e \<Rightarrow> Inl (Wrap ''failed to upsert DNS record'' e) | Inr _ \<Rightarrow> Inr ())
      })"

definition updateDNS :: "('a, 'z) rec_reconciler \<Rightarrow> Config \<Rightarrow> Backend list \<Rightarrow>
    (('a, 'z) rec_world_scheme, unit result) state" where
  "updateDNS r cfg backends = do {
     provider \<leftarrow> resolveProvider r (cfg_ID cfg);
     (case provider of
        None \<Rightarrow> ret (Inr ())
      | Some p \<Rightarrow> do {
          let ips = extractIPs backends;
          res \<leftarrow> publish p cfg ips;
          (case res of
             Inl e \<Rightarrow> ret (Inl e)
           | Inr _ \<Rightarrow> do { _ \<leftarrow> set_lastRecords (cfg_ID cfg) ips; ret (Inr ()) })
        })
   }"

primrec notify_loop :: "(string \<Rightarrow> ('w, unit) state) \<Rightarrow> Backend list \<Rightarrow> ('w, unit) state" where
  "notify_loop f [] = ret ()"
| "notify_loop f (b # bs) = do { f (b_ID b); notify_loop f bs }"

definition reconcileConfig :: "('a, 'z) rec_reconciler \<Rightarrow> Config \<Rightarrow> (('a, 'z) rec_world_scheme, unit result) state" where
  "reconcileConfig r cfg = do {
     rh \<leftarrow> getHealthyBackends (cfg_ID cfg);
     (case rh of
        Inl e \<Rightarrow> ret (Inl (Wrap ''failed to get healthy backends'' e))
      | Inr healthy \<Rightarrow> do {
          let backendsForDNS = backends_for_DNS (cfg_LBMethod cfg) healthy;
          (case rc_OnBackendSelected r of None \<Rightarrow> ret () | Some f \<Rightarrow> notify_loop f backendsForDNS);
          lastRecords \<leftarrow> get_lastRecords;
          (if \<not> needsUpdate lastRecords (cfg_ID cfg) (extractIPs backendsForDNS) then ret (Inr ())
           else do {
             u \<leftarrow> updateDNS r cfg backendsForDNS;
             ret (case u of Inl e \<Rightarrow> Inl (Wrap ''failed to update DNS'' e) | Inr _ \<Rightarrow> Inr ())
           })
        })
   }"

subsection \<open>Passes\<close>

text \<open>Errors of persisting the outcome are only logged.\<close>

definition persist_outcome :: "string \<Rightarrow> unit result \<Rightarrow> ('z world_scheme, unit) state" where
  "persist_outcome configID res = do {
     _ \<leftarrow> SetConfigReconcileError configID (case res of Inl e \<Rightarrow> err_msg e | Inr _ \<Rightarrow> '''');
     ret ()
   }"

primrec reconcile_loop :: "('a, 'z) rec_reconciler \<Rightarrow> Config list \<Rightarrow> (('a, 'z) rec_world_scheme, unit) state" where
  "reconcile_loop r [] = ret ()"
| "reconcile_loop r (cfg # configs) = do {
     res \<leftarrow> reconcileConfig r cfg;
     persist_outcome (cfg_ID cfg) res;
     reconcile_loop r configs
   }"

definition ReconcileOnce :: "('a, 'z) rec_reconciler \<Rightarrow> (('a, 'z) rec_world_scheme, unit result) state" where
  "ReconcileOnce r = do {
     rc \<leftarrow> ListConfigs;
     (case rc of
        Inl e \<Rightarrow> ret (Inl (Wrap ''failed to list configs'' e))
      | Inr configs \<Rightarrow> do { reconcile_loop r configs; ret (Inr ()) })
   }"

definition ReconcileConfig :: "('a, 'z) rec_reconciler \<Rightarrow> string \<Rightarrow> (('a, 'z) rec_world_scheme, unit result) state" where
  "ReconcileConfig r configID = do {
     rc \<leftarrow> GetConfig configID;
     (case rc of
        Inl e \<Rightarrow> ret (Inl (Wrap ''get config'' e))
      | Inr cfg \<Rightarrow> do {
          res \<leftarrow> reconcileConfig r cfg;
          persist_outcome configID res;
          ret res
        })
   }"

definition GetLastRecords :: "string \<Rightarrow> (('a, 'z) rec_world_scheme, string list option) state" where
  "GetLastRecords configID = do { m \<leftarrow> get_lastRecords; ret (m configID) }"

text \<open>The background loop, by what its goroutine receives, and the life cycle.\<close>

fun reconciler_run :: "('a, 'z) rec_reconciler \<Rightarrow> sched_event list \<Rightarrow> (('a, 'z) rec_world_scheme, unit) state" where
  "reconciler_run r [] = ret ()"
| "reconciler_run r (Ctx_Done # _) = ret ()"
| "reconciler_run r (Stop_Closed # _) = ret ()"
| "reconciler_run r (Tick # evs) = do { _ \<leftarrow> ReconcileOnce r; reconciler_run r evs }"

record loop_state =
  lp_running :: bool
  lp_stopClosed :: bool

definition NewReconciler_interval :: "duration \<Rightarrow> duration" where
  "NewReconciler_interval interval = (if interval \<le> 0 then 30 * Second else interval)"

text \<open>\<open>Start\<close> makes a new stop channel and reconciles once before it starts the loop.\<close>

definition Reconciler_Start :: "('a, 'z) rec_reconciler \<Rightarrow> loop_state \<Rightarrow>
    (('a, 'z) rec_world_scheme, unit result \<times> loop_state) state" where
  "Reconciler_Start r s =
     (if lp_running s then ret (Inl (Errorf ''reconciler already running''), s)
      else do {
        _ \<leftarrow> ReconcileOnce r;
        ret (Inr (), s\<lparr>lp_running := True, lp_stopClosed := False\<rparr>)
      })"

text \<open>None is a panic.\<close>

definition Reconciler_Stop :: "loop_state \<Rightarrow> loop_state option" where
  "Reconciler_Stop s =
     (if \<not> lp_running s then Some s
      else if lp_stopClosed s then None
      else Some (s\<lparr>lp_running := False, lp_stopClosed := True\<rparr>))"

subsection \<open>Which backend weighted mode publishes\<close>

definition priority :: "Backend \<Rightarrow> int" where
  "priority b = (if b_Weight b \<le> 0 then 1 else b_Weight b)"

lemma selectWeighted_loop_split:
  "\<exists>us vs. best # hs = us @ selectWeighted_loop best hs # vs \<and>
     (\<forall>u \<in> set us. priority (selectWeighted_loop best hs) < priority u) \<and>
     (\<forall>v \<in> set vs. priority (selectWeighted_loop best hs) \<le> priority v)"
proof (induction hs arbitrary: best)
  case Nil
  show ?case by (intro exI [of _ "[]"]) simp
next
  case (Cons h hs)
  show ?case
  proof (cases "priority h < priority best")
    case True
    then have sel: "selectWeighted_loop best (h # hs) = selectWeighted_loop h hs"
      by (simp add: priority_def Let_def)
    from Cons [of h] obtain us vs where s: "h # hs = us @ selectWeighted_loop h hs # vs"
      "\<forall>u \<in> set us. priority (selectWeighted_loop h hs) < priority u"
      "\<forall>v \<in> set vs. priority (selectWeighted_loop h hs) \<le> priority v" by blast
    have "priority (selectWeighted_loop h hs) \<le> priority h" using s by (cases us) auto
    with True s show ?thesis unfolding sel by (intro exI [of _ "best # us"] exI [of _ vs]) auto
  next
    case False
    then have sel: "selectWeighted_loop best (h # hs) = selectWeighted_loop best hs"
      by (simp add: priority_def Let_def)
    from Cons [of best] obtain us vs where s: "best # hs = us @ selectWeighted_loop best hs # vs"
      "\<forall>u \<in> set us. priority (selectWeighted_loop best hs) < priority u"
      "\<forall>v \<in> set vs. priority (selectWeighted_loop best hs) \<le> priority v" by blast
    show ?thesis
    proof (cases us)
      case Nil
      with s False show ?thesis unfolding sel by (intro exI [of _ "[]"] exI [of _ "h # vs"]) auto
    next
      case (Cons u us')
      with s False show ?thesis unfolding sel
        by (intro exI [of _ "best # h # us'"] exI [of _ vs]) auto
    qed
  qed
qed

text \<open>
  Weighted mode publishes the healthy backend of the lowest weight, weights of zero or less
  counting as one, and among equals the first the store lists; it publishes none only when no
  backend is healthy.
\<close>

theorem selectWeighted_minimal:
  "(selectWeighted hs = None \<longleftrightarrow> hs = []) \<and>
   (\<forall>b. selectWeighted hs = Some b \<longrightarrow>
      (\<exists>us vs. hs = us @ b # vs \<and> (\<forall>u \<in> set us. priority b < priority u) \<and> (\<forall>v \<in> set vs. priority b \<le> priority v)))"
  using selectWeighted_loop_split by (cases hs) (auto simp: selectWeighted_def)

subsection \<open>The backends a configuration publishes\<close>

definition publishable :: "db \<Rightarrow> Backend \<Rightarrow> bool" where
  "publishable d b = (b_Enabled b \<and> map_option hs_Status (health_lookup d (b_ID b)) = Some StatusHealthy)"

definition targets :: "db \<Rightarrow> Config \<Rightarrow> Backend list" where
  "targets d cfg = backends_for_DNS (cfg_LBMethod cfg) (filter (publishable d) (select_backends (cfg_ID cfg) d))"

lemma find_unique: "x \<in> set xs \<Longrightarrow> P x \<Longrightarrow> (\<And>y. y \<in> set xs \<Longrightarrow> P y \<Longrightarrow> y = x) \<Longrightarrow> find P xs = Some x"
proof (induction xs)
  case (Cons a xs)
  show ?case
  proof (cases "P a")
    case True
    then have "a = x" by (intro Cons.prems(3)) simp_all
    with True show ?thesis by simp
  next
    case False
    with Cons.prems(1,2) have "x \<in> set xs" by auto
    then have "find P xs = Some x" by (rule Cons.IH [OF _ Cons.prems(2)]) (rule Cons.prems(3), simp_all)
    with False show ?thesis by simp
  qed
qed simp

lemma set_select_health_states:
  "set (select_health_states cid d) =
   {s \<in> set (t_health_states d). \<exists>r \<in> set (t_backends d). br_ID r = hs_BackendID s \<and> br_ConfigID r = cid}"
  by (auto simp: select_health_states_def)

lemma stored_states:
  assumes "db_ok d" "b \<in> set (select_backends cid d)"
  shows "foldl (\<lambda>m s. m(hs_BackendID s \<mapsto> s)) (\<lambda>_. None) (select_health_states cid d) (b_ID b) = health_lookup d (b_ID b)"
proof -
  from assms(2) obtain r where r: "r \<in> set (t_backends d)" "br_Backend r = b" "br_ConfigID r = cid"
    by (auto simp: select_backends_def)
  have uniq: "distinct (map hs_BackendID (t_health_states d))" using assms(1) by (simp add: db_ok_def keys_ok_def unique_def)
  show ?thesis
  proof (cases "health_lookup d (b_ID b)")
    case None
    then have "find (\<lambda>s. hs_BackendID s = b_ID b) (rev (select_health_states cid d)) = None"
      by (auto simp: health_lookup_def first_select_health_state find_None_iff set_select_health_states)
    with None show ?thesis by (simp add: foldl_states)
  next
    case (Some s)
    then have s: "s \<in> set (t_health_states d)" "hs_BackendID s = b_ID b"
      by (auto simp: health_lookup_def first_select_health_state dest: find_Some_mem)
    have "find (\<lambda>s. hs_BackendID s = b_ID b) (rev (select_health_states cid d)) = Some s"
    proof (rule find_unique)
      show "s \<in> set (rev (select_health_states cid d))" using s r by (auto simp: set_select_health_states)
      show "hs_BackendID s = b_ID b" by (rule s)
      fix y assume "y \<in> set (rev (select_health_states cid d))" "hs_BackendID y = b_ID b"
      with s(2) show "y = s" by (intro distinct_map_unique [OF uniq _ s(1)]) (simp_all add: set_select_health_states)
    qed
    with Some show ?thesis by (simp add: foldl_states)
  qed
qed

lemma run_getHealthyBackends:
  assumes "healthy_driver w" "db_ok (w_db w)"
  shows "run_state (getHealthyBackends cid) w =
    (Inr (filter (publishable (w_db w)) (select_backends cid (w_db w))), w\<lparr>w_stmt_ix := Suc (Suc (w_stmt_ix w))\<rparr>)"
proof -
  let ?st = "foldl (\<lambda>m s. m(hs_BackendID s \<mapsto> s)) (\<lambda>_. None) (select_health_states cid (w_db w))"
  have "filter (is_publishable ?st) (select_backends cid (w_db w))
      = filter (publishable (w_db w)) (select_backends cid (w_db w))"
    using stored_states [OF assms(2)]
    by (intro filter_cong) (auto simp: is_publishable_def publishable_def split: option.splits)
  with assms(1) show ?thesis
    by (simp add: getHealthyBackends_def ListBackends_def GetHealthStates_def run_simps run_rows_method)
qed

subsection \<open>What a reconciliation leaves alone\<close>

definition quiet :: "('a, 'z) rec_world_scheme \<Rightarrow> ('a, 'z) rec_world_scheme \<Rightarrow> bool" where
  "quiet w w' = (w_db w' = w_db w \<and> w_fault w' = w_fault w \<and> dw_mocks w' = dw_mocks w \<and>
     dw_remote w' = dw_remote w \<and> rw_lastRecords w' = rw_lastRecords w)"

lemma quiet_refl [simp]: "quiet w w"
  by (simp add: quiet_def)

lemma quiet_trans: "quiet w w' \<Longrightarrow> quiet w' w'' \<Longrightarrow> quiet w w''"
  by (simp add: quiet_def)

lemma quiet_stmt [simp]: "quiet w (w\<lparr>w_stmt_ix := n\<rparr>)"
  by (simp add: quiet_def)

lemma quiet_healthy: "quiet w w' \<Longrightarrow> healthy_driver w' = healthy_driver w"
  by (simp add: quiet_def healthy_driver_def)

text \<open>The callback records a selection: it touches the clock and the aggregator only.\<close>

definition callback_quiet :: "(string \<Rightarrow> (('a, 'z) rec_world_scheme, unit) state) option \<Rightarrow> bool" where
  "callback_quiet cb = (\<forall>f i w. cb = Some f \<longrightarrow> quiet w (exec (f i) w))"

lemma RecordSelection_quiet: "callback_quiet (Some RecordSelection)"
  by (simp add: callback_quiet_def exec_RecordSelection quiet_def)

lemma notify_quiet: "(\<And>i w. quiet w (exec (f i) w)) \<Longrightarrow> quiet w (exec (notify_loop f bs) w)"
proof (induction bs arbitrary: w)
  case (Cons b bs)
  have "quiet (exec (f (b_ID b)) w) (exec (notify_loop f bs) (exec (f (b_ID b)) w))" using Cons by blast
  with Cons.prems [of w "b_ID b"] show ?case
    by (auto simp: exec_def run_simps split: prod.splits intro: quiet_trans)
qed (simp add: exec_def run_simps)

lemma differ_loop_iff: "length xs = length ys \<Longrightarrow> differ_loop xs ys \<longleftrightarrow> xs \<noteq> ys"
  by (induction xs ys rule: differ_loop.induct) auto

lemma needsUpdate_iff: "needsUpdate m k ips \<longleftrightarrow> m k \<noteq> Some ips"
  by (auto simp: needsUpdate_def differ_loop_iff split: option.splits)

text \<open>\<open>resolves r w k p\<close>: whenever it is asked on this world, the reconciler resolves \<open>k\<close> to \<open>p\<close>.\<close>

definition resolves :: "('a, 'z) rec_reconciler \<Rightarrow> ('a, 'z) rec_world_scheme \<Rightarrow> string \<Rightarrow>
    ('a, 'z) rec_world_scheme DNSProvider \<Rightarrow> bool" where
  "resolves r w k p = (\<forall>w1. quiet w w1 \<longrightarrow>
     fst (run_state (resolveProvider r k) w1) = Some p \<and> quiet w1 (snd (run_state (resolveProvider r k) w1)))"

lemma resolves_fallback:
  assumes "healthy_driver w" "dns_table.lookup (w_db w) k = None" "rc_provider r = Some p"
  shows "resolves r w k p"
  unfolding resolves_def
proof (intro allI impI)
  fix w1 assume q: "quiet w w1"
  with assms have "run_state (GetDNSProvider (rc_enc r) k) w1 = (Inl ErrNotFound, w1\<lparr>w_stmt_ix := Suc (w_stmt_ix w1)\<rparr>)"
    using quiet_healthy [OF q] by (simp add: run_GetDNSProvider quiet_def)
  with assms(3) show "fst (run_state (resolveProvider r k) w1) = Some p \<and> quiet w1 (snd (run_state (resolveProvider r k) w1))"
    by (simp add: resolveProvider_def run_simps)
qed

text \<open>A run of \<open>reconcileConfig\<close>, cut at its call of the provider.\<close>

lemma run_reconcileConfig:
  assumes "healthy_driver w" "db_ok (w_db w)" "callback_quiet (rc_OnBackendSelected r)" "resolves r w (cfg_ID cfg) p"
    and ips: "ips = extractIPs (targets (w_db w) cfg)"
  shows "if rw_lastRecords w (cfg_ID cfg) = Some ips
    then fst (run_state (reconcileConfig r cfg) w) = Inr () \<and> quiet w (exec (reconcileConfig r cfg) w)
    else \<exists>w1. quiet w w1 \<and> run_state (reconcileConfig r cfg) w =
      (case run_state (publish p cfg ips) w1 of
         (Inl e, w2) \<Rightarrow> (Inl (Wrap ''failed to update DNS'' e), w2)
       | (Inr _, w2) \<Rightarrow> (Inr (), w2\<lparr>rw_lastRecords := (rw_lastRecords w2)(cfg_ID cfg \<mapsto> ips)\<rparr>))"
proof -
  let ?w0 = "w\<lparr>w_stmt_ix := Suc (Suc (w_stmt_ix w))\<rparr>"
  let ?n = "case rc_OnBackendSelected r of None \<Rightarrow> ret () | Some f \<Rightarrow> notify_loop f (targets (w_db w) cfg)"
  let ?w1 = "exec ?n ?w0"
  have "quiet ?w0 ?w1"
  proof (cases "rc_OnBackendSelected r")
    case (Some f)
    with assms(3) have "\<And>i w. quiet w (exec (f i) w)" by (simp add: callback_quiet_def)
    with Some show ?thesis by (simp add: notify_quiet)
  qed (simp add: exec_def run_simps)
  then have q1: "quiet w ?w1" using quiet_trans quiet_stmt by blast
  have run: "run_state (reconcileConfig r cfg) w =
      (if rw_lastRecords ?w1 (cfg_ID cfg) = Some ips then (Inr (), ?w1)
       else case run_state (updateDNS r cfg (targets (w_db w) cfg)) ?w1 of
              (Inl e, w2) \<Rightarrow> (Inl (Wrap ''failed to update DNS'' e), w2) | (Inr _, w2) \<Rightarrow> (Inr (), w2))"
    using assms(1,2)
    by (simp add: reconcileConfig_def run_simps run_getHealthyBackends targets_def [symmetric] get_lastRecords_def
        needsUpdate_iff ips exec_def Let_def split: prod.splits sum.splits)
  show ?thesis
  proof (cases "rw_lastRecords w (cfg_ID cfg) = Some ips")
    case True
    with q1 run show ?thesis by (simp add: quiet_def exec_def)
  next
    case False
    from assms(4) q1 obtain w2 where res: "run_state (resolveProvider r (cfg_ID cfg)) ?w1 = (Some p, w2)" and q2: "quiet ?w1 w2"
      unfolding resolves_def by (metis prod.collapse)
    have "run_state (updateDNS r cfg (targets (w_db w) cfg)) ?w1 =
        (case run_state (publish p cfg ips) w2 of
           (Inl e, w3) \<Rightarrow> (Inl e, w3)
         | (Inr _, w3) \<Rightarrow> (Inr (), w3\<lparr>rw_lastRecords := (rw_lastRecords w3)(cfg_ID cfg \<mapsto> ips)\<rparr>))"
      by (simp add: updateDNS_def run_simps res ips set_lastRecords_def Let_def split: prod.splits sum.splits)
    with run q1 False have "run_state (reconcileConfig r cfg) w =
        (case run_state (publish p cfg ips) w2 of
           (Inl e, w3) \<Rightarrow> (Inl (Wrap ''failed to update DNS'' e), w3)
         | (Inr _, w3) \<Rightarrow> (Inr (), w3\<lparr>rw_lastRecords := (rw_lastRecords w3)(cfg_ID cfg \<mapsto> ips)\<rparr>))"
      by (simp add: quiet_def split: prod.splits sum.splits)
    with False quiet_trans [OF q1 q2] show ?thesis by auto
  qed
qed

subsection \<open>The reconciler as a client of the provider interface\<close>

locale reconciler_provider = dns_provider provider invar published
  for provider :: "('a, 'z) rec_world_scheme DNSProvider"
    and invar :: "('a, 'z) rec_world_scheme \<Rightarrow> bool"
    and published :: "('a, 'z) rec_world_scheme \<Rightarrow> string \<Rightarrow> string set"
begin

text \<open>What was published last for a configuration is what its name resolves to.\<close>

definition coherent :: "('a, 'z) rec_world_scheme \<Rightarrow> Config \<Rightarrow> bool" where
  "coherent w cfg = (\<forall>ips. rw_lastRecords w (cfg_ID cfg) = Some ips \<longrightarrow> published w (cfg_DNSName cfg) = set ips)"

lemma frame_rec: "dns_frame w w' \<Longrightarrow> w_db w' = w_db w \<and> w_fault w' = w_fault w \<and> rw_lastRecords w' = rw_lastRecords w"
  by (auto simp: dns_frame_def)

lemma quiet_published: "quiet w w' \<Longrightarrow> published w' = published w"
  by (rule published_world) (simp_all add: quiet_def)

lemma quiet_invar: "quiet w w' \<Longrightarrow> invar w \<Longrightarrow> invar w'"
  by (rule invar_world) (simp_all add: quiet_def)

lemma publish_upsert:
  assumes "invar w" "ips \<noteq> []" "run_state (publish provider cfg ips) w = (res, w')"
  shows "invar w' \<and> dns_frame w w' \<and> (\<forall>n. n \<noteq> cfg_DNSName cfg \<longrightarrow> published w' n = published w n) \<and>
    (ok res \<longrightarrow> published w' (cfg_DNSName cfg) = set ips)"
proof -
  let ?req = "\<lparr>ur_ZoneID = '''', ur_Name = cfg_DNSName cfg, ur_TTL = cfg_DNSTTL cfg, ur_Records = ips\<rparr>"
  obtain u where u: "run_state (pv_UpsertRecord provider ?req) w = (u, w')"
    and res: "res = (case u of Inl e \<Rightarrow> Inl (Wrap ''failed to upsert DNS record'' e) | Inr _ \<Rightarrow> Inr ())"
    using assms(2,3) by (auto simp: publish_def run_simps split: prod.splits)
  from upsert_frame [OF u] have "dns_frame w w'" .
  then show ?thesis
    using upsert_ok [OF assms(1), of ?req] upsert_err [OF assms(1), of ?req] u res by (cases u) auto
qed

lemma publish_delete:
  assumes "invar w" "run_state (publish provider cfg []) w = (res, w')"
  shows "invar w' \<and> dns_frame w w' \<and> res = Inr () \<and> (\<forall>n. n \<noteq> cfg_DNSName cfg \<longrightarrow> published w' n = published w n)"
proof -
  let ?req = "\<lparr>dr_ZoneID = '''', dr_Name = cfg_DNSName cfg\<rparr>"
  obtain u where u: "run_state (pv_DeleteRecord provider ?req) w = (u, w')" and res: "res = Inr ()"
    using assms(2) by (auto simp: publish_def run_simps split: prod.splits)
  from delete_frame [OF u] have "dns_frame w w'" .
  then show ?thesis
    using delete_ok [OF assms(1), of ?req] delete_err [OF assms(1), of ?req] u res by (cases u) auto
qed

lemma set_last_world:
  "published (w\<lparr>rw_lastRecords := m\<rparr>) = published w" "invar w \<Longrightarrow> invar (w\<lparr>rw_lastRecords := m\<rparr>)"
  by (rule published_world, simp_all) (rule invar_world, simp_all)

text \<open>A successful reconciliation that publishes addresses publishes exactly the wanted ones.\<close>

lemma reconcile_publishes:
  assumes "healthy_driver w" "db_ok (w_db w)" "callback_quiet (rc_OnBackendSelected r)"
    and "resolves r w (cfg_ID cfg) provider" "invar w" "coherent w cfg"
    and "ips = extractIPs (targets (w_db w) cfg)" "ips \<noteq> []"
    and "run_state (reconcileConfig r cfg) w = (Inr u, w')"
  shows "published w' (cfg_DNSName cfg) = set ips \<and> rw_lastRecords w' (cfg_ID cfg) = Some ips \<and>
    (\<forall>n. n \<noteq> cfg_DNSName cfg \<longrightarrow> published w' n = published w n) \<and> invar w' \<and> w_db w' = w_db w"
proof (cases "rw_lastRecords w (cfg_ID cfg) = Some ips")
  case True
  with run_reconcileConfig [OF assms(1-4,7)] assms(9) have q: "quiet w w'" by (simp add: exec_def)
  from q True assms(5,6) quiet_published [OF q] quiet_invar [OF q] show ?thesis
    by (simp add: coherent_def quiet_def)
next
  case False
  with run_reconcileConfig [OF assms(1-4,7)] obtain w1 where q: "quiet w w1" and
    run: "run_state (reconcileConfig r cfg) w =
      (case run_state (publish provider cfg ips) w1 of
         (Inl e, w2) \<Rightarrow> (Inl (Wrap ''failed to update DNS'' e), w2)
       | (Inr _, w2) \<Rightarrow> (Inr (), w2\<lparr>rw_lastRecords := (rw_lastRecords w2)(cfg_ID cfg \<mapsto> ips)\<rparr>))" by auto
  then obtain w2 where pub: "run_state (publish provider cfg ips) w1 = (Inr (), w2)"
    and w': "w' = w2\<lparr>rw_lastRecords := (rw_lastRecords w2)(cfg_ID cfg \<mapsto> ips)\<rparr>"
    using assms(9) by (auto split: prod.splits sum.splits)
  from publish_upsert [OF quiet_invar [OF q assms(5)] assms(8) pub]
  show ?thesis
    using quiet_published [OF q] q set_last_world frame_rec [of w1 w2] unfolding w' by (auto simp: quiet_def)
qed

end

text \<open>
  A provider that can be relied on: a valid upsert succeeds, and a deletion fails only for a name
  that is not there. A whole pass over the configurations then converges.
\<close>

locale reliable_provider = reconciler_provider +
  assumes upsert_valid: "invar w \<Longrightarrow> ur_ZoneID req = '''' \<Longrightarrow> ValidateUpsertRequest req = Inr () \<Longrightarrow>
      ok (fst (run_state (pv_UpsertRecord provider req) w))"
    and delete_absent: "invar w \<Longrightarrow> dr_ZoneID dreq = '''' \<Longrightarrow> dr_Name dreq \<noteq> '''' \<Longrightarrow>
      run_state (pv_DeleteRecord provider dreq) w = (Inl e, w') \<Longrightarrow>
      published w' (dr_Name dreq) = {}"
begin

definition valid_config :: "Config \<Rightarrow> bool" where
  "valid_config cfg = (cfg_DNSName cfg \<noteq> '''' \<and> 0 < cfg_DNSTTL cfg)"

lemma publish_total:
  assumes "invar w" "valid_config cfg" "'''' \<notin> set ips" "run_state (publish provider cfg ips) w = (res, w')"
  shows "res = Inr () \<and> invar w' \<and> dns_frame w w' \<and> published w' = (published w)(cfg_DNSName cfg := set ips)"
proof (cases "ips = []")
  case True
  let ?req = "\<lparr>dr_ZoneID = '''', dr_Name = cfg_DNSName cfg\<rparr>"
  obtain u where u: "run_state (pv_DeleteRecord provider ?req) w = (u, w')"
    using assms(4) True by (auto simp: publish_def run_simps split: prod.splits)
  have "published w' (cfg_DNSName cfg) = {}"
  proof (cases u)
    case (Inl e)
    with delete_absent [OF assms(1), of ?req] u assms(2) show ?thesis by (simp add: valid_config_def)
  next
    case (Inr v)
    with delete_ok [OF assms(1), of ?req] u show ?thesis by simp
  qed
  with publish_delete [OF assms(1) assms(4) [unfolded True]] True show ?thesis by (auto simp: fun_eq_iff)
next
  case False
  let ?req = "\<lparr>ur_ZoneID = '''', ur_Name = cfg_DNSName cfg, ur_TTL = cfg_DNSTTL cfg, ur_Records = ips\<rparr>"
  have "ValidateUpsertRequest ?req = Inr ()"
    using assms(2,3) False
    by (auto simp: ValidateUpsertRequest_def check_records_def valid_config_def list_ex_iff)
  with upsert_valid [OF assms(1), of ?req] have "ok (fst (run_state (pv_UpsertRecord provider ?req) w))" by simp
  with assms(4) False have "res = Inr ()" by (auto simp: publish_def run_simps ok_iff split: prod.splits)
  with publish_upsert [OF assms(1) False assms(4)] show ?thesis by (auto simp: fun_eq_iff)
qed

lemma empty_not_target: "'''' \<notin> set (extractIPs bs)"
  by (simp add: extractIPs_def)

lemma reconcile_total:
  assumes "healthy_driver w" "db_ok (w_db w)" "callback_quiet (rc_OnBackendSelected r)"
    and "resolves r w (cfg_ID cfg) provider" "invar w" "coherent w cfg" "valid_config cfg"
    and ips: "ips = extractIPs (targets (w_db w) cfg)"
    and run: "run_state (reconcileConfig r cfg) w = (res, w')"
  shows "res = Inr () \<and> published w' = (published w)(cfg_DNSName cfg := set ips) \<and>
    (rw_lastRecords w')  = (rw_lastRecords w)(cfg_ID cfg \<mapsto> ips) \<and> invar w' \<and> w_db w' = w_db w \<and> w_fault w' = w_fault w"
proof (cases "rw_lastRecords w (cfg_ID cfg) = Some ips")
  case True
  with run_reconcileConfig [OF assms(1-4) ips] run have q: "quiet w w'" "res = Inr ()" by (simp_all add: exec_def)
  with True assms(5,6) quiet_published [OF q(1)] quiet_invar [OF q(1)] show ?thesis
    by (auto simp: coherent_def quiet_def fun_eq_iff)
next
  case False
  with run_reconcileConfig [OF assms(1-4) ips] obtain w1 where q: "quiet w w1" and
    run': "(res, w') = (case run_state (publish provider cfg ips) w1 of
         (Inl e, w2) \<Rightarrow> (Inl (Wrap ''failed to update DNS'' e), w2)
       | (Inr _, w2) \<Rightarrow> (Inr (), w2\<lparr>rw_lastRecords := (rw_lastRecords w2)(cfg_ID cfg \<mapsto> ips)\<rparr>))"
    using run by auto
  obtain res1 w2 where pub: "run_state (publish provider cfg ips) w1 = (res1, w2)"
    by (cases "run_state (publish provider cfg ips) w1")
  from publish_total [OF quiet_invar [OF q assms(5)] assms(7) _ pub] ips empty_not_target
  have w2: "res1 = Inr () \<and> invar w2 \<and> dns_frame w1 w2 \<and> published w2 = (published w1)(cfg_DNSName cfg := set ips)"
    by simp
  with run' pub have "res = Inr ()" "w' = w2\<lparr>rw_lastRecords := (rw_lastRecords w2)(cfg_ID cfg \<mapsto> ips)\<rparr>" by simp_all
  with w2 quiet_published [OF q] q set_last_world frame_rec [of w1 w2] show ?thesis by (auto simp: quiet_def)
qed

end

subsection \<open>A whole pass\<close>

definition clear_errors :: "string set \<Rightarrow> Config list \<Rightarrow> Config list" where
  "clear_errors ids cs = rows_update (\<lambda>c. cfg_ID c \<in> ids) (\<lambda>c. c\<lparr>cfg_LastReconcileError := ''''\<rparr>) cs"

lemma clear_errors_clear: "clear_errors ids (clear_errors ids' cs) = clear_errors (ids' \<union> ids) cs"
  by (auto simp: clear_errors_def rows_update_def)

lemma targets_configs [simp]: "targets (d\<lparr>t_configs := cs\<rparr>) cfg = targets d cfg"
  by (simp add: targets_def publishable_def[abs_def] select_backends_def health_lookup_def select_health_state_def)

lemma run_persist_ok:
  assumes "healthy_driver w"
  shows "run_state (persist_outcome k (Inr ())) w =
    ((), w\<lparr>w_stmt_ix := Suc (w_stmt_ix w), w_db := w_db w\<lparr>t_configs := clear_errors {k} (t_configs (w_db w))\<rparr>\<rparr>)"
  using assms
  by (simp add: persist_outcome_def SetConfigReconcileError_def run_simps run_insert_method update_reconcile_error_def
      Let_def clear_errors_def)

context reliable_provider
begin

lemma reconcile_pass:
  assumes "rc_provider r = Some provider" "callback_quiet (rc_OnBackendSelected r)"
    and "healthy_driver w" "db_ok (w_db w)" "t_dns_providers (w_db w) = []" "invar w"
    and "\<forall>c \<in> set cs. valid_config c \<and> coherent w c" "distinct (map cfg_ID cs)" "distinct (map cfg_DNSName cs)"
    and "w' = exec (reconcile_loop r cs) w"
  shows "(\<forall>c \<in> set cs. published w' (cfg_DNSName c) = set (extractIPs (targets (w_db w) c))) \<and>
    (\<forall>n. n \<notin> cfg_DNSName ` set cs \<longrightarrow> published w' n = published w n) \<and>
    w_db w' = w_db w\<lparr>t_configs := clear_errors (cfg_ID ` set cs) (t_configs (w_db w))\<rparr>"
  using assms(3-10)
proof (induction cs arbitrary: w)
  case Nil
  then show ?case by (simp add: exec_def run_simps clear_errors_def rows_update_def)
next
  case (Cons c cs)
  let ?ips = "extractIPs (targets (w_db w) c)"
  obtain res w1 where run: "run_state (reconcileConfig r c) w = (res, w1)" by (cases "run_state (reconcileConfig r c) w")
  have "dns_table.lookup (w_db w) (cfg_ID c) = None"
    using Cons.prems(3) by (simp add: dns_table.lookup_def first_select_dns_provider)
  with assms(1) Cons.prems(1) have "resolves r w (cfg_ID c) provider" by (intro resolves_fallback)
  from reconcile_total [OF Cons.prems(1,2) assms(2) this Cons.prems(4) _ _ refl run] Cons.prems(5)
  have one: "res = Inr ()" "published w1 = (published w)(cfg_DNSName c := set ?ips)"
    "rw_lastRecords w1 = (rw_lastRecords w)(cfg_ID c \<mapsto> ?ips)" "invar w1" "w_db w1 = w_db w" "w_fault w1 = w_fault w"
    by simp_all
  let ?d = "w_db w\<lparr>t_configs := clear_errors {cfg_ID c} (t_configs (w_db w))\<rparr>"
  let ?w2 = "w1\<lparr>w_stmt_ix := Suc (w_stmt_ix w1), w_db := ?d\<rparr>"
  have h1: "healthy_driver w1" using one(6) Cons.prems(1) by (simp add: healthy_driver_def)
  have "run_state (persist_outcome (cfg_ID c) (Inr ())) w1 = ((), ?w2)"
    using run_persist_ok [OF h1] one(5) by simp
  then have w': "w' = exec (reconcile_loop r cs) ?w2"
    using Cons.prems(8) run one(1) by (simp add: exec_def run_simps)
  have pub2: "published ?w2 = published w1" by (rule published_world) simp_all
  have inv2: "invar ?w2" using one(4) by (rule invar_world) simp_all
  have ok2: "db_ok (w_db ?w2)" using Cons.prems(2)
    by (auto simp: db_ok_def keys_ok_def refs_ok_def sql_simps clear_errors_def)
  have coh2: "\<forall>c' \<in> set cs. valid_config c' \<and> coherent ?w2 c'"
    using Cons.prems(5-7) by (auto simp: coherent_def pub2 one(2,3) image_iff)
  have "(\<forall>c \<in> set cs. published w' (cfg_DNSName c) = set (extractIPs (targets (w_db ?w2) c))) \<and>
    (\<forall>n. n \<notin> cfg_DNSName ` set cs \<longrightarrow> published w' n = published ?w2 n) \<and>
    w_db w' = w_db ?w2\<lparr>t_configs := clear_errors (cfg_ID ` set cs) (t_configs (w_db ?w2))\<rparr>"
    using Cons.prems(3,6,7) h1 ok2 inv2 coh2 w' by (intro Cons.IH) simp_all
  moreover have "cfg_DNSName c \<notin> cfg_DNSName ` set cs" using Cons.prems(7) by simp
  ultimately show ?case using one(2) by (simp add: pub2 clear_errors_clear)
qed

lemma pass_converges:
  assumes "rc_provider r = Some provider" "callback_quiet (rc_OnBackendSelected r)"
    and "healthy_driver w" "db_ok (w_db w)" "t_dns_providers (w_db w) = []" "invar w"
    and "\<forall>c \<in> set (t_configs (w_db w)). valid_config c \<and> coherent w c"
    and "run_state (ReconcileOnce r) w = (res, w')"
  shows "res = Inr () \<and>
    (\<forall>c \<in> set (t_configs (w_db w)). published w' (cfg_DNSName c) = set (extractIPs (targets (w_db w) c))) \<and>
    (\<forall>c \<in> set (t_configs (w_db w')). cfg_LastReconcileError c = '''')"
proof -
  let ?w = "w\<lparr>w_stmt_ix := Suc (w_stmt_ix w)\<rparr>"
  let ?cs = "select_configs (w_db w)"
  have res: "res = Inr ()" and w': "w' = exec (reconcile_loop r ?cs) ?w"
    using assms(3,8) by (auto simp: ReconcileOnce_def ListConfigs_def run_simps run_rows_method exec_def split: prod.splits)
  have cs: "set ?cs = set (t_configs (w_db w))" "mset ?cs = mset (t_configs (w_db w))"
    by (simp_all add: select_configs_def)
  have "distinct (map cfg_ID ?cs)" "distinct (map cfg_DNSName ?cs)"
    using assms(4) cs(2) unfolding db_ok_def keys_ok_def unique_def by (metis mset_eq_imp_distinct_iff mset_map)+
  moreover have "published ?w = published w" by (rule published_world) simp_all
  then have "\<forall>c \<in> set ?cs. valid_config c \<and> coherent ?w c" using assms(7) cs(1) by (simp add: coherent_def)
  moreover have "invar ?w" using assms(6) by (rule invar_world) simp_all
  ultimately have "(\<forall>c \<in> set ?cs. published w' (cfg_DNSName c) = set (extractIPs (targets (w_db ?w) c))) \<and>
    (\<forall>n. n \<notin> cfg_DNSName ` set ?cs \<longrightarrow> published w' n = published ?w n) \<and>
    w_db w' = w_db ?w\<lparr>t_configs := clear_errors (cfg_ID ` set ?cs) (t_configs (w_db ?w))\<rparr>"
    using assms(1-5) w' by (intro reconcile_pass) simp_all
  with res cs(1) show ?thesis by (auto simp: clear_errors_def set_rows_update)
qed

end

subsection \<open>The providers as instances\<close>

interpretation mock_reconciler: reliable_provider "mock_provider p name" "\<lambda>w. p < length (dw_mocks w)" "mock_published p"
proof (intro reliable_provider.intro reconciler_provider.intro mock.dns_provider_axioms, unfold_locales, goal_cases)
  case (1 w req)
  then show ?case
    by (auto simp: mock_provider_def Mock_UpsertRecord_def mock_run ValidateUpsertRequest_def split: if_splits sum.splits option.splits)
next
  case (2 w dreq e w')
  then show ?case
    by (auto simp: mock_provider_def Mock_DeleteRecord_def mock_run mock_published_def split: if_splits option.splits)
qed

interpretation memory_reconciler: reconciler_provider "cloudflare_provider memory_client (\<lambda>m. m) zid"
  "cf_invar (\<lambda>a. a) zid" "cf_published (\<lambda>a. a) zid"
  by (rule reconciler_provider.intro) (rule memory.dns_provider_axioms)

subsection \<open>Properties\<close>

lemma selectWeighted_loop_mem: "selectWeighted_loop best hs \<in> set (best # hs)"
  by (induction hs arbitrary: best) (auto simp: Let_def)

lemma selectWeighted_mem: "selectWeighted hs = Some b \<Longrightarrow> b \<in> set hs"
  using selectWeighted_loop_mem by (cases hs) (force simp: selectWeighted_def)+

lemma targets_publishable:
  "b \<in> set (targets d cfg) \<Longrightarrow> b \<in> set (select_backends (cfg_ID cfg) d) \<and> publishable d b"
  by (auto simp: targets_def backends_for_DNS_def split: LBMethod.splits option.splits dest: selectWeighted_mem [OF sym])

text \<open>
  C1: One pass over all configurations converges: with the mock provider, a driver that does not
  fail, no per-configuration providers and configurations that have a name and a positive TTL,
  \<open>ReconcileOnce\<close> succeeds, every configuration's name resolves to exactly the IPs of the backends
  its policy selects, and no configuration is left with a reconcile error. It starts from any state
  in which what was published last is what the names resolve to, such as the first pass.
\<close>

theorem ReconcileOnce_converges:
  assumes "rc_provider r = Some (mock_provider p name)" "callback_quiet (rc_OnBackendSelected r)"
    and "healthy_driver w" "db_ok (w_db w)" "t_dns_providers (w_db w) = []" "p < length (dw_mocks w)"
    and "\<forall>c \<in> set (t_configs (w_db w)). cfg_DNSName c \<noteq> '''' \<and> 0 < cfg_DNSTTL c \<and>
      (\<forall>ips. rw_lastRecords w (cfg_ID c) = Some ips \<longrightarrow> mock_published p w (cfg_DNSName c) = set ips)"
    and "run_state (ReconcileOnce r) w = (res, w')"
  shows "res = Inr () \<and>
    (\<forall>c \<in> set (t_configs (w_db w)). mock_published p w' (cfg_DNSName c) = set (extractIPs (targets (w_db w) c))) \<and>
    (\<forall>c \<in> set (t_configs (w_db w')). cfg_LastReconcileError c = '''')"
  using assms(7)
  by (intro mock_reconciler.pass_converges [OF assms(1-6) _ assms(8)])
    (simp add: mock_reconciler.valid_config_def mock_reconciler.coherent_def)

text \<open>
  C2: A successful reconciliation of a configuration through Cloudflare that has addresses to
  publish leaves the name's A records with exactly the selected backends' IPs, each of which is
  the IP of an enabled backend of the configuration whose stored state is healthy; given that the
  database driver does not fail, the client keeps its documented laws, and what the reconciler
  remembers as published, if anything, is what the zone had at the start.
\<close>

theorem reconcile_cloudflare_converges:
  assumes "api_laws c zone" "\<And>m. set (ord m) = set m"
    and "healthy_driver w" "db_ok (w_db w)" "callback_quiet (rc_OnBackendSelected r)"
    and "resolves r w (cfg_ID cfg) (cloudflare_provider c ord zid)" "zone_ok (zone (dw_remote w) zid)"
    and "\<forall>ips. rw_lastRecords w (cfg_ID cfg) = Some ips \<longrightarrow> contents (cfg_DNSName cfg) (zone (dw_remote w) zid) = set ips"
    and "extractIPs (targets (w_db w) cfg) \<noteq> []"
    and "run_state (reconcileConfig r cfg) w = (Inr u, w')"
  shows "contents (cfg_DNSName cfg) (zone (dw_remote w') zid) = set (extractIPs (targets (w_db w) cfg)) \<and>
    (\<forall>ip \<in> contents (cfg_DNSName cfg) (zone (dw_remote w') zid).
       \<exists>b \<in> set (select_backends (cfg_ID cfg) (w_db w)). b_IP b = ip \<and> publishable (w_db w) b)"
proof -
  note rp = reconciler_provider.intro [OF cloudflare_provider_laws [OF assms(1,2), of zid]]
  have "cf_invar zone zid w" "reconciler_provider.coherent (cf_published zone zid) w cfg"
    using assms(7,8) by (simp_all add: cf_invar_def reconciler_provider.coherent_def [OF rp] cf_published_def)
  from reconciler_provider.reconcile_publishes [OF rp assms(3-6) this HOL.refl assms(9,10)]
  have pub: "contents (cfg_DNSName cfg) (zone (dw_remote w') zid) = set (extractIPs (targets (w_db w) cfg))"
    by (simp add: cf_published_def)
  show ?thesis
    unfolding pub using targets_publishable by (fastforce simp: extractIPs_def)
qed

text \<open>
  When the IPs to publish are those published last, a reconciliation succeeds without calling
  any provider, whatever the configuration's name and TTL are: a change of the TTL or of the DNS
  name alone is never published.
\<close>

theorem unchanged_ips_skip_update:
  assumes "healthy_driver w" "db_ok (w_db w)" "callback_quiet (rc_OnBackendSelected r)" "resolves r w (cfg_ID cfg) p"
    and "rw_lastRecords w (cfg_ID cfg) = Some (extractIPs (targets (w_db w) cfg))"
  shows "fst (run_state (reconcileConfig r (cfg\<lparr>cfg_DNSName := name, cfg_DNSTTL := ttl\<rparr>)) w) = Inr () \<and>
    quiet w (exec (reconcileConfig r (cfg\<lparr>cfg_DNSName := name, cfg_DNSTTL := ttl\<rparr>)) w)"
proof -
  let ?cfg = "cfg\<lparr>cfg_DNSName := name, cfg_DNSTTL := ttl\<rparr>"
  have "targets (w_db w) ?cfg = targets (w_db w) cfg" by (simp add: targets_def)
  with run_reconcileConfig [OF assms(1-3), of ?cfg p "extractIPs (targets (w_db w) cfg)"] assms(4,5)
  show ?thesis by simp
qed

lemma reconcileConfig_skips:
  assumes "healthy_driver v" "db_ok (w_db v)" "targets (w_db v) cfg = []" "rw_lastRecords v (cfg_ID cfg) = Some []"
  shows "run_state (reconcileConfig r cfg) v = (Inr (), v\<lparr>w_stmt_ix := w_stmt_ix v + 2\<rparr>)"
  using assms
  by (simp add: reconcileConfig_def run_simps run_getHealthyBackends targets_def [symmetric] get_lastRecords_def
      needsUpdate_iff extractIPs_def Let_def split: option.splits)

text \<open>
  C40: A failed deletion is forgotten: when no backend of a configuration is left to publish and the
  provider's delete fails, the reconciliation still succeeds, the provider's state and so the stale
  record stay, and the next reconciliation does not try again: whatever provider it would resolve,
  a recovered one included, it succeeds after its two queries and changes nothing else in the world.
\<close>

theorem failed_delete_is_forgotten:
  assumes "healthy_driver w" "db_ok (w_db w)" "callback_quiet (rc_OnBackendSelected r)" "resolves r w (cfg_ID cfg) p"
    and "targets (w_db w) cfg = []" "rw_lastRecords w (cfg_ID cfg) \<noteq> Some []"
    and "\<And>req v. run_state (pv_DeleteRecord p req) v = (Inl e, v)"
    and "w' = exec (reconcileConfig r cfg) w"
  shows "fst (run_state (reconcileConfig r cfg) w) = Inr () \<and> dw_mocks w' = dw_mocks w \<and> dw_remote w' = dw_remote w \<and>
    (\<forall>r'. run_state (reconcileConfig r' cfg) w' = (Inr (), w'\<lparr>w_stmt_ix := w_stmt_ix w' + 2\<rparr>))"
proof -
  have pub: "run_state (publish p cfg []) w1 = (Inr (), w1)" for w1
    by (simp add: publish_def run_simps assms(7))
  have "[] = extractIPs (targets (w_db w) cfg)" by (simp add: assms(5) extractIPs_def)
  from run_reconcileConfig [OF assms(1-4) this] assms(6) obtain w1 where q: "quiet w w1"
    and run: "run_state (reconcileConfig r cfg) w = (Inr (), w1\<lparr>rw_lastRecords := (rw_lastRecords w1)(cfg_ID cfg \<mapsto> [])\<rparr>)"
    by (auto simp: pub)
  then have w': "w' = w1\<lparr>rw_lastRecords := (rw_lastRecords w1)(cfg_ID cfg \<mapsto> [])\<rparr>" by (simp add: assms(8) exec_def)
  have "healthy_driver w'" "w_db w' = w_db w" using q assms(1) by (simp_all add: w' quiet_def healthy_driver_def)
  then have "run_state (reconcileConfig r' cfg) w' = (Inr (), w'\<lparr>w_stmt_ix := w_stmt_ix w' + 2\<rparr>)" for r'
    using assms(2,5) by (intro reconcileConfig_skips) (simp_all add: w')
  with run q show ?thesis by (simp add: w' quiet_def)
qed

subsection \<open>Witnesses\<close>

theorem selectWeighted_minimal_witness:
  "selectWeighted (map br_Backend [ex_row ''a'' ''10.0.0.1'' True, ex_row ''b'' ''10.0.0.2'' True]) \<noteq> None \<and>
   (selectWeighted [] = None)"
  using selectWeighted_minimal [of "[]"]
    selectWeighted_minimal [of "map br_Backend [ex_row ''a'' ''10.0.0.1'' True, ex_row ''b'' ''10.0.0.2'' True]"] by simp

definition ex_env :: "(string \<Rightarrow> DNSRecord list) provider_env" where
  "ex_env = \<lparr>pe_mockConfig = (\<lambda>_. Inr ''mock''), pe_cloudflareConfig = (\<lambda>_. Inr (''token'', ''z'')),
     pe_connect = (\<lambda>_. Inr memory_client), pe_order = (\<lambda>m. m)\<rparr>"

definition ex_rec_world :: "(string \<Rightarrow> DNSRecord list) rec_world" where
  "ex_rec_world = \<lparr>w_db = ex_db, w_now = (\<lambda>n. int n * Minute), w_now_ix = 0, w_uuid = (\<lambda>n. ''u''),
     w_uuid_ix = 0, w_fault = (\<lambda>_. None), w_stmt_ix = 0, ag_buckets = [], dw_mocks = [[]],
     dw_remote = (\<lambda>_. []), rw_lastRecords = (\<lambda>_. None)\<rparr>"

definition ex_reconciler :: "((string \<Rightarrow> DNSRecord list) rec_world DNSProvider) option \<Rightarrow>
    (string \<Rightarrow> DNSRecord list, (string \<Rightarrow> DNSRecord list) rec_world) Reconciler" where
  "ex_reconciler p = \<lparr>rc_provider = p, rc_OnBackendSelected = Some RecordSelection, rc_env = ex_env, rc_enc = None\<rparr>"

definition down_provider :: "(string \<Rightarrow> DNSRecord list) rec_world DNSProvider" where
  "down_provider = \<lparr>pv_Name = ''down'', pv_UpsertRecord = (\<lambda>_. ret (Inl (Driver ''unavailable''))),
     pv_DeleteRecord = (\<lambda>_. ret (Inl (Driver ''unavailable'')))\<rparr>"

lemma ex_db_ok: "db_ok ex_db"
  by (simp add: db_ok_def keys_ok_def refs_ok_def unique_def references_def ex_world_defs fresh_state_def)

lemma ex_targets: "extractIPs (targets ex_db ex_config) = [''10.0.0.2'']"
  by (simp add: targets_def backends_for_DNS_def extractIPs_def select_backends_def order_desc_def publishable_def
      health_lookup_def select_health_state_def ex_world_defs fresh_state_def)

lemma ex_rec_simps:
  "healthy_driver ex_rec_world" "w_db ex_rec_world = ex_db" "t_dns_providers ex_db = []" "dw_mocks ex_rec_world = [[]]"
  "dw_remote ex_rec_world = (\<lambda>_. [])" "rw_lastRecords ex_rec_world = (\<lambda>_. None)" "t_configs ex_db = [ex_config]"
  "cfg_DNSName ex_config = ''app.example.com''" "cfg_DNSTTL ex_config = 60" "cfg_ID ex_config = ''c''"
  by (simp_all add: ex_rec_world_def healthy_driver_def ex_db_def empty_db_def ex_config_def)

lemma ex_resolves:
  "healthy_driver w \<Longrightarrow> t_dns_providers (w_db w) = [] \<Longrightarrow> resolves (ex_reconciler (Some p)) w k p"
  by (rule resolves_fallback)
    (simp_all add: ex_reconciler_def dns_table.lookup_def first_select_dns_provider)

lemma ex_callback: "callback_quiet (rc_OnBackendSelected (ex_reconciler p))"
  by (simp add: ex_reconciler_def RecordSelection_quiet)

theorem ReconcileOnce_converges_witness:
  "mock_published 0 (snd (run_state (ReconcileOnce (ex_reconciler (Some (mock_provider 0 ''mock'')))) ex_rec_world)) ''app.example.com''
    = {''10.0.0.2''}"
proof -
  let ?r = "ex_reconciler (Some (mock_provider 0 ''mock''))"
  have "rc_provider ?r = Some (mock_provider 0 ''mock'')" by (simp add: ex_reconciler_def)
  from ReconcileOnce_converges [OF this ex_callback ex_rec_simps(1) _ _ _ _ prod.collapse [symmetric]]
  show ?thesis by (simp add: ex_rec_simps ex_db_ok ex_targets)
qed

theorem reconcile_cloudflare_converges_witness:
  "contents ''app.example.com'' (dw_remote (snd (run_state (reconcileConfig
      (ex_reconciler (Some (cloudflare_provider memory_client (\<lambda>m. m) ''z''))) ex_config) ex_rec_world)) ''z'') = {''10.0.0.2''}"
proof -
  let ?p = "cloudflare_provider memory_client (\<lambda>m. m) ''z'' :: (string \<Rightarrow> DNSRecord list) rec_world DNSProvider"
  let ?r = "ex_reconciler (Some ?p)"
  have res: "resolves ?r ex_rec_world (cfg_ID ex_config) ?p" by (rule ex_resolves) (simp_all add: ex_rec_simps)
  have run: "fst (run_state (reconcileConfig ?r ex_config) ex_rec_world) = Inr ()"
  proof -
    let ?req = "\<lparr>ur_ZoneID = '''', ur_Name = ''app.example.com'', ur_TTL = 60, ur_Records = [''10.0.0.2'']\<rparr>"
    have "fst (cf_upsert memory_client (\<lambda>m. m) ''z'' ?req (\<lambda>_. [])) = Inr ()"
      by (simp add: cf_upsert_def memory_client_def ValidateUpsertRequest_def check_records_def cf_zone_def existingByIP_def)
    then obtain a where up: "cf_upsert memory_client (\<lambda>m. m) ''z'' ?req (\<lambda>_. []) = (Inr (), a)"
      by (metis prod.collapse)
    from run_reconcileConfig [OF ex_rec_simps(1) _ ex_callback res, of "[''10.0.0.2'']"] obtain w1 where
      "quiet ex_rec_world w1" "run_state (reconcileConfig ?r ex_config) ex_rec_world =
        (case run_state (publish ?p ex_config [''10.0.0.2'']) w1 of
           (Inl e, w2) \<Rightarrow> (Inl (Wrap ''failed to update DNS'' e), w2)
         | (Inr _, w2) \<Rightarrow> (Inr (), w2\<lparr>rw_lastRecords := (rw_lastRecords w2)(cfg_ID ex_config \<mapsto> [''10.0.0.2''])\<rparr>))"
      by (auto simp: ex_rec_simps ex_db_ok ex_targets)
    moreover from this(1) up have "run_state (publish ?p ex_config [''10.0.0.2'']) w1 = (Inr (), w1\<lparr>dw_remote := a\<rparr>)"
      by (simp add: publish_def cloudflare_provider_def run_simps remote_def quiet_def ex_rec_simps)
    ultimately show ?thesis by simp
  qed
  show ?thesis
    using reconcile_cloudflare_converges [OF memory_client_laws _ ex_rec_simps(1) _ ex_callback res _ _ _
        prod.collapse [symmetric, of "run_state (reconcileConfig ?r ex_config) ex_rec_world", unfolded run]]
    by (simp add: ex_rec_simps ex_db_ok ex_targets zone_ok_def)
qed

theorem unchanged_ips_skip_update_witness:
  "fst (run_state (reconcileConfig (ex_reconciler (Some down_provider)) (ex_config\<lparr>cfg_DNSName := ''new.example.com'', cfg_DNSTTL := 5\<rparr>))
     (ex_rec_world\<lparr>rw_lastRecords := (\<lambda>_. Some [''10.0.0.2''])\<rparr>)) = Inr ()"
  using unchanged_ips_skip_update [of "ex_rec_world\<lparr>rw_lastRecords := (\<lambda>_. Some [''10.0.0.2''])\<rparr>"
      "ex_reconciler (Some down_provider)" ex_config down_provider 5 "''new.example.com''"]
    ex_resolves [of "ex_rec_world\<lparr>rw_lastRecords := (\<lambda>_. Some [''10.0.0.2''])\<rparr>"]
  by (simp add: ex_rec_simps ex_db_ok ex_targets ex_callback healthy_driver_def)
    (simp add: ex_rec_world_def)

text \<open>A published name whose backends are all gone: the provider is down at the first pass and back at the second.\<close>

definition ex_stale_world :: "(string \<Rightarrow> DNSRecord list) rec_world" where
  "ex_stale_world = ex_rec_world\<lparr>w_db := ex_db\<lparr>t_health_states := []\<rparr>,
     dw_mocks := [[(recordKey ''mock-zone'' ''app.example.com'',
       \<lparr>mr_Name = ''app.example.com'', mr_ZoneID = ''mock-zone'', mr_Type = ''A'', mr_TTL = 60, mr_Records = [''10.0.0.2''],
       mr_CreatedAt = 0, mr_UpdatedAt = 0\<rparr>)]]\<rparr>"

lemma ex_stale:
  "healthy_driver ex_stale_world" "db_ok (w_db ex_stale_world)" "targets (w_db ex_stale_world) ex_config = []"
  "t_dns_providers (w_db ex_stale_world) = []" "rw_lastRecords ex_stale_world (cfg_ID ex_config) \<noteq> Some []"
  "mock_published 0 ex_stale_world ''app.example.com'' = {''10.0.0.2''}"
  using ex_db_ok
  by (simp_all add: ex_stale_world_def healthy_driver_def ex_rec_world_def db_ok_def keys_ok_def refs_ok_def targets_def
      backends_for_DNS_def publishable_def health_lookup_def select_health_state_def ex_config_def mock_published_def ex_db_def
      empty_db_def)

lemma mock_published_mocks: "dw_mocks v = dw_mocks v' \<Longrightarrow> mock_published p v = mock_published p v'"
  by (simp add: fun_eq_iff mock_published_def)

theorem failed_delete_is_forgotten_witness:
  "mock_published 0 (exec (reconcileConfig (ex_reconciler (Some (mock_provider 0 ''mock''))) ex_config)
      (exec (reconcileConfig (ex_reconciler (Some down_provider)) ex_config) ex_stale_world)) ''app.example.com'' = {''10.0.0.2''}"
proof -
  let ?r = "ex_reconciler (Some down_provider)" and ?r' = "ex_reconciler (Some (mock_provider 0 ''mock''))"
  let ?w' = "exec (reconcileConfig ?r ex_config) ex_stale_world"
  have "run_state (pv_DeleteRecord down_provider req) v = (Inl (Driver ''unavailable''), v)" for req v
    by (simp add: down_provider_def run_simps)
  from failed_delete_is_forgotten [OF ex_stale(1,2) ex_callback ex_resolves [OF ex_stale(1,4)] ex_stale(3,5) this HOL.refl]
  have "dw_mocks ?w' = dw_mocks ex_stale_world" "dw_mocks (exec (reconcileConfig ?r' ex_config) ?w') = dw_mocks ?w'"
    by (simp_all add: exec_def)
  then have "dw_mocks (exec (reconcileConfig ?r' ex_config) ?w') = dw_mocks ex_stale_world" by simp
  from mock_published_mocks [OF this] show ?thesis using ex_stale(6) by simp
qed

end
