(* ===== verification/Store_User.thy ===== *)
theory Store_User
  imports Store_Config "HOL-Library.List_Lexorder" "HOL-Library.Char_ord"
begin

section \<open>Users, roles and sessions (internal/store/user.go, session.go)\<close>

text \<open>
  Users with their roles, the roles that may access a configuration, and the server-side session
  records. \<open>INSERT OR IGNORE\<close> skips a row whose primary key exists, but not a foreign-key
  violation. \<open>ORDER BY name\<close> is sorting by the bytewise order. A created time of 0 is Go's zero time.
\<close>

subsection \<open>Statements\<close>

definition insert_user :: "User \<Rightarrow> db \<Rightarrow> (nat \<times> db) result" where
  "insert_user u d =
     (if \<exists>r \<in> set (t_users d). u_ID r = u_ID u then Inl (unique_error ''users.id (1555)'')
      else if \<exists>r \<in> set (t_users d). u_Subject r = u_Subject u then Inl (unique_error ''users.subject (2067)'')
      else Inr (1, d\<lparr>t_users := t_users d @ [u\<lparr>u_Roles := []\<rparr>]\<rparr>))"

definition select_user :: "string \<Rightarrow> db \<Rightarrow> User list" where
  "select_user i d = filter (\<lambda>u. u_ID u = i) (t_users d)"

definition select_user_by_subject :: "string \<Rightarrow> db \<Rightarrow> User list" where
  "select_user_by_subject s d = filter (\<lambda>u. u_Subject u = s) (t_users d)"

definition set_user_row :: "User \<Rightarrow> User \<Rightarrow> User" where
  "set_user_row u old = old\<lparr>u_Email := u_Email u, u_Name := u_Name u, u_LastLoginAt := u_LastLoginAt u\<rparr>"

definition update_user :: "User \<Rightarrow> db \<Rightarrow> (nat \<times> db) result" where
  "update_user u d =
     (let hit = (\<lambda>r. u_ID r = u_ID u)
      in Inr (row_count hit (t_users d), d\<lparr>t_users := rows_update hit (set_user_row u) (t_users d)\<rparr>))"

definition select_users :: "db \<Rightarrow> User list" where
  "select_users d = order_desc u_CreatedAt (t_users d)"

definition user_exists :: "string \<Rightarrow> db \<Rightarrow> bool" where
  "user_exists i d = (\<exists>u \<in> set (t_users d). u_ID u = i)"

definition role_exists :: "string \<Rightarrow> db \<Rightarrow> bool" where
  "role_exists i d = (\<exists>r \<in> set (t_roles d). r_ID r = i)"

definition insert_user_role :: "UserRole \<Rightarrow> db \<Rightarrow> (nat \<times> db) result" where
  "insert_user_role ur d =
     (if \<exists>r \<in> set (t_user_roles d). ur_UserID r = ur_UserID ur \<and> ur_RoleID r = ur_RoleID ur then Inr (0, d)
      else if \<not> user_exists (ur_UserID ur) d \<or> \<not> role_exists (ur_RoleID ur) d then Inl fk_error
      else Inr (1, d\<lparr>t_user_roles := t_user_roles d @ [ur]\<rparr>))"

definition delete_user_role :: "string \<Rightarrow> string \<Rightarrow> db \<Rightarrow> (nat \<times> db) result" where
  "delete_user_role userID roleID d =
     (let hit = (\<lambda>r. ur_UserID r = userID \<and> ur_RoleID r = roleID)
      in Inr (row_count hit (t_user_roles d), d\<lparr>t_user_roles := rows_delete hit (t_user_roles d)\<rparr>))"

definition select_user_roles :: "string \<Rightarrow> db \<Rightarrow> Role list" where
  "select_user_roles userID d = sort_key r_Name
     (concat (map (\<lambda>r. map (\<lambda>_. r) (filter (\<lambda>ur. ur_RoleID ur = r_ID r \<and> ur_UserID ur = userID) (t_user_roles d)))
        (t_roles d)))"

definition select_role_by_name :: "string \<Rightarrow> db \<Rightarrow> Role list" where
  "select_role_by_name n d = filter (\<lambda>r. r_Name r = n) (t_roles d)"

definition select_role :: "string \<Rightarrow> db \<Rightarrow> Role list" where
  "select_role i d = filter (\<lambda>r. r_ID r = i) (t_roles d)"

definition select_roles :: "db \<Rightarrow> Role list" where
  "select_roles d = sort_key r_Name (t_roles d)"

definition insert_config_role :: "ConfigRole \<Rightarrow> db \<Rightarrow> (nat \<times> db) result" where
  "insert_config_role cr d =
     (if \<exists>r \<in> set (t_config_roles d). cr_ConfigID r = cr_ConfigID cr \<and> cr_RoleID r = cr_RoleID cr then Inr (0, d)
      else if \<not> config_exists (cr_ConfigID cr) d \<or> \<not> role_exists (cr_RoleID cr) d then Inl fk_error
      else Inr (1, d\<lparr>t_config_roles := t_config_roles d @ [cr]\<rparr>))"

definition delete_config_role :: "string \<Rightarrow> string \<Rightarrow> db \<Rightarrow> (nat \<times> db) result" where
  "delete_config_role configID roleID d =
     (let hit = (\<lambda>r. cr_ConfigID r = configID \<and> cr_RoleID r = roleID)
      in Inr (row_count hit (t_config_roles d), d\<lparr>t_config_roles := rows_delete hit (t_config_roles d)\<rparr>))"

definition select_config_roles :: "string \<Rightarrow> db \<Rightarrow> Role list" where
  "select_config_roles configID d = sort_key r_Name
     (concat (map (\<lambda>r. map (\<lambda>_. r) (filter (\<lambda>cr. cr_RoleID cr = r_ID r \<and> cr_ConfigID cr = configID) (t_config_roles d)))
        (t_roles d)))"

definition select_configs_for_role :: "string \<Rightarrow> db \<Rightarrow> string list" where
  "select_configs_for_role roleID d = map cr_ConfigID (filter (\<lambda>cr. cr_RoleID cr = roleID) (t_config_roles d))"

text \<open>The join of \<open>config_roles\<close> and \<open>user_roles\<close> on the role.\<close>

definition access_rows :: "string \<Rightarrow> db \<Rightarrow> ConfigRole list" where
  "access_rows userID d =
     concat (map (\<lambda>cr. map (\<lambda>_. cr) (filter (\<lambda>ur. ur_RoleID ur = cr_RoleID cr \<and> ur_UserID ur = userID) (t_user_roles d)))
       (t_config_roles d))"

definition count_access :: "string \<Rightarrow> string \<Rightarrow> db \<Rightarrow> nat" where
  "count_access userID configID d = length (filter (\<lambda>cr. cr_ConfigID cr = configID) (access_rows userID d))"

definition select_configs_for_user :: "string \<Rightarrow> db \<Rightarrow> string list" where
  "select_configs_for_user userID d = remdups (map cr_ConfigID (access_rows userID d))"

definition insert_session :: "SessionRecord \<Rightarrow> db \<Rightarrow> (nat \<times> db) result" where
  "insert_session s d =
     (if \<exists>r \<in> set (t_sessions d). sr_JTI r = sr_JTI s then Inl (unique_error ''sessions.jti (1555)'')
      else if \<not> user_exists (sr_UserID s) d then Inl fk_error
      else Inr (1, d\<lparr>t_sessions := t_sessions d @ [s\<lparr>sr_RevokedAt := None\<rparr>]\<rparr>))"

definition select_session :: "string \<Rightarrow> db \<Rightarrow> SessionRecord list" where
  "select_session jti d = filter (\<lambda>s. sr_JTI s = jti) (t_sessions d)"

definition revoke_sessions :: "(SessionRecord \<Rightarrow> bool) \<Rightarrow> time \<Rightarrow> db \<Rightarrow> (nat \<times> db) result" where
  "revoke_sessions P now d =
     (let hit = (\<lambda>s. P s \<and> sr_RevokedAt s = None)
      in Inr (row_count hit (t_sessions d),
              d\<lparr>t_sessions := rows_update hit (\<lambda>s. s\<lparr>sr_RevokedAt := Some now\<rparr>) (t_sessions d)\<rparr>))"

definition delete_expired_sessions :: "time \<Rightarrow> db \<Rightarrow> (nat \<times> db) result" where
  "delete_expired_sessions now d =
     (let hit = (\<lambda>s. sr_ExpiresAt s < now)
      in Inr (row_count hit (t_sessions d), d\<lparr>t_sessions := rows_delete hit (t_sessions d)\<rparr>))"

subsection \<open>Users\<close>

definition CreateUser :: "User \<Rightarrow> ('z world_scheme, User \<times> unit result) state" where
  "CreateUser u0 = do {
     u \<leftarrow> (if u_ID u0 = '''' then do { i \<leftarrow> uuid_New; ret (u0\<lparr>u_ID := i\<rparr>) } else ret u0);
     u \<leftarrow> (if u_CreatedAt u = 0 then do { t \<leftarrow> time_Now; ret (u\<lparr>u_CreatedAt := t\<rparr>) } else ret u);
     r \<leftarrow> insert_method (Wrap ''insert user'') (insert_user u);
     ret (u, r)
   }"

definition GetUserRoles :: "string \<Rightarrow> ('z world_scheme, Role list result) state" where
  "GetUserRoles userID =
     rows_method (Wrap ''query user roles'') (Wrap ''scan role'') (\<lambda>e. e) (select_user_roles userID)"

definition with_roles :: "User result \<Rightarrow> ('z world_scheme, User result) state" where
  "with_roles r =
     (case r of
        Inl e \<Rightarrow> ret (Inl e)
      | Inr user \<Rightarrow> do {
          rr \<leftarrow> GetUserRoles (u_ID user);
          ret (case rr of Inl e \<Rightarrow> Inl e | Inr roles \<Rightarrow> Inr (user\<lparr>u_Roles := roles\<rparr>))
        })"

definition GetUserByID :: "string \<Rightarrow> ('z world_scheme, User result) state" where
  "GetUserByID i = do { r \<leftarrow> row_method ''query user by id'' (select_user i); with_roles r }"

definition GetUserBySubject :: "string \<Rightarrow> ('z world_scheme, User result) state" where
  "GetUserBySubject s = do { r \<leftarrow> row_method ''query user by subject'' (select_user_by_subject s); with_roles r }"

definition UpdateUser :: "User \<Rightarrow> ('z world_scheme, unit result) state" where
  "UpdateUser u = affect_method (Wrap ''update user'') (update_user u)"

primrec list_users_loop :: "User list \<Rightarrow> User list \<Rightarrow> ('z world_scheme, User list result) state" where
  "list_users_loop users [] = ret (Inr users)"
| "list_users_loop users (u # us) = do {
     r \<leftarrow> with_roles (Inr u);
     (case r of Inl e \<Rightarrow> ret (Inl e) | Inr u \<Rightarrow> list_users_loop (users @ [u]) us)
   }"

definition ListUsers :: "('z world_scheme, User list result) state" where
  "ListUsers = do {
     r \<leftarrow> rows_method (Wrap ''query users'') (Wrap ''scan user'') (\<lambda>e. e) select_users;
     (case r of Inl e \<Rightarrow> ret (Inl e) | Inr rows \<Rightarrow> list_users_loop [] rows)
   }"

definition AssignRole :: "string \<Rightarrow> string \<Rightarrow> string \<Rightarrow> ('z world_scheme, unit result) state" where
  "AssignRole userID roleID assignedBy = do {
     now \<leftarrow> time_Now;
     insert_method (Wrap ''assign role'')
       (insert_user_role \<lparr>ur_UserID = userID, ur_RoleID = roleID, ur_AssignedAt = now, ur_AssignedBy = assignedBy\<rparr>)
   }"

definition RemoveRole :: "string \<Rightarrow> string \<Rightarrow> ('z world_scheme, unit result) state" where
  "RemoveRole userID roleID = insert_method (Wrap ''remove role'') (delete_user_role userID roleID)"

subsection \<open>Roles\<close>

definition GetRoleByName :: "string \<Rightarrow> ('z world_scheme, Role result) state" where
  "GetRoleByName n = row_method ''query role by name'' (select_role_by_name n)"

definition GetRoleByID :: "string \<Rightarrow> ('z world_scheme, Role result) state" where
  "GetRoleByID i = row_method ''query role by id'' (select_role i)"

definition ListRoles :: "('z world_scheme, Role list result) state" where
  "ListRoles = rows_method (Wrap ''query roles'') (Wrap ''scan role'') (\<lambda>e. e) select_roles"

subsection \<open>Access to configurations\<close>

definition AssignConfigRole :: "string \<Rightarrow> string \<Rightarrow> ('z world_scheme, unit result) state" where
  "AssignConfigRole configID roleID =
     insert_method (Wrap ''assign config role'') (insert_config_role \<lparr>cr_ConfigID = configID, cr_RoleID = roleID\<rparr>)"

definition RemoveConfigRole :: "string \<Rightarrow> string \<Rightarrow> ('z world_scheme, unit result) state" where
  "RemoveConfigRole configID roleID = insert_method (Wrap ''remove config role'') (delete_config_role configID roleID)"

definition GetConfigRoles :: "string \<Rightarrow> ('z world_scheme, Role list result) state" where
  "GetConfigRoles configID =
     rows_method (Wrap ''query config roles'') (Wrap ''scan config role'') (\<lambda>e. e) (select_config_roles configID)"

definition GetConfigsForRole :: "string \<Rightarrow> ('z world_scheme, string list result) state" where
  "GetConfigsForRole roleID =
     rows_method (Wrap ''query configs for role'') (Wrap ''scan config id'') (\<lambda>e. e) (select_configs_for_role roleID)"

definition CanAccess :: "string \<Rightarrow> string \<Rightarrow> ('z world_scheme, bool result) state" where
  "CanAccess userID configID = do {
     r \<leftarrow> sql_row (\<lambda>d. [count_access userID configID d]);
     ret (case r of Inl e \<Rightarrow> Inl (Wrap ''check access'' e) | Inr n \<Rightarrow> Inr (0 < n))
   }"

definition ListConfigsForUser :: "string \<Rightarrow> ('z world_scheme, string list result) state" where
  "ListConfigsForUser userID =
     rows_method (Wrap ''query configs for user'') (Wrap ''scan config id'') (\<lambda>e. e) (select_configs_for_user userID)"

subsection \<open>Sessions\<close>

definition CreateSessionRecord :: "SessionRecord \<Rightarrow> ('z world_scheme, unit result) state" where
  "CreateSessionRecord s = insert_method (Wrap ''insert session'') (insert_session s)"

definition GetSessionRecord :: "string \<Rightarrow> ('z world_scheme, SessionRecord result) state" where
  "GetSessionRecord jti = row_method ''query session'' (select_session jti)"

text \<open>The error of \<open>RowsAffected\<close> is dropped, and its zero count then reads as not found.\<close>

definition RevokeSession :: "string \<Rightarrow> ('z world_scheme, unit result) state" where
  "RevokeSession jti = do {
     now \<leftarrow> time_Now;
     r \<leftarrow> sql_exec (revoke_sessions (\<lambda>s. sr_JTI s = jti) now);
     ret (case r of
            Inl e \<Rightarrow> Inl (Wrap ''revoke session'' e)
          | Inr n \<Rightarrow> let rows = (case n of Inl _ \<Rightarrow> 0 | Inr k \<Rightarrow> k) in if rows = 0 then Inl ErrNotFound else Inr ())
   }"

definition RevokeUserSessions :: "string \<Rightarrow> ('z world_scheme, unit result) state" where
  "RevokeUserSessions userID = do {
     now \<leftarrow> time_Now;
     insert_method (Wrap ''revoke user sessions'') (revoke_sessions (\<lambda>s. sr_UserID s = userID) now)
   }"

definition CleanupExpiredSessions :: "('z world_scheme, nat result) state" where
  "CleanupExpiredSessions = do {
     now \<leftarrow> time_Now;
     r \<leftarrow> sql_exec (delete_expired_sessions now);
     ret (case r of
            Inl e \<Rightarrow> Inl (Wrap ''cleanup sessions'' e)
          | Inr (Inl e) \<Rightarrow> Inl (Wrap ''rows affected'' e)
          | Inr (Inr n) \<Rightarrow> Inr n)
   }"

subsection \<open>Constraints\<close>

lemma insert_user_ok: "db_ok d \<Longrightarrow> insert_user u d = Inr (n, d') \<Longrightarrow> db_ok d'"
  by (auto simp: insert_user_def db_ok_def keys_ok_def refs_ok_def sql_simps split: if_splits)

lemma update_user_ok: "db_ok d \<Longrightarrow> update_user u d = Inr (n, d') \<Longrightarrow> db_ok d'"
  by (auto simp: update_user_def db_ok_def keys_ok_def refs_ok_def sql_simps set_user_row_def Let_def)

lemma insert_user_role_ok: "db_ok d \<Longrightarrow> insert_user_role ur d = Inr (n, d') \<Longrightarrow> db_ok d'"
  by (auto simp: insert_user_role_def db_ok_def keys_ok_def refs_ok_def sql_simps user_exists_def role_exists_def
      split: if_splits)

lemma delete_user_role_ok: "db_ok d \<Longrightarrow> delete_user_role i r d = Inr (n, d') \<Longrightarrow> db_ok d'"
  by (auto simp: delete_user_role_def db_ok_def keys_ok_def refs_ok_def sql_simps Let_def)

lemma insert_config_role_ok: "db_ok d \<Longrightarrow> insert_config_role cr d = Inr (n, d') \<Longrightarrow> db_ok d'"
  by (auto simp: insert_config_role_def db_ok_def keys_ok_def refs_ok_def sql_simps config_exists_def role_exists_def
      split: if_splits)

lemma delete_config_role_ok: "db_ok d \<Longrightarrow> delete_config_role i r d = Inr (n, d') \<Longrightarrow> db_ok d'"
  by (auto simp: delete_config_role_def db_ok_def keys_ok_def refs_ok_def sql_simps Let_def)

lemma insert_session_ok: "db_ok d \<Longrightarrow> insert_session s d = Inr (n, d') \<Longrightarrow> db_ok d'"
  by (auto simp: insert_session_def db_ok_def keys_ok_def refs_ok_def sql_simps user_exists_def split: if_splits)

lemma revoke_sessions_ok: "db_ok d \<Longrightarrow> revoke_sessions P t d = Inr (n, d') \<Longrightarrow> db_ok d'"
  by (auto simp: revoke_sessions_def db_ok_def keys_ok_def refs_ok_def sql_simps Let_def)

lemma delete_expired_ok: "db_ok d \<Longrightarrow> delete_expired_sessions t d = Inr (n, d') \<Longrightarrow> db_ok d'"
  by (auto simp: delete_expired_sessions_def db_ok_def keys_ok_def refs_ok_def sql_simps Let_def)

lemma keeps_CreateUser [keep_intros]: "keeps_db_ok (CreateUser u)"
  unfolding CreateUser_def by (intro keep_intros keeps_insert_method) (erule (1) insert_user_ok)

lemma keeps_GetUserRoles [keep_intros]: "keeps (\<lambda>w. P (w_db w)) (GetUserRoles i)"
  unfolding GetUserRoles_def by (intro keep_intros)

lemma keeps_with_roles [keep_intros]: "keeps (\<lambda>w. P (w_db w)) (with_roles r)"
  unfolding with_roles_def by (intro keep_intros)

lemma keeps_GetUserByID [keep_intros]: "keeps (\<lambda>w. P (w_db w)) (GetUserByID i)"
  unfolding GetUserByID_def by (intro keep_intros)

lemma keeps_GetUserBySubject [keep_intros]: "keeps (\<lambda>w. P (w_db w)) (GetUserBySubject i)"
  unfolding GetUserBySubject_def by (intro keep_intros)

lemma keeps_UpdateUser [keep_intros]: "keeps_db_ok (UpdateUser u)"
  unfolding UpdateUser_def by (rule keeps_affect_method) (erule (1) update_user_ok)

lemma keeps_list_users_loop [keep_intros]: "keeps (\<lambda>w. P (w_db w)) (list_users_loop us rows)"
  by (induction rows arbitrary: us) (auto intro!: keep_intros)

lemma keeps_ListUsers [keep_intros]: "keeps (\<lambda>w. P (w_db w)) ListUsers"
  unfolding ListUsers_def by (intro keep_intros)

lemma keeps_AssignRole [keep_intros]: "keeps_db_ok (AssignRole u r b)"
  unfolding AssignRole_def by (intro keep_intros keeps_insert_method) (erule (1) insert_user_role_ok)

lemma keeps_RemoveRole [keep_intros]: "keeps_db_ok (RemoveRole u r)"
  unfolding RemoveRole_def by (rule keeps_insert_method) (erule (1) delete_user_role_ok)

lemma keeps_role_queries [keep_intros]:
  "keeps (\<lambda>w. P (w_db w)) (GetRoleByName n)" "keeps (\<lambda>w. P (w_db w)) (GetRoleByID n)"
  "keeps (\<lambda>w. P (w_db w)) ListRoles" "keeps (\<lambda>w. P (w_db w)) (GetConfigRoles n)"
  "keeps (\<lambda>w. P (w_db w)) (GetConfigsForRole n)" "keeps (\<lambda>w. P (w_db w)) (CanAccess u n)"
  "keeps (\<lambda>w. P (w_db w)) (ListConfigsForUser n)" "keeps (\<lambda>w. P (w_db w)) (GetSessionRecord n)"
  unfolding GetRoleByName_def GetRoleByID_def ListRoles_def GetConfigRoles_def GetConfigsForRole_def CanAccess_def
    ListConfigsForUser_def GetSessionRecord_def
  by (intro keep_intros)+

lemma keeps_AssignConfigRole [keep_intros]: "keeps_db_ok (AssignConfigRole c r)"
  unfolding AssignConfigRole_def by (rule keeps_insert_method) (erule (1) insert_config_role_ok)

lemma keeps_RemoveConfigRole [keep_intros]: "keeps_db_ok (RemoveConfigRole c r)"
  unfolding RemoveConfigRole_def by (rule keeps_insert_method) (erule (1) delete_config_role_ok)

lemma keeps_CreateSessionRecord [keep_intros]: "keeps_db_ok (CreateSessionRecord s)"
  unfolding CreateSessionRecord_def by (rule keeps_insert_method) (erule (1) insert_session_ok)

lemma keeps_RevokeSession [keep_intros]: "keeps_db_ok (RevokeSession j)"
  unfolding RevokeSession_def by (intro keep_intros keeps_sql_exec) (erule (1) revoke_sessions_ok)

lemma keeps_RevokeUserSessions [keep_intros]: "keeps_db_ok (RevokeUserSessions i)"
  unfolding RevokeUserSessions_def by (intro keep_intros keeps_insert_method) (erule (1) revoke_sessions_ok)

lemma keeps_CleanupExpiredSessions [keep_intros]: "keeps_db_ok CleanupExpiredSessions"
  unfolding CleanupExpiredSessions_def by (intro keep_intros keeps_sql_exec) (erule (1) delete_expired_ok)

subsection \<open>What the queries say\<close>

definition may_access :: "db \<Rightarrow> string \<Rightarrow> string \<Rightarrow> bool" where
  "may_access d userID configID = (\<exists>cr \<in> set (t_config_roles d). \<exists>ur \<in> set (t_user_roles d).
     cr_ConfigID cr = configID \<and> ur_UserID ur = userID \<and> ur_RoleID ur = cr_RoleID cr)"

lemma set_access_rows:
  "set (access_rows userID d) = {cr \<in> set (t_config_roles d). \<exists>ur \<in> set (t_user_roles d).
     ur_RoleID ur = cr_RoleID cr \<and> ur_UserID ur = userID}"
  by (auto simp: access_rows_def)

lemma count_access_pos: "0 < count_access userID configID d \<longleftrightarrow> may_access d userID configID"
  by (auto simp: count_access_def length_greater_0_conv filter_empty_conv set_access_rows may_access_def)

lemma run_CanAccess:
  "w_fault w (w_stmt_ix w) = None \<Longrightarrow>
   run_state (CanAccess u c) w = (Inr (may_access (w_db w) u c), w\<lparr>w_stmt_ix := Suc (w_stmt_ix w)\<rparr>)"
  by (simp add: CanAccess_def run_simps run_sql_ok count_access_pos)

lemma CanAccess_True: "run_state (CanAccess u c) w = (Inr True, w') \<Longrightarrow> may_access (w_db w) u c"
  by (auto simp: CanAccess_def run_simps sql_row_def count_access_pos split: option.splits fault.splits)

lemma set_select_user_roles:
  "set (select_user_roles userID d) = {r \<in> set (t_roles d). \<exists>ur \<in> set (t_user_roles d).
     ur_RoleID ur = r_ID r \<and> ur_UserID ur = userID}"
  by (auto simp: select_user_roles_def)

definition session_lookup :: "db \<Rightarrow> string \<Rightarrow> SessionRecord option" where
  "session_lookup d j = first_row (select_session j d)"

lemma session_lookup_find: "session_lookup d j = find (\<lambda>s. sr_JTI s = j) (t_sessions d)"
  by (simp add: session_lookup_def select_session_def first_row_filter)

text \<open>
  A user can access a configuration exactly when one of the user's roles is among the roles of
  that configuration; the list of a user's configurations holds exactly those, each once.
\<close>

theorem access_is_by_role:
  "w_fault w (w_stmt_ix w) = None \<Longrightarrow>
   fst (run_state (CanAccess u c) w) = Inr (may_access (w_db w) u c) \<and>
   fst (run_state (ListConfigsForUser u) w) = Inr (select_configs_for_user u (w_db w)) \<and>
   distinct (select_configs_for_user u (w_db w)) \<and>
   (c \<in> set (select_configs_for_user u (w_db w)) \<longleftrightarrow> may_access (w_db w) u c)"
  by (auto simp: run_CanAccess ListConfigsForUser_def run_rows_method select_configs_for_user_def set_access_rows
      may_access_def)

text \<open>A small database: an admin, a user with the role of a configuration, and an open session.\<close>

definition ex_role :: "string \<Rightarrow> Role" where
  "ex_role n = \<lparr>r_ID = ''role-'' @ n, r_Name = n, r_Description = '''', r_CreatedAt = 0\<rparr>"

definition ex_user :: "string \<Rightarrow> User" where
  "ex_user i = \<lparr>u_ID = i, u_Subject = ''sub-'' @ i, u_Email = '''', u_Name = i, u_CreatedAt = 1, u_LastLoginAt = 1,
     u_IsActive = True, u_Roles = []\<rparr>"

definition ex_access_db :: db where
  "ex_access_db = empty_db\<lparr>
     t_configs := [\<lparr>cfg_ID = ''c'', cfg_Name = ''web'', cfg_DNSName = ''app.example.com'', cfg_DNSTTL = 60,
       cfg_LBMethod = Weighted, cfg_CreatedAt = 1, cfg_UpdatedAt = 1, cfg_LastReconcileError = ''''\<rparr>],
     t_backends := [\<lparr>br_Backend = \<lparr>b_ID = ''b'', b_ConfigID = ''c'', b_IP = ''10.0.0.1'', b_Port = None, b_Weight = 1,
       b_Enabled = True\<rparr>, br_CreatedAt = 1\<rparr>],
     t_users := [ex_user ''ann'', ex_user ''bob''], t_roles := [ex_role ''admin'', ex_role ''operator'', ex_role ''viewer''],
     t_user_roles := [\<lparr>ur_UserID = ''ann'', ur_RoleID = ''role-viewer'', ur_AssignedAt = 1, ur_AssignedBy = ''system''\<rparr>],
     t_config_roles := [\<lparr>cr_ConfigID = ''c'', cr_RoleID = ''role-viewer''\<rparr>],
     t_sessions := [\<lparr>sr_JTI = ''j1'', sr_UserID = ''ann'', sr_CreatedAt = 1, sr_ExpiresAt = 10, sr_RevokedAt = None\<rparr>]\<rparr>"

definition ex_access_world :: world where
  "ex_access_world = \<lparr>w_db = ex_access_db, w_now = (\<lambda>n. int n + 5), w_now_ix = 0, w_uuid = (\<lambda>n. ''j'' @ replicate n (CHR ''x'')),
     w_uuid_ix = 0, w_fault = (\<lambda>_. None), w_stmt_ix = 0\<rparr>"

lemmas ex_access_defs = ex_access_world_def ex_access_db_def ex_user_def ex_role_def empty_db_def

lemma ex_access_healthy: "healthy_driver ex_access_world" "w_db ex_access_world = ex_access_db"
  by (simp_all add: healthy_driver_def ex_access_world_def)

lemma ex_may_access: "may_access ex_access_db ''ann'' ''c''" "\<not> may_access ex_access_db ''bob'' ''c''"
  by (simp_all add: may_access_def ex_access_defs)

theorem access_is_by_role_witness:
  "fst (run_state (CanAccess ''ann'' ''c'') ex_access_world) = Inr True \<and>
   ''c'' \<in> set (select_configs_for_user ''ann'' ex_access_db) \<and>
   fst (run_state (CanAccess ''bob'' ''c'') ex_access_world) = Inr False \<and>
   ''c'' \<notin> set (select_configs_for_user ''bob'' ex_access_db)"
  using access_is_by_role [of ex_access_world "''ann''" "''c''"] access_is_by_role [of ex_access_world "''bob''" "''c''"]
    ex_may_access
  by (simp add: ex_access_healthy)

end
