(* ===== verification/Auth.thy ===== *)
theory Auth
  imports Store_User "HOL-Library.AList"
begin

section \<open>Authentication and authorisation (internal/auth/oidc.go, middleware.go)\<close>

text \<open>
  Session tokens, their server-side validation, the synchronisation of users and roles at login,
  and the middlewares of the router. The JWT library is a parameter (\<open>jwt_lib\<close>: signing and parsing
  under a secret, at a time, with the valid flag), as is the OIDC exchange, whose outcome is the
  user and the role names that \<open>SyncUser\<close> gets. A handler chain element lets a request pass with a
  context, aborts it with a status and a message, or panics.
\<close>

subsection \<open>Session tokens\<close>

text \<open>A JSON value as far as the code looks at it: an element of a list that is no string is \<open>None\<close>.\<close>

datatype claim = CStr string | CNum int | CList "string option list" | COther

type_synonym claims = "(string \<times> claim) list"

abbreviation claim_of :: "claims \<Rightarrow> string \<Rightarrow> claim option" where
  "claim_of \<equiv> map_of"

record jwt_lib =
  jw_Sign :: "string \<Rightarrow> claims \<Rightarrow> string result"
  jw_Parse :: "string \<Rightarrow> time \<Rightarrow> string \<Rightarrow> (bool \<times> claims) result"

record JWTConfig =
  jc_Secret :: string
  jc_Expiry :: duration
  jc_CookieName :: string
  jc_CookieSecure :: bool
  jc_CookieHTTPOnly :: bool
  jc_CookieSameSite :: string

definition unix :: "time \<Rightarrow> int" where
  "unix t = t div Second"

definition claim_string :: "claim option \<Rightarrow> string" where
  "claim_string c = (case c of Some (CStr s) \<Rightarrow> s | _ \<Rightarrow> '''')"

fun claim_strings :: "string option list \<Rightarrow> string list" where
  "claim_strings [] = []"
| "claim_strings (Some s # cs) = s # claim_strings cs"
| "claim_strings (None # cs) = claim_strings cs"

definition session_claims :: "string \<Rightarrow> User \<Rightarrow> time \<Rightarrow> time \<Rightarrow> claims" where
  "session_claims jti user now expiresAt =
     [(''jti'', CStr jti), (''sub'', CStr (u_ID user)), (''email'', CStr (u_Email user)), (''name'', CStr (u_Name user)),
      (''roles'', CList (map (\<lambda>r. Some (r_Name r)) (u_Roles user))), (''iat'', CNum (unix now)),
      (''exp'', CNum (unix expiresAt))]"

definition CreateSession :: "jwt_lib \<Rightarrow> JWTConfig \<Rightarrow> User \<Rightarrow> ('z world_scheme, string result) state" where
  "CreateSession lib cfg user = do {
     let expiry = (if jc_Expiry cfg = 0 then 24 * Hour else jc_Expiry cfg);
     jti \<leftarrow> uuid_New;
     now \<leftarrow> time_Now;
     let expiresAt = now + expiry;
     r \<leftarrow> CreateSessionRecord \<lparr>sr_JTI = jti, sr_UserID = u_ID user, sr_CreatedAt = now, sr_ExpiresAt = expiresAt,
            sr_RevokedAt = None\<rparr>;
     ret (case r of
            Inl e \<Rightarrow> Inl (Wrap ''persisting session record'' e)
          | Inr _ \<Rightarrow> jw_Sign lib (jc_Secret cfg) (session_claims jti user now expiresAt))
   }"

text \<open>
  The identity provider's token: \<open>VerifyIDToken\<close> on the verifier (a parameter that gives the nonce
  and the claims of a valid token), and the user and role names in the claims. \<open>token\<close> is what
  the token response holds under \<open>id_token\<close>.
\<close>

definition VerifyIDToken :: "(string \<Rightarrow> (string \<times> 'c) result) \<Rightarrow> string option \<Rightarrow> string \<Rightarrow> 'c result" where
  "VerifyIDToken verify token nonce =
     (case token of
        None \<Rightarrow> Inl (Errorf ''no id_token in token response'')
      | Some rawIDToken \<Rightarrow>
          (case verify rawIDToken of
             Inl e \<Rightarrow> Inl (Wrap ''id_token verification failed'' e)
           | Inr (n, idToken) \<Rightarrow> if n \<noteq> nonce then Inl (Errorf ''nonce mismatch'') else Inr idToken))"

definition ExtractUserInfo :: "string \<Rightarrow> claims result \<Rightarrow> (User \<times> string list) result" where
  "ExtractUserInfo rolesClaim parsed =
     (case parsed of
        Inl e \<Rightarrow> Inl (Wrap ''parse claims'' e)
      | Inr claims \<Rightarrow>
          if claim_string (claim_of claims ''sub'') = '''' then Inl (Errorf ''missing sub claim'')
          else Inr (\<lparr>u_ID = '''', u_Subject = claim_string (claim_of claims ''sub''),
                     u_Email = claim_string (claim_of claims ''email''), u_Name = claim_string (claim_of claims ''name''),
                     u_CreatedAt = 0, u_LastLoginAt = 0, u_IsActive = False, u_Roles = []\<rparr>,
                    case claim_of claims rolesClaim of Some (CList rs) \<Rightarrow> claim_strings rs | _ \<Rightarrow> []))"

text \<open>None is a panic: the source asserts that \<open>exp\<close> is a number.\<close>

definition ParseSession :: "jwt_lib \<Rightarrow> JWTConfig \<Rightarrow> time \<Rightarrow> string \<Rightarrow> Session result option" where
  "ParseSession lib cfg now token =
     (case jw_Parse lib (jc_Secret cfg) now token of
        Inl e \<Rightarrow> Some (Inl e)
      | Inr (valid, claims) \<Rightarrow>
          if \<not> valid then Some (Inl (Errorf ''invalid token claims''))
          else if claim_string (claim_of claims ''sub'') = '''' then Some (Inl (Errorf ''missing sub claim''))
          else case claim_of claims ''exp'' of
                 Some (CNum e) \<Rightarrow>
                   Some (Inr \<lparr>se_JTI = claim_string (claim_of claims ''jti''), se_UserID = claim_string (claim_of claims ''sub''),
                     se_Email = claim_string (claim_of claims ''email''),
                     se_Roles = (case claim_of claims ''roles'' of Some (CList rs) \<Rightarrow> claim_strings rs | _ \<Rightarrow> []),
                     se_ExpiresAt = e * Second\<rparr>)
               | _ \<Rightarrow> None)"

definition ValidateSession :: "Session \<Rightarrow> ('z world_scheme, unit result) state" where
  "ValidateSession session =
     (if se_JTI session = '''' then ret (Inr ())
      else do {
        r \<leftarrow> GetSessionRecord (se_JTI session);
        ret (case r of
               Inl e \<Rightarrow> Inl (if e = ErrNotFound then Errorf ''session not found'' else Wrap ''checking session'' e)
             | Inr record \<Rightarrow> if sr_RevokedAt record \<noteq> None then Inl (Errorf ''session revoked'') else Inr ())
      })"

subsection \<open>Synchronising users\<close>

primrec add_roles_loop :: "string \<Rightarrow> (string \<times> string) list \<Rightarrow> string list \<Rightarrow> ('z world_scheme, unit) state" where
  "add_roles_loop userID currentByName [] = ret ()"
| "add_roles_loop userID currentByName (name # names) = do {
     (case map_of currentByName name of
        Some _ \<Rightarrow> ret ()
      | None \<Rightarrow> do {
          r \<leftarrow> GetRoleByName name;
          (case r of
             Inl _ \<Rightarrow> ret ()
           | Inr role \<Rightarrow> do { _ \<leftarrow> AssignRole userID (r_ID role) ''oidc''; ret () })
        });
     add_roles_loop userID currentByName names
   }"

primrec remove_roles_loop :: "string \<Rightarrow> string list \<Rightarrow> (string \<times> string) list \<Rightarrow> ('z world_scheme, unit) state" where
  "remove_roles_loop userID desired [] = ret ()"
| "remove_roles_loop userID desired (p # ps) = do {
     (if fst p \<in> set desired then ret () else do { _ \<leftarrow> RemoveRole userID (snd p); ret () });
     remove_roles_loop userID desired ps
   }"

text \<open>\<open>ord\<close> is the order in which Go iterates the map of the current roles.\<close>

definition syncRoles :: "((string \<times> string) list \<Rightarrow> (string \<times> string) list) \<Rightarrow> string \<Rightarrow> string list \<Rightarrow>
    ('z world_scheme, unit result) state" where
  "syncRoles ord userID oidcRoleNames = do {
     rc \<leftarrow> GetUserRoles userID;
     (case rc of
        Inl e \<Rightarrow> ret (Inl (Wrap ''get user roles'' e))
      | Inr current \<Rightarrow> do {
          let currentByName = foldl (\<lambda>m r. AList.update (r_Name r) (r_ID r) m) [] current;
          add_roles_loop userID currentByName oidcRoleNames;
          remove_roles_loop userID oidcRoleNames (ord currentByName);
          ret (Inr ())
        })
   }"

definition sync_and_get :: "((string \<times> string) list \<Rightarrow> (string \<times> string) list) \<Rightarrow> string \<Rightarrow> string list \<Rightarrow>
    ('z world_scheme, User result) state" where
  "sync_and_get ord userID oidcRoles =
     (if length oidcRoles > 0 then do {
        r \<leftarrow> syncRoles ord userID oidcRoles;
        (case r of Inl e \<Rightarrow> ret (Inl e) | Inr _ \<Rightarrow> GetUserByID userID)
      } else GetUserByID userID)"

definition SyncUser :: "((string \<times> string) list \<Rightarrow> (string \<times> string) list) \<Rightarrow> string \<Rightarrow> User \<Rightarrow> string list \<Rightarrow>
    ('z world_scheme, User result) state" where
  "SyncUser ord defaultRoleName oidcUser oidcRoles = do {
     rx \<leftarrow> GetUserBySubject (u_Subject oidcUser);
     (case rx of
        Inr existing \<Rightarrow>
          if \<not> u_IsActive existing then ret (Inl (Errorf ''authentication failed''))
          else do {
            now \<leftarrow> time_Now;
            let existing = existing\<lparr>u_Email := u_Email oidcUser, u_Name := u_Name oidcUser, u_LastLoginAt := now\<rparr>;
            ru \<leftarrow> UpdateUser existing;
            (case ru of
               Inl e \<Rightarrow> ret (Inl (Wrap ''update user'' e))
             | Inr _ \<Rightarrow> sync_and_get ord (u_ID existing) oidcRoles)
          }
      | Inl e \<Rightarrow>
          if e \<noteq> ErrNotFound then ret (Inl (Wrap ''lookup user'' e))
          else do {
            now \<leftarrow> time_Now;
            cr \<leftarrow> CreateUser (oidcUser\<lparr>u_CreatedAt := now, u_LastLoginAt := now, u_IsActive := True\<rparr>);
            (case cr of
               (_, Inl e) \<Rightarrow> ret (Inl (Wrap ''create user'' e))
             | (user, Inr _) \<Rightarrow> do {
                 rr \<leftarrow> GetRoleByName defaultRoleName;
                 (case rr of
                    Inl e \<Rightarrow> ret (Inl (Wrap (''get default role '' @ defaultRoleName) e))
                  | Inr defaultRole \<Rightarrow> do {
                      ra \<leftarrow> AssignRole (u_ID user) (r_ID defaultRole) ''system'';
                      (case ra of
                         Inl e \<Rightarrow> ret (Inl (Wrap ''assign default role'' e))
                       | Inr _ \<Rightarrow> sync_and_get ord (u_ID user) oidcRoles)
                    })
               })
          })
   }"

subsection \<open>The middlewares\<close>

record Request =
  rq_Path :: string
  rq_Cookie :: "string \<Rightarrow> string option"
  rq_Authorization :: string
  rq_ID :: string

record gin_context =
  cx_session :: "Session option"
  cx_userID :: "string option"
  cx_userRoles :: "string list option"

definition empty_context :: gin_context where
  "empty_context = \<lparr>cx_session = None, cx_userID = None, cx_userRoles = None\<rparr>"

datatype outcome = Next gin_context | Abort nat string | Panic

definition shouldSkipAuth :: "string \<Rightarrow> bool" where
  "shouldSkipAuth path =
     (path \<in> {''/health'', ''/ready'', ''/''} \<or>
      list_ex (\<lambda>p. prefix p path)
        [''/api/v1/auth/login'', ''/api/v1/auth/callback'', ''/api/v1/auth/logout'', ''/assets/''] \<or>
      suffix ''.html'' path)"

definition getToken :: "'r Request_scheme \<Rightarrow> string \<Rightarrow> string" where
  "getToken req cookieName =
     (case rq_Cookie req cookieName of
        Some cookie \<Rightarrow>
          if cookie \<noteq> '''' then cookie
          else if prefix ''Bearer '' (rq_Authorization req) then drop 7 (rq_Authorization req) else ''''
      | None \<Rightarrow> if prefix ''Bearer '' (rq_Authorization req) then drop 7 (rq_Authorization req) else '''')"

definition Middleware :: "jwt_lib \<Rightarrow> JWTConfig \<Rightarrow> 'r Request_scheme \<Rightarrow> gin_context \<Rightarrow> ('z world_scheme, outcome) state" where
  "Middleware lib cfg req ctx =
     (if shouldSkipAuth (rq_Path req) then ret (Next ctx)
      else
        let token = getToken req (jc_CookieName cfg) in
        if token = '''' then ret (Abort 401 ''authentication required'')
        else do {
          now \<leftarrow> time_Now;
          (case ParseSession lib cfg now token of
             None \<Rightarrow> ret Panic
           | Some (Inl _) \<Rightarrow> ret (Abort 401 ''invalid or expired session'')
           | Some (Inr session) \<Rightarrow> do {
               v \<leftarrow> ValidateSession session;
               ret (case v of
                      Inl _ \<Rightarrow> Abort 401 ''session revoked''
                    | Inr _ \<Rightarrow> Next (ctx\<lparr>cx_session := Some session, cx_userID := Some (se_UserID session),
                                       cx_userRoles := Some (se_Roles session)\<rparr>))
             })
        })"

definition RequireRole :: "string list \<Rightarrow> gin_context \<Rightarrow> outcome" where
  "RequireRole requiredRoles ctx =
     (case cx_userRoles ctx of
        None \<Rightarrow> Abort 403 ''access denied''
      | Some userRoles \<Rightarrow>
          if list_ex (\<lambda>required. list_ex (\<lambda>userRole. userRole = required) userRoles) requiredRoles then Next ctx
          else Abort 403 ''insufficient permissions'')"

definition is_admin :: "gin_context \<Rightarrow> bool" where
  "is_admin ctx = (case cx_userRoles ctx of None \<Rightarrow> False | Some roles \<Rightarrow> list_ex (\<lambda>role. role = ''admin'') roles)"

definition context_user :: "gin_context \<Rightarrow> string" where
  "context_user ctx = (case cx_userID ctx of None \<Rightarrow> '''' | Some u \<Rightarrow> u)"

definition RequireConfigAccess :: "'r Request_scheme \<Rightarrow> gin_context \<Rightarrow> ('z world_scheme, outcome) state" where
  "RequireConfigAccess req ctx =
     (if is_admin ctx then ret (Next ctx)
      else do {
        r \<leftarrow> CanAccess (context_user ctx) (rq_ID req);
        ret (case r of
               Inl _ \<Rightarrow> Abort 403 ''access denied to this configuration''
             | Inr canAccess \<Rightarrow> if \<not> canAccess then Abort 403 ''access denied to this configuration'' else Next ctx)
      })"

definition RequireBackendConfigAccess :: "'r Request_scheme \<Rightarrow> gin_context \<Rightarrow> ('z world_scheme, outcome) state" where
  "RequireBackendConfigAccess req ctx =
     (if is_admin ctx then ret (Next ctx)
      else do {
        rb \<leftarrow> GetBackend (rq_ID req);
        (case rb of
           Inl _ \<Rightarrow> ret (Abort 404 ''backend not found'')
         | Inr backend \<Rightarrow> do {
             r \<leftarrow> CanAccess (context_user ctx) (b_ConfigID backend);
             ret (case r of
                    Inl _ \<Rightarrow> Abort 403 ''access denied to this configuration''
                  | Inr canAccess \<Rightarrow> if \<not> canAccess then Abort 403 ''access denied to this configuration'' else Next ctx)
           })
      })"

definition SessionFromContext :: "gin_context \<Rightarrow> Session option" where
  "SessionFromContext ctx = cx_session ctx"

subsection \<open>Safety of the middlewares\<close>

lemma row_method_find_Inr:
  "run_state (row_method msg q) w = (Inr x, w') \<Longrightarrow> first_row (q (w_db w)) = Some x \<and> w_db w' = w_db w"
  using row_method_Inr row_method_db by (metis first_row_simps(2))

lemma ValidateSession_Inr:
  assumes "run_state (ValidateSession s) w = (Inr u, w')"
  shows "se_JTI s = '''' \<or> (\<exists>r. session_lookup (w_db w) (se_JTI s) = Some r \<and> sr_RevokedAt r = None)"
proof (cases "se_JTI s = ''''")
  case False
  with assms obtain r where r: "run_state (GetSessionRecord (se_JTI s)) w = (Inr r, w')" "sr_RevokedAt r = None"
    by (auto simp: ValidateSession_def run_simps split: prod.splits sum.splits if_splits)
  from row_method_find_Inr [OF r(1) [unfolded GetSessionRecord_def]] r(2) show ?thesis
    by (auto simp: session_lookup_def)
qed simp

text \<open>
  C8: A request for a path that needs authentication passes the middleware only with a token that
  parses to a session under the server's secret and whose server-side record exists and is not
  revoked (tokens without an ID apart), whatever the driver's failures; and the context it passes
  with names that session's user and roles.
\<close>

theorem Middleware_safe:
  assumes "run_state (Middleware lib cfg req ctx) w = (Next ctx', w')" "\<not> shouldSkipAuth (rq_Path req)"
  shows "\<exists>now session. ParseSession lib cfg now (getToken req (jc_CookieName cfg)) = Some (Inr session) \<and>
    (se_JTI session = '''' \<or> (\<exists>r. session_lookup (w_db w) (se_JTI session) = Some r \<and> sr_RevokedAt r = None)) \<and>
    cx_userID ctx' = Some (se_UserID session) \<and> cx_userRoles ctx' = Some (se_Roles session)"
proof -
  let ?now = "w_now w (w_now_ix w)" and ?w = "w\<lparr>w_now_ix := Suc (w_now_ix w)\<rparr>"
  from assms obtain session where s: "ParseSession lib cfg ?now (getToken req (jc_CookieName cfg)) = Some (Inr session)"
    and v: "run_state (ValidateSession session) ?w = (Inr (), w')"
    and ctx: "ctx' = ctx\<lparr>cx_session := Some session, cx_userID := Some (se_UserID session), cx_userRoles := Some (se_Roles session)\<rparr>"
    by (auto simp: Middleware_def Let_def run_simps split: if_splits option.splits sum.splits prod.splits)
  from ValidateSession_Inr [OF v] s ctx show ?thesis by auto
qed

text \<open>
  C9: The per-configuration check admits exactly the admins and the users one of whose roles is
  assigned to the configuration, on a driver that does not fail; whatever fails, it admits nobody
  else.
\<close>

theorem RequireConfigAccess_correct:
  "(run_state (RequireConfigAccess req ctx) w = (Next ctx', w') \<longrightarrow>
      ctx' = ctx \<and> (is_admin ctx \<or> may_access (w_db w) (context_user ctx) (rq_ID req))) \<and>
   (healthy_driver w \<and> (is_admin ctx \<or> may_access (w_db w) (context_user ctx) (rq_ID req)) \<longrightarrow>
      fst (run_state (RequireConfigAccess req ctx) w) = Next ctx)"
proof (cases "is_admin ctx")
  case False
  have "run_state (RequireConfigAccess req ctx) w = (Next ctx', w') \<Longrightarrow>
      ctx' = ctx \<and> run_state (CanAccess (context_user ctx) (rq_ID req)) w = (Inr True, w')"
    using False by (auto simp: RequireConfigAccess_def run_simps split: prod.splits sum.splits if_splits)
  with CanAccess_True False show ?thesis by (auto simp: RequireConfigAccess_def run_simps run_CanAccess)
qed (auto simp: RequireConfigAccess_def run_simps)

text \<open>
  The check on a backend's route decides by the configuration the backend belongs to.
\<close>

theorem RequireBackendConfigAccess_safe:
  "run_state (RequireBackendConfigAccess req ctx) w = (Next ctx', w') \<Longrightarrow>
   ctx' = ctx \<and> (is_admin ctx \<or>
     (\<exists>b. first_row (select_backend (rq_ID req) (w_db w)) = Some b \<and>
          may_access (w_db w) (context_user ctx) (b_ConfigID b)))"
proof (cases "is_admin ctx")
  case False
  assume run: "run_state (RequireBackendConfigAccess req ctx) w = (Next ctx', w')"
  with False obtain b w1 where b: "run_state (GetBackend (rq_ID req)) w = (Inr b, w1)" and "ctx' = ctx"
    and acc: "run_state (CanAccess (context_user ctx) (b_ConfigID b)) w1 = (Inr True, w')"
    by (auto simp: RequireBackendConfigAccess_def run_simps split: prod.splits sum.splits if_splits)
  from row_method_find_Inr [OF b [unfolded GetBackend_def]] CanAccess_True [OF acc] \<open>ctx' = ctx\<close>
  show ?thesis by auto
qed (auto simp: RequireBackendConfigAccess_def run_simps)

subsection \<open>The life of a session\<close>

text \<open>
  What the code relies on of the JWT library: a token it signs under a secret parses under that
  secret, as valid and with the claims that were signed, until the second of its \<open>exp\<close> claim.
\<close>

definition jwt_law :: "jwt_lib \<Rightarrow> bool" where
  "jwt_law lib = (\<forall>secret claims token e now.
     jw_Sign lib secret claims = Inr token \<longrightarrow> claim_of claims ''exp'' = Some (CNum e) \<longrightarrow> unix now < e \<longrightarrow>
     jw_Parse lib secret now token = Inr (True, claims))"

lemma claim_strings_map_Some [simp]: "claim_strings (map (\<lambda>r. Some (f r)) rs) = map f rs"
  by (induction rs) simp_all

lemma ParseSession_session_claims:
  "jwt_law lib \<Longrightarrow> jw_Sign lib (jc_Secret cfg) (session_claims jti user created expires) = Inr token \<Longrightarrow>
   unix now < unix expires \<Longrightarrow> u_ID user \<noteq> '''' \<Longrightarrow>
   ParseSession lib cfg now token = Some (Inr \<lparr>se_JTI = jti, se_UserID = u_ID user, se_Email = u_Email user,
     se_Roles = map r_Name (u_Roles user), se_ExpiresAt = unix expires * Second\<rparr>)"
  by (force simp: jwt_law_def ParseSession_def session_claims_def claim_string_def)

lemma insert_session_Inr:
  "insert_session s d = Inr (n, d') \<Longrightarrow>
   session_lookup d' (sr_JTI s) = Some (s\<lparr>sr_RevokedAt := None\<rparr>)"
  by (auto simp: insert_session_def session_lookup_find find_snoc find_absent split: if_splits)

lemma run_ValidateSession:
  "w_fault w (w_stmt_ix w) = None \<Longrightarrow> se_JTI s \<noteq> '''' \<Longrightarrow>
   fst (run_state (ValidateSession s) w) =
     (case session_lookup (w_db w) (se_JTI s) of
        None \<Rightarrow> Inl (Errorf ''session not found'')
      | Some r \<Rightarrow> if sr_RevokedAt r \<noteq> None then Inl (Errorf ''session revoked'') else Inr ())"
  by (cases "select_session (se_JTI s) (w_db w)")
    (auto simp: ValidateSession_def GetSessionRecord_def run_simps run_row_method session_lookup_def)

text \<open>
  The token \<open>CreateSession\<close> returns for a user parses, until it expires, to a session of that
  user with the user's email and role names, and its server-side record validates.
\<close>

theorem CreateSession_roundtrip:
  assumes "jwt_law lib" "u_ID user \<noteq> ''''" "w_uuid w (w_uuid_ix w) \<noteq> ''''"
    and "run_state (CreateSession lib cfg user) w = (Inr token, w')"
    and "unix now < unix (w_now w (w_now_ix w) + (if jc_Expiry cfg = 0 then 24 * Hour else jc_Expiry cfg))"
  shows "\<exists>s. ParseSession lib cfg now token = Some (Inr s) \<and> se_UserID s = u_ID user \<and> se_Email s = u_Email user \<and>
    se_Roles s = map r_Name (u_Roles user) \<and>
    (\<forall>w''. w_db w'' = w_db w' \<and> w_fault w'' (w_stmt_ix w'') = None \<longrightarrow>
       fst (run_state (ValidateSession s) w'') = Inr ())"
proof -
  let ?jti = "w_uuid w (w_uuid_ix w)" and ?created = "w_now w (w_now_ix w)"
  let ?expires = "?created + (if jc_Expiry cfg = 0 then 24 * Hour else jc_Expiry cfg)"
  from assms(4) have sign: "jw_Sign lib (jc_Secret cfg) (session_claims ?jti user ?created ?expires) = Inr token"
    and "\<exists>n. insert_session \<lparr>sr_JTI = ?jti, sr_UserID = u_ID user, sr_CreatedAt = ?created,
      sr_ExpiresAt = ?expires, sr_RevokedAt = None\<rparr> (w_db w) = Inr (n, w_db w')"
    by (auto simp: CreateSession_def CreateSessionRecord_def Let_def run_simps split: prod.splits sum.splits
        dest!: insert_method_Inr)
  then have "session_lookup (w_db w') ?jti = Some \<lparr>sr_JTI = ?jti, sr_UserID = u_ID user, sr_CreatedAt = ?created,
      sr_ExpiresAt = ?expires, sr_RevokedAt = None\<rparr>"
    by (auto dest!: insert_session_Inr)
  with ParseSession_session_claims [OF assms(1) sign assms(5,2)] assms(3) show ?thesis
    by (simp add: run_ValidateSession)
qed

text \<open>The operations on the session table, as a handler or the clean-up may issue them.\<close>

datatype session_op = OpCreate SessionRecord | OpRevoke string | OpRevokeUser string | OpCleanup

primrec run_session_op :: "session_op \<Rightarrow> ('z world_scheme, unit) state" where
  "run_session_op (OpCreate s) = do { _ \<leftarrow> CreateSessionRecord s; ret () }"
| "run_session_op (OpRevoke j) = do { _ \<leftarrow> RevokeSession j; ret () }"
| "run_session_op (OpRevokeUser u) = do { _ \<leftarrow> RevokeUserSessions u; ret () }"
| "run_session_op OpCleanup = do { _ \<leftarrow> CleanupExpiredSessions; ret () }"

primrec run_session_ops :: "session_op list \<Rightarrow> ('z world_scheme, unit) state" where
  "run_session_ops [] = ret ()"
| "run_session_ops (p # ps) = do { run_session_op p; run_session_ops ps }"

definition session_dead :: "string \<Rightarrow> db \<Rightarrow> bool" where
  "session_dead j d = (\<forall>s \<in> set (t_sessions d). sr_JTI s = j \<longrightarrow> sr_RevokedAt s \<noteq> None)"

lemma session_dead_lookup: "session_dead j d \<Longrightarrow> session_lookup d j = Some r \<Longrightarrow> sr_RevokedAt r \<noteq> None"
  by (auto simp: session_dead_def session_lookup_find find_Some_iff)

lemma session_dead_statements:
  "session_dead j d \<Longrightarrow> sr_JTI s \<noteq> j \<Longrightarrow> insert_session s d = Inr (n, d') \<Longrightarrow> session_dead j d'"
  "session_dead j d \<Longrightarrow> revoke_sessions P t d = Inr (n, d') \<Longrightarrow> session_dead j d'"
  "session_dead j d \<Longrightarrow> delete_expired_sessions t d = Inr (n, d') \<Longrightarrow> session_dead j d'"
  by (auto simp: session_dead_def insert_session_def revoke_sessions_def delete_expired_sessions_def Let_def
      set_rows_update set_rows_delete split: if_splits)

lemma revoke_kills: "revoke_sessions (\<lambda>s. sr_JTI s = j) t d = Inr (n, d') \<Longrightarrow> session_dead j d'"
proof -
  assume "revoke_sessions (\<lambda>s. sr_JTI s = j) t d = Inr (n, d')"
  then have "t_sessions d' = rows_update (\<lambda>s. sr_JTI s = j \<and> sr_RevokedAt s = None)
      (\<lambda>s. s\<lparr>sr_RevokedAt := Some t\<rparr>) (t_sessions d)"
    unfolding revoke_sessions_def Let_def by auto
  then show "session_dead j d'"
    by (simp add: session_dead_def set_rows_update ball_Un)
qed

lemma keeps_session_dead_revoke: "keeps (\<lambda>w. session_dead j (w_db w)) (RevokeSession i)"
  unfolding RevokeSession_def by (intro keep_intros keeps_sql_exec) (erule (1) session_dead_statements(2))

lemma keeps_session_dead_user: "keeps (\<lambda>w. session_dead j (w_db w)) (RevokeUserSessions i)"
  unfolding RevokeUserSessions_def
  by (intro keep_intros keeps_insert_method) (erule (1) session_dead_statements(2))

lemma keeps_session_dead_cleanup: "keeps (\<lambda>w. session_dead j (w_db w)) CleanupExpiredSessions"
  unfolding CleanupExpiredSessions_def by (intro keep_intros keeps_sql_exec) (erule (1) session_dead_statements(3))

lemmas keeps_session_dead_methods = keeps_session_dead_revoke keeps_session_dead_user keeps_session_dead_cleanup

lemma keeps_session_dead_create:
  "sr_JTI s \<noteq> j \<Longrightarrow> keeps (\<lambda>w. session_dead j (w_db w)) (CreateSessionRecord s)"
  unfolding CreateSessionRecord_def by (rule keeps_insert_method) (rule session_dead_statements(1))

lemma keeps_session_dead:
  assumes "\<And>s. p = OpCreate s \<Longrightarrow> sr_JTI s \<noteq> j"
  shows "keeps (\<lambda>w. session_dead j (w_db w)) (run_session_op p)"
proof (cases p)
  case (OpCreate s)
  with assms show ?thesis by (simp add: keeps_bind keeps_return keeps_session_dead_create)
qed (simp_all add: keeps_bind keeps_return keeps_session_dead_methods)

lemma keeps_session_dead_ops:
  "(\<And>s. OpCreate s \<in> set ps \<Longrightarrow> sr_JTI s \<noteq> j) \<Longrightarrow> keeps (\<lambda>w. session_dead j (w_db w)) (run_session_ops ps)"
  by (induction ps) (auto intro!: keep_intros keeps_session_dead)

lemma RevokeSession_Inr: "run_state (RevokeSession j) w = (Inr u, w') \<Longrightarrow> session_dead j (w_db w')"
  by (auto simp: RevokeSession_def run_simps Let_def split: prod.splits sum.splits if_splits dest!: sql_exec_Inr
      dest: revoke_kills)

text \<open>
  C10: Revocation is permanent: once \<open>RevokeSession\<close> has succeeded for a token ID, and whatever the
  later operations on sessions and the failures of the driver, that session is never accepted
  again, as long as no session with the same ID is created.
\<close>

theorem revocation_is_permanent:
  assumes "run_state (RevokeSession (se_JTI s)) w = (Inr u, w1)" "se_JTI s \<noteq> ''''"
    and "\<And>r. OpCreate r \<in> set ops \<Longrightarrow> sr_JTI r \<noteq> se_JTI s"
  shows "fst (run_state (ValidateSession s) (exec (run_session_ops ops) w1)) \<noteq> Inr ()"
proof
  let ?w = "exec (run_session_ops ops) w1"
  assume "fst (run_state (ValidateSession s) ?w) = Inr ()"
  then obtain w' where "run_state (ValidateSession s) ?w = (Inr (), w')" by (metis prod.collapse)
  from ValidateSession_Inr [OF this] assms(2) obtain r
    where "session_lookup (w_db ?w) (se_JTI s) = Some r" "sr_RevokedAt r = None" by auto
  moreover have "session_dead (se_JTI s) (w_db ?w)"
    using keepsD [OF keeps_session_dead_ops [of ops "se_JTI s"] RevokeSession_Inr [OF assms(1)]] assms(3)
    by (simp add: exec_def)
  ultimately show False by (auto dest: session_dead_lookup)
qed

subsection \<open>A token format that satisfies the law\<close>

text \<open>
  Length-prefixed strings, numbers in unary: enough to encode any claims together with the secret, so
  that a token parses exactly under the secret it was signed with.
\<close>

definition enc_nat :: "nat \<Rightarrow> string" where "enc_nat n = replicate n (CHR ''1'') @ ''0''"

fun dec_nat :: "string \<Rightarrow> (nat \<times> string) option" where
  "dec_nat [] = None"
| "dec_nat (c # s) = (if c = CHR ''0'' then Some (0, s)
     else case dec_nat s of None \<Rightarrow> None | Some (n, r) \<Rightarrow> Some (Suc n, r))"

definition enc_str :: "string \<Rightarrow> string" where "enc_str s = enc_nat (length s) @ s"

definition dec_str :: "string \<Rightarrow> (string \<times> string) option" where
  "dec_str s = (case dec_nat s of None \<Rightarrow> None | Some (n, r) \<Rightarrow> Some (take n r, drop n r))"

definition enc_opt :: "string option \<Rightarrow> string" where
  "enc_opt x = (case x of None \<Rightarrow> ''0'' | Some s \<Rightarrow> CHR ''1'' # enc_str s)"

fun dec_opt :: "string \<Rightarrow> (string option \<times> string) option" where
  "dec_opt [] = None"
| "dec_opt (c # s) = (if c = CHR ''0'' then Some (None, s)
     else case dec_str s of None \<Rightarrow> None | Some (x, r) \<Rightarrow> Some (Some x, r))"

definition enc_list :: "('a \<Rightarrow> string) \<Rightarrow> 'a list \<Rightarrow> string" where
  "enc_list f xs = enc_nat (length xs) @ concat (map f xs)"

primrec dec_items :: "(string \<Rightarrow> ('a \<times> string) option) \<Rightarrow> nat \<Rightarrow> string \<Rightarrow> ('a list \<times> string) option" where
  "dec_items d 0 s = Some ([], s)"
| "dec_items d (Suc n) s =
     (case d s of
        None \<Rightarrow> None
      | Some (x, r) \<Rightarrow> (case dec_items d n r of None \<Rightarrow> None | Some (xs, r') \<Rightarrow> Some (x # xs, r')))"

definition dec_list :: "(string \<Rightarrow> ('a \<times> string) option) \<Rightarrow> string \<Rightarrow> ('a list \<times> string) option" where
  "dec_list d s = (case dec_nat s of None \<Rightarrow> None | Some (n, r) \<Rightarrow> dec_items d n r)"

definition enc_int :: "int \<Rightarrow> string" where
  "enc_int i = (if i < 0 then CHR ''-'' else CHR ''+'') # enc_nat (nat \<bar>i\<bar>)"

fun dec_int :: "string \<Rightarrow> (int \<times> string) option" where
  "dec_int [] = None"
| "dec_int (c # s) = (case dec_nat s of None \<Rightarrow> None
     | Some (n, r) \<Rightarrow> Some (if c = CHR ''-'' then - int n else int n, r))"

fun enc_claim :: "string \<times> claim \<Rightarrow> string" where
  "enc_claim (k, CStr s) = CHR ''s'' # enc_str k @ enc_str s"
| "enc_claim (k, CNum i) = CHR ''n'' # enc_str k @ enc_int i"
| "enc_claim (k, CList xs) = CHR ''l'' # enc_str k @ enc_list enc_opt xs"
| "enc_claim (k, COther) = CHR ''o'' # enc_str k"

definition dec_value :: "char \<Rightarrow> string \<Rightarrow> (claim \<times> string) option" where
  "dec_value c s =
     (if c = CHR ''s'' then map_option (apfst CStr) (dec_str s)
      else if c = CHR ''n'' then map_option (apfst CNum) (dec_int s)
      else if c = CHR ''l'' then map_option (apfst CList) (dec_list dec_opt s)
      else Some (COther, s))"

fun dec_claim :: "string \<Rightarrow> ((string \<times> claim) \<times> string) option" where
  "dec_claim [] = None"
| "dec_claim (c # s) = (case dec_str s of None \<Rightarrow> None
     | Some (k, r) \<Rightarrow> map_option (apfst (Pair k)) (dec_value c r))"

lemma dec_nat_enc [simp]: "dec_nat (enc_nat n @ r) = Some (n, r)"
  by (induction n) (simp_all add: enc_nat_def)

lemma dec_str_enc [simp]: "dec_str (enc_str s @ r) = Some (s, r)"
  by (simp add: dec_str_def enc_str_def)

lemma dec_opt_enc [simp]: "dec_opt (enc_opt x @ r) = Some (x, r)"
  by (cases x) (simp_all add: enc_opt_def)

lemma dec_int_enc [simp]: "dec_int (enc_int i @ r) = Some (i, r)"
  by (simp add: enc_int_def)

lemma dec_list_enc:
  assumes "\<And>x r. d (f x @ r) = Some (x, r)"
  shows "dec_list d (enc_list f xs @ r) = Some (xs, r)"
proof -
  have "dec_items d (length xs) (concat (map f xs) @ r) = Some (xs, r)"
    by (induction xs) (simp_all add: assms)
  then show ?thesis by (simp add: dec_list_def enc_list_def)
qed

lemma dec_claim_enc: "dec_claim (enc_claim x @ r) = Some (x, r)"
  by (cases x rule: enc_claim.cases) (simp_all add: dec_value_def dec_list_enc)

definition plain_jwt :: jwt_lib where
  "plain_jwt = \<lparr>
     jw_Sign = (\<lambda>secret claims. Inr (enc_str secret @ enc_list enc_claim claims)),
     jw_Parse = (\<lambda>secret now token.
       case dec_str token of
         None \<Rightarrow> Inl (Errorf ''token is malformed'')
       | Some (k, r) \<Rightarrow>
           (case dec_list dec_claim r of
              None \<Rightarrow> Inl (Errorf ''token is malformed'')
            | Some (claims, _) \<Rightarrow>
                if k \<noteq> secret then Inl (Errorf ''signature is invalid'')
                else case claim_of claims ''exp'' of
                       Some (CNum e) \<Rightarrow> if unix now < e then Inr (True, claims) else Inl (Errorf ''token is expired'')
                     | _ \<Rightarrow> Inr (True, claims)))\<rparr>"

lemma plain_jwt_law: "jwt_law plain_jwt"
  using dec_list_enc [OF dec_claim_enc, where r = "[]"] by (auto simp: jwt_law_def plain_jwt_def)

definition ex_jwt_config :: JWTConfig where
  "ex_jwt_config = \<lparr>jc_Secret = ''k'', jc_Expiry = 60 * Second, jc_CookieName = ''gslb'', jc_CookieSecure = False,
     jc_CookieHTTPOnly = True, jc_CookieSameSite = ''Lax''\<rparr>"

lemma ex_CreateSession:
  "\<exists>token w'. run_state (CreateSession plain_jwt ex_jwt_config (ex_user ''ann'')) ex_access_world = (Inr token, w')"
  by (simp add: CreateSession_def CreateSessionRecord_def insert_session_def run_simps Let_def run_insert_method
      ex_access_defs plain_jwt_def user_exists_def)

theorem CreateSession_roundtrip_witness:
  "\<exists>token w' s. run_state (CreateSession plain_jwt ex_jwt_config (ex_user ''ann'')) ex_access_world = (Inr token, w') \<and>
     ParseSession plain_jwt ex_jwt_config Second token = Some (Inr s) \<and> se_UserID s = ''ann''"
proof -
  obtain token w' where run: "run_state (CreateSession plain_jwt ex_jwt_config (ex_user ''ann'')) ex_access_world = (Inr token, w')"
    using ex_CreateSession by blast
  have "u_ID (ex_user ''ann'') \<noteq> ''''" "w_uuid ex_access_world (w_uuid_ix ex_access_world) \<noteq> ''''"
    "unix Second < unix (w_now ex_access_world (w_now_ix ex_access_world) +
       (if jc_Expiry ex_jwt_config = 0 then 24 * Hour else jc_Expiry ex_jwt_config))"
    by (simp_all add: ex_user_def ex_access_world_def ex_jwt_config_def unix_def time_units)
  from CreateSession_roundtrip [OF plain_jwt_law this(1,2) run this(3)] run show ?thesis
    by (auto simp: ex_user_def)
qed

definition ex_session :: Session where
  "ex_session = \<lparr>se_JTI = ''j1'', se_UserID = ''ann'', se_Email = '''', se_Roles = [''viewer''], se_ExpiresAt = 10\<rparr>"

lemma ex_RevokeSession: "\<exists>w'. run_state (RevokeSession ''j1'') ex_access_world = (Inr (), w')"
  by (simp add: RevokeSession_def run_simps run_sql_ok revoke_sessions_def row_count_def Let_def ex_access_defs)

theorem revocation_is_permanent_witness:
  "\<exists>w'. run_state (RevokeSession ''j1'') ex_access_world = (Inr (), w') \<and>
     fst (run_state (ValidateSession ex_session) (exec (run_session_ops [OpCleanup, OpRevokeUser ''bob'']) w')) \<noteq> Inr ()"
  using ex_RevokeSession revocation_is_permanent [of ex_session ex_access_world "()" _ "[OpCleanup, OpRevokeUser ''bob'']"]
  by (auto simp: ex_session_def)

text \<open>A request of ann with a token of her open session.\<close>

definition ex_token :: string where
  "ex_token = enc_str ''k'' @ enc_list enc_claim (session_claims ''j1'' (ex_user ''ann'') 0 (60 * Second))"

definition ex_http_request :: Request where
  "ex_http_request = \<lparr>rq_Path = ''/api/v1/configs/c'', rq_Cookie = (\<lambda>_. None), rq_Authorization = ''Bearer '' @ ex_token,
     rq_ID = ''c''\<rparr>"

lemma ex_token_parses:
  "unix now < 60 \<Longrightarrow> \<exists>s. ParseSession plain_jwt ex_jwt_config now ex_token = Some (Inr s) \<and> se_JTI s = ''j1'' \<and> se_UserID s = ''ann''"
  using ParseSession_session_claims [OF plain_jwt_law, of ex_jwt_config "''j1''" "ex_user ''ann''" 0 "60 * Second" ex_token now]
  by (simp add: plain_jwt_def ex_jwt_config_def ex_token_def ex_user_def unix_def Second_def Millisecond_def)

lemma ex_token_not_empty: "ex_token \<noteq> ''''"
  by (simp add: ex_token_def enc_str_def enc_nat_def)

lemma ex_getToken: "getToken ex_http_request c = ex_token"
  by (simp add: getToken_def ex_http_request_def)

lemma ex_not_skipped: "\<not> shouldSkipAuth (rq_Path ex_http_request)"
  by (simp add: shouldSkipAuth_def ex_http_request_def) code_simp

lemma ex_session_lookup: "session_lookup ex_access_db ''j1'' =
    Some \<lparr>sr_JTI = ''j1'', sr_UserID = ''ann'', sr_CreatedAt = 1, sr_ExpiresAt = 10, sr_RevokedAt = None\<rparr>"
  by (simp add: session_lookup_find ex_access_defs)

theorem Middleware_safe_witness:
  "\<exists>ctx w'. run_state (Middleware plain_jwt ex_jwt_config ex_http_request empty_context) ex_access_world = (Next ctx, w') \<and>
     (\<exists>now s. ParseSession plain_jwt ex_jwt_config now ex_token = Some (Inr s) \<and> cx_userID ctx = Some (se_UserID s))"
proof -
  obtain s where s: "ParseSession plain_jwt ex_jwt_config 5 ex_token = Some (Inr s)" "se_JTI s = ''j1''"
    using ex_token_parses [of 5] by (auto simp: unix_def time_units)
  have "fst (run_state (ValidateSession s) (ex_access_world\<lparr>w_now_ix := 1\<rparr>)) = Inr ()"
    by (simp add: run_ValidateSession s ex_access_healthy ex_session_lookup ex_access_world_def)
  then obtain w1 where "run_state (ValidateSession s) (ex_access_world\<lparr>w_now_ix := Suc 0\<rparr>) = (Inr (), w1)"
    by (cases "run_state (ValidateSession s) (ex_access_world\<lparr>w_now_ix := Suc 0\<rparr>)") auto
  then obtain ctx w' where run: "run_state (Middleware plain_jwt ex_jwt_config ex_http_request empty_context) ex_access_world = (Next ctx, w')"
    using ex_not_skipped ex_token_not_empty s
    by (simp add: Middleware_def ex_getToken Let_def run_simps ex_access_world_def)
  from Middleware_safe [OF run ex_not_skipped] run show ?thesis
    by (auto simp: ex_getToken)
qed

definition ann_context :: gin_context where
  "ann_context = \<lparr>cx_session = Some ex_session, cx_userID = Some ''ann'', cx_userRoles = Some [''viewer'']\<rparr>"

theorem RequireConfigAccess_correct_witness:
  "fst (run_state (RequireConfigAccess ex_http_request ann_context) ex_access_world) = Next ann_context"
  using RequireConfigAccess_correct [of ex_http_request ann_context ex_access_world] ex_may_access(1) ex_access_healthy
  by (simp add: ann_context_def ex_http_request_def context_user_def)

theorem RequireBackendConfigAccess_safe_witness:
  "\<exists>w'. run_state (RequireBackendConfigAccess (ex_http_request\<lparr>rq_ID := ''b''\<rparr>) ann_context) ex_access_world = (Next ann_context, w') \<and>
     (\<exists>b. first_row (select_backend ''b'' ex_access_db) = Some b \<and> may_access ex_access_db ''ann'' (b_ConfigID b))"
proof -
  let ?m = "RequireBackendConfigAccess (ex_http_request\<lparr>rq_ID := ''b''\<rparr>) ann_context"
  have "fst (run_state ?m ex_access_world) = Next ann_context"
    using ex_may_access(1) ex_access_healthy
    by (simp add: RequireBackendConfigAccess_def is_admin_def ann_context_def ex_http_request_def context_user_def
        run_simps GetBackend_def run_row_method run_CanAccess select_backend_def ex_access_defs)
  then obtain w' where run: "run_state ?m ex_access_world = (Next ann_context, w')"
    by (cases "run_state ?m ex_access_world") auto
  have "\<not> is_admin ann_context" by (simp add: is_admin_def ann_context_def)
  with RequireBackendConfigAccess_safe [OF run] run show ?thesis
    by (simp add: ex_access_healthy ann_context_def context_user_def)
qed

end
