(* ===== verification/Store_Audit.thy ===== *)
theory Store_Audit
  imports Store_Config
begin

section \<open>Audit logs (internal/store/audit.go)\<close>

text \<open>
  Audit entries with optional filters, a limit that is clamped, and an offset. The WHERE clause
  the source assembles from the set fields is their conjunction. \<open>LIMIT ? OFFSET ?\<close> takes the
  limit's rows after the offset; SQLite reads a negative offset as 0.
\<close>

record AuditLogFilter =
  fl_UserID :: string
  fl_EntityType :: string
  fl_Action :: string
  fl_From :: "time option"
  fl_To :: "time option"

subsection \<open>Statements\<close>

definition insert_audit_log :: "AuditLog \<Rightarrow> db \<Rightarrow> (nat \<times> db) result" where
  "insert_audit_log l d =
     (if \<exists>r \<in> set (t_audit_logs d). al_ID r = al_ID l then Inl (unique_error ''audit_logs.id (1555)'')
      else Inr (1, d\<lparr>t_audit_logs := t_audit_logs d @ [l]\<rparr>))"

definition filter_matches :: "AuditLogFilter \<Rightarrow> AuditLog \<Rightarrow> bool" where
  "filter_matches f l =
     ((fl_UserID f \<noteq> '''' \<longrightarrow> al_UserID l = fl_UserID f) \<and>
      (fl_EntityType f \<noteq> '''' \<longrightarrow> al_EntityType l = fl_EntityType f) \<and>
      (fl_Action f \<noteq> '''' \<longrightarrow> al_Action l = fl_Action f) \<and>
      (case fl_From f of None \<Rightarrow> True | Some t \<Rightarrow> al_CreatedAt l \<ge> t) \<and>
      (case fl_To f of None \<Rightarrow> True | Some t \<Rightarrow> al_CreatedAt l \<le> t))"

definition select_audit_logs :: "AuditLogFilter \<Rightarrow> int \<Rightarrow> int \<Rightarrow> db \<Rightarrow> AuditLog list" where
  "select_audit_logs f lim off d =
     take (nat lim) (drop (nat off) (order_desc al_CreatedAt (filter (filter_matches f) (t_audit_logs d))))"

definition select_audit_log :: "string \<Rightarrow> db \<Rightarrow> AuditLog list" where
  "select_audit_log i d = filter (\<lambda>l. al_ID l = i) (t_audit_logs d)"

definition select_entity_logs :: "string \<Rightarrow> string \<Rightarrow> int \<Rightarrow> db \<Rightarrow> AuditLog list" where
  "select_entity_logs entityType entityID lim d =
     take (nat lim) (order_desc al_CreatedAt
       (filter (\<lambda>l. al_EntityType l = entityType \<and> al_EntityID l = entityID) (t_audit_logs d)))"

definition delete_audit_logs :: "time \<Rightarrow> db \<Rightarrow> (nat \<times> db) result" where
  "delete_audit_logs cutoff d =
     (let hit = (\<lambda>l. al_CreatedAt l < cutoff)
      in Inr (row_count hit (t_audit_logs d), d\<lparr>t_audit_logs := rows_delete hit (t_audit_logs d)\<rparr>))"

definition count_audit_logs :: "AuditLogFilter \<Rightarrow> db \<Rightarrow> nat" where
  "count_audit_logs f d = length (filter (filter_matches f) (t_audit_logs d))"

subsection \<open>Methods\<close>

definition CreateAuditLog :: "AuditLog \<Rightarrow> ('z world_scheme, AuditLog \<times> unit result) state" where
  "CreateAuditLog l0 = do {
     l \<leftarrow> (if al_ID l0 = '''' then do { u \<leftarrow> uuid_New; ret (l0\<lparr>al_ID := u\<rparr>) } else ret l0);
     now \<leftarrow> time_Now;
     let l = l\<lparr>al_CreatedAt := now\<rparr>;
     r \<leftarrow> insert_method (Wrap ''insert audit log'') (insert_audit_log l);
     ret (l, r)
   }"

definition clamp_limit :: "int \<Rightarrow> int \<Rightarrow> int \<Rightarrow> int" where
  "clamp_limit default_lim max_lim lim =
     (let lim = (if lim \<le> 0 then default_lim else lim)
      in if lim > max_lim then max_lim else lim)"

definition ListAuditLogs :: "AuditLogFilter \<Rightarrow> int \<Rightarrow> int \<Rightarrow> ('z world_scheme, AuditLog list result) state" where
  "ListAuditLogs f lim off =
     rows_method (Wrap ''query audit logs'') (Wrap ''scan audit log'') (Wrap ''rows error'')
       (select_audit_logs f (clamp_limit 100 1000 lim) off)"

text \<open>Here the error is compared with \<open>==\<close>, not \<open>errors.Is\<close>.\<close>

definition GetAuditLog :: "string \<Rightarrow> ('z world_scheme, AuditLog result) state" where
  "GetAuditLog i = do {
     r \<leftarrow> sql_row (select_audit_log i);
     ret (case r of
            Inl e \<Rightarrow> Inl (if e = ErrNoRows then ErrNotFound else Wrap ''query audit log'' e)
          | Inr x \<Rightarrow> Inr x)
   }"

definition GetAuditLogsForEntity :: "string \<Rightarrow> string \<Rightarrow> int \<Rightarrow> ('z world_scheme, AuditLog list result) state" where
  "GetAuditLogsForEntity entityType entityID lim =
     rows_method (Wrap ''query audit logs for entity'') (Wrap ''scan audit log'') (Wrap ''rows error'')
       (select_entity_logs entityType entityID (clamp_limit 50 500 lim))"

definition DeleteOldAuditLogs :: "duration \<Rightarrow> ('z world_scheme, nat result) state" where
  "DeleteOldAuditLogs olderThan = do {
     now \<leftarrow> time_Now;
     let cutoff = now - olderThan;
     r \<leftarrow> sql_exec (delete_audit_logs cutoff);
     ret (case r of
            Inl e \<Rightarrow> Inl (Wrap ''delete old audit logs'' e)
          | Inr (Inl e) \<Rightarrow> Inl (Wrap ''rows affected'' e)
          | Inr (Inr n) \<Rightarrow> Inr n)
   }"

definition CountAuditLogs :: "AuditLogFilter \<Rightarrow> ('z world_scheme, nat result) state" where
  "CountAuditLogs f = do {
     r \<leftarrow> sql_row (\<lambda>d. [count_audit_logs f d]);
     ret (case r of Inl e \<Rightarrow> Inl (Wrap ''count audit logs'' e) | Inr n \<Rightarrow> Inr n)
   }"

subsection \<open>Constraints\<close>

lemma insert_audit_log_ok: "db_ok d \<Longrightarrow> insert_audit_log l d = Inr (n, d') \<Longrightarrow> db_ok d'"
  by (auto simp: insert_audit_log_def db_ok_def keys_ok_def refs_ok_def sql_simps split: if_splits)

lemma delete_audit_logs_ok: "db_ok d \<Longrightarrow> delete_audit_logs t d = Inr (n, d') \<Longrightarrow> db_ok d'"
  by (auto simp: delete_audit_logs_def db_ok_def keys_ok_def refs_ok_def sql_simps Let_def)

lemma keeps_CreateAuditLog [keep_intros]: "keeps_db_ok (CreateAuditLog l)"
  unfolding CreateAuditLog_def Let_def by (intro keep_intros keeps_insert_method) (erule (1) insert_audit_log_ok)

lemma keeps_audit_queries [keep_intros]:
  "keeps (\<lambda>w. P (w_db w)) (ListAuditLogs f l s)" "keeps (\<lambda>w. P (w_db w)) (GetAuditLog i)"
  "keeps (\<lambda>w. P (w_db w)) (GetAuditLogsForEntity i j l)" "keeps (\<lambda>w. P (w_db w)) (CountAuditLogs f)"
  unfolding ListAuditLogs_def GetAuditLog_def GetAuditLogsForEntity_def CountAuditLogs_def by (intro keep_intros)+

lemma keeps_DeleteOldAuditLogs [keep_intros]: "keeps_db_ok (DeleteOldAuditLogs t)"
  unfolding DeleteOldAuditLogs_def Let_def by (intro keep_intros keeps_sql_exec) (erule (1) delete_audit_logs_ok)

subsection \<open>Paging\<close>

lemma clamp_limit_bounds: "0 < a \<Longrightarrow> a \<le> b \<Longrightarrow> 0 < clamp_limit a b l \<and> clamp_limit a b l \<le> b"
  by (simp add: clamp_limit_def Let_def)

text \<open>
  A client that pages: it asks for the entries from an offset on, goes on after those it received
  and stops at an empty page or after \<open>n\<close> requests.
\<close>

primrec read_pages :: "AuditLogFilter \<Rightarrow> int \<Rightarrow> int \<Rightarrow> nat \<Rightarrow> ('z world_scheme, AuditLog list list result) state" where
  "read_pages f lim off 0 = ret (Inr [])"
| "read_pages f lim off (Suc n) = do {
     r \<leftarrow> ListAuditLogs f lim off;
     (case r of
        Inl e \<Rightarrow> ret (Inl e)
      | Inr page \<Rightarrow>
          if page = [] then ret (Inr [])
          else do {
            rest \<leftarrow> read_pages f lim (off + int (length page)) n;
            ret (case rest of Inl e \<Rightarrow> Inl e | Inr pages \<Rightarrow> Inr (page # pages))
          })
   }"

definition matching_logs :: "AuditLogFilter \<Rightarrow> db \<Rightarrow> AuditLog list" where
  "matching_logs f d = order_desc al_CreatedAt (filter (filter_matches f) (t_audit_logs d))"

lemma run_ListAuditLogs:
  "w_fault w (w_stmt_ix w) = None \<Longrightarrow> run_state (ListAuditLogs f lim off) w =
     (Inr (take (nat (clamp_limit 100 1000 lim)) (drop (nat off) (matching_logs f (w_db w)))), w\<lparr>w_stmt_ix := Suc (w_stmt_ix w)\<rparr>)"
  by (simp add: ListAuditLogs_def run_rows_method select_audit_logs_def matching_logs_def)

lemma run_CountAuditLogs:
  "w_fault w (w_stmt_ix w) = None \<Longrightarrow> fst (run_state (CountAuditLogs f) w) = Inr (length (matching_logs f (w_db w)))"
  by (simp add: CountAuditLogs_def sql_row_def run_simps count_audit_logs_def matching_logs_def order_desc_def)

lemma clamp_limit_lim: "clamp_limit a b lim \<le> lim" if "0 < lim"
  using that by (simp add: clamp_limit_def Let_def)

lemma read_pages_from:
  assumes "healthy_driver w" "length (matching_logs f (w_db w)) < m + n"
  shows "\<exists>pages. fst (run_state (read_pages f lim (int m) n) w) = Inr pages \<and>
    concat pages = drop m (matching_logs f (w_db w)) \<and>
    (\<forall>p \<in> set pages. p \<noteq> [] \<and> length p \<le> 1000 \<and> (lim \<le> 0 \<or> int (length p) \<le> lim))"
  using assms
proof (induction n arbitrary: m w)
  case 0
  then show ?case by (simp add: run_simps)
next
  case (Suc n)
  let ?xs = "matching_logs f (w_db w)" and ?k = "clamp_limit 100 1000 lim" and ?w = "w\<lparr>w_stmt_ix := Suc (w_stmt_ix w)\<rparr>"
  let ?page = "take (nat ?k) (drop m ?xs)"
  have k: "0 < ?k" "?k \<le> 1000" using clamp_limit_bounds [of 100 1000 lim] by simp_all
  have page: "run_state (ListAuditLogs f lim (int m)) w = (Inr ?page, ?w)"
    using Suc.prems(1) by (simp add: run_ListAuditLogs healthy_driver_def)
  show ?case
  proof (cases "?page = []")
    case True
    then have "drop m ?xs = []" using k(1) by simp
    with True page show ?thesis by (simp add: run_simps)
  next
    case False
    let ?m = "m + length ?page"
    have "healthy_driver ?w" "length (matching_logs f (w_db ?w)) < ?m + n"
      using Suc.prems False by (simp_all add: healthy_driver_def) linarith
    from Suc.IH [OF this] obtain pages where rest: "fst (run_state (read_pages f lim (int ?m) n) ?w) = Inr pages"
      "concat pages = drop ?m ?xs" "\<forall>p \<in> set pages. p \<noteq> [] \<and> length p \<le> 1000 \<and> (lim \<le> 0 \<or> int (length p) \<le> lim)"
      by auto
    have "?page @ drop ?m ?xs = drop m ?xs"
      by (metis append_take_drop_id drop_drop add.commute length_take take_all_iff drop_all nat_le_linear min_def)
    moreover
    have "int (length ?page) \<le> ?k" using k(1) by simp
    then have "length ?page \<le> 1000" "lim \<le> 0 \<or> int (length ?page) \<le> lim"
      using k(2) clamp_limit_lim [of lim 100 1000] by linarith+
    moreover have "fst (run_state (read_pages f lim (int m) (Suc n)) w) = Inr (?page # pages)"
      using rest(1) False page by (simp add: run_simps case_prod_unfold)
    ultimately show ?thesis using rest(2,3) False by (intro exI [of _ "?page # pages"]) auto
  qed
qed

text \<open>
  C24: Paging through the audit log is complete: on a driver that does not fail, a client that
  starts at offset 0, asks with any limit, goes on after the entries it received and may make more
  requests than \<open>CountAuditLogs\<close> reports entries, receives pages of at most 1000 entries (and at most the
  limit, when that is positive) that together are exactly the entries of the table the filter
  selects (its set fields equal, the time between its bounds), each as often as the table holds it,
  newest first, and as many as \<open>CountAuditLogs\<close> reports. Nothing is written between the pages, and
  entries of one time keep the order of the table across them: \<open>ListAuditLogs\<close> sorts by time alone.
\<close>

theorem audit_pages_complete:
  assumes "healthy_driver w" "fst (run_state (CountAuditLogs f) w) = Inr entries" "entries < n"
  shows "\<exists>pages. fst (run_state (read_pages f lim 0 n) w) = Inr pages \<and>
    (\<forall>p \<in> set pages. length p \<le> 1000 \<and> (lim \<le> 0 \<or> int (length p) \<le> lim)) \<and>
    mset (concat pages) = filter_mset (\<lambda>l. fl_UserID f \<in> {'''', al_UserID l} \<and> fl_EntityType f \<in> {'''', al_EntityType l} \<and>
      fl_Action f \<in> {'''', al_Action l} \<and> (case fl_From f of None \<Rightarrow> True | Some t \<Rightarrow> t \<le> al_CreatedAt l) \<and>
      (case fl_To f of None \<Rightarrow> True | Some t \<Rightarrow> al_CreatedAt l \<le> t)) (mset (t_audit_logs (w_db w))) \<and>
    sorted (map (\<lambda>l. - al_CreatedAt l) (concat pages)) \<and>
    length (concat pages) = entries"
proof -
  have entries: "entries = length (matching_logs f (w_db w))"
    using assms(1,2) by (simp add: run_CountAuditLogs healthy_driver_def)
  with read_pages_from [OF assms(1), of f 0 n lim] assms(3) obtain pages where
    pages: "fst (run_state (read_pages f lim 0 n) w) = Inr pages" "concat pages = matching_logs f (w_db w)"
      "\<forall>p \<in> set pages. p \<noteq> [] \<and> length p \<le> 1000 \<and> (lim \<le> 0 \<or> int (length p) \<le> lim)" by auto
  have "filter_matches f = (\<lambda>l. fl_UserID f \<in> {'''', al_UserID l} \<and> fl_EntityType f \<in> {'''', al_EntityType l} \<and>
      fl_Action f \<in> {'''', al_Action l} \<and> (case fl_From f of None \<Rightarrow> True | Some t \<Rightarrow> t \<le> al_CreatedAt l) \<and>
      (case fl_To f of None \<Rightarrow> True | Some t \<Rightarrow> al_CreatedAt l \<le> t))"
    by (auto simp: fun_eq_iff filter_matches_def)
  with pages show ?thesis
    by (intro exI [of _ pages]) (simp add: entries matching_logs_def order_desc_def)
qed

definition ex_log :: "string \<Rightarrow> time \<Rightarrow> AuditLog" where
  "ex_log i t = \<lparr>al_ID = i, al_Action = ''create'', al_EntityType = ''config'', al_EntityID = ''c'', al_EntityName = ''web'',
     al_ConfigID = ''c'', al_Details = '''', al_UserID = ''u'', al_IPAddress = '''', al_UserAgent = '''', al_CreatedAt = t\<rparr>"

definition no_filter :: AuditLogFilter where
  "no_filter = \<lparr>fl_UserID = '''', fl_EntityType = '''', fl_Action = '''', fl_From = None, fl_To = None\<rparr>"

definition ex_audit_world :: world where
  "ex_audit_world = \<lparr>w_db = empty_db\<lparr>t_audit_logs := [ex_log ''1'' 10, ex_log ''2'' 30, ex_log ''3'' 20]\<rparr>,
     w_now = (\<lambda>n. int n), w_now_ix = 0, w_uuid = (\<lambda>n. ''u''), w_uuid_ix = 0, w_fault = (\<lambda>_. None), w_stmt_ix = 0\<rparr>"

theorem audit_pages_complete_witness:
  "\<exists>pages. fst (run_state (read_pages no_filter 2 0 4) ex_audit_world) = Inr pages \<and>
     mset (concat pages) = {#ex_log ''2'' 30, ex_log ''3'' 20, ex_log ''1'' 10#} \<and> length (concat pages) = 3"
proof -
  have w: "healthy_driver ex_audit_world" by (simp add: ex_audit_world_def healthy_driver_def)
  have m: "filter_matches no_filter = (\<lambda>_. True)" by (simp add: fun_eq_iff filter_matches_def no_filter_def)
  have "fst (run_state (CountAuditLogs no_filter) ex_audit_world) = Inr 3"
    by code_simp
  from audit_pages_complete [OF w this, of 4 2] show ?thesis
    by (auto simp: no_filter_def ex_audit_world_def)
qed

end
