(* ===== verification/Http.thy ===== *)
theory Http
  imports Auth Store_Audit Store_DNS Store_Health
begin

section \<open>Requests, responses and audit entries (internal/handlers/handlers.go)\<close>

text \<open>
  What the handlers share: the response values, the translation of store errors, the audit entry of
  a mutation, and the CORS and security-header middlewares. A body arrives decoded or not
  (\<open>ShouldBindJSON\<close>); the \<open>binding\<close> tags are checked by each handler's own predicate, and the
  text the validator would give for a violation comes with the body. \<open>triggerReconcile\<close> starts a
  goroutine: the world records the configuration it was started for.
\<close>

record http_request = Request +
  hr_Method :: string
  hr_Host :: string
  hr_Origin :: string
  hr_ClientIP :: string
  hr_UserAgent :: string
  hr_Query :: "string \<Rightarrow> string option"
  hr_Param :: "string \<Rightarrow> string"

datatype 'a body = Undecodable string | Decoded 'a string

definition ShouldBindJSON :: "('a \<Rightarrow> bool) \<Rightarrow> 'a body \<Rightarrow> 'a result" where
  "ShouldBindJSON valid b =
     (case b of
        Undecodable m \<Rightarrow> Inl (Errorf m)
      | Decoded req m \<Rightarrow> if valid req then Inr req else Inl (Errorf m))"

record ConfigStatus =
  st_ConfigID :: string
  st_Name :: string
  st_BackendCount :: nat
  st_HealthyCount :: nat
  st_UnhealthyCount :: nat
  st_UnknownCount :: nat
  st_HealthStates :: "string \<Rightarrow> HealthState option"

text \<open>An uptime is the pair of the successes and the total of which it is the percentage.\<close>

datatype payload =
    D_Config Config | D_Configs "Config list"
  | D_Backend Backend | D_Backends "Backend list"
  | D_HealthCheck HealthCheck | D_HealthState HealthState
  | D_Provider DNSProviderConfig
  | D_Roles "Role list" | D_User User | D_Users "User list"
  | D_AuditLog AuditLog | D_AuditLogs "AuditLog list" | D_Count nat
  | D_ConfigStatus ConfigStatus
  | D_History "HealthHistoryBucket list" "(string \<times> (int \<times> int)) list"
  | D_SystemStatus bool int time
  | D_Text string

text \<open>\<open>Recovered\<close> is what \<open>gin.Recovery\<close> answers after a panic.\<close>

datatype response = Data payload | Error nat string | No_Content | Redirect string | Recovered

fun status_of :: "response \<Rightarrow> nat" where
  "status_of (Data _) = 200"
| "status_of (Error s _) = s"
| "status_of No_Content = 204"
| "status_of (Redirect _) = 302"
| "status_of Recovered = 500"

definition sendValidationError :: "string \<Rightarrow> response" where
  "sendValidationError message = Error 400 message"

definition sendNotFound :: "string \<Rightarrow> response" where
  "sendNotFound resource = Error 404 (resource @ '' not found'')"

definition sendInternalError :: "string \<Rightarrow> response" where
  "sendInternalError message = Error 500 message"

definition handleStoreError :: "err \<Rightarrow> response" where
  "handleStoreError e =
     (if e = ErrNotFound then sendNotFound ''Resource''
      else if e = ErrAlreadyExists then Error 409 ''Resource already exists''
      else if e = ErrForeignKeyViolation then sendValidationError ''Foreign key violation''
      else sendInternalError ''internal error'')"

subsection \<open>Audit details\<close>

record ChangeEntry =
  ce_Field :: string
  ce_Old :: string
  ce_New :: string

definition change :: "string \<Rightarrow> string \<Rightarrow> string \<Rightarrow> ChangeEntry" where
  "change f old new = \<lparr>ce_Field = f, ce_Old = old, ce_New = new\<rparr>"

text \<open>
  \<open>encoding/json\<close> on a string, which is valid UTF-8: the short escapes, \<open>\u00XX\<close> for the other
  control characters and for the three that HTML could read, and U+2028 and U+2029.
\<close>

definition hex_digit :: "nat \<Rightarrow> char" where
  "hex_digit n = (if n < 10 then char_of (48 + n) else char_of (87 + n))"

definition u_escape :: "char \<Rightarrow> string" where
  "u_escape c = CHR 0x5C # ''u00'' @ [hex_digit (of_char c div 16), hex_digit (of_char c mod 16)]"

definition json_char :: "char \<Rightarrow> string" where
  "json_char c =
     (if c = CHR 0x22 \<or> c = CHR 0x5C then [CHR 0x5C, c]
      else if c = CHR 0x08 then CHR 0x5C # ''b''
      else if c = CHR 0x0C then CHR 0x5C # ''f''
      else if c = CHR 0x0A then CHR 0x5C # ''n''
      else if c = CHR 0x0D then CHR 0x5C # ''r''
      else if c = CHR 0x09 then CHR 0x5C # ''t''
      else if (of_char c :: nat) < 32 \<or> c \<in> {CHR ''<'', CHR ''>'', CHR ''&''} then u_escape c
      else [c])"

fun json_chars :: "string \<Rightarrow> string" where
  "json_chars [] = []"
| "json_chars [a] = json_char a"
| "json_chars [a, b] = json_char a @ json_char b"
| "json_chars (a # b # c # s) =
     (if a = CHR 0xE2 \<and> b = CHR 0x80 \<and> c \<in> {CHR 0xA8, CHR 0xA9}
      then CHR 0x5C # ''u202'' @ [hex_digit (of_char c mod 16)] @ json_chars s
      else json_char a @ json_chars (b # c # s))"

definition json_string :: "string \<Rightarrow> string" where
  "json_string s = CHR 0x22 # json_chars s @ [CHR 0x22]"

definition json_change :: "ChangeEntry \<Rightarrow> string" where
  "json_change c =
     CHR ''{'' # json_string ''field'' @ '':'' @ json_string (ce_Field c) @ '','' @
     json_string ''old'' @ '':'' @ json_string (ce_Old c) @ '','' @
     json_string ''new'' @ '':'' @ json_string (ce_New c) @ ''}''"

fun json_items :: "string list \<Rightarrow> string" where
  "json_items [] = []"
| "json_items [x] = x"
| "json_items (x # xs) = x @ '','' @ json_items xs"

definition buildDetails :: "ChangeEntry list \<Rightarrow> string" where
  "buildDetails changes =
     (if length changes = 0 then ''{}''
      else CHR ''{'' # json_string ''changes'' @ '':['' @ json_items (map json_change changes) @ '']}'')"

definition formatPort :: "int option \<Rightarrow> string" where
  "formatPort port = (case port of None \<Rightarrow> '''' | Some p \<Rightarrow> fmt_d p)"

definition formatBool :: "bool \<Rightarrow> string" where
  "formatBool b = (if b then ''true'' else ''false'')"

text \<open>One entry per field that differs.\<close>

definition diff_entry :: "string \<Rightarrow> string \<Rightarrow> string \<Rightarrow> ChangeEntry list" where
  "diff_entry f old new = (if old \<noteq> new then [change f old new] else [])"

subsection \<open>The handlers' state\<close>

text \<open>
  \<open>ha_oidc\<close> and \<open>ha_reconciler\<close> say whether the two optional services are there; \<open>ha_enc\<close> and
  \<open>ha_nonce\<close> are the store's encryptor and the random nonce its next encryption draws; \<open>ha_isIP\<close> is
  the validator's test for an IP address, \<open>ha_parseTime\<close> is \<open>time.Parse\<close> for RFC 3339.
\<close>

record handlers =
  ha_oidc :: bool
  ha_reconciler :: bool
  ha_enc :: "aead option"
  ha_nonce :: "string result"
  ha_isIP :: "string \<Rightarrow> bool"
  ha_parseTime :: "string \<Rightarrow> time option"

record http_world = world +
  hw_triggered :: "string list"

definition triggerReconcile :: "handlers \<Rightarrow> string \<Rightarrow> ('z http_world_scheme, unit) state" where
  "triggerReconcile h configID =
     (if \<not> ha_reconciler h then ret ()
      else State (\<lambda>w. ((), w\<lparr>hw_triggered := hw_triggered w @ [configID]\<rparr>)))"

definition logAudit :: "string \<Rightarrow> string \<Rightarrow> string \<Rightarrow> string \<Rightarrow> string \<Rightarrow> string \<Rightarrow>
    'r http_request_scheme \<Rightarrow> gin_context \<Rightarrow> ('z world_scheme, unit) state" where
  "logAudit action entityType entityID entityName configID details req ctx = do {
     _ \<leftarrow> CreateAuditLog \<lparr>al_ID = '''', al_Action = action, al_EntityType = entityType, al_EntityID = entityID,
       al_EntityName = entityName, al_ConfigID = configID, al_Details = details,
       al_UserID = (case SessionFromContext ctx of Some s \<Rightarrow> se_UserID s | None \<Rightarrow> ''''),
       al_IPAddress = hr_ClientIP req, al_UserAgent = hr_UserAgent req, al_CreatedAt = 0\<rparr>;
     ret ()
   }"

subsection \<open>CORS and security headers\<close>

type_synonym headers = "(string \<times> string) list"

datatype cors_outcome = Cors_Next headers | Cors_Abort nat headers

definition CORS :: "'r http_request_scheme \<Rightarrow> cors_outcome" where
  "CORS req =
     (let origin = hr_Origin req;
          host = hr_Host req;
          isSameOrigin = (origin = '''' \<or> origin = ''http://'' @ host \<or> origin = ''https://'' @ host);
          isDevOrigin = (origin = ''http://localhost:5173'' \<or> origin = ''http://localhost:3000'');
          hs = (if isSameOrigin \<or> isDevOrigin then
                  (if origin \<noteq> '''' then [(''Access-Control-Allow-Origin'', origin)] else []) @
                  [(''Access-Control-Allow-Methods'', ''GET, POST, PUT, DELETE, OPTIONS''),
                   (''Access-Control-Allow-Headers'', ''Content-Type, Authorization, X-Requested-With''),
                   (''Access-Control-Max-Age'', ''86400'')]
                else [])
      in if hr_Method req = ''OPTIONS'' then Cors_Abort 204 hs else Cors_Next hs)"

definition SecurityHeaders :: headers where
  "SecurityHeaders =
     [(''X-Content-Type-Options'', ''nosniff''), (''X-Frame-Options'', ''DENY''),
      (''X-XSS-Protection'', ''1; mode=block''), (''Referrer-Policy'', ''strict-origin-when-cross-origin''),
      (''Strict-Transport-Security'', ''max-age=63072000; includeSubDomains''),
      (''Content-Security-Policy'',
         ''default-src 'self'; '' @ ''script-src 'self'; '' @ ''style-src 'self' 'unsafe-inline'; '' @
         ''img-src 'self' data:; '' @ ''font-src 'self'; '' @ ''connect-src 'self'; '' @
         ''frame-ancestors 'none'; '' @ ''base-uri 'self';'')]"

subsection \<open>What they keep\<close>

lemma keeps_logAudit [keep_intros]: "keeps_db_ok (logAudit a b c d e f req ctx)"
  unfolding logAudit_def by (intro keep_intros)

lemma keeps_triggerReconcile [keep_intros]: "keeps (\<lambda>w. P (w_db w)) (triggerReconcile h i)"
  unfolding triggerReconcile_def by (auto simp: keeps_def run_simps)

end
