(* ===== verification/Handlers_Config.thy ===== *)
theory Handlers_Config
  imports Http
begin

section \<open>Handlers of configurations (internal/handlers/config.go, config_roles.go, dns.go)\<close>

text \<open>
  The endpoints under \<open>/api/v1/configs\<close>: one definition per handler, named as in the source with a
  prefix \<open>H_\<close>, as it runs after the middlewares. A handler takes the request, the context the
  middlewares left and, where it reads one, the body.
\<close>

text \<open>The check that opens most handlers: the path's ID is there and names a configuration.\<close>

definition with_config :: "string \<Rightarrow> (Config \<Rightarrow> ('z world_scheme, response) state) \<Rightarrow> ('z world_scheme, response) state" where
  "with_config i k =
     (if i = '''' then ret (sendValidationError ''config id is required'')
      else do {
        r \<leftarrow> GetConfig i;
        (case r of Inl e \<Rightarrow> ret (handleStoreError e) | Inr cfg \<Rightarrow> k cfg)
      })"

text \<open>The variant of the check that the package also has, which no handler calls.\<close>

definition getConfigOr404 :: "string \<Rightarrow> ('z world_scheme, response + Config) state" where
  "getConfigOr404 i =
     (if i = '''' then ret (Inl (sendValidationError ''config id is required''))
      else do {
        r \<leftarrow> GetConfig i;
        ret (case r of
               Inl e \<Rightarrow> Inl (if e = ErrNotFound then sendNotFound ''Config'' else handleStoreError e)
             | Inr cfg \<Rightarrow> Inr cfg)
      })"

subsection \<open>Configurations\<close>

record CreateConfigRequest =
  cq_Name :: string
  cq_DNSName :: string
  cq_DNSTTL :: int
  cq_LBMethod :: string
  cq_Roles :: "string list"

definition valid_config_request :: "CreateConfigRequest \<Rightarrow> bool" where
  "valid_config_request req =
     (cq_Name req \<noteq> '''' \<and> cq_DNSName req \<noteq> '''' \<and> cq_DNSTTL req \<ge> 1 \<and>
      cq_LBMethod req \<in> {''round_robin'', ''weighted''})"

record UpdateConfigRequest =
  vq_Name :: string
  vq_DNSName :: string
  vq_DNSTTL :: int
  vq_LBMethod :: string

definition valid_config_update :: "UpdateConfigRequest \<Rightarrow> bool" where
  "valid_config_update req =
     (vq_Name req \<noteq> '''' \<and> vq_DNSName req \<noteq> '''' \<and> vq_DNSTTL req \<ge> 1 \<and>
      vq_LBMethod req \<in> {''round_robin'', ''weighted''})"

definition lb_method :: "string \<Rightarrow> LBMethod" where
  "lb_method s = (if s = ''round_robin'' then RoundRobin else if s = ''weighted'' then Weighted else LBOther s)"

definition requested_config :: "CreateConfigRequest \<Rightarrow> Config" where
  "requested_config req = \<lparr>cfg_ID = '''', cfg_Name = cq_Name req, cfg_DNSName = cq_DNSName req, cfg_DNSTTL = cq_DNSTTL req,
     cfg_LBMethod = lb_method (cq_LBMethod req), cfg_CreatedAt = 0, cfg_UpdatedAt = 0, cfg_LastReconcileError = ''''\<rparr>"

definition updated_config :: "string \<Rightarrow> UpdateConfigRequest \<Rightarrow> Config" where
  "updated_config i req = \<lparr>cfg_ID = i, cfg_Name = vq_Name req, cfg_DNSName = vq_DNSName req, cfg_DNSTTL = vq_DNSTTL req,
     cfg_LBMethod = lb_method (vq_LBMethod req), cfg_CreatedAt = 0, cfg_UpdatedAt = 0, cfg_LastReconcileError = ''''\<rparr>"

primrec assign_roles_loop :: "string \<Rightarrow> string list \<Rightarrow> ('z world_scheme, unit) state" where
  "assign_roles_loop configID [] = ret ()"
| "assign_roles_loop configID (roleName # names) = do {
     r \<leftarrow> GetRoleByName roleName;
     (case r of
        Inl _ \<Rightarrow> ret ()
      | Inr role \<Rightarrow> do { _ \<leftarrow> AssignConfigRole configID (r_ID role); ret () });
     assign_roles_loop configID names
   }"

definition config_entries :: "Config \<Rightarrow> (string \<times> string) list" where
  "config_entries cfg = [(''name'', cfg_Name cfg), (''dns_name'', cfg_DNSName cfg), (''dns_ttl'', fmt_d (cfg_DNSTTL cfg)),
     (''lb_method'', lb_string (cfg_LBMethod cfg))]"

definition created_entries :: "(string \<times> string) list \<Rightarrow> ChangeEntry list" where
  "created_entries es = map (\<lambda>(f, new). change f '''' new) es"

definition deleted_entries :: "(string \<times> string) list \<Rightarrow> ChangeEntry list" where
  "deleted_entries es = map (\<lambda>(f, old). change f old '''') es"

definition H_CreateConfig :: "handlers \<Rightarrow> 'r http_request_scheme \<Rightarrow> gin_context \<Rightarrow> CreateConfigRequest body \<Rightarrow>
    ('z world_scheme, response) state" where
  "H_CreateConfig h rq ctx b =
     (case ShouldBindJSON valid_config_request b of
        Inl e \<Rightarrow> ret (sendValidationError (err_msg e))
      | Inr req \<Rightarrow> do {
          cr \<leftarrow> CreateConfig (requested_config req);
          (case cr of
             (_, Inl e) \<Rightarrow> ret (handleStoreError e)
           | (cfg, Inr _) \<Rightarrow> do {
               (if ha_oidc h then
                  assign_roles_loop (cfg_ID cfg)
                    (if length (cq_Roles req) = 0 then (case cx_userRoles ctx of Some rs \<Rightarrow> rs | None \<Rightarrow> []) else cq_Roles req)
                else ret ());
               logAudit ''config:create'' ''config'' (cfg_ID cfg) (cfg_Name cfg) (cfg_ID cfg)
                 (buildDetails (created_entries (config_entries cfg))) rq ctx;
               ret (Data (D_Config cfg))
             })
        })"

definition H_GetConfig :: "'r http_request_scheme \<Rightarrow> ('z world_scheme, response) state" where
  "H_GetConfig rq = with_config (rq_ID rq) (\<lambda>cfg. ret (Data (D_Config cfg)))"

definition config_changes :: "Config \<Rightarrow> Config \<Rightarrow> ChangeEntry list" where
  "config_changes old new =
     diff_entry ''name'' (cfg_Name old) (cfg_Name new) @ diff_entry ''dns_name'' (cfg_DNSName old) (cfg_DNSName new) @
     (if cfg_DNSTTL old \<noteq> cfg_DNSTTL new then [change ''dns_ttl'' (fmt_d (cfg_DNSTTL old)) (fmt_d (cfg_DNSTTL new))] else []) @
     (if cfg_LBMethod old \<noteq> cfg_LBMethod new
      then [change ''lb_method'' (lb_string (cfg_LBMethod old)) (lb_string (cfg_LBMethod new))] else [])"

definition H_UpdateConfig :: "'r http_request_scheme \<Rightarrow> gin_context \<Rightarrow> UpdateConfigRequest body \<Rightarrow>
    ('z world_scheme, response) state" where
  "H_UpdateConfig rq ctx b =
     (if rq_ID rq = '''' then ret (sendValidationError ''config id is required'')
      else case ShouldBindJSON valid_config_update b of
        Inl e \<Rightarrow> ret (sendValidationError (err_msg e))
      | Inr req \<Rightarrow> do {
          r \<leftarrow> GetConfig (rq_ID rq);
          (case r of
             Inl e \<Rightarrow> ret (handleStoreError e)
           | Inr existing \<Rightarrow> do {
               ur \<leftarrow> UpdateConfig (updated_config (rq_ID rq) req);
               (case ur of
                  (_, Inl e) \<Rightarrow> ret (handleStoreError e)
                | (cfg, Inr _) \<Rightarrow> do {
                    logAudit ''config:update'' ''config'' (cfg_ID cfg) (cfg_Name cfg) (cfg_ID cfg)
                      (buildDetails (config_changes existing cfg)) rq ctx;
                    ret (Data (D_Config cfg))
                  })
             })
        })"

definition H_DeleteConfig :: "'r http_request_scheme \<Rightarrow> gin_context \<Rightarrow> ('z world_scheme, response) state" where
  "H_DeleteConfig rq ctx = with_config (rq_ID rq) (\<lambda>cfg. do {
     r \<leftarrow> DeleteConfig (rq_ID rq);
     (case r of
        Inl e \<Rightarrow> ret (handleStoreError e)
      | Inr _ \<Rightarrow> do {
          logAudit ''config:delete'' ''config'' (rq_ID rq) (cfg_Name cfg) (rq_ID rq)
            (buildDetails (deleted_entries (config_entries cfg))) rq ctx;
          ret No_Content
        })
   })"

definition list_all_configs :: "('z world_scheme, response) state" where
  "list_all_configs = do {
     r \<leftarrow> ListConfigs;
     ret (case r of Inl e \<Rightarrow> handleStoreError e | Inr configs \<Rightarrow> Data (D_Configs configs))
   }"

definition H_ListConfigs :: "handlers \<Rightarrow> gin_context \<Rightarrow> ('z world_scheme, response) state" where
  "H_ListConfigs h ctx =
     (if ha_oidc h \<and> \<not> is_admin ctx \<and> context_user ctx \<noteq> '''' then do {
        ra \<leftarrow> ListConfigsForUser (context_user ctx);
        (case ra of
           Inl _ \<Rightarrow> ret (sendInternalError ''failed to list configs'')
         | Inr accessibleIDs \<Rightarrow>
             if length accessibleIDs = 0 then ret (Data (D_Configs []))
             else do {
               r \<leftarrow> ListConfigs;
               ret (case r of
                      Inl _ \<Rightarrow> sendInternalError ''failed to list configs''
                    | Inr all \<Rightarrow> Data (D_Configs (filter (\<lambda>cfg. cfg_ID cfg \<in> set accessibleIDs) all)))
             })
      } else list_all_configs)"

subsection \<open>Roles of a configuration\<close>

definition H_GetConfigRoles :: "'r http_request_scheme \<Rightarrow> ('z world_scheme, response) state" where
  "H_GetConfigRoles rq = with_config (rq_ID rq) (\<lambda>_. do {
     r \<leftarrow> GetConfigRoles (rq_ID rq);
     ret (case r of Inl _ \<Rightarrow> sendInternalError ''failed to get config roles'' | Inr roles \<Rightarrow> Data (D_Roles roles))
   })"

primrec remove_config_roles_loop :: "string \<Rightarrow> Role list \<Rightarrow> ('z world_scheme, response option) state" where
  "remove_config_roles_loop configID [] = ret None"
| "remove_config_roles_loop configID (r # rs) = do {
     u \<leftarrow> RemoveConfigRole configID (r_ID r);
     (case u of
        Inl _ \<Rightarrow> ret (Some (sendInternalError ''failed to remove config role''))
      | Inr _ \<Rightarrow> remove_config_roles_loop configID rs)
   }"

primrec set_config_roles_loop :: "string \<Rightarrow> string list \<Rightarrow> ('z world_scheme, response option) state" where
  "set_config_roles_loop configID [] = ret None"
| "set_config_roles_loop configID (roleName # names) = do {
     r \<leftarrow> GetRoleByName roleName;
     (case r of
        Inl _ \<Rightarrow> set_config_roles_loop configID names
      | Inr role \<Rightarrow> do {
          u \<leftarrow> AssignConfigRole configID (r_ID role);
          (case u of
             Inl _ \<Rightarrow> ret (Some (sendInternalError ''failed to assign config role''))
           | Inr _ \<Rightarrow> set_config_roles_loop configID names)
        })
   }"

definition H_UpdateConfigRoles :: "'r http_request_scheme \<Rightarrow> gin_context \<Rightarrow> string list body \<Rightarrow> ('z world_scheme, response) state" where
  "H_UpdateConfigRoles rq ctx b = with_config (rq_ID rq) (\<lambda>_.
     (case ShouldBindJSON (\<lambda>_. True) b of
        Inl e \<Rightarrow> ret (sendValidationError (err_msg e))
      | Inr roles \<Rightarrow> do {
          r \<leftarrow> GetConfigRoles (rq_ID rq);
          (case r of
             Inl _ \<Rightarrow> ret (sendInternalError ''failed to get existing config roles'')
           | Inr existing \<Rightarrow> do {
               x \<leftarrow> remove_config_roles_loop (rq_ID rq) existing;
               (case x of
                  Some resp \<Rightarrow> ret resp
                | None \<Rightarrow> do {
                    y \<leftarrow> set_config_roles_loop (rq_ID rq) roles;
                    (case y of
                       Some resp \<Rightarrow> ret resp
                     | None \<Rightarrow> do {
                         logAudit ''config:roles:update'' ''config'' (rq_ID rq) '''' (rq_ID rq) '''' rq ctx;
                         ret (Data (D_Text ''roles updated''))
                       })
                  })
             })
        }))"

subsection \<open>DNS providers\<close>

record ConfigureDNSProviderRequest =
  pq_ProviderType :: string
  pq_ConfigJSON :: string

definition valid_provider_request :: "ConfigureDNSProviderRequest \<Rightarrow> bool" where
  "valid_provider_request req = (pq_ProviderType req \<in> {''cloudflare'', ''mock''} \<and> pq_ConfigJSON req \<noteq> '''')"

definition provider_changes :: "DNSProviderConfig \<Rightarrow> DNSProviderConfig \<Rightarrow> ChangeEntry list" where
  "provider_changes old new =
     diff_entry ''provider_type'' (dp_ProviderType old) (dp_ProviderType new) @
     (if dp_ConfigJSON old \<noteq> dp_ConfigJSON new then [change ''credentials'' ''[redacted]'' ''[updated]''] else [])"

definition H_ConfigureDNSProvider :: "handlers \<Rightarrow> 'r http_request_scheme \<Rightarrow> gin_context \<Rightarrow> ConfigureDNSProviderRequest body \<Rightarrow>
    ('z world_scheme, response) state" where
  "H_ConfigureDNSProvider h rq ctx b = with_config (rq_ID rq) (\<lambda>_.
     (case ShouldBindJSON valid_provider_request b of
        Inl e \<Rightarrow> ret (sendValidationError (err_msg e))
      | Inr req \<Rightarrow> do {
          let provider = \<lparr>dp_ID = '''', dp_ConfigID = rq_ID rq, dp_ProviderType = pq_ProviderType req, dp_ConfigJSON = pq_ConfigJSON req\<rparr>;
          g \<leftarrow> GetDNSProvider (ha_enc h) (rq_ID rq);
          (case g of
             Inr existingProvider \<Rightarrow> do {
               let provider = provider\<lparr>dp_ID := dp_ID existingProvider\<rparr>;
               u \<leftarrow> UpdateDNSProvider (ha_enc h) (ha_nonce h) provider;
               (case u of
                  Inl e \<Rightarrow> ret (handleStoreError e)
                | Inr _ \<Rightarrow> do {
                    logAudit ''dns_provider:update'' ''dns_provider'' (dp_ID provider) (dp_ProviderType provider) (rq_ID rq)
                      (buildDetails (provider_changes existingProvider provider)) rq ctx;
                    ret (Data (D_Provider provider))
                  })
             }
           | Inl _ \<Rightarrow> do {
               cr \<leftarrow> CreateDNSProvider (ha_enc h) (ha_nonce h) provider;
               (case cr of
                  (_, Inl e) \<Rightarrow> ret (handleStoreError e)
                | (provider, Inr _) \<Rightarrow> do {
                    logAudit ''dns_provider:create'' ''dns_provider'' (dp_ID provider) (dp_ProviderType provider) (rq_ID rq)
                      (buildDetails [change ''provider_type'' '''' (dp_ProviderType provider),
                                     change ''credentials'' '''' ''[configured]'']) rq ctx;
                    ret (Data (D_Provider provider))
                  })
             })
        }))"

definition H_GetDNSProvider :: "handlers \<Rightarrow> 'r http_request_scheme \<Rightarrow> ('z world_scheme, response) state" where
  "H_GetDNSProvider h rq = with_config (rq_ID rq) (\<lambda>_. do {
     r \<leftarrow> GetDNSProvider (ha_enc h) (rq_ID rq);
     ret (case r of Inl e \<Rightarrow> handleStoreError e | Inr provider \<Rightarrow> Data (D_Provider provider))
   })"

definition H_DeleteDNSProvider :: "handlers \<Rightarrow> 'r http_request_scheme \<Rightarrow> gin_context \<Rightarrow> ('z world_scheme, response) state" where
  "H_DeleteDNSProvider h rq ctx = with_config (rq_ID rq) (\<lambda>_. do {
     g \<leftarrow> GetDNSProvider (ha_enc h) (rq_ID rq);
     (case g of
        Inl e \<Rightarrow> ret (handleStoreError e)
      | Inr provider \<Rightarrow> do {
          r \<leftarrow> DeleteDNSProvider (rq_ID rq);
          (case r of
             Inl e \<Rightarrow> ret (handleStoreError e)
           | Inr _ \<Rightarrow> do {
               logAudit ''dns_provider:delete'' ''dns_provider'' (dp_ID provider) (dp_ProviderType provider) (rq_ID rq)
                 (buildDetails [change ''provider_type'' (dp_ProviderType provider) '''',
                                change ''credentials'' ''[redacted]'' '''']) rq ctx;
               ret No_Content
             })
        })
   })"

subsection \<open>What they keep\<close>

lemma keeps_with_config [keep_intros]:
  "(\<And>cfg. keeps (\<lambda>w. P (w_db w)) (k cfg)) \<Longrightarrow> keeps (\<lambda>w. P (w_db w)) (with_config i k)"
  unfolding with_config_def by (intro keep_intros)

lemma keeps_assign_roles_loop [keep_intros]: "keeps_db_ok (assign_roles_loop i names)"
  by (induction names) (auto intro!: keep_intros)

lemma keeps_remove_config_roles_loop [keep_intros]: "keeps_db_ok (remove_config_roles_loop i rs)"
  by (induction rs) (auto intro!: keep_intros)

lemma keeps_set_config_roles_loop [keep_intros]: "keeps_db_ok (set_config_roles_loop i names)"
  by (induction names) (auto intro!: keep_intros)

lemma keeps_H_CreateConfig [keep_intros]: "keeps_db_ok (H_CreateConfig h rq ctx b)"
  unfolding H_CreateConfig_def by (intro keep_intros)

lemma keeps_list_all_configs [keep_intros]: "keeps (\<lambda>w. P (w_db w)) list_all_configs"
  unfolding list_all_configs_def by (intro keep_intros)

lemma keeps_config_handlers [keep_intros]:
  "keeps_db_ok (H_UpdateConfig rq ctx b)" "keeps_db_ok (H_DeleteConfig rq ctx)"
  "keeps_db_ok (H_UpdateConfigRoles rq ctx bs)"
  "keeps_db_ok (H_ConfigureDNSProvider h rq ctx bp)" "keeps_db_ok (H_DeleteDNSProvider h rq ctx)"
  unfolding H_UpdateConfig_def H_DeleteConfig_def H_UpdateConfigRoles_def H_ConfigureDNSProvider_def
    H_DeleteDNSProvider_def Let_def
  by (intro keep_intros)+

text \<open>The reading handlers leave the database alone.\<close>

lemma keeps_config_reads [keep_intros]:
  "keeps (\<lambda>w. P (w_db w)) (H_GetConfig rq)" "keeps (\<lambda>w. P (w_db w)) (H_ListConfigs h ctx)"
  "keeps (\<lambda>w. P (w_db w)) (H_GetConfigRoles rq)" "keeps (\<lambda>w. P (w_db w)) (H_GetDNSProvider h rq)"
  unfolding H_GetConfig_def H_ListConfigs_def H_GetConfigRoles_def H_GetDNSProvider_def
  by (intro keep_intros)+

end
