(* ===== verification/Handlers_Auth.thy ===== *)
theory Handlers_Auth
  imports Handlers_Config
begin

section \<open>Handlers of sessions, users and the audit log (internal/handlers/auth.go, audit.go)\<close>

text \<open>
  The OIDC login flow, the administration of user roles, and the audit log queries. The OIDC
  service is a record: the JWT library, the configuration, and what the source calls of the
  provider (authorisation URL, code exchange, ID token verification, end-session URL). A reply is a
  response with the cookies it sets.
\<close>

subsection \<open>Random values and PKCE (internal/auth/oidc.go)\<close>

text \<open>\<open>base64.URLEncoding\<close> differs from the standard alphabet in two characters; the raw form has no padding.\<close>

definition b64_url :: "string \<Rightarrow> string" where
  "b64_url b = map (\<lambda>c. if c = CHR ''+'' then CHR ''-'' else if c = CHR ''/'' then CHR ''_'' else c) (b64_encode b)"

definition b64_rawurl :: "string \<Rightarrow> string" where
  "b64_rawurl b = filter (\<lambda>c. c \<noteq> CHR ''='') (b64_url b)"

definition GenerateStateNonce :: "string result \<Rightarrow> string result" where
  "GenerateStateNonce rand = (case rand of Inl e \<Rightarrow> Inl (Wrap ''generating random bytes'' e) | Inr b \<Rightarrow> Inr (b64_url b))"

definition GeneratePKCEVerifier :: "string result \<Rightarrow> string result" where
  "GeneratePKCEVerifier rand = (case rand of Inl e \<Rightarrow> Inl (Wrap ''generating PKCE verifier'' e) | Inr b \<Rightarrow> Inr (b64_rawurl b))"

definition PKCEChallenge :: "(string \<Rightarrow> string) \<Rightarrow> string \<Rightarrow> string" where
  "PKCEChallenge sha256 verifier = b64_rawurl (sha256 verifier)"

subsection \<open>Login, callback, logout\<close>

datatype same_site = Default_Mode | Lax_Mode | Strict_Mode | None_Mode

record Cookie =
  ck_Name :: string
  ck_Value :: string
  ck_MaxAge :: int
  ck_Secure :: bool
  ck_HTTPOnly :: bool
  ck_SameSite :: same_site

type_synonym reply = "response \<times> Cookie list"

record oidc_service =
  os_jwt :: jwt_lib
  os_jwtCfg :: JWTConfig
  os_RolesClaim :: string
  os_DefaultRole :: string
  os_Random :: "nat \<Rightarrow> string result"
  os_sha256 :: "string \<Rightarrow> string"
  os_AuthCodeURL :: "string \<Rightarrow> string \<Rightarrow> string \<Rightarrow> string"
  os_Exchange :: "string \<Rightarrow> string \<Rightarrow> string option result"
  os_Verify :: "string \<Rightarrow> (string \<times> claims result) result"
  os_EndSessionURL :: string
  os_LogoutURL :: "string \<Rightarrow> string \<Rightarrow> string option"
  os_MapOrder :: "(string \<times> string) list \<Rightarrow> (string \<times> string) list"

definition sameSiteFromString :: "string \<Rightarrow> same_site" where
  "sameSiteFromString s = (if s = ''Strict'' then Strict_Mode else if s = ''None'' then None_Mode else Lax_Mode)"

definition set_cookie :: "string \<Rightarrow> string \<Rightarrow> int \<Rightarrow> bool \<Rightarrow> bool \<Rightarrow> same_site \<Rightarrow> Cookie" where
  "set_cookie name v maxAge secure httpOnly sameSite =
     \<lparr>ck_Name = name, ck_Value = v, ck_MaxAge = maxAge, ck_Secure = secure, ck_HTTPOnly = httpOnly, ck_SameSite = sameSite\<rparr>"

definition H_Login :: "oidc_service \<Rightarrow> reply" where
  "H_Login svc =
     (case GenerateStateNonce (os_Random svc 0) of
        Inl _ \<Rightarrow> (sendInternalError ''failed to generate state'', [])
      | Inr st \<Rightarrow>
          (case GenerateStateNonce (os_Random svc 1) of
             Inl _ \<Rightarrow> (sendInternalError ''failed to generate nonce'', [])
           | Inr nonce \<Rightarrow>
               (case GeneratePKCEVerifier (os_Random svc 2) of
                  Inl _ \<Rightarrow> (sendInternalError ''failed to generate PKCE verifier'', [])
                | Inr pkceVerifier \<Rightarrow>
                    (let secure = jc_CookieSecure (os_jwtCfg svc);
                         sameSite = sameSiteFromString (jc_CookieSameSite (os_jwtCfg svc))
                     in (Redirect (os_AuthCodeURL svc st nonce (PKCEChallenge (os_sha256 svc) pkceVerifier)),
                         [set_cookie ''oidc_state'' st 600 secure True sameSite,
                          set_cookie ''oidc_nonce'' nonce 600 secure True sameSite,
                          set_cookie ''oidc_pkce'' pkceVerifier 600 secure True sameSite])))))"

definition query :: "'r http_request_scheme \<Rightarrow> string \<Rightarrow> string" where
  "query rq k = (case hr_Query rq k of Some v \<Rightarrow> v | None \<Rightarrow> '''')"

definition whole_seconds :: "duration \<Rightarrow> int" where
  "whole_seconds d = (if d < 0 then - (- d div Second) else d div Second)"

text \<open>What is left once the flow's cookies and the code are there: exchange, verify, synchronise, issue.\<close>

definition finish_login :: "oidc_service \<Rightarrow> 'r http_request_scheme \<Rightarrow> gin_context \<Rightarrow> string \<Rightarrow> string \<Rightarrow> string \<Rightarrow>
    ('z world_scheme, reply) state" where
  "finish_login svc rq ctx nonce pkceVerifier code =
     (case os_Exchange svc code pkceVerifier of
        Inl _ \<Rightarrow> ret (Error 401 ''failed to exchange token'', [])
      | Inr token \<Rightarrow>
          (case VerifyIDToken (os_Verify svc) token nonce of
             Inl _ \<Rightarrow> ret (Error 401 ''failed to verify ID token'', [])
           | Inr idToken \<Rightarrow>
               (case ExtractUserInfo (os_RolesClaim svc) idToken of
                  Inl _ \<Rightarrow> ret (Error 500 ''failed to extract user info'', [])
                | Inr (oidcUser, oidcRoles) \<Rightarrow> do {
                    ru \<leftarrow> SyncUser (os_MapOrder svc) (os_DefaultRole svc) oidcUser oidcRoles;
                    (case ru of
                       Inl e \<Rightarrow> ret (Error 403 (err_msg e), [])
                     | Inr user \<Rightarrow> do {
                         rs \<leftarrow> CreateSession (os_jwt svc) (os_jwtCfg svc) user;
                         (case rs of
                            Inl _ \<Rightarrow> ret (sendInternalError ''failed to create session'', [])
                          | Inr sessionToken \<Rightarrow> do {
                              let cfg = os_jwtCfg svc;
                              let maxAge = whole_seconds (jc_Expiry cfg);
                              let maxAge = (if maxAge = 0 then 86400 else maxAge);
                              let sameSite = sameSiteFromString (jc_CookieSameSite cfg);
                              logAudit ''auth:login'' ''user'' (u_ID user) (u_Email user) '''' '''' rq ctx;
                              ret (Redirect ''/'',
                                   [set_cookie (jc_CookieName cfg) sessionToken maxAge (jc_CookieSecure cfg) (jc_CookieHTTPOnly cfg) sameSite,
                                    set_cookie ''oidc_state'' '''' (- 1) (jc_CookieSecure cfg) True sameSite,
                                    set_cookie ''oidc_nonce'' '''' (- 1) (jc_CookieSecure cfg) True sameSite,
                                    set_cookie ''oidc_pkce'' '''' (- 1) (jc_CookieSecure cfg) True sameSite])
                            })
                       })
                  })))"

definition H_Callback :: "oidc_service \<Rightarrow> 'r http_request_scheme \<Rightarrow> gin_context \<Rightarrow> ('z world_scheme, reply) state" where
  "H_Callback svc rq ctx =
     (if rq_Cookie rq ''oidc_state'' \<noteq> Some (query rq ''state'') then ret (Error 400 ''invalid state parameter'', [])
      else case rq_Cookie rq ''oidc_nonce'' of
        None \<Rightarrow> ret (Error 400 ''missing nonce cookie'', [])
      | Some nonce \<Rightarrow>
          (case rq_Cookie rq ''oidc_pkce'' of
             None \<Rightarrow> ret (Error 400 ''missing PKCE verifier cookie'', [])
           | Some pkceVerifier \<Rightarrow>
               if query rq ''code'' = '''' then ret (Error 400 ''authorization code not provided'', [])
               else finish_login svc rq ctx nonce pkceVerifier (query rq ''code'')))"

definition H_Logout :: "oidc_service \<Rightarrow> 'r http_request_scheme \<Rightarrow> gin_context \<Rightarrow> ('z world_scheme, reply) state" where
  "H_Logout svc rq ctx = do {
     (case SessionFromContext ctx of
        Some session \<Rightarrow> if se_JTI session \<noteq> '''' then do { _ \<leftarrow> RevokeSession (se_JTI session); ret () } else ret ()
      | None \<Rightarrow> ret ());
     let cfg = os_jwtCfg svc;
     let cookies = [set_cookie (jc_CookieName cfg) '''' (- 1) (jc_CookieSecure cfg) (jc_CookieHTTPOnly cfg) Default_Mode];
     let url = (if os_EndSessionURL svc \<noteq> '''' then os_LogoutURL svc (os_EndSessionURL svc) (hr_Origin rq) else None);
     ret (case url of Some u \<Rightarrow> (Data (D_Text u), cookies) | None \<Rightarrow> (Data (D_Text ''logged out successfully''), cookies))
   }"

subsection \<open>Users and roles\<close>

definition H_GetCurrentUser :: "gin_context \<Rightarrow> ('z world_scheme, response) state" where
  "H_GetCurrentUser ctx =
     (case cx_session ctx of
        None \<Rightarrow> ret (Error 401 ''not authenticated'')
      | Some s \<Rightarrow> do {
          r \<leftarrow> GetUserByID (se_UserID s);
          ret (case r of Inl _ \<Rightarrow> sendInternalError ''failed to get user'' | Inr user \<Rightarrow> Data (D_User user))
        })"

definition H_ListRoles :: "('z world_scheme, response) state" where
  "H_ListRoles = do {
     r \<leftarrow> ListRoles;
     ret (case r of Inl _ \<Rightarrow> sendInternalError ''failed to list roles'' | Inr roles \<Rightarrow> Data (D_Roles roles))
   }"

definition H_ListUsers :: "('z world_scheme, response) state" where
  "H_ListUsers = do {
     r \<leftarrow> ListUsers;
     ret (case r of Inl _ \<Rightarrow> sendInternalError ''failed to list users'' | Inr users \<Rightarrow> Data (D_Users users))
   }"

text \<open>The body is the role ID; without a session the type assertion panics.\<close>

definition H_AssignUserRole :: "'r http_request_scheme \<Rightarrow> gin_context \<Rightarrow> string body \<Rightarrow> ('z world_scheme, response) state" where
  "H_AssignUserRole rq ctx b =
     (case ShouldBindJSON (\<lambda>roleID. roleID \<noteq> '''') b of
        Inl e \<Rightarrow> ret (sendValidationError (err_msg e))
      | Inr roleID \<Rightarrow>
          (case cx_session ctx of
             None \<Rightarrow> ret Recovered
           | Some session \<Rightarrow> do {
               r \<leftarrow> AssignRole (rq_ID rq) roleID (se_UserID session);
               (case r of
                  Inl e \<Rightarrow> ret (handleStoreError e)
                | Inr _ \<Rightarrow> do {
                    logAudit ''user:role:assign'' ''user'' (rq_ID rq) '''' '''' roleID rq ctx;
                    ret (Data (D_Text ''role assigned''))
                  })
             }))"

definition H_RemoveUserRole :: "'r http_request_scheme \<Rightarrow> gin_context \<Rightarrow> ('z world_scheme, response) state" where
  "H_RemoveUserRole rq ctx = do {
     r \<leftarrow> RemoveRole (rq_ID rq) (hr_Param rq ''role_id'');
     (case r of
        Inl e \<Rightarrow> ret (handleStoreError e)
      | Inr _ \<Rightarrow> do {
          logAudit ''user:role:remove'' ''user'' (rq_ID rq) '''' '''' (hr_Param rq ''role_id'') rq ctx;
          ret (Data (D_Text ''role removed''))
        })
   }"

subsection \<open>The audit log\<close>

definition query_int :: "'r http_request_scheme \<Rightarrow> string \<Rightarrow> string \<Rightarrow> int \<Rightarrow> int \<Rightarrow> int" where
  "query_int rq k dflt least fallback =
     (case Atoi (case hr_Query rq k of Some s \<Rightarrow> s | None \<Rightarrow> dflt) of
        Inl _ \<Rightarrow> fallback
      | Inr v \<Rightarrow> if v < least then fallback else v)"

definition query_time :: "handlers \<Rightarrow> 'r http_request_scheme \<Rightarrow> string \<Rightarrow> time option" where
  "query_time h rq k = (if query rq k \<noteq> '''' then ha_parseTime h (query rq k) else None)"

definition audit_filter :: "handlers \<Rightarrow> 'r http_request_scheme \<Rightarrow> AuditLogFilter" where
  "audit_filter h rq = \<lparr>fl_UserID = query rq ''user_id'', fl_EntityType = query rq ''entity_type'', fl_Action = query rq ''action'',
     fl_From = query_time h rq ''from'', fl_To = query_time h rq ''to''\<rparr>"

definition H_ListAuditLogs :: "handlers \<Rightarrow> 'r http_request_scheme \<Rightarrow> ('z world_scheme, response) state" where
  "H_ListAuditLogs h rq = do {
     r \<leftarrow> ListAuditLogs (audit_filter h rq) (query_int rq ''limit'' ''100'' 1 100) (query_int rq ''offset'' ''0'' 0 0);
     ret (case r of Inl e \<Rightarrow> handleStoreError e | Inr logs \<Rightarrow> Data (D_AuditLogs logs))
   }"

definition H_GetAuditLog :: "'r http_request_scheme \<Rightarrow> ('z world_scheme, response) state" where
  "H_GetAuditLog rq =
     (if rq_ID rq = '''' then ret (sendValidationError ''audit log id is required'')
      else do {
        r \<leftarrow> GetAuditLog (rq_ID rq);
        ret (case r of Inl e \<Rightarrow> handleStoreError e | Inr l \<Rightarrow> Data (D_AuditLog l))
      })"

definition H_GetAuditLogsForEntity :: "'r http_request_scheme \<Rightarrow> ('z world_scheme, response) state" where
  "H_GetAuditLogsForEntity rq =
     (if hr_Param rq ''type'' = '''' \<or> rq_ID rq = '''' then ret (sendValidationError ''entity type and id are required'')
      else do {
        r \<leftarrow> GetAuditLogsForEntity (hr_Param rq ''type'') (rq_ID rq) (query_int rq ''limit'' ''50'' 1 50);
        ret (case r of Inl e \<Rightarrow> handleStoreError e | Inr logs \<Rightarrow> Data (D_AuditLogs logs))
      })"

definition H_GetAuditLogCount :: "handlers \<Rightarrow> 'r http_request_scheme \<Rightarrow> ('z world_scheme, response) state" where
  "H_GetAuditLogCount h rq = do {
     r \<leftarrow> CountAuditLogs (audit_filter h rq);
     ret (case r of Inl e \<Rightarrow> handleStoreError e | Inr n \<Rightarrow> Data (D_Count n))
   }"

subsection \<open>What they keep\<close>

lemma keeps_add_roles_loop [keep_intros]: "keeps_db_ok (add_roles_loop u m names)"
  by (induction names) (auto intro!: keep_intros)

lemma keeps_remove_roles_loop [keep_intros]: "keeps_db_ok (remove_roles_loop u d ps)"
  by (induction ps) (auto intro!: keep_intros)

lemma keeps_syncRoles [keep_intros]: "keeps_db_ok (syncRoles ord u names)"
  unfolding syncRoles_def Let_def by (intro keep_intros)

lemma keeps_SyncUser [keep_intros]: "keeps_db_ok (SyncUser ord d u names)"
  unfolding SyncUser_def sync_and_get_def Let_def by (intro keep_intros)

lemma keeps_CreateSession [keep_intros]: "keeps_db_ok (CreateSession lib cfg user)"
  unfolding CreateSession_def Let_def by (intro keep_intros)

lemma keeps_finish_login [keep_intros]: "keeps_db_ok (finish_login svc rq ctx n p c)"
  unfolding finish_login_def Let_def by (intro keep_intros)

lemma keeps_auth_handlers [keep_intros]:
  "keeps_db_ok (H_Callback svc rq ctx)" "keeps_db_ok (H_Logout svc rq ctx)" "keeps_db_ok (H_AssignUserRole rq ctx b)"
  "keeps_db_ok (H_RemoveUserRole rq ctx)"
  unfolding H_Callback_def H_Logout_def H_AssignUserRole_def H_RemoveUserRole_def Let_def
  by (intro keep_intros)+

lemma keeps_auth_reads [keep_intros]:
  "keeps (\<lambda>w. P (w_db w)) (H_GetCurrentUser ctx)" "keeps (\<lambda>w. P (w_db w)) H_ListRoles"
  "keeps (\<lambda>w. P (w_db w)) H_ListUsers" "keeps (\<lambda>w. P (w_db w)) (H_ListAuditLogs h rq)"
  "keeps (\<lambda>w. P (w_db w)) (H_GetAuditLog rq)" "keeps (\<lambda>w. P (w_db w)) (H_GetAuditLogsForEntity rq)"
  "keeps (\<lambda>w. P (w_db w)) (H_GetAuditLogCount h rq)"
  unfolding H_GetCurrentUser_def H_ListRoles_def H_ListUsers_def H_ListAuditLogs_def H_GetAuditLog_def
    H_GetAuditLogsForEntity_def H_GetAuditLogCount_def
  by (intro keep_intros)+

end
