(* ===== verification/Handlers_Backend.thy ===== *)
theory Handlers_Backend
  imports Handlers_Config Engine
begin

section \<open>Handlers of backends and health (internal/handlers/backend.go, health.go, status.go, history.go)\<close>

text \<open>
  The endpoints for backends, health checks, the status of a configuration and the history of a
  backend. A mutation of a backend also triggers a reconciliation of its configuration.
\<close>

definition with_backend :: "string \<Rightarrow> (Backend \<Rightarrow> ('z world_scheme, response) state) \<Rightarrow> ('z world_scheme, response) state" where
  "with_backend i k =
     (if i = '''' then ret (sendValidationError ''backend id is required'')
      else do {
        r \<leftarrow> GetBackend i;
        (case r of Inl e \<Rightarrow> ret (handleStoreError e) | Inr b \<Rightarrow> k b)
      })"

definition getBackendOr404 :: "string \<Rightarrow> ('z world_scheme, response + Backend) state" where
  "getBackendOr404 i =
     (if i = '''' then ret (Inl (sendValidationError ''backend id is required''))
      else do {
        r \<leftarrow> GetBackend i;
        ret (case r of
               Inl e \<Rightarrow> Inl (if e = ErrNotFound then sendNotFound ''Backend'' else handleStoreError e)
             | Inr b \<Rightarrow> Inr b)
      })"

subsection \<open>Backends\<close>

record CreateBackendRequest =
  bq_IP :: string
  bq_Port :: "int option"
  bq_Weight :: int
  bq_Enabled :: bool

definition valid_backend_request :: "handlers \<Rightarrow> CreateBackendRequest \<Rightarrow> bool" where
  "valid_backend_request h req = (bq_IP req \<noteq> '''' \<and> ha_isIP h (bq_IP req) \<and> bq_Weight req \<ge> 0 \<and> bq_Weight req \<le> 100)"

record UpdateBackendRequest =
  uq_ConfigID :: string
  uq_IP :: string
  uq_Port :: "int option"
  uq_Weight :: int
  uq_Enabled :: "bool option"

definition backend_entries :: "Backend \<Rightarrow> (string \<times> string) list" where
  "backend_entries b = [(''ip'', b_IP b), (''port'', formatPort (b_Port b)), (''weight'', fmt_d (b_Weight b)),
     (''enabled'', formatBool (b_Enabled b))]"

definition H_AddBackend :: "handlers \<Rightarrow> 'r http_request_scheme \<Rightarrow> gin_context \<Rightarrow> CreateBackendRequest body \<Rightarrow>
    ('z http_world_scheme, response) state" where
  "H_AddBackend h rq ctx b = with_config (rq_ID rq) (\<lambda>_.
     (case ShouldBindJSON (valid_backend_request h) b of
        Inl e \<Rightarrow> ret (sendValidationError (err_msg e))
      | Inr req \<Rightarrow> do {
          cr \<leftarrow> CreateBackend \<lparr>b_ID = '''', b_ConfigID = rq_ID rq, b_IP = bq_IP req, b_Port = bq_Port req,
                  b_Weight = bq_Weight req, b_Enabled = bq_Enabled req\<rparr>;
          (case cr of
             (_, Inl e) \<Rightarrow> ret (handleStoreError e)
           | (backend, Inr _) \<Rightarrow> do {
               logAudit ''backend:create'' ''backend'' (b_ID backend) (b_IP backend) (rq_ID rq)
                 (buildDetails (created_entries (backend_entries backend))) rq ctx;
               triggerReconcile h (rq_ID rq);
               ret (Data (D_Backend backend))
             })
        }))"

definition H_GetBackend :: "'r http_request_scheme \<Rightarrow> ('z world_scheme, response) state" where
  "H_GetBackend rq = with_backend (rq_ID rq) (\<lambda>b. ret (Data (D_Backend b)))"

definition apply_backend_request :: "UpdateBackendRequest \<Rightarrow> Backend \<Rightarrow> Backend" where
  "apply_backend_request req b0 =
     (let b1 = (if uq_ConfigID req \<noteq> '''' then b0\<lparr>b_ConfigID := uq_ConfigID req\<rparr> else b0);
          b2 = (if uq_IP req \<noteq> '''' then b1\<lparr>b_IP := uq_IP req\<rparr> else b1);
          b3 = (if uq_Port req \<noteq> None then b2\<lparr>b_Port := uq_Port req\<rparr> else b2);
          b4 = (if uq_Weight req \<noteq> 0 then b3\<lparr>b_Weight := uq_Weight req\<rparr> else b3)
      in case uq_Enabled req of None \<Rightarrow> b4 | Some e \<Rightarrow> b4\<lparr>b_Enabled := e\<rparr>)"

definition backend_changes :: "Backend \<Rightarrow> Backend \<Rightarrow> ChangeEntry list" where
  "backend_changes old new =
     diff_entry ''ip'' (b_IP old) (b_IP new) @ diff_entry ''port'' (formatPort (b_Port old)) (formatPort (b_Port new)) @
     (if b_Weight old \<noteq> b_Weight new then [change ''weight'' (fmt_d (b_Weight old)) (fmt_d (b_Weight new))] else []) @
     (if b_Enabled old \<noteq> b_Enabled new then [change ''enabled'' (formatBool (b_Enabled old)) (formatBool (b_Enabled new))] else [])"

definition H_UpdateBackend :: "handlers \<Rightarrow> 'r http_request_scheme \<Rightarrow> gin_context \<Rightarrow> UpdateBackendRequest body \<Rightarrow>
    ('z http_world_scheme, response) state" where
  "H_UpdateBackend h rq ctx b =
     (if rq_ID rq = '''' then ret (sendValidationError ''backend id is required'')
      else case ShouldBindJSON (\<lambda>_. True) b of
        Inl e \<Rightarrow> ret (sendValidationError (err_msg e))
      | Inr req \<Rightarrow> do {
          r \<leftarrow> GetBackend (rq_ID rq);
          (case r of
             Inl e \<Rightarrow> ret (handleStoreError e)
           | Inr old \<Rightarrow> do {
               let existing = apply_backend_request req old;
               u \<leftarrow> UpdateBackend existing;
               (case u of
                  Inl e \<Rightarrow> ret (handleStoreError e)
                | Inr _ \<Rightarrow> do {
                    logAudit ''backend:update'' ''backend'' (b_ID existing) (b_IP existing) (b_ConfigID existing)
                      (buildDetails (backend_changes old existing)) rq ctx;
                    triggerReconcile h (b_ConfigID existing);
                    ret (Data (D_Backend existing))
                  })
             })
        })"

definition H_DeleteBackend :: "handlers \<Rightarrow> 'r http_request_scheme \<Rightarrow> gin_context \<Rightarrow> ('z http_world_scheme, response) state" where
  "H_DeleteBackend h rq ctx = with_backend (rq_ID rq) (\<lambda>backend. do {
     r \<leftarrow> DeleteBackend (rq_ID rq);
     (case r of
        Inl e \<Rightarrow> ret (handleStoreError e)
      | Inr _ \<Rightarrow> do {
          logAudit ''backend:delete'' ''backend'' (rq_ID rq) (b_IP backend) (b_ConfigID backend)
            (buildDetails (deleted_entries (backend_entries backend))) rq ctx;
          triggerReconcile h (b_ConfigID backend);
          ret No_Content
        })
   })"

definition H_ListBackends :: "'r http_request_scheme \<Rightarrow> ('z world_scheme, response) state" where
  "H_ListBackends rq = with_config (rq_ID rq) (\<lambda>_. do {
     r \<leftarrow> ListBackends (rq_ID rq);
     ret (case r of Inl e \<Rightarrow> handleStoreError e | Inr backends \<Rightarrow> Data (D_Backends backends))
   })"

subsection \<open>Health checks\<close>

record ConfigureHealthCheckRequest =
  kq_Type :: string
  kq_IntervalSeconds :: int
  kq_TimeoutSeconds :: int
  kq_ThresholdHealthy :: int
  kq_ThresholdUnhealthy :: int

definition valid_check_request :: "ConfigureHealthCheckRequest \<Rightarrow> bool" where
  "valid_check_request req =
     (kq_Type req \<in> {''icmp'', ''tcp''} \<and>
      1 \<le> kq_IntervalSeconds req \<and> kq_IntervalSeconds req \<le> 300 \<and>
      1 \<le> kq_TimeoutSeconds req \<and> kq_TimeoutSeconds req \<le> 60 \<and>
      1 \<le> kq_ThresholdHealthy req \<and> kq_ThresholdHealthy req \<le> 10 \<and>
      1 \<le> kq_ThresholdUnhealthy req \<and> kq_ThresholdUnhealthy req \<le> 10)"

definition check_entries :: "HealthCheck \<Rightarrow> (string \<times> string) list" where
  "check_entries hc = [(''type'', hc_Type hc), (''interval_seconds'', fmt_d (hc_IntervalSeconds hc)),
     (''timeout_seconds'', fmt_d (hc_TimeoutSeconds hc)), (''threshold_healthy'', fmt_d (hc_ThresholdHealthy hc)),
     (''threshold_unhealthy'', fmt_d (hc_ThresholdUnhealthy hc))]"

definition int_change :: "string \<Rightarrow> int \<Rightarrow> int \<Rightarrow> ChangeEntry list" where
  "int_change f old new = (if old \<noteq> new then [change f (fmt_d old) (fmt_d new)] else [])"

definition check_changes :: "HealthCheck \<Rightarrow> HealthCheck \<Rightarrow> ChangeEntry list" where
  "check_changes old new =
     diff_entry ''type'' (hc_Type old) (hc_Type new) @
     int_change ''interval_seconds'' (hc_IntervalSeconds old) (hc_IntervalSeconds new) @
     int_change ''timeout_seconds'' (hc_TimeoutSeconds old) (hc_TimeoutSeconds new) @
     int_change ''threshold_healthy'' (hc_ThresholdHealthy old) (hc_ThresholdHealthy new) @
     int_change ''threshold_unhealthy'' (hc_ThresholdUnhealthy old) (hc_ThresholdUnhealthy new)"

definition H_ConfigureHealthCheck :: "'r http_request_scheme \<Rightarrow> gin_context \<Rightarrow> ConfigureHealthCheckRequest body \<Rightarrow>
    ('z world_scheme, response) state" where
  "H_ConfigureHealthCheck rq ctx b = with_config (rq_ID rq) (\<lambda>_.
     (case ShouldBindJSON valid_check_request b of
        Inl e \<Rightarrow> ret (sendValidationError (err_msg e))
      | Inr req \<Rightarrow> do {
          let hc = \<lparr>hc_ID = '''', hc_ConfigID = rq_ID rq, hc_Type = kq_Type req, hc_IntervalSeconds = kq_IntervalSeconds req,
                    hc_TimeoutSeconds = kq_TimeoutSeconds req, hc_ThresholdHealthy = kq_ThresholdHealthy req,
                    hc_ThresholdUnhealthy = kq_ThresholdUnhealthy req\<rparr>;
          g \<leftarrow> GetHealthCheck (rq_ID rq);
          (case g of
             Inr existingHC \<Rightarrow> do {
               let hc = hc\<lparr>hc_ID := hc_ID existingHC\<rparr>;
               u \<leftarrow> UpdateHealthCheck hc;
               (case u of
                  Inl e \<Rightarrow> ret (handleStoreError e)
                | Inr _ \<Rightarrow> do {
                    logAudit ''health_check:update'' ''health_check'' (hc_ID hc) (hc_Type hc) (rq_ID rq)
                      (buildDetails (check_changes existingHC hc)) rq ctx;
                    ret (Data (D_HealthCheck hc))
                  })
             }
           | Inl _ \<Rightarrow> do {
               cr \<leftarrow> CreateHealthCheck hc;
               (case cr of
                  (_, Inl e) \<Rightarrow> ret (handleStoreError e)
                | (hc, Inr _) \<Rightarrow> do {
                    logAudit ''health_check:create'' ''health_check'' (hc_ID hc) (hc_Type hc) (rq_ID rq)
                      (buildDetails (created_entries (check_entries hc))) rq ctx;
                    ret (Data (D_HealthCheck hc))
                  })
             })
        }))"

definition H_GetHealthCheck :: "'r http_request_scheme \<Rightarrow> ('z world_scheme, response) state" where
  "H_GetHealthCheck rq = with_config (rq_ID rq) (\<lambda>_. do {
     r \<leftarrow> GetHealthCheck (rq_ID rq);
     ret (case r of Inl e \<Rightarrow> handleStoreError e | Inr hc \<Rightarrow> Data (D_HealthCheck hc))
   })"

definition H_GetBackendHealth :: "'r http_request_scheme \<Rightarrow> ('z world_scheme, response) state" where
  "H_GetBackendHealth rq = with_backend (rq_ID rq) (\<lambda>_. do {
     r \<leftarrow> GetHealthState (rq_ID rq);
     ret (case r of
            Inr s \<Rightarrow> Data (D_HealthState s)
          | Inl e \<Rightarrow>
              if e = ErrNotFound
              then Data (D_HealthState \<lparr>hs_BackendID = rq_ID rq, hs_Status = StatusUnknown, hs_ConsecutiveSuccesses = 0,
                     hs_ConsecutiveFailures = 0, hs_LastCheckAt = None, hs_LastHealthyAt = None, hs_LastError = ''''\<rparr>)
              else handleStoreError e)
   })"

definition H_DeleteHealthCheck :: "'r http_request_scheme \<Rightarrow> gin_context \<Rightarrow> ('z world_scheme, response) state" where
  "H_DeleteHealthCheck rq ctx = with_config (rq_ID rq) (\<lambda>_. do {
     g \<leftarrow> GetHealthCheck (rq_ID rq);
     (case g of
        Inl e \<Rightarrow> ret (handleStoreError e)
      | Inr hc \<Rightarrow> do {
          r \<leftarrow> DeleteHealthCheck (rq_ID rq);
          (case r of
             Inl e \<Rightarrow> ret (handleStoreError e)
           | Inr _ \<Rightarrow> do {
               logAudit ''health_check:delete'' ''health_check'' (hc_ID hc) (hc_Type hc) (rq_ID rq)
                 (buildDetails (deleted_entries (check_entries hc))) rq ctx;
               ret No_Content
             })
        })
   })"

subsection \<open>Status and history\<close>

fun count_statuses :: "(string \<Rightarrow> HealthState option) \<Rightarrow> Backend list \<Rightarrow> nat \<times> nat \<times> nat \<Rightarrow> nat \<times> nat \<times> nat" where
  "count_statuses states [] c = c"
| "count_statuses states (b # bs) (healthy, unhealthy, unknown) =
     count_statuses states bs
       (case states (b_ID b) of
          None \<Rightarrow> (healthy, unhealthy, unknown + 1)
        | Some s \<Rightarrow>
            (case hs_Status s of
               StatusHealthy \<Rightarrow> (healthy + 1, unhealthy, unknown)
             | StatusUnhealthy \<Rightarrow> (healthy, unhealthy + 1, unknown)
             | _ \<Rightarrow> (healthy, unhealthy, unknown + 1)))"

definition H_GetConfigStatus :: "'r http_request_scheme \<Rightarrow> ('z world_scheme, response) state" where
  "H_GetConfigStatus rq = with_config (rq_ID rq) (\<lambda>cfg. do {
     rb \<leftarrow> ListBackends (rq_ID rq);
     (case rb of
        Inl e \<Rightarrow> ret (handleStoreError e)
      | Inr backends \<Rightarrow> do {
          rs \<leftarrow> GetHealthStates (rq_ID rq);
          ret (case rs of
                 Inl e \<Rightarrow> handleStoreError e
               | Inr healthStates \<Rightarrow>
                   (case count_statuses healthStates backends (0, 0, 0) of
                      (healthy, unhealthy, unknown) \<Rightarrow>
                        Data (D_ConfigStatus \<lparr>st_ConfigID = cfg_ID cfg, st_Name = cfg_Name cfg, st_BackendCount = length backends,
                          st_HealthyCount = healthy, st_UnhealthyCount = unhealthy, st_UnknownCount = unknown,
                          st_HealthStates = healthStates\<rparr>)))
        })
   })"

definition H_GetSystemStatus :: "Engine \<Rightarrow> ('z world_scheme, response) state" where
  "H_GetSystemStatus e = do { now \<leftarrow> time_Now; ret (Data (D_SystemStatus (en_running e) (int (en_workerCount e)) now)) }"

definition H_HealthHandler :: response where
  "H_HealthHandler = Data (D_Text ''healthy'')"

definition H_ReadyHandler :: "Engine \<Rightarrow> response" where
  "H_ReadyHandler e = (if \<not> en_running e then Error 503 ''health engine not running'' else Data (D_Text ''ready''))"

fun uptime_loop :: "int \<times> int \<Rightarrow> HealthHistoryBucket list \<Rightarrow> int \<times> int" where
  "uptime_loop acc [] = acc"
| "uptime_loop (success, probes) (b # bs) =
     uptime_loop (success + hb_SuccessCount b, probes + (hb_SuccessCount b + hb_FailureCount b)) bs"

definition calculateUptime :: "HealthHistoryBucket list \<Rightarrow> int \<times> int" where
  "calculateUptime buckets = (case uptime_loop (0, 0) buckets of (success, probes) \<Rightarrow> if probes = 0 then (0, 1) else (success, probes))"

definition H_GetBackendHistory :: "'r http_request_scheme \<Rightarrow> ('z world_scheme, response) state" where
  "H_GetBackendHistory rq = with_backend (rq_ID rq) (\<lambda>_. do {
     let rangeParam = (case hr_Query rq ''range'' of Some s \<Rightarrow> s | None \<Rightarrow> ''24h'');
     now \<leftarrow> time_Now;
     let since30d = now - 30 * 24 * Hour;
     r \<leftarrow> GetHealthHistory (rq_ID rq) since30d;
     ret (case r of
            Inl _ \<Rightarrow> sendInternalError ''failed to get history''
          | Inr allBuckets \<Rightarrow>
              let since24h = now - 24 * Hour;
                  since7d = now - 7 * 24 * Hour;
                  sinceRequested = (if rangeParam = ''24h'' then since24h else if rangeParam = ''7d'' then since7d
                                    else if rangeParam = ''30d'' then since30d else now - 3 * Hour);
                  since = (\<lambda>t. filter (\<lambda>b. \<not> hb_BucketStart b < t) allBuckets)
              in Data (D_History (since sinceRequested)
                   [(''24h'', calculateUptime (since since24h)), (''7d'', calculateUptime (since since7d)),
                    (''30d'', calculateUptime allBuckets)]))
   })"

subsection \<open>What they keep\<close>

lemma keeps_with_backend [keep_intros]:
  "(\<And>b. keeps (\<lambda>w. P (w_db w)) (k b)) \<Longrightarrow> keeps (\<lambda>w. P (w_db w)) (with_backend i k)"
  unfolding with_backend_def by (intro keep_intros)

lemma keeps_backend_handlers [keep_intros]:
  "keeps_db_ok (H_AddBackend h rq ctx b)" "keeps_db_ok (H_UpdateBackend h rq ctx bu)" "keeps_db_ok (H_DeleteBackend h rq ctx)"
  "keeps_db_ok (H_ConfigureHealthCheck rq ctx bk)" "keeps_db_ok (H_DeleteHealthCheck rq ctx)"
  unfolding H_AddBackend_def H_UpdateBackend_def H_DeleteBackend_def H_ConfigureHealthCheck_def H_DeleteHealthCheck_def Let_def
  by (intro keep_intros)+

lemma keeps_backend_reads [keep_intros]:
  "keeps (\<lambda>w. P (w_db w)) (H_GetBackend rq)" "keeps (\<lambda>w. P (w_db w)) (H_ListBackends rq)"
  "keeps (\<lambda>w. P (w_db w)) (H_GetHealthCheck rq)" "keeps (\<lambda>w. P (w_db w)) (H_GetBackendHealth rq)"
  "keeps (\<lambda>w. P (w_db w)) (H_GetConfigStatus rq)" "keeps (\<lambda>w. P (w_db w)) (H_GetSystemStatus e)"
  "keeps (\<lambda>w. P (w_db w)) (H_GetBackendHistory rq)"
  unfolding H_GetBackend_def H_ListBackends_def H_GetHealthCheck_def H_GetBackendHealth_def H_GetConfigStatus_def
    H_GetSystemStatus_def H_GetBackendHistory_def Let_def
  by (intro keep_intros)+

end
