(* ===== verification/Rate_Limiter.thy ===== *)
theory Rate_Limiter
  imports Types
begin

section \<open>The rate limiter (internal/handlers/routes.go)\<close>

text \<open>
  \<open>RateLimiter\<close> keeps, per client address, the times of the requests it let through in the current
  window. \<open>Allow\<close> and the body of the clean-up loop run under the mutex, so a run of the limiter is
  a sequence of them, each with its reading of the clock. An address that is absent from Go's map
  and one with an empty list are the same to both.
\<close>

record RateLimiter =
  rl_requests :: "string \<Rightarrow> time list"
  rl_limit :: int
  rl_window :: duration

definition NewRateLimiter :: "int \<Rightarrow> duration \<Rightarrow> RateLimiter" where
  "NewRateLimiter limit window = \<lparr>rl_requests = (\<lambda>_. []), rl_limit = limit, rl_window = window\<rparr>"

fun valid_loop :: "time \<Rightarrow> time list \<Rightarrow> time list \<Rightarrow> time list" where
  "valid_loop cutoff acc [] = acc"
| "valid_loop cutoff acc (t # ts) = valid_loop cutoff (if t > cutoff then acc @ [t] else acc) ts"

definition Allow :: "time \<Rightarrow> string \<Rightarrow> RateLimiter \<Rightarrow> bool \<times> RateLimiter" where
  "Allow now ip rl =
     (let cutoff = now - rl_window rl;
          validRequests = valid_loop cutoff [] (rl_requests rl ip)
      in if int (length validRequests) \<ge> rl_limit rl
         then (False, rl\<lparr>rl_requests := (rl_requests rl)(ip := validRequests)\<rparr>)
         else (True, rl\<lparr>rl_requests := (rl_requests rl)(ip := validRequests @ [now])\<rparr>))"

definition cleanup :: "time \<Rightarrow> RateLimiter \<Rightarrow> RateLimiter" where
  "cleanup now rl =
     rl\<lparr>rl_requests := (\<lambda>ip. valid_loop (now - rl_window rl) [] (rl_requests rl ip))\<rparr>"

lemma valid_loop_filter [simp]: "valid_loop c acc ts = acc @ filter (\<lambda>t. c < t) ts"
  by (induction ts arbitrary: acc) auto

subsection \<open>Runs\<close>

datatype limiter_event = Request string time | Cleanup time

fun event_time :: "limiter_event \<Rightarrow> time" where
  "event_time (Request ip t) = t"
| "event_time (Cleanup t) = t"

text \<open>The times at which the requests of \<open>ip\<close> were let through, and the limiter afterwards.\<close>

fun limiter_run :: "string \<Rightarrow> limiter_event list \<Rightarrow> RateLimiter \<Rightarrow> time list \<times> RateLimiter" where
  "limiter_run ip [] rl = ([], rl)"
| "limiter_run ip (Request j t # evs) rl =
     (case Allow t j rl of
        (allowed, rl') \<Rightarrow>
          (case limiter_run ip evs rl' of
             (ts, rl'') \<Rightarrow> (if allowed \<and> j = ip then t # ts else ts, rl'')))"
| "limiter_run ip (Cleanup t # evs) rl = limiter_run ip evs (cleanup t rl)"

definition in_window :: "duration \<Rightarrow> time \<Rightarrow> time list \<Rightarrow> nat" where
  "in_window win now ts = length (filter (\<lambda>t. now - win < t \<and> t \<le> now) ts)"

text \<open>What the limiter should do, from the history of an address alone.\<close>

fun limiter_spec :: "int \<Rightarrow> duration \<Rightarrow> string \<Rightarrow> time list \<Rightarrow> limiter_event list \<Rightarrow> time list" where
  "limiter_spec limit win ip past [] = past"
| "limiter_spec limit win ip past (Request j t # evs) =
     limiter_spec limit win ip
       (if j = ip \<and> int (in_window win t past) < limit then past @ [t] else past) evs"
| "limiter_spec limit win ip past (Cleanup t # evs) = limiter_spec limit win ip past evs"

text \<open>The limiter keeps, of the past of an address, at least what is still in the window.\<close>

definition remembers :: "time \<Rightarrow> string \<Rightarrow> time list \<Rightarrow> RateLimiter \<Rightarrow> bool" where
  "remembers now ip past rl \<longleftrightarrow>
     (\<forall>t \<in> set past. t \<le> now) \<and> (\<forall>t \<in> set (rl_requests rl ip). t \<le> now) \<and>
     (\<forall>c \<ge> now - rl_window rl. filter (\<lambda>t. c < t) (rl_requests rl ip) = filter (\<lambda>t. c < t) past)"

lemma filter_le: "\<forall>t \<in> set ts. t \<le> (now :: int) \<Longrightarrow> now \<le> t' \<Longrightarrow>
    filter (\<lambda>t. c < t \<and> t \<le> t') ts = filter (\<lambda>t. c < t) ts"
  by (rule filter_cong) auto

lemma filter_stronger: "c \<le> (d :: int) \<Longrightarrow> filter (\<lambda>t. d < t) (filter (\<lambda>t. c < t) ts) = filter (\<lambda>t. d < t) ts"
  by (auto intro!: filter_cong)

lemma remembers_mono: "remembers now ip past rl \<Longrightarrow> now \<le> t \<Longrightarrow> remembers t ip past rl"
  unfolding remembers_def by (intro conjI ballI allI impI) (fastforce+)

lemma remembers_other:
  "remembers now ip past rl \<Longrightarrow> now \<le> t \<Longrightarrow> j \<noteq> ip \<Longrightarrow> remembers t ip past (snd (Allow t j rl))"
  using remembers_mono [of now ip past rl t] by (simp add: remembers_def Allow_def Let_def)

lemma remembers_cleanup:
  "remembers now ip past rl \<Longrightarrow> now \<le> t \<Longrightarrow> remembers t ip past (cleanup t rl)"
  using remembers_mono [of now ip past rl t]
  by (simp add: remembers_def cleanup_def filter_stronger del: filter_filter)

lemma remembers_Allow:
  assumes "remembers now ip past rl" "now \<le> t"
  shows "fst (Allow t ip rl) \<longleftrightarrow> int (in_window (rl_window rl) t past) < rl_limit rl"
    and "remembers t ip (if fst (Allow t ip rl) then past @ [t] else past) (snd (Allow t ip rl))"
proof -
  let ?valid = "filter (\<lambda>s. t - rl_window rl < s) (rl_requests rl ip)"
  from remembers_mono [OF assms] have r: "remembers t ip past rl" .
  then have eq: "?valid = filter (\<lambda>s. t - rl_window rl < s) past"
    by (simp add: remembers_def)
  moreover from r have "filter (\<lambda>s. t - rl_window rl < s \<and> s \<le> t) past = filter (\<lambda>s. t - rl_window rl < s) past"
    by (intro filter_le) (auto simp: remembers_def)
  ultimately show "fst (Allow t ip rl) \<longleftrightarrow> int (in_window (rl_window rl) t past) < rl_limit rl"
    by (simp add: Allow_def Let_def in_window_def not_le)
  have "filter (\<lambda>s. c < s) ?valid = filter (\<lambda>s. c < s) past" if "t - rl_window rl \<le> c" for c
    using that unfolding eq by (rule filter_stronger)
  with r show "remembers t ip (if fst (Allow t ip rl) then past @ [t] else past) (snd (Allow t ip rl))"
    by (simp add: remembers_def Allow_def Let_def del: filter_filter)
qed

lemma Allow_parameters [simp]:
  "rl_limit (snd (Allow t j rl)) = rl_limit rl" "rl_window (snd (Allow t j rl)) = rl_window rl"
  "rl_limit (cleanup t rl) = rl_limit rl" "rl_window (cleanup t rl) = rl_window rl"
  by (simp_all add: Allow_def cleanup_def Let_def)

lemma limiter_run_spec:
  "remembers now ip past rl \<Longrightarrow> sorted (now # map event_time evs) \<Longrightarrow>
   past @ fst (limiter_run ip evs rl) = limiter_spec (rl_limit rl) (rl_window rl) ip past evs"
proof (induction evs arbitrary: now past rl)
  case (Cons e evs)
  show ?case
  proof (cases e)
    case (Request j t)
    let ?rl = "snd (Allow t j rl)"
    from Cons.prems Request have t: "now \<le> t" "sorted (t # map event_time evs)" by auto
    have step: "fst (limiter_run ip (e # evs) rl) =
        (if fst (Allow t j rl) \<and> j = ip then [t] else []) @ fst (limiter_run ip evs ?rl)"
      by (cases "Allow t j rl"; cases "limiter_run ip evs ?rl") (auto simp: Request)
    show ?thesis
    proof (cases "j = ip")
      case True
      from Cons.IH [OF remembers_Allow(2) [OF Cons.prems(1) t(1)] t(2)] True step show ?thesis
        unfolding step by (simp add: Request flip: remembers_Allow(1) [OF Cons.prems(1) t(1)] split: if_splits)
    next
      case False
      from Cons.IH [OF remembers_other [OF Cons.prems(1) t(1) False] t(2)] False step show ?thesis
        by (simp add: Request)
    qed
  next
    case (Cleanup t)
    from Cons.prems Cleanup have t: "now \<le> t" "sorted (t # map event_time evs)" by auto
    from Cons.IH [OF remembers_cleanup [OF Cons.prems(1) t(1)] t(2)] Cleanup show ?thesis by simp
  qed
qed simp

lemma in_window_snoc: "in_window win c (past @ [t]) = in_window win c past + (if c - win < t \<and> t \<le> c then 1 else 0)"
  by (simp add: in_window_def)

lemma in_window_later: "\<forall>s \<in> set past. s \<le> t \<Longrightarrow> t \<le> c \<Longrightarrow> in_window win c past \<le> in_window win t past"
  unfolding in_window_def by (induction past) auto

lemma limiter_spec_bound:
  "(\<forall>c. int (in_window win c past) \<le> limit) \<Longrightarrow> (\<forall>s \<in> set past. s \<le> now) \<Longrightarrow> sorted (now # map event_time evs) \<Longrightarrow>
   int (in_window win c (limiter_spec limit win ip past evs)) \<le> limit"
proof (induction evs arbitrary: now past)
  case (Cons e evs)
  show ?case
  proof (cases e)
    case (Request j t)
    let ?past = "if j = ip \<and> int (in_window win t past) < limit then past @ [t] else past"
    from Cons.prems Request have t: "now \<le> t" "sorted (t # map event_time evs)" "\<forall>s \<in> set past. s \<le> t" by auto
    have "int (in_window win c ?past) \<le> limit" for c
      using Cons.prems(1) in_window_later [OF t(3), of c win] by (auto simp: in_window_snoc)
    with Cons.IH [of ?past t] t show ?thesis by (auto simp: Request)
  next
    case (Cleanup t)
    with Cons.prems have "\<forall>s \<in> set past. s \<le> t" by fastforce
    with Cleanup Cons.prems Cons.IH [of past t] show ?thesis by auto
  qed
qed simp

subsection \<open>The limit holds\<close>

text \<open>
  C31: The rate limiter is exact: over any sequence of requests from any addresses and clean-ups at
  non-decreasing times, a request of an address is let through exactly when fewer than the limit of
  that address's requests were let through in the window that ends with it; the requests of other
  addresses and the clean-ups make no difference.
\<close>

theorem rate_limiter_exact:
  "sorted (map event_time evs) \<Longrightarrow>
   fst (limiter_run ip evs (NewRateLimiter limit win)) = limiter_spec limit win ip [] evs"
  using limiter_run_spec [of _ ip "[]" "NewRateLimiter limit win" evs]
  by (cases evs) (auto simp: NewRateLimiter_def remembers_def)

text \<open>
  The limit holds in every window: however the requests are spread over time, no window of the
  configured length ever holds more let-through requests of one address than the limit.
\<close>

theorem rate_limiter_bound:
  "sorted (map event_time evs) \<Longrightarrow> 0 \<le> limit \<Longrightarrow>
   int (in_window win c (fst (limiter_run ip evs (NewRateLimiter limit win)))) \<le> limit"
proof (cases evs)
  case (Cons e es)
  assume "sorted (map event_time evs)" "0 \<le> limit"
  moreover from this Cons have "fst (limiter_run ip evs (NewRateLimiter limit win)) = limiter_spec limit win ip [] evs"
    using limiter_run_spec [of "event_time e" ip "[]" "NewRateLimiter limit win" evs]
    by (auto simp: NewRateLimiter_def remembers_def)
  ultimately show ?thesis
    using limiter_spec_bound [of win "[]" limit "event_time e" evs c ip] Cons by (simp add: in_window_def)
qed (simp add: in_window_def)

definition ex_events :: "limiter_event list" where
  "ex_events = [Request ''a'' 0, Request ''a'' 1, Request ''b'' 1, Request ''a'' 2, Cleanup 9, Request ''a'' 10, Request ''a'' 11]"

theorem rate_limiter_exact_witness:
  "fst (limiter_run ''a'' ex_events (NewRateLimiter 2 10)) = limiter_spec 2 10 ''a'' [] ex_events \<and>
   limiter_spec 2 10 ''a'' [] ex_events = [0, 1, 10, 11]"
  using rate_limiter_exact [of ex_events "''a''" 2 10] by (simp add: ex_events_def in_window_def)

theorem rate_limiter_bound_witness:
  "int (in_window 10 9 (fst (limiter_run ''a'' ex_events (NewRateLimiter 2 10)))) \<le> 2"
  using rate_limiter_bound [of ex_events 2 10 9 "''a''"] by (simp add: ex_events_def)

end
