(* ===== verification/Routes.thy ===== *)
theory Routes
  imports Handlers_Auth Handlers_Backend Rate_Limiter
begin

section \<open>The router (internal/handlers/routes.go)\<close>

text \<open>
  The route table with the middlewares in front of each handler, and the service of one request:
  security headers and CORS, the rate limits, the size limit of the body, then the guards of the
  route and its handler. Matching a path against the table is first match, which agrees with gin's
  preference for static segments because the table has those first. A request that matches no
  route is answered by the embedded front end, a parameter.
\<close>

subsection \<open>Routes\<close>

datatype guard = G_Auth | G_Role "string list" | G_Config | G_Backend | G_AuthLimit

datatype endpoint =
    E_Health | E_Ready | E_Login | E_Callback | E_Logout | E_NotEnabled
  | E_CurrentUser | E_ListRoles | E_SystemStatus
  | E_CreateConfig | E_ListConfigs | E_GetConfig | E_UpdateConfig | E_DeleteConfig | E_ConfigStatus
  | E_GetConfigRoles | E_UpdateConfigRoles
  | E_AddBackend | E_ListBackends | E_ConfigureHealthCheck | E_GetHealthCheck | E_DeleteHealthCheck
  | E_ConfigureDNS | E_GetDNS | E_DeleteDNS
  | E_GetBackend | E_UpdateBackend | E_DeleteBackend | E_BackendHealth | E_BackendHistory
  | E_ListAudit | E_CountAudit | E_GetAudit | E_EntityAudit
  | E_ListUsers | E_AssignUserRole | E_RemoveUserRole

datatype segment = S string | Var string

record route =
  ro_Method :: string
  ro_Path :: "segment list"
  ro_Guards :: "guard list"
  ro_Endpoint :: endpoint

definition rt :: "string \<Rightarrow> segment list \<Rightarrow> guard list \<Rightarrow> endpoint \<Rightarrow> route" where
  "rt m p g e = \<lparr>ro_Method = m, ro_Path = p, ro_Guards = g, ro_Endpoint = e\<rparr>"

definition api :: "segment list \<Rightarrow> segment list" where
  "api p = S ''api'' # S ''v1'' # p"

definition public_routes :: "route list" where
  "public_routes = [rt ''GET'' [S ''health''] [] E_Health, rt ''GET'' [S ''ready''] [] E_Ready]"

definition auth_routes :: "bool \<Rightarrow> route list" where
  "auth_routes oidc =
     (if oidc then
        [rt ''GET'' (api [S ''auth'', S ''login'']) [G_AuthLimit] E_Login,
         rt ''GET'' (api [S ''auth'', S ''callback'']) [G_AuthLimit] E_Callback,
         rt ''POST'' (api [S ''auth'', S ''logout'']) [G_AuthLimit] E_Logout]
      else
        [rt ''GET'' (api [S ''auth'', S ''login'']) [] E_NotEnabled,
         rt ''GET'' (api [S ''auth'', S ''callback'']) [] E_NotEnabled,
         rt ''POST'' (api [S ''auth'', S ''logout'']) [] E_NotEnabled])"

abbreviation config_path :: "segment list \<Rightarrow> segment list" where
  "config_path p \<equiv> api (S ''configs'' # Var ''id'' # p)"

definition oidc_api_routes :: "route list" where
  "oidc_api_routes =
     [rt ''GET'' (api [S ''auth'', S ''user'']) [G_Auth] E_CurrentUser,
      rt ''GET'' (api [S ''roles'']) [G_Auth] E_ListRoles,
      rt ''GET'' (api [S ''status'']) [G_Auth] E_SystemStatus,
      rt ''POST'' (api [S ''configs'']) [G_Auth] E_CreateConfig,
      rt ''GET'' (api [S ''configs'']) [G_Auth] E_ListConfigs,
      rt ''GET'' (config_path []) [G_Auth, G_Config] E_GetConfig,
      rt ''PUT'' (config_path []) [G_Auth, G_Config] E_UpdateConfig,
      rt ''DELETE'' (config_path []) [G_Auth, G_Role [''admin'', ''operator''], G_Config] E_DeleteConfig,
      rt ''GET'' (config_path [S ''status'']) [G_Auth, G_Config] E_ConfigStatus,
      rt ''GET'' (config_path [S ''roles'']) [G_Auth, G_Config] E_GetConfigRoles,
      rt ''PUT'' (config_path [S ''roles'']) [G_Auth, G_Role [''admin'', ''operator''], G_Config] E_UpdateConfigRoles,
      rt ''POST'' (config_path [S ''backends'']) [G_Auth, G_Config] E_AddBackend,
      rt ''GET'' (config_path [S ''backends'']) [G_Auth, G_Config] E_ListBackends,
      rt ''POST'' (config_path [S ''health-check'']) [G_Auth, G_Config] E_ConfigureHealthCheck,
      rt ''GET'' (config_path [S ''health-check'']) [G_Auth, G_Config] E_GetHealthCheck,
      rt ''DELETE'' (config_path [S ''health-check'']) [G_Auth, G_Role [''admin'', ''operator''], G_Config] E_DeleteHealthCheck,
      rt ''POST'' (config_path [S ''dns-provider'']) [G_Auth, G_Config] E_ConfigureDNS,
      rt ''GET'' (config_path [S ''dns-provider'']) [G_Auth, G_Config] E_GetDNS,
      rt ''DELETE'' (config_path [S ''dns-provider'']) [G_Auth, G_Role [''admin'', ''operator''], G_Config] E_DeleteDNS,
      rt ''GET'' (api [S ''backends'', Var ''id'']) [G_Auth, G_Backend] E_GetBackend,
      rt ''PUT'' (api [S ''backends'', Var ''id'']) [G_Auth, G_Backend] E_UpdateBackend,
      rt ''DELETE'' (api [S ''backends'', Var ''id'']) [G_Auth, G_Role [''admin'', ''operator''], G_Backend] E_DeleteBackend,
      rt ''GET'' (api [S ''backends'', Var ''id'', S ''health'']) [G_Auth, G_Backend] E_BackendHealth,
      rt ''GET'' (api [S ''backends'', Var ''id'', S ''history'']) [G_Auth, G_Backend] E_BackendHistory,
      rt ''GET'' (api [S ''audit-logs'']) [G_Auth, G_Role [''admin'']] E_ListAudit,
      rt ''GET'' (api [S ''audit-logs'', S ''count'']) [G_Auth, G_Role [''admin'']] E_CountAudit,
      rt ''GET'' (api [S ''audit-logs'', Var ''id'']) [G_Auth, G_Role [''admin'']] E_GetAudit,
      rt ''GET'' (api [S ''audit-logs'', S ''entity'', Var ''type'', Var ''id'']) [G_Auth, G_Role [''admin'']] E_EntityAudit,
      rt ''GET'' (api [S ''admin'', S ''users'']) [G_Auth, G_Role [''admin'']] E_ListUsers,
      rt ''POST'' (api [S ''admin'', S ''users'', Var ''id'', S ''roles'']) [G_Auth, G_Role [''admin'']] E_AssignUserRole,
      rt ''DELETE'' (api [S ''admin'', S ''users'', Var ''id'', S ''roles'', Var ''role_id'']) [G_Auth, G_Role [''admin'']] E_RemoveUserRole]"

definition open_api_routes :: "route list" where
  "open_api_routes =
     [rt ''GET'' (api [S ''status'']) [] E_SystemStatus,
      rt ''POST'' (api [S ''configs'']) [] E_CreateConfig,
      rt ''GET'' (api [S ''configs'']) [] E_ListConfigs,
      rt ''GET'' (config_path []) [] E_GetConfig,
      rt ''PUT'' (config_path []) [] E_UpdateConfig,
      rt ''DELETE'' (config_path []) [] E_DeleteConfig,
      rt ''GET'' (config_path [S ''status'']) [] E_ConfigStatus,
      rt ''POST'' (config_path [S ''backends'']) [] E_AddBackend,
      rt ''GET'' (config_path [S ''backends'']) [] E_ListBackends,
      rt ''POST'' (config_path [S ''health-check'']) [] E_ConfigureHealthCheck,
      rt ''GET'' (config_path [S ''health-check'']) [] E_GetHealthCheck,
      rt ''DELETE'' (config_path [S ''health-check'']) [] E_DeleteHealthCheck,
      rt ''POST'' (config_path [S ''dns-provider'']) [] E_ConfigureDNS,
      rt ''GET'' (config_path [S ''dns-provider'']) [] E_GetDNS,
      rt ''DELETE'' (config_path [S ''dns-provider'']) [] E_DeleteDNS,
      rt ''GET'' (api [S ''backends'', Var ''id'']) [] E_GetBackend,
      rt ''PUT'' (api [S ''backends'', Var ''id'']) [] E_UpdateBackend,
      rt ''DELETE'' (api [S ''backends'', Var ''id'']) [] E_DeleteBackend,
      rt ''GET'' (api [S ''backends'', Var ''id'', S ''health'']) [] E_BackendHealth,
      rt ''GET'' (api [S ''backends'', Var ''id'', S ''history'']) [] E_BackendHistory,
      rt ''GET'' (api [S ''audit-logs'']) [] E_ListAudit,
      rt ''GET'' (api [S ''audit-logs'', S ''count'']) [] E_CountAudit,
      rt ''GET'' (api [S ''audit-logs'', Var ''id'']) [] E_GetAudit,
      rt ''GET'' (api [S ''audit-logs'', S ''entity'', Var ''type'', Var ''id'']) [] E_EntityAudit]"

definition routes :: "bool \<Rightarrow> route list" where
  "routes oidc = public_routes @ auth_routes oidc @ (if oidc then oidc_api_routes else open_api_routes)"

subsection \<open>Matching\<close>

fun match_segments :: "segment list \<Rightarrow> string list \<Rightarrow> (string \<times> string) list option" where
  "match_segments [] [] = Some []"
| "match_segments (S s # ps) (x # xs) = (if x = s then match_segments ps xs else None)"
| "match_segments (Var v # ps) (x # xs) = (if x = '''' then None else map_option ((#) (v, x)) (match_segments ps xs))"
| "match_segments _ _ = None"

fun split_path :: "string \<Rightarrow> string list" where
  "split_path [] = [[]]"
| "split_path (c # cs) =
     (if c = CHR ''/'' then [] # split_path cs
      else case split_path cs of [] \<Rightarrow> [[c]] | x # xs \<Rightarrow> (c # x) # xs)"

fun find_route :: "route list \<Rightarrow> string \<Rightarrow> string list \<Rightarrow> (route \<times> (string \<times> string) list) option" where
  "find_route [] m segs = None"
| "find_route (r # rs) m segs =
     (if ro_Method r = m then
        case match_segments (ro_Path r) segs of
          Some vars \<Rightarrow> Some (r, vars)
        | None \<Rightarrow> find_route rs m segs
      else find_route rs m segs)"

subsection \<open>Serving a request\<close>

text \<open>The body, decoded into each of the request types, and its length.\<close>

record bodies =
  bo_length :: nat
  bo_Config :: "CreateConfigRequest body"
  bo_ConfigUpdate :: "UpdateConfigRequest body"
  bo_Roles :: "string list body"
  bo_Provider :: "ConfigureDNSProviderRequest body"
  bo_Backend :: "CreateBackendRequest body"
  bo_BackendUpdate :: "UpdateBackendRequest body"
  bo_Check :: "ConfigureHealthCheckRequest body"
  bo_RoleID :: "string body"

definition MaxBodySize :: "nat \<Rightarrow> bodies \<Rightarrow> bodies" where
  "MaxBodySize maxBytes b =
     (if bo_length b \<le> maxBytes then b
      else let x = ''http: request body too large''
           in b\<lparr>bo_Config := Undecodable x, bo_ConfigUpdate := Undecodable x, bo_Roles := Undecodable x, bo_Provider := Undecodable x, bo_Backend := Undecodable x,
               bo_BackendUpdate := Undecodable x, bo_Check := Undecodable x, bo_RoleID := Undecodable x\<rparr>)"

record router_world = http_world +
  rw_global :: RateLimiter
  rw_auth :: RateLimiter

record router =
  ro_handlers :: handlers
  ro_oidc :: oidc_service
  ro_engine :: Engine
  ro_frontend :: "string \<Rightarrow> response"

definition NewRouter_limiters :: "RateLimiter \<times> RateLimiter" where
  "NewRouter_limiters = (NewRateLimiter 100 Minute, NewRateLimiter 10 Minute)"

definition limit_global :: "string \<Rightarrow> ('z router_world_scheme, bool) state" where
  "limit_global ip = do {
     now \<leftarrow> time_Now;
     State (\<lambda>w. case Allow now ip (rw_global w) of (b, rl) \<Rightarrow> (b, w\<lparr>rw_global := rl\<rparr>))
   }"

definition limit_auth :: "string \<Rightarrow> ('z router_world_scheme, bool) state" where
  "limit_auth ip = do {
     now \<leftarrow> time_Now;
     State (\<lambda>w. case Allow now ip (rw_auth w) of (b, rl) \<Rightarrow> (b, w\<lparr>rw_auth := rl\<rparr>))
   }"

definition run_guard :: "router \<Rightarrow> 'r http_request_scheme \<Rightarrow> guard \<Rightarrow> gin_context \<Rightarrow> ('z router_world_scheme, outcome) state" where
  "run_guard rr rq g ctx =
     (case g of
        G_Auth \<Rightarrow> Middleware (os_jwt (ro_oidc rr)) (os_jwtCfg (ro_oidc rr)) rq ctx
      | G_Role roles \<Rightarrow> ret (RequireRole roles ctx)
      | G_Config \<Rightarrow> RequireConfigAccess rq ctx
      | G_Backend \<Rightarrow> RequireBackendConfigAccess rq ctx
      | G_AuthLimit \<Rightarrow> do {
          allowed \<leftarrow> limit_auth (hr_ClientIP rq);
          ret (if allowed then Next ctx else Abort 429 ''Rate limit exceeded'')
        })"

text \<open>The middlewares in front of a handler, in order, and the handler when all pass.\<close>

primrec run_guards :: "router \<Rightarrow> 'r http_request_scheme \<Rightarrow> guard list \<Rightarrow> gin_context \<Rightarrow> ('z router_world_scheme, outcome) state" where
  "run_guards rr rq [] ctx = ret (Next ctx)"
| "run_guards rr rq (g # gs) ctx = do {
     r \<leftarrow> run_guard rr rq g ctx;
     (case r of
        Next ctx' \<Rightarrow> run_guards rr rq gs ctx'
      | Abort s m \<Rightarrow> ret (Abort s m)
      | Panic \<Rightarrow> ret Panic)
   }"

definition plain :: "('z, response) state \<Rightarrow> ('z, reply) state" where
  "plain m = do { r \<leftarrow> m; ret (r, []) }"

fun run_endpoint :: "router \<Rightarrow> 'r http_request_scheme \<Rightarrow> gin_context \<Rightarrow> bodies \<Rightarrow> endpoint \<Rightarrow>
    ('z router_world_scheme, reply) state" where
  "run_endpoint rr rq ctx b E_Health = ret (H_HealthHandler, [])"
| "run_endpoint rr rq ctx b E_Ready = ret (H_ReadyHandler (ro_engine rr), [])"
| "run_endpoint rr rq ctx b E_Login = ret (H_Login (ro_oidc rr))"
| "run_endpoint rr rq ctx b E_Callback = H_Callback (ro_oidc rr) rq ctx"
| "run_endpoint rr rq ctx b E_Logout = H_Logout (ro_oidc rr) rq ctx"
| "run_endpoint rr rq ctx b E_NotEnabled = ret (Error 501 ''SSO not enabled'', [])"
| "run_endpoint rr rq ctx b E_CurrentUser = plain (H_GetCurrentUser ctx)"
| "run_endpoint rr rq ctx b E_ListRoles = plain H_ListRoles"
| "run_endpoint rr rq ctx b E_SystemStatus = plain (H_GetSystemStatus (ro_engine rr))"
| "run_endpoint rr rq ctx b E_CreateConfig = plain (H_CreateConfig (ro_handlers rr) rq ctx (bo_Config b))"
| "run_endpoint rr rq ctx b E_ListConfigs = plain (H_ListConfigs (ro_handlers rr) ctx)"
| "run_endpoint rr rq ctx b E_GetConfig = plain (H_GetConfig rq)"
| "run_endpoint rr rq ctx b E_UpdateConfig = plain (H_UpdateConfig rq ctx (bo_ConfigUpdate b))"
| "run_endpoint rr rq ctx b E_DeleteConfig = plain (H_DeleteConfig rq ctx)"
| "run_endpoint rr rq ctx b E_ConfigStatus = plain (H_GetConfigStatus rq)"
| "run_endpoint rr rq ctx b E_GetConfigRoles = plain (H_GetConfigRoles rq)"
| "run_endpoint rr rq ctx b E_UpdateConfigRoles = plain (H_UpdateConfigRoles rq ctx (bo_Roles b))"
| "run_endpoint rr rq ctx b E_AddBackend = plain (H_AddBackend (ro_handlers rr) rq ctx (bo_Backend b))"
| "run_endpoint rr rq ctx b E_ListBackends = plain (H_ListBackends rq)"
| "run_endpoint rr rq ctx b E_ConfigureHealthCheck = plain (H_ConfigureHealthCheck rq ctx (bo_Check b))"
| "run_endpoint rr rq ctx b E_GetHealthCheck = plain (H_GetHealthCheck rq)"
| "run_endpoint rr rq ctx b E_DeleteHealthCheck = plain (H_DeleteHealthCheck rq ctx)"
| "run_endpoint rr rq ctx b E_ConfigureDNS = plain (H_ConfigureDNSProvider (ro_handlers rr) rq ctx (bo_Provider b))"
| "run_endpoint rr rq ctx b E_GetDNS = plain (H_GetDNSProvider (ro_handlers rr) rq)"
| "run_endpoint rr rq ctx b E_DeleteDNS = plain (H_DeleteDNSProvider (ro_handlers rr) rq ctx)"
| "run_endpoint rr rq ctx b E_GetBackend = plain (H_GetBackend rq)"
| "run_endpoint rr rq ctx b E_UpdateBackend = plain (H_UpdateBackend (ro_handlers rr) rq ctx (bo_BackendUpdate b))"
| "run_endpoint rr rq ctx b E_DeleteBackend = plain (H_DeleteBackend (ro_handlers rr) rq ctx)"
| "run_endpoint rr rq ctx b E_BackendHealth = plain (H_GetBackendHealth rq)"
| "run_endpoint rr rq ctx b E_BackendHistory = plain (H_GetBackendHistory rq)"
| "run_endpoint rr rq ctx b E_ListAudit = plain (H_ListAuditLogs (ro_handlers rr) rq)"
| "run_endpoint rr rq ctx b E_CountAudit = plain (H_GetAuditLogCount (ro_handlers rr) rq)"
| "run_endpoint rr rq ctx b E_GetAudit = plain (H_GetAuditLog rq)"
| "run_endpoint rr rq ctx b E_EntityAudit = plain (H_GetAuditLogsForEntity rq)"
| "run_endpoint rr rq ctx b E_ListUsers = plain H_ListUsers"
| "run_endpoint rr rq ctx b E_AssignUserRole = plain (H_AssignUserRole rq ctx (bo_RoleID b))"
| "run_endpoint rr rq ctx b E_RemoveUserRole = plain (H_RemoveUserRole rq ctx)"

definition serve_route :: "router \<Rightarrow> 'r http_request_scheme \<Rightarrow> bodies \<Rightarrow> route \<Rightarrow> ('z router_world_scheme, reply) state" where
  "serve_route rr rq b r = do {
     g \<leftarrow> run_guards rr rq (ro_Guards r) empty_context;
     (case g of
        Next ctx \<Rightarrow> run_endpoint rr rq ctx b (ro_Endpoint r)
      | Abort s m \<Rightarrow> ret (Error s m, [])
      | Panic \<Rightarrow> ret (Recovered, []))
   }"

definition path_params :: "(string \<times> string) list \<Rightarrow> 'r http_request_scheme \<Rightarrow> 'r http_request_scheme" where
  "path_params vars rq =
     rq\<lparr>rq_ID := (case map_of vars ''id'' of Some v \<Rightarrow> v | None \<Rightarrow> ''''),
        hr_Param := (\<lambda>k. case map_of vars k of Some v \<Rightarrow> v | None \<Rightarrow> '''')\<rparr>"

definition serve :: "router \<Rightarrow> 'r http_request_scheme \<Rightarrow> bodies \<Rightarrow> ('z router_world_scheme, reply) state" where
  "serve rr rq b =
     (case CORS rq of
        Cors_Abort s _ \<Rightarrow> ret (No_Content, [])
      | Cors_Next _ \<Rightarrow> do {
          allowed \<leftarrow> limit_global (hr_ClientIP rq);
          (if \<not> allowed then ret (Error 429 ''Rate limit exceeded'', [])
           else case find_route (routes (ha_oidc (ro_handlers rr))) (hr_Method rq) (split_path (drop 1 (rq_Path rq))) of
                  None \<Rightarrow> ret (ro_frontend rr (rq_Path rq), [])
                | Some (r, vars) \<Rightarrow> serve_route rr (path_params vars rq) (MaxBodySize 1048576 b) r)
        })"

end
