(* ===== verification/Access.thy ===== *)
theory Access
  imports Routes
begin

section \<open>What the router lets through\<close>

text \<open>
  The composition of the route table, the middlewares and the handlers: which requests reach a
  handler in the OIDC mode, and what they keep.
\<close>

subsection \<open>Guards leave the database alone\<close>

lemma keeps_ValidateSession [keep_intros]: "keeps (\<lambda>w. P (w_db w)) (ValidateSession s)"
  unfolding ValidateSession_def by (intro keep_intros)

lemma keeps_Middleware [keep_intros]: "keeps (\<lambda>w. P (w_db w)) (Middleware lib cfg rq ctx)"
  unfolding Middleware_def Let_def by (intro keep_intros)

lemma keeps_access_guards [keep_intros]:
  "keeps (\<lambda>w. P (w_db w)) (RequireConfigAccess rq ctx)" "keeps (\<lambda>w. P (w_db w)) (RequireBackendConfigAccess rq ctx)"
  unfolding RequireConfigAccess_def RequireBackendConfigAccess_def by (intro keep_intros)+

lemma keeps_limits [keep_intros]:
  "keeps (\<lambda>w. P (w_db w)) (limit_auth ip)" "keeps (\<lambda>w. P (w_db w)) (limit_global ip)"
  unfolding limit_auth_def limit_global_def
  by (auto simp: keeps_def run_simps split: prod.splits)

lemma keeps_run_guard [keep_intros]: "keeps (\<lambda>w. P (w_db w)) (run_guard rr rq g ctx)"
  by (cases g) (auto simp: run_guard_def intro!: keep_intros)

lemma keeps_run_guards [keep_intros]: "keeps (\<lambda>w. P (w_db w)) (run_guards rr rq gs ctx)"
proof (induction gs arbitrary: ctx)
  case (Cons g gs)
  then show ?case by (auto intro!: keep_intros split: outcome.split)
qed (simp add: keep_intros)

lemma run_guard_db: "run_state (run_guard rr rq g ctx) w = (r, w') \<Longrightarrow> w_db w' = w_db w"
  using keeps_run [OF keeps_run_guard [where P = "\<lambda>d. d = w_db w"]] by blast

subsection \<open>Requests keep the database's constraints\<close>

lemma keeps_plain [keep_intros]: "keeps P m \<Longrightarrow> keeps P (plain m)"
  unfolding plain_def by (intro keep_intros)

lemma keeps_run_endpoint [keep_intros]: "keeps_db_ok (run_endpoint rr rq ctx b e)"
  by (cases e) (auto intro!: keep_intros)

lemma keeps_serve_route [keep_intros]: "keeps_db_ok (serve_route rr rq b r)"
  unfolding serve_route_def by (auto intro!: keep_intros split: outcome.split)

lemma keeps_serve: "keeps_db_ok (serve rr rq b)"
  unfolding serve_def by (auto intro!: keep_intros split: cors_outcome.split)

subsection \<open>Paths and segments\<close>

lemma split_path_not_Nil [simp]: "split_path s \<noteq> []"
  by (induction s) (auto split: list.splits)

lemma split_path_slash: "split_path (a @ CHR ''/'' # b) = split_path a @ split_path b"
proof (induction a)
  case (Cons c a)
  then show ?case by (cases "split_path a") auto
qed simp

lemma split_path_segment: "CHR ''/'' \<notin> set a \<Longrightarrow> split_path (a @ b) = (a @ hd (split_path b)) # tl (split_path b)"
proof (induction a)
  case (Cons c a)
  then show ?case by (cases "split_path b") auto
qed simp

lemma split_path_tail:
  "CHR ''/'' \<notin> set b \<Longrightarrow> split_path (a @ b) = butlast (split_path a) @ [last (split_path a) @ b]"
proof (induction a)
  case Nil
  then show ?case using split_path_segment [of b "[]"] by simp
next
  case (Cons c a)
  then show ?case by (cases "split_path a") auto
qed

lemma split_path_last: "CHR ''/'' \<notin> set b \<Longrightarrow> last (split_path (a @ b)) = last (split_path a) @ b"
  by (simp add: split_path_tail)

text \<open>
  A path that the authentication middleware skips: its segments are one of the three public ones, or
  start as the login flow's or the assets', or the last one ends in \<open>.html\<close>.
\<close>

lemma skipped_segments:
  assumes "shouldSkipAuth (CHR ''/'' # p)"
  shows "split_path p \<in> {[''health''], [''ready''], ['''']} \<or>
    (\<exists>x rest. split_path p = ''api'' # ''v1'' # ''auth'' # x # rest \<and> x \<noteq> ''user'') \<or>
    hd (split_path p) = ''assets'' \<or> suffix ''.html'' (last (split_path p))"
proof -
  have login: "\<exists>x rest. split_path (''api/v1/auth/'' @ y @ q) = ''api'' # ''v1'' # ''auth'' # x # rest \<and> x \<noteq> ''user''"
    if "y \<in> {''login'', ''callback'', ''logout''}" for y q
  proof -
    have "split_path (''api/v1/auth/'' @ y @ q) = ''api'' # ''v1'' # ''auth'' # split_path (y @ q)" by simp
    moreover from that have "split_path (y @ q) = (y @ hd (split_path q)) # tl (split_path q)"
      by (intro split_path_segment) auto
    moreover from that have "y @ hd (split_path q) \<noteq> ''user''" by auto
    ultimately show ?thesis by auto
  qed
  have "p \<in> {''health'', ''ready'', ''''} \<or>
      (\<exists>y \<in> {''login'', ''callback'', ''logout''}. \<exists>q. p = ''api/v1/auth/'' @ y @ q) \<or>
      (\<exists>q. p = ''assets/'' @ q) \<or> (\<exists>q. CHR ''/'' # p = q @ ''.html'')"
    using assms by (simp add: shouldSkipAuth_def prefix_def suffix_def)
  then consider "p \<in> {''health'', ''ready'', ''''}"
    | (flow) y q where "y \<in> {''login'', ''callback'', ''logout''}" "p = ''api/v1/auth/'' @ y @ q"
    | (assets) q where "p = ''assets/'' @ q" | (html) q where "CHR ''/'' # p = q @ ''.html''"
    by blast
  then show ?thesis
  proof cases
    case (flow y q)
    with login [of y q] show ?thesis by blast
  next
    case (html q)
    then obtain q' where "p = q' @ ''.html''" by (cases q) auto
    then show ?thesis using split_path_last [of "''.html''" q'] by (auto simp: suffix_def)
  qed auto
qed

subsection \<open>What the guards establish\<close>

definition has_admin :: "string list \<Rightarrow> bool" where
  "has_admin userRoles = (''admin'' \<in> set userRoles)"

text \<open>What a guard demands of a user with these roles, on a database.\<close>

fun guard_holds :: "db \<Rightarrow> string \<Rightarrow> string \<Rightarrow> string list \<Rightarrow> guard \<Rightarrow> bool" where
  "guard_holds d i userID userRoles (G_Role required) = (set required \<inter> set userRoles \<noteq> {})"
| "guard_holds d i userID userRoles G_Config = (has_admin userRoles \<or> may_access d userID i)"
| "guard_holds d i userID userRoles G_Backend = (has_admin userRoles \<or>
     (\<exists>b. first_row (select_backend i d) = Some b \<and> may_access d userID (b_ConfigID b)))"
| "guard_holds d i userID userRoles _ = True"

definition context_roles :: "gin_context \<Rightarrow> string list" where
  "context_roles ctx = (case cx_userRoles ctx of None \<Rightarrow> [] | Some rs \<Rightarrow> rs)"

lemma is_admin_roles: "is_admin ctx = has_admin (context_roles ctx)"
  by (auto simp: is_admin_def has_admin_def context_roles_def list_ex_iff split: option.splits)

lemma RequireRole_Next:
  "RequireRole required ctx = Next ctx' \<longleftrightarrow> ctx' = ctx \<and> set required \<inter> set (context_roles ctx) \<noteq> {}"
  by (auto simp: RequireRole_def context_roles_def list_ex_iff split: option.splits)

lemma RequireConfigAccess_Next:
  assumes "run_state (RequireConfigAccess rq ctx) w = (Next ctx', w')"
  shows "ctx' = ctx \<and> guard_holds (w_db w) (rq_ID rq) (context_user ctx) (context_roles ctx) G_Config"
proof (cases "is_admin ctx")
  case False
  with assms have "ctx' = ctx \<and> run_state (CanAccess (context_user ctx) (rq_ID rq)) w = (Inr True, w')"
    by (auto simp: RequireConfigAccess_def run_simps split: prod.splits sum.splits if_splits)
  then show ?thesis by (simp add: CanAccess_True)
qed (use assms in \<open>auto simp: RequireConfigAccess_def run_simps is_admin_roles\<close>)

lemma RequireBackendConfigAccess_Next:
  assumes "run_state (RequireBackendConfigAccess rq ctx) w = (Next ctx', w')"
  shows "ctx' = ctx \<and> guard_holds (w_db w) (rq_ID rq) (context_user ctx) (context_roles ctx) G_Backend"
proof (cases "is_admin ctx")
  case False
  with assms obtain b w1 where b: "run_state (GetBackend (rq_ID rq)) w = (Inr b, w1)" and "ctx' = ctx"
    and acc: "run_state (CanAccess (context_user ctx) (b_ConfigID b)) w1 = (Inr True, w')"
    by (auto simp: RequireBackendConfigAccess_def run_simps split: prod.splits sum.splits if_splits)
  with row_method_find_Inr [OF b [unfolded GetBackend_def]] CanAccess_True [OF acc] show ?thesis by auto
qed (use assms in \<open>auto simp: RequireBackendConfigAccess_def run_simps is_admin_roles\<close>)

text \<open>Past the authentication, the guards of a route leave the context alone.\<close>

lemma run_guard_Next:
  assumes "run_state (run_guard rr rq g ctx) w = (Next ctx', w')" "g \<noteq> G_Auth"
  shows "ctx' = ctx \<and> guard_holds (w_db w) (rq_ID rq) (context_user ctx) (context_roles ctx) g"
proof (cases g)
  case (G_Role required)
  with assms show ?thesis by (simp add: run_guard_def run_simps RequireRole_Next)
next
  case G_Config
  with assms RequireConfigAccess_Next show ?thesis by (fastforce simp: run_guard_def)
next
  case G_Backend
  with assms RequireBackendConfigAccess_Next show ?thesis by (fastforce simp: run_guard_def)
next
  case G_AuthLimit
  with assms show ?thesis by (auto simp: run_guard_def run_simps split: prod.splits if_splits)
qed (use assms in simp)

lemma run_guards_Next:
  "run_state (run_guards rr rq gs ctx) w = (Next ctx', w') \<Longrightarrow> G_Auth \<notin> set gs \<Longrightarrow>
   ctx' = ctx \<and> list_all (guard_holds (w_db w) (rq_ID rq) (context_user ctx) (context_roles ctx)) gs"
proof (induction gs arbitrary: w)
  case (Cons g gs)
  then obtain c w1 where "run_state (run_guard rr rq g ctx) w = (Next c, w1)"
    and "run_state (run_guards rr rq gs c) w1 = (Next ctx', w')"
    by (auto simp: run_simps split: prod.splits outcome.splits)
  with run_guard_Next [of rr rq g ctx w c w1] run_guard_db [of rr rq g ctx w "Next c" w1] Cons.IH [of w1] Cons.prems(2)
  show ?case by auto
qed (simp add: run_simps)

text \<open>A session the server accepts for a request, with the roles and user its token names.\<close>

definition valid_session :: "oidc_service \<Rightarrow> db \<Rightarrow> 'r http_request_scheme \<Rightarrow> Session \<Rightarrow> bool" where
  "valid_session svc d rq s =
     ((\<exists>now. ParseSession (os_jwt svc) (os_jwtCfg svc) now (getToken rq (jc_CookieName (os_jwtCfg svc))) = Some (Inr s)) \<and>
      (se_JTI s = '''' \<or> (\<exists>r. session_lookup d (se_JTI s) = Some r \<and> sr_RevokedAt r = None)))"

lemma Middleware_Next:
  assumes "run_state (Middleware (os_jwt svc) (os_jwtCfg svc) rq ctx) w = (Next ctx', w')"
  shows "shouldSkipAuth (rq_Path rq) \<and> ctx' = ctx \<or>
    (\<exists>s. valid_session svc (w_db w) rq s \<and> context_user ctx' = se_UserID s \<and> context_roles ctx' = se_Roles s)"
proof (cases "shouldSkipAuth (rq_Path rq)")
  case False
  let ?now = "w_now w (w_now_ix w)" and ?w = "w\<lparr>w_now_ix := Suc (w_now_ix w)\<rparr>"
  from assms False obtain s
    where "ParseSession (os_jwt svc) (os_jwtCfg svc) ?now (getToken rq (jc_CookieName (os_jwtCfg svc))) = Some (Inr s)"
    and v: "run_state (ValidateSession s) ?w = (Inr (), w')"
    and "ctx' = ctx\<lparr>cx_session := Some s, cx_userID := Some (se_UserID s), cx_userRoles := Some (se_Roles s)\<rparr>"
    by (auto simp: Middleware_def Let_def run_simps split: if_splits option.splits sum.splits prod.splits)
  with ValidateSession_Inr [OF v] show ?thesis
    by (auto simp: valid_session_def context_user_def context_roles_def)
qed (use assms in \<open>simp add: Middleware_def run_simps\<close>)

subsection \<open>Every API route is guarded\<close>

lemma find_route_Some:
  "find_route rs m segs = Some (r, vars) \<Longrightarrow>
   r \<in> set rs \<and> ro_Method r = m \<and> match_segments (ro_Path r) segs = Some vars"
  by (induction rs) (auto split: if_splits option.splits)

lemma match_segments_last:
  "match_segments ps xs = Some vars \<Longrightarrow> ps \<noteq> [] \<Longrightarrow> last ps = S s \<Longrightarrow> last xs = s"
proof (induction ps xs arbitrary: vars rule: match_segments.induct)
  case (2 s' ps x xs)
  then show ?case by (cases ps; cases xs) (auto split: if_splits)
next
  case (3 v ps x xs)
  then show ?case by (cases ps; cases xs) (auto split: if_splits)
qed auto

text \<open>
  The shape of the OIDC table: every route authenticates first; beyond the login flow's own prefix;
  and a route whose last segment is a variable has a further guard.
\<close>

definition guarded_route :: "route \<Rightarrow> bool" where
  "guarded_route r \<longleftrightarrow>
     ro_Method r \<in> {''GET'', ''POST'', ''PUT'', ''DELETE''} \<and>
     (\<exists>gs. ro_Guards r = G_Auth # gs \<and> G_Auth \<notin> set gs \<and> G_AuthLimit \<notin> set gs \<and>
        (case last (ro_Path r) of S s \<Rightarrow> \<not> suffix ''.html'' s | Var _ \<Rightarrow> gs \<noteq> [])) \<and>
     (\<exists>z rest. ro_Path r = S ''api'' # S ''v1'' # S z # rest \<and> (z = ''auth'' \<longrightarrow> rest = [S ''user'']))"

lemma guarded_routeE:
  assumes "guarded_route r"
  obtains gs z rest where "ro_Method r \<noteq> ''OPTIONS''"
    "ro_Guards r = G_Auth # gs" "G_Auth \<notin> set gs" "G_AuthLimit \<notin> set gs"
    "\<And>v. last (ro_Path r) = Var v \<Longrightarrow> gs \<noteq> []" "\<And>s. last (ro_Path r) = S s \<Longrightarrow> \<not> suffix ''.html'' s"
    "ro_Path r = S ''api'' # S ''v1'' # S z # rest" "z = ''auth'' \<Longrightarrow> rest = [S ''user'']"
proof -
  from assms obtain gs z rest where *: "ro_Guards r = G_Auth # gs" "G_Auth \<notin> set gs" "G_AuthLimit \<notin> set gs"
    "case last (ro_Path r) of S s \<Rightarrow> \<not> suffix ''.html'' s | Var _ \<Rightarrow> gs \<noteq> []"
    "ro_Path r = S ''api'' # S ''v1'' # S z # rest" "z = ''auth'' \<longrightarrow> rest = [S ''user'']"
    unfolding guarded_route_def by blast
  from assms have "ro_Method r \<noteq> ''OPTIONS''" by (auto simp: guarded_route_def)
  with * show ?thesis by (intro that [of gs z rest]) simp_all
qed

lemma oidc_routes_guarded: "list_all guarded_route oidc_api_routes"
  by (simp add: oidc_api_routes_def guarded_route_def rt_def api_def suffix_def)

lemma delete_routes_need_role:
  "list_all (\<lambda>r. ro_Method r = ''DELETE'' \<longrightarrow>
     G_Role [''admin'', ''operator''] \<in> set (ro_Guards r) \<or> G_Role [''admin''] \<in> set (ro_Guards r)) (routes True)"
  by (simp add: routes_def public_routes_def auth_routes_def oidc_api_routes_def rt_def)

text \<open>A path that matches a guarded route skips the authentication only by its \<open>.html\<close> ending.\<close>

lemma match_api:
  assumes "match_segments (S a # S b # S c # rest) segs = Some vars"
  shows "\<exists>xs vars'. segs = a # b # c # xs \<and> match_segments rest xs = Some vars'"
proof -
  from assms obtain ys where "segs = a # ys" "match_segments (S b # S c # rest) ys = Some vars"
    by (cases segs) (auto split: if_splits)
  moreover from this(2) obtain zs where "ys = b # zs" "match_segments (S c # rest) zs = Some vars"
    by (cases ys) (auto split: if_splits)
  moreover from this(2) obtain xs where "zs = c # xs" "match_segments rest xs = Some vars"
    by (cases zs) (auto split: if_splits)
  ultimately show ?thesis by blast
qed

lemma guarded_skip:
  assumes r: "guarded_route r" and m: "match_segments (ro_Path r) (split_path p) = Some vars"
    and skip: "shouldSkipAuth (CHR ''/'' # p)"
  shows "\<exists>v. last (ro_Path r) = Var v"
proof -
  from r obtain z rest where path: "ro_Path r = S ''api'' # S ''v1'' # S z # rest"
    and z: "z = ''auth'' \<Longrightarrow> rest = [S ''user'']" and html: "\<And>s. last (ro_Path r) = S s \<Longrightarrow> \<not> suffix ''.html'' s"
    by (rule guarded_routeE) blast
  from match_api [OF m [unfolded path]] obtain segs vars'
    where segs: "split_path p = ''api'' # ''v1'' # z # segs" "match_segments rest segs = Some vars'" by blast
  have "x = ''user''" if "split_path p = ''api'' # ''v1'' # ''auth'' # x # xs" for x xs
    using that segs z by (auto split: if_splits)
  with skipped_segments [OF skip] segs(1) have "suffix ''.html'' (last (split_path p))" by fastforce
  with match_segments_last [OF m] path html show ?thesis by (cases "last (ro_Path r)") auto
qed

lemma nobody_without_roles:
  assumes "db_ok d" "\<forall>u \<in> set (t_users d). u_ID u \<noteq> ''''" "gs \<noteq> []" "G_Auth \<notin> set gs" "G_AuthLimit \<notin> set gs"
  shows "\<not> list_all (guard_holds d i '''' []) gs"
proof -
  have "\<not> may_access d '''' c" for c
    using assms(1,2) unfolding db_ok_def refs_ok_def references_def may_access_def by metis
  moreover from assms(3) obtain g gs' where "gs = g # gs'" by (cases gs) auto
  ultimately show ?thesis using assms(4,5) by (cases g) (auto simp: has_admin_def)
qed

lemma path_params_fields [simp]:
  "rq_Path (path_params vars rq) = rq_Path rq" "hr_Method (path_params vars rq) = hr_Method rq"
  "rq_Cookie (path_params vars rq) = rq_Cookie rq" "rq_Authorization (path_params vars rq) = rq_Authorization rq"
  by (simp_all add: path_params_def)

lemma path_params_session [simp]:
  "getToken (path_params vars rq) c = getToken rq c" "valid_session svc d (path_params vars rq) s = valid_session svc d rq s"
  unfolding valid_session_def getToken_def path_params_fields by (rule refl)+

lemma empty_context_user: "context_user empty_context = ''''" "context_roles empty_context = []"
  by (simp_all add: context_user_def context_roles_def empty_context_def)

text \<open>A handler behind a guarded route runs only for a session that satisfies the route's guards.\<close>

lemma guards_session:
  assumes "guarded_route r" "match_segments (ro_Path r) (split_path p) = Some vars" "rq_Path rq = CHR ''/'' # p"
    and "db_ok (w_db w)" "\<forall>u \<in> set (t_users (w_db w)). u_ID u \<noteq> ''''"
    and "run_state (run_guards rr rq (ro_Guards r) empty_context) w = (Next ctx, w')"
  shows "\<exists>s. valid_session (ro_oidc rr) (w_db w) rq s \<and>
    list_all (guard_holds (w_db w) (rq_ID rq) (se_UserID s) (se_Roles s)) (ro_Guards r)"
proof -
  from assms(1) obtain gs where gs: "ro_Guards r = G_Auth # gs" "G_Auth \<notin> set gs" "G_AuthLimit \<notin> set gs"
    and var: "\<And>v. last (ro_Path r) = Var v \<Longrightarrow> gs \<noteq> []"
    by (rule guarded_routeE) blast
  from assms(6) gs(1) obtain c w1
    where mid: "run_state (run_guard rr rq G_Auth empty_context) w = (Next c, w1)"
    and rest: "run_state (run_guards rr rq gs c) w1 = (Next ctx, w')"
    by (auto simp: run_simps split: prod.splits outcome.splits)
  from run_guards_Next [OF rest gs(2)] run_guard_db [OF mid]
  have holds: "list_all (guard_holds (w_db w) (rq_ID rq) (context_user c) (context_roles c)) gs" by simp
  from Middleware_Next [of "ro_oidc rr" rq empty_context w c w1] mid
  consider "shouldSkipAuth (rq_Path rq)" "c = empty_context"
    | s where "valid_session (ro_oidc rr) (w_db w) rq s" "context_user c = se_UserID s" "context_roles c = se_Roles s"
    by (auto simp: run_guard_def)
  then show ?thesis
  proof cases
    case 1
    with guarded_skip [OF assms(1,2)] assms(3) var have "gs \<noteq> []" by auto
    with nobody_without_roles [OF assms(4,5) _ gs(2,3)] holds 1(2) show ?thesis by (simp add: empty_context_user)
  qed (use holds gs(1) in auto)
qed

lemma run_guard_Abort:
  "run_state (run_guard rr rq g ctx) w = (Abort s m, w') \<Longrightarrow> 400 \<le> s"
  by (cases g) (auto simp: run_guard_def Middleware_def RequireRole_def RequireConfigAccess_def RequireBackendConfigAccess_def
      Let_def run_simps split: if_splits option.splits sum.splits prod.splits)

lemma run_guards_Abort: "run_state (run_guards rr rq gs ctx) w = (Abort s m, w') \<Longrightarrow> 400 \<le> s"
proof (induction gs arbitrary: ctx w)
  case (Cons g gs)
  then show ?case by (auto simp: run_simps split: prod.splits outcome.splits dest: run_guard_Abort)
qed (simp add: run_simps)

lemma serve_route_success:
  assumes "run_state (serve_route rr rq b r) w = ((resp, cs), w')" "status_of resp < 400"
  shows "\<exists>ctx w1. run_state (run_guards rr rq (ro_Guards r) empty_context) w = (Next ctx, w1)"
proof -
  obtain g w1 where g: "run_state (run_guards rr rq (ro_Guards r) empty_context) w = (g, w1)" by fastforce
  with assms run_guards_Abort show ?thesis by (cases g) (fastforce simp: serve_route_def run_simps)+
qed

lemma serve_success:
  assumes "ha_oidc (ro_handlers rr)" "run_state (serve rr rq b) w = ((resp, cs), w')" "status_of resp < 400"
    and "find_route (routes True) (hr_Method rq) (split_path p) = Some (r, vars)" "rq_Path rq = CHR ''/'' # p"
    and "guarded_route r" "db_ok (w_db w)" "\<forall>u \<in> set (t_users (w_db w)). u_ID u \<noteq> ''''"
  shows "\<exists>s. valid_session (ro_oidc rr) (w_db w) rq s \<and>
    list_all (guard_holds (w_db w) (rq_ID (path_params vars rq)) (se_UserID s) (se_Roles s)) (ro_Guards r)"
proof -
  from find_route_Some [OF assms(4)] have m: "match_segments (ro_Path r) (split_path p) = Some vars"
    and "ro_Method r = hr_Method rq" by auto
  with assms(6) have "hr_Method rq \<noteq> ''OPTIONS''" by (metis guarded_routeE)
  then obtain hs where cors: "CORS rq = Cors_Next hs" by (auto simp: CORS_def Let_def)
  obtain allowed w1 where lim: "run_state (limit_global (hr_ClientIP rq)) w = (allowed, w1)" by fastforce
  with keeps_run [OF keeps_limits(2) [where P = "\<lambda>d. d = w_db w"]] have db: "w_db w1 = w_db w" by blast
  from assms(1,2,3,4,5) cors lim
  have "run_state (serve_route rr (path_params vars rq) (MaxBodySize 1048576 b) r) w1 = ((resp, cs), w')"
    by (cases allowed) (auto simp: serve_def run_simps)
  from serve_route_success [OF this assms(3)] obtain ctx w2
    where "run_state (run_guards rr (path_params vars rq) (ro_Guards r) empty_context) w1 = (Next ctx, w2)" by blast
  from guards_session [OF assms(6) m _ _ _ this] assms(5,7,8) db show ?thesis by simp
qed

text \<open>
  C15: In the OIDC mode no API request is answered without an accepted session: when a request that
  the router matches to one of the protected routes gets an answer that is no error, its token parses
  to a session that is not revoked, and the session's user meets every guard of the route: one of
  the roles it asks for, and access to the configuration in the path or of the backend in the path.
  The exceptions the middleware makes for some paths, such as those that end in \<open>.html\<close>, open no way
  around. No user may have the empty ID, which the store never gives.
\<close>

theorem api_requires_session:
  assumes "ha_oidc (ro_handlers rr)" "run_state (serve rr rq b) w = ((resp, cs), w')" "status_of resp < 400"
    and "find_route (routes True) (hr_Method rq) (split_path p) = Some (r, vars)" "rq_Path rq = CHR ''/'' # p"
    and "r \<in> set oidc_api_routes" "db_ok (w_db w)" "\<forall>u \<in> set (t_users (w_db w)). u_ID u \<noteq> ''''"
  shows "\<exists>s. valid_session (ro_oidc rr) (w_db w) rq s \<and>
    list_all (guard_holds (w_db w) (rq_ID (path_params vars rq)) (se_UserID s) (se_Roles s)) (ro_Guards r)"
  using serve_success [OF assms(1-5) _ assms(7,8)] oidc_routes_guarded assms(6) by (simp add: list_all_iff)

text \<open>
  C30: In the OIDC mode only admins and operators delete: every DELETE request that the router
  answers without an error comes with an accepted session that has the role of an admin or of an
  operator (on a database that satisfies the schema and has no user with an empty ID).
\<close>

theorem deletes_need_operator:
  assumes "ha_oidc (ro_handlers rr)" "run_state (serve rr rq b) w = ((resp, cs), w')" "status_of resp < 400"
    and "find_route (routes True) ''DELETE'' (split_path p) = Some (r, vars)" "rq_Path rq = CHR ''/'' # p"
    and "hr_Method rq = ''DELETE''" "db_ok (w_db w)" "\<forall>u \<in> set (t_users (w_db w)). u_ID u \<noteq> ''''"
  shows "\<exists>s. valid_session (ro_oidc rr) (w_db w) rq s \<and> {''admin'', ''operator''} \<inter> set (se_Roles s) \<noteq> {}"
proof -
  from find_route_Some [OF assms(4)] have r: "r \<in> set (routes True)" "ro_Method r = ''DELETE''" by auto
  then have "r \<in> set oidc_api_routes" by (auto simp: routes_def public_routes_def auth_routes_def rt_def)
  with oidc_routes_guarded have "guarded_route r" by (simp add: list_all_iff)
  with serve_success [OF assms(1-3) _ assms(5) _ assms(7,8)] assms(4,6) obtain s
    where s: "valid_session (ro_oidc rr) (w_db w) rq s"
      "list_all (guard_holds (w_db w) (rq_ID (path_params vars rq)) (se_UserID s) (se_Roles s)) (ro_Guards r)"
    by metis
  from delete_routes_need_role r
  have "G_Role [''admin'', ''operator''] \<in> set (ro_Guards r) \<or> G_Role [''admin''] \<in> set (ro_Guards r)"
    by (simp add: list_all_iff)
  with s(2) have "{''admin'', ''operator''} \<inter> set (se_Roles s) \<noteq> {}"
    unfolding list_all_iff by fastforce
  with s(1) show ?thesis by blast
qed

lemma logout_route: "find_route (routes True) ''POST'' (split_path ''api/v1/auth/logout'') =
    Some (rt ''POST'' (api [S ''auth'', S ''logout'']) [G_AuthLimit] E_Logout, [])"
  by (simp add: routes_def public_routes_def auth_routes_def rt_def api_def)

lemma keeps_H_Logout_empty: "keeps (\<lambda>w. P (w_db w)) (H_Logout svc rq empty_context)"
  by (simp add: H_Logout_def SessionFromContext_def empty_context_def Let_def keep_intros keeps_def run_simps)

abbreviation logout :: route where
  "logout \<equiv> rt ''POST'' (api [S ''auth'', S ''logout'']) [G_AuthLimit] E_Logout"

lemma serve_logout:
  assumes "P (w_db w)"
  shows "P (w_db (snd (run_state (serve_route rr rq b logout) w)))"
proof -
  obtain g w1 where g: "run_state (run_guards rr rq [G_AuthLimit] empty_context) w = (g, w1)" by fastforce
  with keeps_run [OF keeps_run_guards [where P = P] assms] have "P (w_db w1)" by blast
  moreover have "g = Next ctx \<Longrightarrow> ctx = empty_context" for ctx
    using run_guards_Next [of rr rq "[G_AuthLimit]" empty_context w ctx w1] g by simp
  ultimately show ?thesis
    using keepsD [OF keeps_H_Logout_empty, of P w1] g
    by (cases g) (auto simp: serve_route_def rt_def run_bind run_return simp del: run_guards.simps)
qed

lemma keeps_logout_route: "keeps (\<lambda>w. P (w_db w)) (serve_route rr rq b logout)"
  by (rule keepsI) (rule serve_logout)

text \<open>
  C39: Logging out revokes nothing: the logout route is registered without the authentication
  middleware, so its handler never sees a session, and whatever the request and the token it
  carries, the whole database stays as it is; a token that was stolen stays valid until it expires.
\<close>

theorem logout_revokes_nothing:
  assumes "ha_oidc (ro_handlers rr)" "hr_Method rq = ''POST''" "rq_Path rq = ''/api/v1/auth/logout''"
  shows "w_db (exec (serve rr rq b) w) = w_db w"
proof -
  have route: "find_route (routes (ha_oidc (ro_handlers rr))) (hr_Method rq) (split_path (drop 1 (rq_Path rq))) = Some (logout, [])"
    using logout_route assms by simp
  have "keeps (\<lambda>v. w_db v = w_db w) (serve rr rq b)"
    unfolding serve_def route option.case prod.case
    by (cases "CORS rq") (auto intro!: keep_intros keeps_logout_route)
  then show ?thesis unfolding keeps_def exec_def by blast
qed

subsection \<open>An example: an admin deletes a configuration\<close>

definition ex_handlers :: handlers where
  "ex_handlers = \<lparr>ha_oidc = True, ha_reconciler = True, ha_enc = None, ha_nonce = Inr '''', ha_isIP = (\<lambda>_. True),
     ha_parseTime = (\<lambda>_. None)\<rparr>"

definition ex_oidc :: oidc_service where
  "ex_oidc = \<lparr>os_jwt = plain_jwt, os_jwtCfg = ex_jwt_config, os_RolesClaim = ''roles'', os_DefaultRole = ''viewer'',
     os_Random = (\<lambda>_. Inr ''r''), os_sha256 = (\<lambda>s. s), os_AuthCodeURL = (\<lambda>st n c. st), os_Exchange = (\<lambda>_ _. Inl (Driver ''down'')),
     os_Verify = (\<lambda>_. Inl (Driver ''down'')), os_EndSessionURL = '''', os_LogoutURL = (\<lambda>_ _. None), os_MapOrder = (\<lambda>m. m)\<rparr>"

definition ex_router :: router where
  "ex_router = \<lparr>ro_handlers = ex_handlers, ro_oidc = ex_oidc, ro_engine = NewEngine 1, ro_frontend = (\<lambda>_. Error 404 '''')\<rparr>"

definition ex_admin_token :: string where
  "ex_admin_token = enc_str ''k'' @ enc_list enc_claim (session_claims ''j1'' ((ex_user ''bob'')\<lparr>u_Roles := [ex_role ''admin'']\<rparr>) 0 (60 * Second))"

definition ex_admin_session :: Session where
  "ex_admin_session = \<lparr>se_JTI = ''j1'', se_UserID = ''bob'', se_Email = '''', se_Roles = [''admin''], se_ExpiresAt = 60 * Second\<rparr>"

definition ex_delete_request :: http_request where
  "ex_delete_request = \<lparr>rq_Path = ''/api/v1/configs/c'', rq_Cookie = (\<lambda>_. None), rq_Authorization = ''Bearer '' @ ex_admin_token,
     rq_ID = '''', hr_Method = ''DELETE'', hr_Host = ''gslb'', hr_Origin = '''', hr_ClientIP = ''192.0.2.1'', hr_UserAgent = ''curl'',
     hr_Query = (\<lambda>_. None), hr_Param = (\<lambda>_. '''')\<rparr>"

definition ex_bodies :: bodies where
  "ex_bodies = \<lparr>bo_length = 0, bo_Config = Undecodable ''EOF'', bo_ConfigUpdate = Undecodable ''EOF'', bo_Roles = Undecodable ''EOF'', bo_Provider = Undecodable ''EOF'',
     bo_Backend = Undecodable ''EOF'', bo_BackendUpdate = Undecodable ''EOF'', bo_Check = Undecodable ''EOF'',
     bo_RoleID = Undecodable ''EOF''\<rparr>"

definition ex_router_world :: router_world where
  "ex_router_world = \<lparr>w_db = ex_access_db, w_now = (\<lambda>n. int n + 5), w_now_ix = 0, w_uuid = (\<lambda>n. ''u''),
     w_uuid_ix = 0, w_fault = (\<lambda>_. None), w_stmt_ix = 0, hw_triggered = [], rw_global = NewRateLimiter 100 Minute,
     rw_auth = NewRateLimiter 10 Minute\<rparr>"

lemma ex_admin_parses: "unix now < 60 \<Longrightarrow> ParseSession plain_jwt ex_jwt_config now ex_admin_token = Some (Inr ex_admin_session)"
  using ParseSession_session_claims [OF plain_jwt_law, of ex_jwt_config "''j1''" "(ex_user ''bob'')\<lparr>u_Roles := [ex_role ''admin'']\<rparr>"
      0 "60 * Second" ex_admin_token now]
  by (simp add: plain_jwt_def ex_jwt_config_def ex_admin_token_def ex_user_def ex_role_def ex_admin_session_def unix_def
      Second_def Millisecond_def)

lemma ex_admin_token_not_empty: "ex_admin_token \<noteq> ''''"
  by (simp add: ex_admin_token_def enc_str_def enc_nat_def)

lemma ex_admin_valid:
  "w_fault w (w_stmt_ix w) = None \<Longrightarrow> w_db w = ex_access_db \<Longrightarrow>
   run_state (ValidateSession ex_admin_session) w = (Inr (), w\<lparr>w_stmt_ix := Suc (w_stmt_ix w)\<rparr>)"
  by (simp add: ValidateSession_def GetSessionRecord_def run_simps run_row_method select_session_def ex_admin_session_def ex_access_defs)

lemma ex_delete_route: "find_route (routes True) ''DELETE'' (split_path ''api/v1/configs/c'') =
    Some (rt ''DELETE'' (config_path []) [G_Auth, G_Role [''admin'', ''operator''], G_Config] E_DeleteConfig, [(''id'', ''c'')])"
  by (simp add: routes_def public_routes_def auth_routes_def oidc_api_routes_def rt_def api_def)

lemma ex_delete_not_skipped: "\<not> shouldSkipAuth ''/api/v1/configs/c''"
  by (simp add: shouldSkipAuth_def) code_simp

definition ex_admin_context :: gin_context where
  "ex_admin_context = \<lparr>cx_session = Some ex_admin_session, cx_userID = Some ''bob'', cx_userRoles = Some [''admin'']\<rparr>"

lemma ex_delete_getToken: "getToken ex_delete_request c = ex_admin_token"
  by (simp add: getToken_def ex_delete_request_def)

lemma ex_admin_session_fields: "se_UserID ex_admin_session = ''bob''" "se_Roles ex_admin_session = [''admin'']"
  by (simp_all add: ex_admin_session_def)

lemma ex_middleware:
  assumes "unix (w_now w (w_now_ix w)) < 60" "healthy_driver w" "w_db w = ex_access_db"
  shows "run_state (Middleware plain_jwt ex_jwt_config (path_params vars ex_delete_request) empty_context) w =
    (Next ex_admin_context, w\<lparr>w_now_ix := Suc (w_now_ix w), w_stmt_ix := Suc (w_stmt_ix w)\<rparr>)"
proof -
  have "\<not> shouldSkipAuth (rq_Path (path_params vars ex_delete_request))"
    using ex_delete_not_skipped by (simp add: ex_delete_request_def)
  with assms ex_admin_token_not_empty show ?thesis
    by (simp add: Middleware_def Let_def ex_delete_getToken run_simps ex_admin_parses ex_admin_valid ex_admin_session_fields
        ex_admin_context_def empty_context_def)
qed

lemma ex_admin_guards:
  "RequireRole [''admin'', ''operator''] ex_admin_context = Next ex_admin_context" "is_admin ex_admin_context"
  by (simp_all add: RequireRole_def is_admin_def ex_admin_context_def)

lemma ex_guards:
  "unix (w_now w (w_now_ix w)) < 60 \<Longrightarrow> healthy_driver w \<Longrightarrow> w_db w = ex_access_db \<Longrightarrow>
   run_state (run_guards ex_router (path_params vars ex_delete_request)
     [G_Auth, G_Role [''admin'', ''operator''], G_Config] empty_context) w =
   (Next ex_admin_context, w\<lparr>w_now_ix := Suc (w_now_ix w), w_stmt_ix := Suc (w_stmt_ix w)\<rparr>)"
  by (simp add: run_guard_def ex_router_def ex_oidc_def ex_middleware run_simps ex_admin_guards RequireConfigAccess_def)

lemma ex_delete_handler:
  "healthy_driver w \<Longrightarrow> w_db w = ex_access_db \<Longrightarrow> rq_ID rq = ''c'' \<Longrightarrow>
   fst (run_state (H_DeleteConfig rq ctx) w) = No_Content"
  by (simp add: H_DeleteConfig_def with_config_def run_simps GetConfig_def run_row_method select_config_def DeleteConfig_def
      run_affect_method delete_config_def Let_def ex_access_defs logAudit_def CreateAuditLog_def row_count_def case_prod_unfold)

lemma ex_limit:
  "run_state (limit_global ip) ex_router_world =
   (True, ex_router_world\<lparr>w_now_ix := 1, rw_global := snd (Allow 5 ip (NewRateLimiter 100 Minute))\<rparr>)"
  by (simp add: limit_global_def run_simps ex_router_world_def Allow_def NewRateLimiter_def Let_def)

lemma ex_serve_route:
  "unix (w_now w (w_now_ix w)) < 60 \<Longrightarrow> healthy_driver w \<Longrightarrow> w_db w = ex_access_db \<Longrightarrow>
   \<exists>w'. run_state (serve_route ex_router (path_params [(''id'', ''c'')] ex_delete_request) b
     (rt ''DELETE'' (config_path []) [G_Auth, G_Role [''admin'', ''operator''], G_Config] E_DeleteConfig)) w = ((No_Content, []), w')"
proof -
  assume w: "unix (w_now w (w_now_ix w)) < 60" "healthy_driver w" "w_db w = ex_access_db"
  let ?rq = "path_params [(''id'', ''c'')] ex_delete_request"
  let ?w = "w\<lparr>w_now_ix := Suc (w_now_ix w), w_stmt_ix := Suc (w_stmt_ix w)\<rparr>"
  have "fst (run_state (H_DeleteConfig ?rq ex_admin_context) ?w) = No_Content"
    using w by (intro ex_delete_handler) (simp_all add: path_params_def)
  then obtain w' where "run_state (H_DeleteConfig ?rq ex_admin_context) ?w = (No_Content, w')" by (metis prod.collapse)
  then show ?thesis
    by (simp add: serve_route_def run_bind run_return ex_guards [OF w] rt_def plain_def del: run_guards.simps)
qed

lemma ex_delete: "\<exists>w'. run_state (serve ex_router ex_delete_request ex_bodies) ex_router_world = ((No_Content, []), w')"
proof -
  let ?w = "ex_router_world\<lparr>w_now_ix := 1, rw_global := snd (Allow 5 ''192.0.2.1'' (NewRateLimiter 100 Minute))\<rparr>"
  have "CORS ex_delete_request = Cors_Next (snd (case CORS ex_delete_request of Cors_Next hs \<Rightarrow> (True, hs) | Cors_Abort _ hs \<Rightarrow> (False, hs)))"
    by (simp add: CORS_def ex_delete_request_def Let_def)
  then obtain hs where cors: "CORS ex_delete_request = Cors_Next hs" by blast
  have route: "find_route (routes (ha_oidc (ro_handlers ex_router))) (hr_Method ex_delete_request)
      (split_path (drop 1 (rq_Path ex_delete_request))) =
    Some (rt ''DELETE'' (config_path []) [G_Auth, G_Role [''admin'', ''operator''], G_Config] E_DeleteConfig, [(''id'', ''c'')])"
    using ex_delete_route by (simp add: ex_router_def ex_handlers_def ex_delete_request_def)
  have "unix (w_now ?w (w_now_ix ?w)) < 60" "healthy_driver ?w" "w_db ?w = ex_access_db"
    by (simp_all add: ex_router_world_def healthy_driver_def unix_def time_units)
  from ex_serve_route [OF this] show ?thesis
    unfolding serve_def route option.case prod.case cors cors_outcome.case
    by (simp add: run_bind ex_limit) (simp add: ex_delete_request_def ex_limit)
qed

lemma ex_access_ok: "db_ok ex_access_db" "\<forall>u \<in> set (t_users ex_access_db). u_ID u \<noteq> ''''"
  by (simp_all add: db_ok_def keys_ok_def refs_ok_def unique_def references_def ex_access_defs)

lemma ex_delete_path: "rq_Path ex_delete_request = CHR ''/'' # ''api/v1/configs/c''" "hr_Method ex_delete_request = ''DELETE''"
  "ha_oidc (ro_handlers ex_router)" "w_db ex_router_world = ex_access_db"
  by (simp_all add: ex_delete_request_def ex_router_def ex_handlers_def ex_router_world_def)

theorem api_requires_session_witness:
  "\<exists>s. valid_session ex_oidc ex_access_db ex_delete_request s \<and> {''admin'', ''operator''} \<inter> set (se_Roles s) \<noteq> {}"
proof -
  obtain w' where run: "run_state (serve ex_router ex_delete_request ex_bodies) ex_router_world = ((No_Content, []), w')"
    using ex_delete by blast
  let ?r = "rt ''DELETE'' (config_path []) [G_Auth, G_Role [''admin'', ''operator''], G_Config] E_DeleteConfig"
  have r: "?r \<in> set oidc_api_routes" by (simp add: oidc_api_routes_def)
  have "find_route (routes True) (hr_Method ex_delete_request) (split_path ''api/v1/configs/c'') = Some (?r, [(''id'', ''c'')])"
    by (simp only: ex_delete_path ex_delete_route)
  from api_requires_session [OF ex_delete_path(3) run _ this ex_delete_path(1) r]
  show ?thesis by (auto simp: ex_delete_path ex_access_ok rt_def ex_router_def)
qed

theorem deletes_need_operator_witness:
  "\<exists>s. valid_session ex_oidc ex_access_db ex_delete_request s \<and> {''admin'', ''operator''} \<inter> set (se_Roles s) \<noteq> {}"
proof -
  obtain w' where run: "run_state (serve ex_router ex_delete_request ex_bodies) ex_router_world = ((No_Content, []), w')"
    using ex_delete by blast
  from deletes_need_operator [OF ex_delete_path(3) run _ ex_delete_route ex_delete_path(1,2)]
  show ?thesis by (auto simp: ex_delete_path ex_access_ok ex_router_def)
qed

theorem logout_revokes_nothing_witness:
  "w_db (exec (serve ex_router (ex_delete_request\<lparr>rq_Path := ''/api/v1/auth/logout'', hr_Method := ''POST''\<rparr>) ex_bodies) ex_router_world)
   = ex_access_db"
  using logout_revokes_nothing [of ex_router "ex_delete_request\<lparr>rq_Path := ''/api/v1/auth/logout'', hr_Method := ''POST''\<rparr>"
      ex_bodies ex_router_world]
  by (simp add: ex_delete_path)

end
