(* ===== verification/Check_Scheduler.thy ===== *)
theory Check_Scheduler
  imports Engine "HOL-Library.AList"
begin

section \<open>The check scheduler (internal/health/engine.go, CheckScheduler)\<close>

text \<open>
  A set of engines with a table of registered checks, which every tick submits to the engines in
  turn. Go's map is an association list with distinct keys, its iteration order the argument \<open>ord\<close>.
  The merged result channel is a step relation: one goroutine per engine reads a result and hands
  it on, unless the scheduler was stopped.
\<close>

record CheckScheduler =
  cs_engines :: "Engine list"
  cs_requests :: "(string \<times> CheckRequest) list"
  cs_stopClosed :: bool

definition NewCheckScheduler :: "int \<Rightarrow> int \<Rightarrow> CheckScheduler" where
  "NewCheckScheduler numEngines workersPerEngine =
     (let numEngines = (if numEngines \<le> 0 then 1 else numEngines);
          workersPerEngine = (if workersPerEngine \<le> 0 then 4 else workersPerEngine)
      in \<lparr>cs_engines = replicate (nat numEngines) (NewEngine workersPerEngine), cs_requests = [],
          cs_stopClosed = False\<rparr>)"

definition CheckScheduler_Start :: "CheckScheduler \<Rightarrow> CheckScheduler" where
  "CheckScheduler_Start s = s\<lparr>cs_engines := map Engine_Start (cs_engines s)\<rparr>"

text \<open>None is Go's panic: closing a channel that is closed.\<close>

definition CheckScheduler_Stop :: "CheckScheduler \<Rightarrow> CheckScheduler option" where
  "CheckScheduler_Stop s =
     (if cs_stopClosed s then None
      else Some (s\<lparr>cs_stopClosed := True, cs_engines := map Engine_Stop (cs_engines s)\<rparr>))"

definition Register :: "string \<Rightarrow> CheckRequest \<Rightarrow> CheckScheduler \<Rightarrow> CheckScheduler" where
  "Register backendID req s =
     (let req = req\<lparr>cr_BackendID := backendID\<rparr>
      in s\<lparr>cs_requests := AList.update backendID req (cs_requests s)\<rparr>)"

definition Unregister :: "string \<Rightarrow> CheckScheduler \<Rightarrow> CheckScheduler" where
  "Unregister backendID s = s\<lparr>cs_requests := AList.delete backendID (cs_requests s)\<rparr>"

text \<open>The calls of \<open>Submit\<close> in order: engine, request and outcome. \<open>cancelled i\<close> is as for \<open>Submit\<close>.\<close>

primrec submit_loop :: "(nat \<Rightarrow> bool) \<Rightarrow> Engine list \<Rightarrow> nat \<Rightarrow> CheckRequest list \<Rightarrow>
    (nat \<times> CheckRequest \<times> unit result) list" where
  "submit_loop cancelled engines i [] = []"
| "submit_loop cancelled engines i (req # reqs) =
     (let engineIdx = i mod length engines
      in (engineIdx, req, Submit (cancelled i) (engines ! engineIdx) req) #
         submit_loop cancelled engines (i + 1) reqs)"

definition submitScheduledChecks :: "((string \<times> CheckRequest) list \<Rightarrow> (string \<times> CheckRequest) list) \<Rightarrow> (nat \<Rightarrow> bool) \<Rightarrow>
    CheckScheduler \<Rightarrow> (nat \<times> CheckRequest \<times> unit result) list" where
  "submitScheduledChecks ord cancelled s =
     (let requests = map snd (ord (cs_requests s))
      in if length requests = 0 then [] else submit_loop cancelled (cs_engines s) 0 requests)"

definition GetEngine :: "int \<Rightarrow> CheckScheduler \<Rightarrow> Engine option" where
  "GetEngine idx s =
     (if idx < 0 \<or> idx \<ge> int (length (cs_engines s)) then None else Some (cs_engines s ! nat idx))"

definition EngineCount :: "CheckScheduler \<Rightarrow> nat" where
  "EngineCount s = length (cs_engines s)"

record EngineStats =
  es_WorkerCount :: nat
  es_Running :: bool

definition Engine_Stats :: "Engine \<Rightarrow> EngineStats" where
  "Engine_Stats e = \<lparr>es_WorkerCount = en_workerCount e, es_Running = en_running e\<rparr>"

subsection \<open>What a tick submits\<close>

datatype registration = Reg string CheckRequest | Unreg string

primrec registered :: "registration list \<Rightarrow> (string \<rightharpoonup> CheckRequest)" where
  "registered [] = Map.empty"
| "registered (x # xs) =
     (case x of Reg i req \<Rightarrow> (registered xs)(i \<mapsto> req\<lparr>cr_BackendID := i\<rparr>) | Unreg i \<Rightarrow> (registered xs)(i := None))"

text \<open>The calls of Register and Unregister, latest first.\<close>

primrec register_all :: "registration list \<Rightarrow> CheckScheduler \<Rightarrow> CheckScheduler" where
  "register_all [] s = s"
| "register_all (x # xs) s =
     (case x of Reg i req \<Rightarrow> Register i req (register_all xs s) | Unreg i \<Rightarrow> Unregister i (register_all xs s))"

text \<open>
  The loop of \<open>Run\<close>: what it receives, with the registrations other goroutines make in between, and
  the calls of \<open>Submit\<close> it makes.
\<close>

datatype run_event = Run_Tick | Run_Stop | Run_Change registration

fun CheckScheduler_Run :: "((string \<times> CheckRequest) list \<Rightarrow> (string \<times> CheckRequest) list) \<Rightarrow> (nat \<Rightarrow> bool) \<Rightarrow> run_event list \<Rightarrow>
    CheckScheduler \<Rightarrow> (nat \<times> CheckRequest \<times> unit result) list" where
  "CheckScheduler_Run ord cancelled [] s = []"
| "CheckScheduler_Run ord cancelled (Run_Stop # _) s = []"
| "CheckScheduler_Run ord cancelled (Run_Tick # evs) s =
     submitScheduledChecks ord cancelled s @ CheckScheduler_Run ord cancelled evs s"
| "CheckScheduler_Run ord cancelled (Run_Change x # evs) s = CheckScheduler_Run ord cancelled evs (register_all [x] s)"

lemma register_all_requests:
  assumes "cs_requests s = []"
  shows "map_of (cs_requests (register_all xs s)) = registered xs \<and>
    distinct (map fst (cs_requests (register_all xs s))) \<and> cs_engines (register_all xs s) = cs_engines s"
proof (induction xs)
  case (Cons x xs)
  then show ?case
    by (cases x) (auto simp: Register_def Unregister_def Let_def update_conv' delete_conv' distinct_update distinct_delete)
qed (use assms in simp)

lemma registered_backend: "registered xs i = Some req \<Longrightarrow> cr_BackendID req = i"
  by (induction xs) (auto split: registration.splits if_splits)

lemma submit_loop_conv:
  "map fst (submit_loop c es i reqs) = map (\<lambda>j. j mod length es) [i..<i + length reqs]"
proof (induction reqs arbitrary: i)
  case (Cons req reqs)
  have "[i..<i + length (req # reqs)] = i # [Suc i..<Suc i + length reqs]" by (simp add: upt_rec)
  with Cons show ?case by (simp add: Let_def)
qed simp

lemma submit_loop_requests: "map (\<lambda>(_, req, _). req) (submit_loop c es i reqs) = reqs"
  by (induction reqs arbitrary: i) (simp_all add: Let_def)

text \<open>How many of the first \<open>n\<close> numbers have the residue \<open>j\<close>.\<close>

lemma count_residue:
  assumes "j < m"
  shows "length (filter (\<lambda>i. i mod m = j) [0..<n]) = (n + (m - 1 - j)) div m"
proof (induction n)
  case 0
  with assms show ?case by simp
next
  case (Suc n)
  have "(Suc n + (m - 1 - j)) div m = (n + (m - 1 - j)) div m + (if n mod m = j then 1 else 0)"
  proof -
    have m: "0 < m" using assms by simp
    have n: "n = n div m * m + n mod m" by simp
    have lt: "n mod m < m" using m by simp
    have div: "(x + k * m) div m = k + x div m" for x k using m by simp
    have half: "x div m = (if x < m then 0 else 1)" if "x < 2 * m" for x
      using that by (cases "x < m") (auto simp: div_nat_eqI)
    have "(n + (m - 1 - j)) div m = n div m + (n mod m + (m - 1 - j)) div m"
      by (subst n) (metis div add.commute add.left_commute)
    moreover have "(Suc n + (m - 1 - j)) div m = n div m + (n mod m + (m - j)) div m"
    proof -
      have "Suc n + (m - 1 - j) = n mod m + (m - j) + n div m * m" using assms n by linarith
      then show ?thesis by (simp only: div)
    qed
    moreover have "(n mod m + (m - 1 - j)) div m = (if j < n mod m then 1 else 0)"
    proof -
      have "n mod m + (m - 1 - j) < 2 * m" "n mod m + (m - 1 - j) < m \<longleftrightarrow> \<not> j < n mod m"
        using lt assms by linarith+
      then show ?thesis by (simp only: half if_not_P if_P split: if_split) auto
    qed
    moreover have "(n mod m + (m - j)) div m = (if j \<le> n mod m then 1 else 0)"
    proof -
      have "n mod m + (m - j) < 2 * m" "n mod m + (m - j) < m \<longleftrightarrow> \<not> j \<le> n mod m"
        using lt assms by linarith+
      then show ?thesis by (simp only: half if_not_P if_P split: if_split) auto
    qed
    ultimately show ?thesis by auto
  qed
  with Suc show ?case by simp
qed


lemma residues_balanced:
  assumes "j < m" "j' < m"
  shows "length (filter (\<lambda>i. i mod m = j) [0..<n]) \<le> length (filter (\<lambda>i. i mod m = j') [0..<n]) + 1"
proof -
  have "(n + (m - 1 - j)) div m \<le> (n + (m - 1 - j') + m) div m"
    using assms by (intro div_le_mono) linarith
  also have "\<dots> = (n + (m - 1 - j')) div m + 1" using assms by (simp only: div_add_self2)
  finally show ?thesis using assms by (simp only: count_residue)
qed

lemma submit_calls: "submitScheduledChecks ord c s = submit_loop c (cs_engines s) 0 (map snd (ord (cs_requests s)))"
  by (simp add: submitScheduledChecks_def Let_def)

lemma submit_reqs: "map (\<lambda>(_, req, _). req) (submitScheduledChecks ord c s) = map snd (ord (cs_requests s))"
  unfolding submit_calls by (rule submit_loop_requests)

lemma submit_indices:
  "map fst (submitScheduledChecks ord c s) = map (\<lambda>j. j mod EngineCount s) [0..<length (ord (cs_requests s))]"
  unfolding submit_calls submit_loop_conv EngineCount_def by simp

lemma submit_count:
  "length (filter (\<lambda>(i, _). i = j) (submitScheduledChecks ord c s)) =
   length (filter (\<lambda>i. i mod EngineCount s = j) [0..<length (ord (cs_requests s))])"
proof -
  have "length (filter (\<lambda>(i, _). i = j) (submitScheduledChecks ord c s))
      = length (filter (\<lambda>i. i = j) (map fst (submitScheduledChecks ord c s)))"
    by (simp add: filter_map comp_def case_prod_beta')
  then show ?thesis unfolding submit_indices by (simp add: filter_map comp_def)
qed

lemma submit_keys:
  assumes "map_of (cs_requests s) = registered xs" "distinct (map fst (cs_requests s))" "mset (ord (cs_requests s)) = mset (cs_requests s)"
  shows "map cr_BackendID (map snd (ord (cs_requests s))) = map fst (ord (cs_requests s))"
proof -
  have "cr_BackendID (snd p) = fst p" if "p \<in> set (ord (cs_requests s))" for p
  proof -
    from that assms(3) have "p \<in> set (cs_requests s)" by (metis mset_eq_setD)
    with assms(1,2) have "registered xs (fst p) = Some (snd p)" by (metis map_of_is_SomeI prod.collapse)
    then show ?thesis by (rule registered_backend)
  qed
  then show ?thesis by simp
qed

text \<open>
  C33: After any history of registrations, a tick submits each registered check exactly once, with
  the backend it was registered for, to an engine that exists, in whatever order Go iterates the
  map; and the numbers of checks any two engines get differ by at most one.
\<close>

theorem check_scheduler_balanced:
  fixes numEngines workersPerEngine :: int and xs :: "registration list"
  defines "s \<equiv> register_all xs (NewCheckScheduler numEngines workersPerEngine)"
  assumes "\<And>ys. mset (ord ys) = mset ys"
  shows "distinct (map (\<lambda>(_, req, _). cr_BackendID req) (submitScheduledChecks ord c s)) \<and>
    set (map (\<lambda>(_, req, _). req) (submitScheduledChecks ord c s)) = ran (registered xs) \<and>
    (\<forall>j < EngineCount s. \<forall>j' < EngineCount s.
      length (filter (\<lambda>(i, _). i = j) (submitScheduledChecks ord c s))
        \<le> length (filter (\<lambda>(i, _). i = j') (submitScheduledChecks ord c s)) + 1) \<and>
    (\<forall>(i, _) \<in> set (submitScheduledChecks ord c s). i < EngineCount s)"
proof -
  let ?calls = "submitScheduledChecks ord c s"
  have "cs_requests (NewCheckScheduler numEngines workersPerEngine) = []"
    "0 < length (cs_engines (NewCheckScheduler numEngines workersPerEngine))"
    by (simp_all add: NewCheckScheduler_def Let_def)
  with register_all_requests [OF this(1), of xs]
  have tab: "map_of (cs_requests s) = registered xs" "distinct (map fst (cs_requests s))"
    and pos: "0 < EngineCount s" by (simp_all add: s_def EngineCount_def)
  have "distinct (map fst (ord (cs_requests s)))"
    using tab(2) assms(2) by (metis mset_eq_imp_distinct_iff mset_map)
  then have "distinct (map cr_BackendID (map (\<lambda>(_, req, _). req) ?calls))"
    unfolding submit_reqs submit_keys [where ord = ord, OF tab assms(2)] .
  then have "distinct (map (\<lambda>(_, req, _). cr_BackendID req) ?calls)"
    by (simp add: comp_def case_prod_beta')
  moreover have "set (map (\<lambda>(_, req, _). req) ?calls) = ran (registered xs)"
    unfolding submit_reqs using tab assms(2) ran_distinct [OF tab(2)] by (metis list.set_map mset_eq_setD)
  moreover have "\<forall>j < EngineCount s. \<forall>j' < EngineCount s. length (filter (\<lambda>(i, _). i = j) ?calls)
      \<le> length (filter (\<lambda>(i, _). i = j') ?calls) + 1"
    unfolding submit_count by (intro allI impI residues_balanced)
  moreover have "\<forall>i \<in> set (map fst ?calls). i < EngineCount s"
    unfolding submit_indices using pos by simp
  then have "\<forall>(i, _) \<in> set ?calls. i < EngineCount s" by auto
  ultimately show ?thesis by simp
qed


definition ex_registrations :: "registration list" where
  "ex_registrations = [Reg ''b'' ex_request, Unreg ''c'', Reg ''c'' ex_request, Reg ''a'' ex_request]"

lemma ex_registered: "ran (registered ex_registrations) = {ex_request\<lparr>cr_BackendID := ''a''\<rparr>, ex_request\<lparr>cr_BackendID := ''b''\<rparr>}"
proof -
  have "registered ex_registrations =
      [''a'' \<mapsto> ex_request\<lparr>cr_BackendID := ''a''\<rparr>, ''b'' \<mapsto> ex_request\<lparr>cr_BackendID := ''b''\<rparr>]"
    by (simp add: ex_registrations_def fun_eq_iff)
  then show ?thesis by (simp add: insert_commute)
qed

theorem check_scheduler_balanced_witness:
  "set (map (\<lambda>(_, req, _). req) (submitScheduledChecks rev (\<lambda>_. False) (register_all ex_registrations (NewCheckScheduler 2 1))))
     = {ex_request\<lparr>cr_BackendID := ''a''\<rparr>, ex_request\<lparr>cr_BackendID := ''b''\<rparr>}"
  using check_scheduler_balanced [of rev "\<lambda>_. False" ex_registrations 2 1] by (simp add: ex_registered)

subsection \<open>The merged results\<close>

datatype forwarder = Reading | Holding CheckResult | Finished

record merge_state =
  ms_results :: "CheckResult list list"
  ms_forwarders :: "forwarder list"
  ms_stopClosed :: bool
  ms_closed :: bool
  ms_delivered :: "CheckResult list"

text \<open>\<open>Results\<close> right after its call, on engines that hold the given results.\<close>

definition Results :: "CheckScheduler \<Rightarrow> merge_state" where
  "Results s = \<lparr>ms_results = map en_resultChan (cs_engines s), ms_forwarders = replicate (length (cs_engines s)) Reading,
     ms_stopClosed = cs_stopClosed s, ms_closed = False, ms_delivered = []\<rparr>"

datatype merge_event = M_Produce nat CheckResult | M_Take nat | M_Deliver CheckResult | M_Quit nat | M_Stop | M_Close

text \<open>
  No statement of the package closes an engine's result channel, so the relation has no such step and
  \<open>range e.Results()\<close> ends only through the \<open>return\<close> of its select; the merged channel is unbuffered and
  closed when all forwarders are done. \<open>M_Stop\<close> is the close of \<open>stopChan\<close> alone: what the engines do
  when they stop is in \<open>Engine\<close>, and shows here only in that nothing more is produced.
\<close>

inductive merge_step :: "merge_state \<Rightarrow> merge_event \<Rightarrow> merge_state \<Rightarrow> bool" where
  produce: "i < length (ms_results m) \<Longrightarrow>
    merge_step m (M_Produce i res) (m\<lparr>ms_results := (ms_results m)[i := ms_results m ! i @ [res]]\<rparr>)"
| take_result: "i < length (ms_forwarders m) \<Longrightarrow> ms_forwarders m ! i = Reading \<Longrightarrow> i < length (ms_results m) \<Longrightarrow>
    ms_results m ! i = res # rest \<Longrightarrow>
    merge_step m (M_Take i)
      (m\<lparr>ms_results := (ms_results m)[i := rest], ms_forwarders := (ms_forwarders m)[i := Holding res]\<rparr>)"
| deliver: "i < length (ms_forwarders m) \<Longrightarrow> ms_forwarders m ! i = Holding res \<Longrightarrow>
    merge_step m (M_Deliver res)
      (m\<lparr>ms_forwarders := (ms_forwarders m)[i := Reading], ms_delivered := ms_delivered m @ [res]\<rparr>)"
| quit: "i < length (ms_forwarders m) \<Longrightarrow> ms_forwarders m ! i = Holding res \<Longrightarrow> ms_stopClosed m \<Longrightarrow>
    merge_step m (M_Quit i) (m\<lparr>ms_forwarders := (ms_forwarders m)[i := Finished]\<rparr>)"
| stopped: "\<not> ms_stopClosed m \<Longrightarrow> merge_step m M_Stop (m\<lparr>ms_stopClosed := True\<rparr>)"
| close_merged: "\<not> ms_closed m \<Longrightarrow> list_all (\<lambda>f. f = Finished) (ms_forwarders m) \<Longrightarrow>
    merge_step m M_Close (m\<lparr>ms_closed := True\<rparr>)"

inductive merge_run :: "merge_state \<Rightarrow> merge_event list \<Rightarrow> merge_state \<Rightarrow> bool" where
  merge_nil: "merge_run m [] m"
| merge_snoc: "merge_run m evs m' \<Longrightarrow> merge_step m' ev m'' \<Longrightarrow> merge_run m (evs @ [ev]) m''"

inductive_simps merge_run_Nil [simp]: "merge_run m [] m'"

definition starved :: "nat \<Rightarrow> merge_state \<Rightarrow> bool" where
  "starved i m = (i < length (ms_forwarders m) \<and> ms_forwarders m ! i = Reading \<and>
     i < length (ms_results m) \<and> ms_results m ! i = [] \<and> \<not> ms_closed m)"

lemma starved_step:
  assumes "merge_step m ev m'" "starved i m" "\<forall>res. ev \<noteq> M_Produce i res"
  shows "starved i m'"
  using assms
proof (cases rule: merge_step.cases)
  case close_merged
  with assms(2) show ?thesis by (auto simp: starved_def list_all_length)
qed (auto simp: starved_def nth_list_update)

lemma starved_run:
  "merge_run m evs m' \<Longrightarrow> starved i m \<Longrightarrow> \<forall>res. M_Produce i res \<notin> set evs \<Longrightarrow> starved i m'"
proof (induction rule: merge_run.induct)
  case (merge_snoc m evs m' ev m'')
  then show ?case using starved_step [of m' ev m'' i] by auto
qed

text \<open>
  C34: The merged channel of a check scheduler is not closed when the scheduler stops: if an engine
  has no result waiting when \<open>Results\<close> is called and produces none, the goroutine that reads from it
  never ends and the channel is never closed, in any continuation, Stop included.
\<close>

theorem merged_results_stay_open:
  assumes "i < EngineCount s" "en_resultChan (cs_engines s ! i) = []"
    and "merge_run (Results s) evs m" "\<forall>res. M_Produce i res \<notin> set evs"
  shows "\<not> ms_closed m"
proof -
  have "starved i (Results s)" using assms(1,2) by (simp add: starved_def Results_def EngineCount_def)
  with starved_run [OF assms(3)] assms(4) show ?thesis by (auto simp: starved_def)
qed

definition ex_merge_scheduler :: CheckScheduler where
  "ex_merge_scheduler = CheckScheduler_Start (NewCheckScheduler 1 1)"

lemma ex_merge_run: "merge_run (Results ex_merge_scheduler) [M_Stop] ((Results ex_merge_scheduler)\<lparr>ms_stopClosed := True\<rparr>)"
  using merge_run.merge_snoc [OF merge_run.merge_nil merge_step.stopped [of "Results ex_merge_scheduler"]]
  by (simp add: Results_def ex_merge_scheduler_def CheckScheduler_Start_def NewCheckScheduler_def Let_def)

theorem merged_results_stay_open_witness:
  "\<not> ms_closed ((Results ex_merge_scheduler)\<lparr>ms_stopClosed := True\<rparr>) \<and> EngineCount ex_merge_scheduler = 1"
  using merged_results_stay_open [OF _ _ ex_merge_run, of 0]
  by (simp add: ex_merge_scheduler_def EngineCount_def CheckScheduler_Start_def NewCheckScheduler_def NewEngine_def
      Engine_Start_def)

end
