(* ===== verification/App_Config.thy ===== *)
theory App_Config
  imports Prelude "HOL-Library.Sublist"
begin

section \<open>Configuration loading (internal/config/config.go)\<close>

text \<open>
  Defaults, a YAML or JSON file over them, environment variables over both, and validation. The
  operating system and the YAML package are the record \<open>os_env\<close>: reading a file, the environment
  (an absent variable reads as the empty string) and decoding bytes over a configuration. Scanning
  an integer and parsing a duration are written out after \<open>fmt\<close> and \<open>time\<close>; the float product that
  \<open>time.ParseDuration\<close> uses for a fraction is a parameter.
\<close>

record OIDCConfig =
  oc_Enabled :: bool
  oc_Issuer :: string
  oc_ClientID :: string
  oc_ClientSecret :: string
  oc_RedirectURL :: string
  oc_Scopes :: "string list"
  oc_RolesClaim :: string
  oc_DefaultRole :: string

record JWTSettings =
  js_Secret :: string
  js_Expiry :: duration
  js_CookieName :: string
  js_CookieSecure :: bool
  js_CookieHTTPOnly :: bool
  js_CookieSameSite :: string

record AppConfig =
  ac_DatabasePath :: string
  ac_ListenAddr :: string
  ac_HealthCheckWorkers :: int
  ac_ReconcileInterval :: duration
  ac_AuditLogRetentionDays :: int
  ac_EncryptionKey :: string
  ac_OIDC :: OIDCConfig
  ac_JWT :: JWTSettings

definition DefaultConfig :: AppConfig where
  "DefaultConfig =
     \<lparr>ac_DatabasePath = ''gslb.db'', ac_ListenAddr = '':8090'', ac_HealthCheckWorkers = 10,
      ac_ReconcileInterval = 30 * Second, ac_AuditLogRetentionDays = 30, ac_EncryptionKey = '''',
      ac_OIDC = \<lparr>oc_Enabled = False, oc_Issuer = '''', oc_ClientID = '''', oc_ClientSecret = '''', oc_RedirectURL = '''',
        oc_Scopes = [''openid'', ''profile'', ''email''], oc_RolesClaim = ''roles'', oc_DefaultRole = ''viewer''\<rparr>,
      ac_JWT = \<lparr>js_Secret = '''', js_Expiry = 24 * Hour, js_CookieName = ''gslb_session'', js_CookieSecure = False,
        js_CookieHTTPOnly = True, js_CookieSameSite = ''Lax''\<rparr>\<rparr>"

subsection \<open>Numbers and durations\<close>

text \<open>
  White space as \<open>fmt\<close> has it, on UTF-8: the bytes of the white-space character a text begins with,
  0 when it begins with none. A line feed is an error while scanning a line.
\<close>

definition space_width :: "string \<Rightarrow> nat" where
  "space_width s =
     (case map of_char s of
        [] \<Rightarrow> 0
      | c # cs \<Rightarrow>
          if c = (32 :: nat) \<or> 9 \<le> c \<and> c \<le> 13 then 1
          else if c = 194 \<and> take 1 cs \<in> {[133], [160]} then 2
          else if c # take 2 cs \<in> {[225, 154, 128], [226, 129, 159], [227, 128, 128]} then 3
          else if c = 226 \<and> take 1 cs = [128] \<and> take 1 (drop 1 cs) \<in> {[168], [169], [175]} \<union> (\<lambda>x. [x]) ` {128..138} then 3
          else 0)"

function skip_space :: "string \<Rightarrow> string option" where
  "skip_space s =
     (if take 1 s = [CHR 0x0A] then None
      else if space_width s = 0 then Some s
      else skip_space (drop (space_width s) s))"
  by auto

termination
proof (relation "measure length")
  fix s :: string
  assume "space_width s \<noteq> 0"
  then show "(drop (space_width s) s, s) \<in> measure length" by (cases s) (auto simp: space_width_def)
qed simp

declare skip_space.simps [simp del]

text \<open>\<open>fmt.Sscanf(s, "%d", &i)\<close>; what follows the digits is left unread.\<close>

definition parseInt :: "string \<Rightarrow> int result" where
  "parseInt s =
     (case skip_space s of
        None \<Rightarrow> Inl (Driver ''unexpected newline'')
      | Some r \<Rightarrow>
          (case split_sign r of
             (neg, ds) \<Rightarrow>
               if r = [] \<or> ds = [] then Inl (Driver ''unexpected EOF'')
               else if takeWhile is_digit ds = [] then Inl (Driver ''expected integer'')
               else signed_64 neg (takeWhile is_digit ds)))"

definition duration_unit :: "string \<Rightarrow> nat option" where
  "duration_unit = map_of [(''ns'', 1), (''us'', 1000), (CHR 0xC2 # CHR 0xB5 # ''s'', 1000), (CHR 0xCE # CHR 0xBC # ''s'', 1000),
     (''ms'', nat Millisecond), (''s'', nat Second), (''m'', nat Minute), (''h'', nat Hour)]"

text \<open>The digits of a fraction with their scale; digits beyond 63 bits are skipped.\<close>

definition leadingFraction :: "string \<Rightarrow> nat \<times> nat" where
  "leadingFraction ds =
     fst (foldl (\<lambda>((x, scale), overflow) c.
       if overflow \<or> x > (2 ^ 63 - 1) div 10 then ((x, scale), True)
       else let y = 10 * x + (of_char c - 48) in if y > 2 ^ 63 then ((x, scale), True) else ((y, 10 * scale), False))
       ((0, 1), False) ds)"

lemma dropWhile_shorter: "takeWhile P xs \<noteq> [] \<Longrightarrow> length (dropWhile P xs) < length xs"
  by (cases xs) (auto simp: length_dropWhile_le le_imp_less_Suc split: if_splits)

text \<open>\<open>fl f unit scale\<close> is \<open>uint64(float64(f) * (float64(unit) / scale))\<close>.\<close>

function duration_terms :: "(nat \<Rightarrow> nat \<Rightarrow> nat \<Rightarrow> nat) \<Rightarrow> nat \<Rightarrow> string \<Rightarrow> nat option" where
  "duration_terms fl d s =
     (if s = [] then Some d
      else
        let ds = takeWhile is_digit s;
            r = dropWhile is_digit s;
            v = digits_value ds;
            point = (take 1 r = ''.'');
            fs = (if point then takeWhile is_digit (drop 1 r) else []);
            r = (if point then dropWhile is_digit (drop 1 r) else r);
            letter = (\<lambda>c. \<not> (c = CHR ''.'' \<or> is_digit c));
            u = takeWhile letter r
        in if v > 2 ^ 63 \<or> ds = [] \<and> fs = [] \<or> u = [] then None
           else case duration_unit u of
                  None \<Rightarrow> None
                | Some unit \<Rightarrow>
                    if v > 2 ^ 63 div unit then None
                    else let (f, scale) = leadingFraction fs;
                             v = v * unit + (if f > 0 then fl f unit scale else 0);
                             d = (d + v) mod 2 ^ 64
                         in if v > 2 ^ 63 \<or> d > 2 ^ 63 then None
                            else duration_terms fl d (dropWhile letter r))"
  by auto

termination
proof (relation "measure (\<lambda>(fl, d, s). length s)", goal_cases)
  case (2 fl d s ds r v point fs r' letter u unit p f scale v' d')
  have "length r' \<le> length s"
    using 2(2-7) length_dropWhile_le [of is_digit s] length_dropWhile_le [of is_digit "drop 1 r"] by auto
  moreover have "length (dropWhile letter r') < length r'"
    using 2(9,10) by (intro dropWhile_shorter) auto
  ultimately show ?case by simp
qed simp

declare duration_terms.simps [simp del]

definition ParseDuration :: "(nat \<Rightarrow> nat \<Rightarrow> nat \<Rightarrow> nat) \<Rightarrow> string \<Rightarrow> duration option" where
  "ParseDuration fl s0 =
     (case split_sign s0 of
        (neg, s) \<Rightarrow>
          if s = ''0'' then Some 0
          else if s = [] then None
          else (case duration_terms fl 0 s of
                 None \<Rightarrow> None
               | Some d \<Rightarrow> if neg then Some (- int d) else if d > 2 ^ 63 - 1 then None else Some (int d)))"

subsection \<open>Loading\<close>

datatype file_result = File string | Not_Exist | Read_Error err

record os_env =
  os_ReadFile :: "string \<Rightarrow> file_result"
  os_Getenv :: "string \<Rightarrow> string"
  os_Unmarshal :: "string \<Rightarrow> AppConfig \<Rightarrow> AppConfig result"
  os_float :: "nat \<Rightarrow> nat \<Rightarrow> nat \<Rightarrow> nat"

definition ToLower :: "string \<Rightarrow> string" where
  "ToLower s = map (\<lambda>c. if (65 :: nat) \<le> of_char c \<and> of_char c \<le> (90 :: nat) then char_of (of_char c + 32 :: nat) else c) s"

definition load_file :: "os_env \<Rightarrow> string \<Rightarrow> AppConfig result" where
  "load_file env path =
     (if path = '''' then Inr DefaultConfig
      else case os_ReadFile env path of
             Not_Exist \<Rightarrow> Inr DefaultConfig
           | Read_Error e \<Rightarrow> Inl (Wrap ''reading config file'' e)
           | File content \<Rightarrow>
               (let ext = ToLower path;
                    msg = (if suffix ''.yaml'' ext \<or> suffix ''.yml'' ext then ''parsing YAML config''
                           else if suffix ''.json'' ext then ''parsing JSON config'' else ''parsing config file'')
                in case os_Unmarshal env content DefaultConfig of Inl e \<Rightarrow> Inl (Wrap msg e) | Inr cfg \<Rightarrow> Inr cfg))"

definition with_env :: "os_env \<Rightarrow> string \<Rightarrow> (string \<Rightarrow> AppConfig \<Rightarrow> AppConfig) \<Rightarrow> AppConfig \<Rightarrow> AppConfig" where
  "with_env env name f cfg = (if os_Getenv env name \<noteq> '''' then f (os_Getenv env name) cfg else cfg)"

definition if_positive :: "int option \<Rightarrow> (int \<Rightarrow> AppConfig) \<Rightarrow> AppConfig \<Rightarrow> AppConfig" where
  "if_positive r f cfg = (case r of None \<Rightarrow> cfg | Some n \<Rightarrow> if n > 0 then f n else cfg)"

definition no_err :: "'a result \<Rightarrow> 'a option" where
  "no_err r = (case r of Inl _ \<Rightarrow> None | Inr x \<Rightarrow> Some x)"

definition applyEnvOverrides :: "os_env \<Rightarrow> AppConfig \<Rightarrow> AppConfig" where
  "applyEnvOverrides env cfg =
     fold (\<lambda>(name, f) cfg. with_env env name f cfg)
       [(''GSLB_DATABASE_PATH'', \<lambda>v c. c\<lparr>ac_DatabasePath := v\<rparr>),
        (''GSLB_LISTEN_ADDR'', \<lambda>v c. c\<lparr>ac_ListenAddr := v\<rparr>),
        (''GSLB_HEALTH_CHECK_WORKERS'', \<lambda>v c. if_positive (no_err (parseInt v)) (\<lambda>n. c\<lparr>ac_HealthCheckWorkers := n\<rparr>) c),
        (''GSLB_RECONCILE_INTERVAL'', \<lambda>v c. if_positive (ParseDuration (os_float env) v) (\<lambda>d. c\<lparr>ac_ReconcileInterval := d\<rparr>) c),
        (''GSLB_AUDIT_LOG_RETENTION_DAYS'', \<lambda>v c. if_positive (no_err (parseInt v)) (\<lambda>n. c\<lparr>ac_AuditLogRetentionDays := n\<rparr>) c),
        (''GSLB_ENCRYPTION_KEY'', \<lambda>v c. c\<lparr>ac_EncryptionKey := v\<rparr>),
        (''GSLB_OIDC_ENABLED'', \<lambda>v c. c\<lparr>ac_OIDC := (ac_OIDC c)\<lparr>oc_Enabled := (v = ''true'' \<or> v = ''1'')\<rparr>\<rparr>),
        (''GSLB_OIDC_ISSUER'', \<lambda>v c. c\<lparr>ac_OIDC := (ac_OIDC c)\<lparr>oc_Issuer := v\<rparr>\<rparr>),
        (''GSLB_OIDC_CLIENT_ID'', \<lambda>v c. c\<lparr>ac_OIDC := (ac_OIDC c)\<lparr>oc_ClientID := v\<rparr>\<rparr>),
        (''GSLB_OIDC_CLIENT_SECRET'', \<lambda>v c. c\<lparr>ac_OIDC := (ac_OIDC c)\<lparr>oc_ClientSecret := v\<rparr>\<rparr>),
        (''GSLB_OIDC_REDIRECT_URL'', \<lambda>v c. c\<lparr>ac_OIDC := (ac_OIDC c)\<lparr>oc_RedirectURL := v\<rparr>\<rparr>),
        (''GSLB_OIDC_ROLES_CLAIM'', \<lambda>v c. c\<lparr>ac_OIDC := (ac_OIDC c)\<lparr>oc_RolesClaim := v\<rparr>\<rparr>),
        (''GSLB_OIDC_DEFAULT_ROLE'', \<lambda>v c. c\<lparr>ac_OIDC := (ac_OIDC c)\<lparr>oc_DefaultRole := v\<rparr>\<rparr>),
        (''GSLB_JWT_SECRET'', \<lambda>v c. c\<lparr>ac_JWT := (ac_JWT c)\<lparr>js_Secret := v\<rparr>\<rparr>),
        (''GSLB_JWT_EXPIRY'', \<lambda>v c. if_positive (ParseDuration (os_float env) v) (\<lambda>d. c\<lparr>ac_JWT := (ac_JWT c)\<lparr>js_Expiry := d\<rparr>\<rparr>) c),
        (''GSLB_JWT_COOKIE_SECURE'', \<lambda>v c. c\<lparr>ac_JWT := (ac_JWT c)\<lparr>js_CookieSecure := (v = ''true'' \<or> v = ''1'')\<rparr>\<rparr>),
        (''GSLB_JWT_COOKIE_NAME'', \<lambda>v c. c\<lparr>ac_JWT := (ac_JWT c)\<lparr>js_CookieName := v\<rparr>\<rparr>)] cfg"

definition Validate :: "AppConfig \<Rightarrow> unit result" where
  "Validate cfg =
     (if ac_ListenAddr cfg = '''' then Inl (Errorf ''listen_addr is required'')
      else if ac_HealthCheckWorkers cfg \<le> 0 then Inl (Errorf ''health_check_workers must be greater than 0'')
      else if ac_ReconcileInterval cfg \<le> 0 then Inl (Errorf ''reconcile_interval must be greater than 0'')
      else if oc_Enabled (ac_OIDC cfg) then
        (if length (js_Secret (ac_JWT cfg)) < 32 then Inl (Errorf ''jwt.secret must be at least 32 bytes when OIDC is enabled'')
         else if oc_Issuer (ac_OIDC cfg) = '''' then Inl (Errorf ''oidc.issuer is required when OIDC is enabled'')
         else if oc_ClientID (ac_OIDC cfg) = '''' then Inl (Errorf ''oidc.client_id is required when OIDC is enabled'')
         else if oc_ClientSecret (ac_OIDC cfg) = '''' then Inl (Errorf ''oidc.client_secret is required when OIDC is enabled'')
         else if oc_RedirectURL (ac_OIDC cfg) = '''' then Inl (Errorf ''oidc.redirect_url is required when OIDC is enabled'')
         else Inr ())
      else Inr ())"

definition Load :: "os_env \<Rightarrow> string \<Rightarrow> AppConfig result" where
  "Load env path =
     (case load_file env path of
        Inl e \<Rightarrow> Inl e
      | Inr cfg0 \<Rightarrow>
          (let cfg = applyEnvOverrides env cfg0
           in case Validate cfg of Inl e \<Rightarrow> Inl e | Inr _ \<Rightarrow> Inr cfg))"

subsection \<open>Scanning what was printed\<close>

lemma takeWhile_digits: "t = [] \<or> \<not> is_digit (hd t) \<Longrightarrow> takeWhile is_digit (digits n @ t) = digits n"
  by (simp add: takeWhile_append digits_digit takeWhile_eq_Nil_iff)

lemma space_width_visible: "33 \<le> (of_char c :: nat) \<Longrightarrow> (of_char c :: nat) < 128 \<Longrightarrow> space_width (c # cs) = 0"
  by (simp add: space_width_def)

lemma no_space: "is_digit c \<or> c = CHR ''-'' \<Longrightarrow> skip_space (c # cs) = Some (c # cs)"
proof -
  assume "is_digit c \<or> c = CHR ''-''"
  then have "33 \<le> (of_char c :: nat)" "(of_char c :: nat) < 128" by (auto simp: is_digit_def)
  then have "space_width (c # cs) = 0" "c \<noteq> CHR 0x0A" by (auto simp: space_width_visible)
  then show ?thesis by (subst skip_space.simps) simp
qed

lemma skip_space_fmt_d: "skip_space (fmt_d i @ t) = Some (fmt_d i @ t)"
proof (cases "i < 0")
  case False
  obtain c cs where "digits (nat i) = c # cs" by (cases "digits (nat i)") auto
  with False digits_digit [of c "nat i"] show ?thesis by (simp add: fmt_d_def no_space)
qed (simp add: fmt_d_def no_space)

text \<open>
  An integer variable reads back what was printed: for a 64-bit integer followed by anything that
  does not go on with a digit, the integer is scanned, and what follows it is silently ignored.
\<close>

theorem parseInt_fmt_d:
  "- (2 ^ 63) \<le> i \<Longrightarrow> i < 2 ^ 63 \<Longrightarrow> t = [] \<or> \<not> is_digit (hd t) \<Longrightarrow> parseInt (fmt_d i @ t) = Inr i"
  unfolding parseInt_def skip_space_fmt_d split_sign_fmt_d option.case prod.case takeWhile_digits
  by (simp add: takeWhile_digits signed_64_digits) (simp add: fmt_d_def)

theorem parseInt_fmt_d_witness: "parseInt (fmt_d 10 @ ''abc'') = Inr 10 \<and> parseInt (fmt_d (- 3) @ '''') = Inr (- 3)"
  using parseInt_fmt_d [of 10 "''abc''"] parseInt_fmt_d [of "- 3" "[]"] by (simp add: is_digit_def)

subsection \<open>The environment\<close>

text \<open>A variable of another field leaves a field alone; its own overrides it.\<close>

lemma if_positive_other: "(\<And>n. sel (f n) = sel cfg) \<Longrightarrow> sel (if_positive r f cfg) = sel cfg"
  by (simp add: if_positive_def split: option.splits)

lemma with_env_other: "(\<And>v c. sel (f v c) = sel c) \<Longrightarrow> sel (with_env env name f cfg) = sel cfg"
  by (simp add: with_env_def)

lemma with_env_own: "sel (with_env env name f cfg) = (if os_Getenv env name \<noteq> '''' then sel (f (os_Getenv env name) cfg) else sel cfg)"
  by (simp add: with_env_def)

lemmas env_own =
  with_env_own [of ac_ListenAddr _ "''GSLB_LISTEN_ADDR''"]
  with_env_own [of ac_HealthCheckWorkers _ "''GSLB_HEALTH_CHECK_WORKERS''"]
  with_env_own [of ac_ReconcileInterval _ "''GSLB_RECONCILE_INTERVAL''"]
  with_env_own [of "\<lambda>c. oc_Enabled (ac_OIDC c)" _ "''GSLB_OIDC_ENABLED''"]
  with_env_own [of "\<lambda>c. oc_Issuer (ac_OIDC c)" _ "''GSLB_OIDC_ISSUER''"]
  with_env_own [of "\<lambda>c. oc_ClientID (ac_OIDC c)" _ "''GSLB_OIDC_CLIENT_ID''"]
  with_env_own [of "\<lambda>c. oc_ClientSecret (ac_OIDC c)" _ "''GSLB_OIDC_CLIENT_SECRET''"]
  with_env_own [of "\<lambda>c. oc_RedirectURL (ac_OIDC c)" _ "''GSLB_OIDC_REDIRECT_URL''"]
  with_env_own [of "\<lambda>c. js_Secret (ac_JWT c)" _ "''GSLB_JWT_SECRET''"]

lemmas env_other =
  with_env_other [of ac_ListenAddr] with_env_other [of ac_HealthCheckWorkers]
    with_env_other [of ac_ReconcileInterval] with_env_other [of "\<lambda>c. oc_Enabled (ac_OIDC c)"]
    with_env_other [of "\<lambda>c. oc_Issuer (ac_OIDC c)"]
    with_env_other [of "\<lambda>c. oc_ClientID (ac_OIDC c)"]
    with_env_other [of "\<lambda>c. oc_ClientSecret (ac_OIDC c)"]
    with_env_other [of "\<lambda>c. oc_RedirectURL (ac_OIDC c)"]
    with_env_other [of "\<lambda>c. js_Secret (ac_JWT c)"]
  if_positive_other [of ac_ListenAddr] if_positive_other [of ac_HealthCheckWorkers]
    if_positive_other [of ac_ReconcileInterval] if_positive_other [of "\<lambda>c. oc_Enabled (ac_OIDC c)"]
    if_positive_other [of "\<lambda>c. oc_Issuer (ac_OIDC c)"]
    if_positive_other [of "\<lambda>c. oc_ClientID (ac_OIDC c)"]
    if_positive_other [of "\<lambda>c. oc_ClientSecret (ac_OIDC c)"]
    if_positive_other [of "\<lambda>c. oc_RedirectURL (ac_OIDC c)"]
    if_positive_other [of "\<lambda>c. js_Secret (ac_JWT c)"]

text \<open>A field that has a variable of its own takes it when it is set, and else keeps its value.\<close>

definition env_or :: "os_env \<Rightarrow> string \<Rightarrow> string \<Rightarrow> string" where
  "env_or env name old = (if os_Getenv env name \<noteq> '''' then os_Getenv env name else old)"

lemma env_strings:
  "ac_ListenAddr (applyEnvOverrides env cfg) = env_or env ''GSLB_LISTEN_ADDR'' (ac_ListenAddr cfg)"
  "oc_Issuer (ac_OIDC (applyEnvOverrides env cfg)) = env_or env ''GSLB_OIDC_ISSUER'' (oc_Issuer (ac_OIDC cfg))"
  "oc_ClientID (ac_OIDC (applyEnvOverrides env cfg)) = env_or env ''GSLB_OIDC_CLIENT_ID'' (oc_ClientID (ac_OIDC cfg))"
  "oc_ClientSecret (ac_OIDC (applyEnvOverrides env cfg)) = env_or env ''GSLB_OIDC_CLIENT_SECRET'' (oc_ClientSecret (ac_OIDC cfg))"
  "oc_RedirectURL (ac_OIDC (applyEnvOverrides env cfg)) = env_or env ''GSLB_OIDC_REDIRECT_URL'' (oc_RedirectURL (ac_OIDC cfg))"
  "js_Secret (ac_JWT (applyEnvOverrides env cfg)) = env_or env ''GSLB_JWT_SECRET'' (js_Secret (ac_JWT cfg))"
  by (simp_all add: applyEnvOverrides_def env_own env_or_def env_other)

lemma if_positive_pos: "0 < sel cfg \<Longrightarrow> (\<And>n. 0 < n \<Longrightarrow> (0 :: int) < sel (f n)) \<Longrightarrow> 0 < sel (if_positive r f cfg)"
  by (simp add: if_positive_def split: option.splits)

lemma env_numbers:
  "0 < ac_HealthCheckWorkers cfg \<Longrightarrow> 0 < ac_HealthCheckWorkers (applyEnvOverrides env cfg)"
  "0 < ac_ReconcileInterval cfg \<Longrightarrow> 0 < ac_ReconcileInterval (applyEnvOverrides env cfg)"
  by (simp_all add: applyEnvOverrides_def env_own env_other if_positive_pos [of ac_HealthCheckWorkers]
      if_positive_pos [of ac_ReconcileInterval])

lemma env_enabled:
  "oc_Enabled (ac_OIDC (applyEnvOverrides env cfg)) =
     (if os_Getenv env ''GSLB_OIDC_ENABLED'' \<noteq> '''' then os_Getenv env ''GSLB_OIDC_ENABLED'' \<in> {''true'', ''1''}
      else oc_Enabled (ac_OIDC cfg))"
  by (simp add: applyEnvOverrides_def env_own env_other)

definition oidc_ready :: "AppConfig \<Rightarrow> bool" where
  "oidc_ready cfg =
     (32 \<le> length (js_Secret (ac_JWT cfg)) \<and> oc_Issuer (ac_OIDC cfg) \<noteq> '''' \<and> oc_ClientID (ac_OIDC cfg) \<noteq> '''' \<and>
      oc_ClientSecret (ac_OIDC cfg) \<noteq> '''' \<and> oc_RedirectURL (ac_OIDC cfg) \<noteq> '''')"

lemma Validate_iff:
  "Validate cfg = Inr () \<longleftrightarrow>
     ac_ListenAddr cfg \<noteq> '''' \<and> 0 < ac_HealthCheckWorkers cfg \<and> 0 < ac_ReconcileInterval cfg \<and>
     (oc_Enabled (ac_OIDC cfg) \<longrightarrow> oidc_ready cfg)"
  by (simp add: Validate_def oidc_ready_def not_le not_less)

lemma env_or_not_empty [simp]: "old \<noteq> '''' \<Longrightarrow> env_or env name old \<noteq> ''''"
  by (simp add: env_or_def)

lemma env_or_secret:
  "32 \<le> length old \<Longrightarrow> os_Getenv env name = '''' \<or> 32 \<le> length (os_Getenv env name) \<Longrightarrow> 32 \<le> length (env_or env name old)"
  by (auto simp: env_or_def)

lemma env_oidc_ready:
  "oidc_ready cfg \<Longrightarrow> os_Getenv env ''GSLB_JWT_SECRET'' = '''' \<or> 32 \<le> length (os_Getenv env ''GSLB_JWT_SECRET'') \<Longrightarrow>
   oidc_ready (applyEnvOverrides env cfg)"
  unfolding oidc_ready_def env_strings by (simp add: env_or_secret)

text \<open>
  C32: The environment never spoils a valid configuration: over a file that loads to a valid one
  (the defaults are), Load succeeds with a valid configuration, whatever the variables hold, unless
  they switch OIDC on or set a JWT secret shorter than 32 bytes.
\<close>

theorem environment_keeps_valid:
  assumes "load_file env path = Inr cfg0" "Validate cfg0 = Inr ()"
    and "os_Getenv env ''GSLB_OIDC_ENABLED'' \<notin> {''true'', ''1''}"
    and "os_Getenv env ''GSLB_JWT_SECRET'' = '''' \<or> 32 \<le> length (os_Getenv env ''GSLB_JWT_SECRET'')"
  shows "Load env path = Inr (applyEnvOverrides env cfg0) \<and> Validate (applyEnvOverrides env cfg0) = Inr ()"
proof -
  have "Validate (applyEnvOverrides env cfg0) = Inr ()"
    using assms(2-4) env_numbers [of cfg0 env] env_oidc_ready [of cfg0 env]
    unfolding Validate_iff by (simp add: env_strings(1) env_enabled split: if_splits)
  with assms(1) show ?thesis by (simp add: Load_def)
qed

definition ex_env :: os_env where
  "ex_env = \<lparr>os_ReadFile = (\<lambda>_. Not_Exist),
     os_Getenv = (\<lambda>n. if n = ''GSLB_HEALTH_CHECK_WORKERS'' then ''-4'' else if n = ''GSLB_RECONCILE_INTERVAL'' then ''1m30s'' else ''''),
     os_Unmarshal = (\<lambda>_ c. Inr c), os_float = (\<lambda>f u s. f * u div s)\<rparr>"

theorem environment_keeps_valid_witness:
  "Validate (applyEnvOverrides ex_env DefaultConfig) = Inr () \<and> load_file ex_env ''gslb.yaml'' = Inr DefaultConfig"
  using environment_keeps_valid [of ex_env "''gslb.yaml''" DefaultConfig]
  by (simp add: load_file_def ex_env_def Validate_def DefaultConfig_def time_units)

end
