(* ===== verification/Web.thy ===== *)
theory Web
  imports Prelude "HOL-Library.Sublist"
begin

section \<open>The embedded front end (web/embed.go)\<close>

text \<open>
  Which answer a path gets: the API and the probes pass through, a file of the embedded tree is
  served by the file server, and every other path gets \<open>index.html\<close>, for the routing of the
  single-page application. The embedded tree is the list of its files; a directory is there when it
  leads to a file. \<open>fs.ValidPath\<close> is written out, as it decides what \<open>Open\<close> can reach.
\<close>

type_synonym file_tree = "(string \<times> string) list"

fun path_elements :: "string \<Rightarrow> string list" where
  "path_elements [] = [[]]"
| "path_elements (c # cs) =
     (if c = CHR ''/'' then [] # path_elements cs
      else (c # hd (path_elements cs)) # tl (path_elements cs))"

definition ValidPath :: "string \<Rightarrow> bool" where
  "ValidPath name = (name = ''.'' \<or> list_all (\<lambda>e. e \<notin> {'''', ''.'', ''..''}) (path_elements name))"

datatype fs_entry = Directory | Regular string

definition fs_Open :: "file_tree \<Rightarrow> string \<Rightarrow> fs_entry option" where
  "fs_Open tree name =
     (if \<not> ValidPath name then None
      else if name = ''.'' then Some Directory
      else case map_of tree name of
             Some content \<Rightarrow> Some (Regular content)
           | None \<Rightarrow> if list_ex (\<lambda>f. prefix (name @ ''/'') (fst f)) tree then Some Directory else None)"

text \<open>
  \<open>Pass\<close> is \<open>c.Next()\<close>; \<open>Panics\<close> is the slice of an empty path, out of range. The last four lines of
  the handler are \<open>http.StripPrefix\<close> over \<open>http.FileServer\<close>: a path without the prefix is not found,
  one that ends in \<open>/index.html\<close> is redirected to its directory, any other file is served.
\<close>

datatype web_answer = Pass | Index string | Asset string | Moved string | Not_Found | Panics

definition file_server :: "string \<Rightarrow> string \<Rightarrow> web_answer" where
  "file_server path content =
     (if \<not> prefix ''/'' path then Not_Found
      else if suffix ''/index.html'' path then Moved ''./''
      else Asset content)"

definition serveIndex :: "file_tree \<Rightarrow> web_answer" where
  "serveIndex tree = Index (case map_of tree ''index.html'' of Some html \<Rightarrow> html | None \<Rightarrow> '''')"

definition web_Handler :: "file_tree \<Rightarrow> string \<Rightarrow> web_answer" where
  "web_Handler tree path =
     (if length path \<ge> 4 \<and> take 4 path = ''/api'' then Pass
      else if path = ''/health'' \<or> path = ''/ready'' then Pass
      else if path = '''' then Panics
      else case fs_Open tree (drop 1 path) of
             None \<Rightarrow> serveIndex tree
           | Some Directory \<Rightarrow> serveIndex tree
           | Some (Regular content) \<Rightarrow> file_server path content)"

text \<open>
  The front end serves exactly the embedded files: a path that reaches the static handler gets
  the file it names when there is one with a valid name (through a redirect when it is an
  \<open>index.html\<close>) and else the index page, so no path, with ``..'' or not, reads anything outside the
  embedded tree.
\<close>

theorem web_serves_embedded_files:
  assumes "prefix ''/'' path" "\<not> prefix ''/api'' path" "path \<notin> {''/health'', ''/ready''}"
  shows "web_Handler tree path =
    (case map_of tree (drop 1 path) of
       Some content \<Rightarrow> if ValidPath (drop 1 path) \<and> drop 1 path \<noteq> ''.'' 
         then (if suffix ''/index.html'' path then Moved ''./'' else Asset content) else serveIndex tree
     | None \<Rightarrow> serveIndex tree)"
proof -
  have "\<not> (length path \<ge> 4 \<and> take 4 path = ''/api'')" using assms(2) by (metis take_is_prefix)
  then have "web_Handler tree path = (case fs_Open tree (drop 1 path) of
      None \<Rightarrow> serveIndex tree | Some Directory \<Rightarrow> serveIndex tree | Some (Regular content) \<Rightarrow> file_server path content)"
    using assms(1,3) unfolding web_Handler_def by auto
  then show ?thesis using assms(1) by (simp add: fs_Open_def file_server_def split: option.split)
qed

theorem web_serves_embedded_files_witness:
  "web_Handler [(''index.html'', ''<html>''), (''assets/app.js'', ''js'')] ''/assets/app.js'' = Asset ''js'' \<and>
   web_Handler [(''index.html'', ''<html>''), (''assets/app.js'', ''js'')] ''/../secret'' = Index ''<html>'' \<and>
   web_Handler [(''index.html'', ''<html>''), (''assets/app.js'', ''js'')] ''/index.html'' = Moved ''./''"
  using web_serves_embedded_files [of "''/assets/app.js''" "[(''index.html'', ''<html>''), (''assets/app.js'', ''js'')]"]
    web_serves_embedded_files [of "''/index.html''" "[(''index.html'', ''<html>''), (''assets/app.js'', ''js'')]"]
    web_serves_embedded_files [of "''/../secret''" "[(''index.html'', ''<html>''), (''assets/app.js'', ''js'')]"]
  by (simp add: ValidPath_def serveIndex_def suffix_def)

end
