(* ===== verification/Transactions.thy ===== *)
theory Transactions
  imports Database
begin

section \<open>Transactions (internal/store/store.go)\<close>

text \<open>
  \<open>WithTx\<close> runs a function in a transaction: what it did to the database stands when it succeeds and
  the commit does, and is undone otherwise. A transaction is the database at its beginning; a
  transaction that was neither committed nor rolled back by the driver leaves the database as it was
  for every other connection. Nothing else runs in between. No caller in the program uses it.
\<close>

definition BeginTx :: "('z world_scheme, db result) state" where
  "BeginTx = State (\<lambda>w.
     (case w_fault w (w_stmt_ix w) of
        None \<Rightarrow> Inr (w_db w) | Some (Fail_Exec m) \<Rightarrow> Inl (Driver m) | Some (Fail_Scan m) \<Rightarrow> Inl (Driver m)
      | Some (Fail_After m) \<Rightarrow> Inl (Driver m),
      w\<lparr>w_stmt_ix := Suc (w_stmt_ix w)\<rparr>))"

definition Commit :: "db \<Rightarrow> ('z world_scheme, unit result) state" where
  "Commit tx = State (\<lambda>w.
     (case w_fault w (w_stmt_ix w) of
        None \<Rightarrow> (Inr (), w\<lparr>w_stmt_ix := Suc (w_stmt_ix w)\<rparr>)
      | Some f \<Rightarrow> (Inl (Driver (case f of Fail_Exec m \<Rightarrow> m | Fail_Scan m \<Rightarrow> m | Fail_After m \<Rightarrow> m)),
                   w\<lparr>w_stmt_ix := Suc (w_stmt_ix w), w_db := tx\<rparr>)))"

definition Rollback :: "db \<Rightarrow> ('z world_scheme, unit result) state" where
  "Rollback tx = State (\<lambda>w.
     (case w_fault w (w_stmt_ix w) of
        None \<Rightarrow> Inr ()
      | Some f \<Rightarrow> Inl (Driver (case f of Fail_Exec m \<Rightarrow> m | Fail_Scan m \<Rightarrow> m | Fail_After m \<Rightarrow> m)),
      w\<lparr>w_stmt_ix := Suc (w_stmt_ix w), w_db := tx\<rparr>))"

definition WithTx :: "('z world_scheme, unit result) state \<Rightarrow> ('z world_scheme, unit result) state" where
  "WithTx fn = do {
     r \<leftarrow> BeginTx;
     (case r of
        Inl e \<Rightarrow> ret (Inl (Wrap ''begin transaction'' e))
      | Inr tx \<Rightarrow> do {
          x \<leftarrow> fn;
          (case x of
             Inl e \<Rightarrow> do {
               rb \<leftarrow> Rollback tx;
               ret (case rb of
                      Inl rbErr \<Rightarrow> Inl (WrapIn ''rollback: '' rbErr ('' (original error: '' @ err_msg e @ '')''))
                    | Inr _ \<Rightarrow> Inl e)
             }
           | Inr _ \<Rightarrow> Commit tx)
        })
   }"

text \<open>
  A transaction is all or nothing: when \<open>WithTx\<close> returns an error, whatever failed, the database is
  what it was; when it returns none, the function ran on that database without an error and all it
  did stands.
\<close>

theorem WithTx_atomic:
  assumes "run_state (WithTx fn) w = (r, w')"
  shows "(r \<noteq> Inr () \<longrightarrow> w_db w' = w_db w) \<and>
    (r = Inr () \<longrightarrow> (\<exists>w1 w2. w_db w1 = w_db w \<and> run_state fn w1 = (Inr (), w2) \<and> w_db w' = w_db w2))"
proof -
  let ?w1 = "w\<lparr>w_stmt_ix := Suc (w_stmt_ix w)\<rparr>"
  define b where "b = fst (run_state BeginTx w)"
  have start: "run_state BeginTx w = (b, ?w1)" by (simp add: b_def BeginTx_def)
  have b: "b = Inr tx \<Longrightarrow> tx = w_db w" for tx by (auto simp: b_def BeginTx_def split: option.splits fault.splits)
  show ?thesis
  proof (cases b)
    case (Inl e)
    with assms start show ?thesis by (auto simp: WithTx_def run_simps)
  next
    case (Inr tx)
    obtain x w2 where fn: "run_state fn ?w1 = (x, w2)" by (cases "run_state fn ?w1") auto
    show ?thesis
    proof (cases x)
      case (Inl e)
      with Inr b start fn assms show ?thesis
        by (auto simp: WithTx_def run_simps Rollback_def split: option.splits)
    next
      case x: (Inr u)
      with Inr b start fn assms have "run_state (Commit (w_db w)) w2 = (r, w')" by (simp add: WithTx_def run_simps)
      moreover have "\<exists>w1 w3. w_db w1 = w_db w \<and> run_state fn w1 = (Inr (), w3) \<and> w_db w2 = w_db w3"
        using fn x by (intro exI [of _ ?w1] exI [of _ w2]) simp
      ultimately show ?thesis by (cases "w_fault w2 (w_stmt_ix w2)") (auto simp: Commit_def)
    qed
  qed
qed

definition ex_tx_world :: world where
  "ex_tx_world = \<lparr>w_db = empty_db, w_now = (\<lambda>_. 0), w_now_ix = 0, w_uuid = (\<lambda>_. ''''), w_uuid_ix = 0,
     w_fault = (\<lambda>n. if n = 2 then Some (Fail_Exec ''disk I/O error'') else None), w_stmt_ix = 0\<rparr>"

theorem WithTx_atomic_witness:
  "w_db (snd (run_state (WithTx (do {
     r \<leftarrow> sql_exec (\<lambda>d. Inr (1, d\<lparr>t_health_history_seq := 7\<rparr>));
     ret (case r of Inl e \<Rightarrow> Inl e | Inr _ \<Rightarrow> Inr ()) })) ex_tx_world)) = empty_db"
proof -
  let ?fn = "do {
     r \<leftarrow> sql_exec (\<lambda>d. Inr (1, d\<lparr>t_health_history_seq := 7\<rparr>));
     ret (case r of Inl e \<Rightarrow> Inl e | Inr _ \<Rightarrow> Inr ()) }"
  obtain r w' where run: "run_state (WithTx ?fn) ex_tx_world = (r, w')" by (metis prod.collapse)
  then have "r \<noteq> Inr ()"
    by (auto simp: WithTx_def BeginTx_def Commit_def run_simps sql_exec_def Let_def ex_tx_world_def)
  with WithTx_atomic [OF run] run show ?thesis by (simp add: ex_tx_world_def)
qed

end
