(* ===== verification/User_Sync.thy ===== *)
theory User_Sync
  imports Auth
begin

section \<open>What a login does to a user's roles (internal/auth/oidc.go)\<close>

text \<open>
  The effect of \<open>syncRoles\<close> and of \<open>SyncUser\<close> on the role assignments, on a driver that does not fail.
  \<open>grants\<close> is the assignment table as a set of pairs of user and role.
\<close>

definition grants :: "db \<Rightarrow> (string \<times> string) set" where
  "grants d = (\<lambda>ur. (ur_UserID ur, ur_RoleID ur)) ` set (t_user_roles d)"

definition only_grants :: "'z world_scheme \<Rightarrow> 'z world_scheme \<Rightarrow> bool" where
  "only_grants w w' = (healthy_driver w' \<and> (\<exists>rows. w_db w' = (w_db w)\<lparr>t_user_roles := rows\<rparr>))"

lemma only_grants_refl: "healthy_driver w \<Longrightarrow> only_grants w w"
  by (auto simp: only_grants_def intro: exI [of _ "t_user_roles (w_db w)"])

lemma only_grants_trans: "only_grants w w1 \<Longrightarrow> only_grants w1 w2 \<Longrightarrow> only_grants w w2"
  by (auto simp: only_grants_def)

lemma only_grantsD:
  "only_grants w w' \<Longrightarrow> healthy_driver w'"
  "only_grants w w' \<Longrightarrow> t_roles (w_db w') = t_roles (w_db w)"
  "only_grants w w' \<Longrightarrow> t_users (w_db w') = t_users (w_db w)"
  "only_grants w w' \<Longrightarrow> user_exists u (w_db w') = user_exists u (w_db w)"
  by (auto simp: only_grants_def user_exists_def)

subsection \<open>The loops\<close>

lemma run_AssignRole:
  assumes "healthy_driver w" "user_exists u (w_db w)" "role_exists r (w_db w)"
  shows "\<exists>w'. run_state (AssignRole u r by) w = (Inr (), w') \<and> only_grants w w' \<and>
    grants (w_db w') = insert (u, r) (grants (w_db w))"
  using assms
  by (auto simp: AssignRole_def run_simps run_insert_method insert_user_role_def only_grants_def grants_def image_iff
      intro: exI [of _ "t_user_roles (w_db w)"])

lemma run_RemoveRole:
  assumes "healthy_driver w"
  shows "\<exists>w'. run_state (RemoveRole u r) w = (Inr (), w') \<and> only_grants w w' \<and>
    grants (w_db w') = grants (w_db w) - {(u, r)}"
  using assms
  by (auto simp: RemoveRole_def run_insert_method delete_user_role_def Let_def only_grants_def grants_def set_rows_delete)

lemma run_GetRoleByName:
  assumes "healthy_driver w" "db_ok (w_db w)"
  shows "\<exists>w'. run_state (GetRoleByName n) w =
      (case find (\<lambda>r. r_Name r = n) (t_roles (w_db w)) of None \<Rightarrow> Inl ErrNotFound | Some r \<Rightarrow> Inr r, w') \<and>
    w_db w' = w_db w \<and> healthy_driver w'"
proof -
  have find: "find (\<lambda>r. r_Name r = n) (t_roles (w_db w)) = first_row (select_role_by_name n (w_db w))"
    by (simp add: select_role_by_name_def first_row_filter)
  from assms show ?thesis unfolding find
    by (cases "select_role_by_name n (w_db w)") (simp_all add: GetRoleByName_def run_row_method)
qed

definition named_roles :: "db \<Rightarrow> string list \<Rightarrow> string set" where
  "named_roles d names = {r_ID r | r. r \<in> set (t_roles d) \<and> r_Name r \<in> set names}"

lemma named_roles_image: "named_roles d names = r_ID ` {r \<in> set (t_roles d). r_Name r \<in> set names}"
  by (auto simp: named_roles_def)

lemma find_role:
  assumes "unique r_Name (t_roles d)"
  shows "named_roles d (n # names) =
    (case find (\<lambda>r. r_Name r = n) (t_roles d) of None \<Rightarrow> {} | Some r \<Rightarrow> {r_ID r}) \<union> named_roles d names"
proof (cases "find (\<lambda>r. r_Name r = n) (t_roles d)")
  case None
  then have "r_Name r \<noteq> n" if "r \<in> set (t_roles d)" for r using that by (auto simp: find_None_iff)
  then show ?thesis unfolding None by (auto simp: named_roles_def)
next
  case (Some r)
  then have r: "r \<in> set (t_roles d)" "r_Name r = n" by (auto dest: find_Some_mem)
  with assms have "{r' \<in> set (t_roles d). r_Name r' = n} = {r}"
    unfolding unique_def using distinct_map_unique by fastforce
  moreover have "named_roles d (n # names) = r_ID ` {r' \<in> set (t_roles d). r_Name r' = n} \<union> named_roles d names"
    by (auto simp: named_roles_def)
  ultimately show ?thesis unfolding Some option.case by simp
qed

lemma run_add_roles_loop:
  assumes "healthy_driver w" "db_ok (w_db w)" "user_exists u (w_db w)"
  shows "\<exists>w'. run_state (add_roles_loop u m names) w = ((), w') \<and> only_grants w w' \<and>
    grants (w_db w') = grants (w_db w) \<union> Pair u ` named_roles (w_db w) (filter (\<lambda>n. map_of m n = None) names)"
  using assms
proof (induction names arbitrary: w)
  case Nil
  then show ?case by (auto simp: run_simps named_roles_def only_grants_refl)
next
  case (Cons n names)
  show ?case
  proof (cases "map_of m n")
    case (Some i)
    with Cons show ?thesis by (simp add: run_simps)
  next
    case None
    from Cons.prems(2) have names: "unique r_Name (t_roles (w_db w))" by (simp add: db_ok_def keys_ok_def)
    from run_GetRoleByName [OF Cons.prems(1,2), of n] obtain w1
      where get: "run_state (GetRoleByName n) w = (case find (\<lambda>r. r_Name r = n) (t_roles (w_db w)) of
          None \<Rightarrow> Inl ErrNotFound | Some r \<Rightarrow> Inr r, w1)" and w1: "w_db w1 = w_db w" "healthy_driver w1" by blast
    show ?thesis
    proof (cases "find (\<lambda>r. r_Name r = n) (t_roles (w_db w))")
      case nobody: None
      from Cons.IH [OF w1(2), unfolded w1(1), OF Cons.prems(2,3)] obtain w2
        where "run_state (add_roles_loop u m names) w1 = ((), w2)" "only_grants w1 w2"
          "grants (w_db w2) = grants (w_db w) \<union> Pair u ` named_roles (w_db w) (filter (\<lambda>n. map_of m n = None) names)" by blast
      moreover from this(2) w1(1) have "only_grants w w2" by (simp add: only_grants_def)
      ultimately show ?thesis
        using None get find_role [OF names, of n "filter (\<lambda>n. map_of m n = None) names"]
        unfolding nobody option.case by (simp add: run_simps)
    next
      case (Some r)
      then have "r \<in> set (t_roles (w_db w))" by (auto dest: find_Some_mem)
      then have "role_exists (r_ID r) (w_db w)" by (auto simp: role_exists_def)
      from run_AssignRole [OF w1(2), unfolded w1(1), OF Cons.prems(3) this] obtain w2
        where as: "run_state (AssignRole u (r_ID r) ''oidc'') w1 = (Inr (), w2)" "only_grants w1 w2"
          "grants (w_db w2) = insert (u, r_ID r) (grants (w_db w))" by blast
      have "db_ok (w_db w2)" using keeps_run [OF keeps_AssignRole _ as(1)] Cons.prems(2) w1(1) by simp
      moreover have "user_exists u (w_db w2)" using only_grantsD(4) [OF as(2)] Cons.prems(3) w1(1) by simp
      ultimately obtain w3
        where l: "run_state (add_roles_loop u m names) w2 = ((), w3)" "only_grants w2 w3"
          "grants (w_db w3) = grants (w_db w2) \<union> Pair u ` named_roles (w_db w2) (filter (\<lambda>n. map_of m n = None) names)"
        using Cons.IH [OF only_grantsD(1) [OF as(2)]] by blast
      have nr: "named_roles (w_db w2) ns = named_roles (w_db w) ns" for ns
        using only_grantsD(2) [OF as(2)] w1(1) by (simp add: named_roles_def)
      have "only_grants w w3" using only_grants_trans [OF as(2) l(2)] w1 by (simp add: only_grants_def)
      with None Some get as(1,3) l find_role [OF names, of n "filter (\<lambda>n. map_of m n = None) names"] show ?thesis
        by (simp add: run_simps nr image_Un insert_commute)
    qed
  qed
qed

lemma run_remove_roles_loop:
  assumes "healthy_driver w"
  shows "\<exists>w'. run_state (remove_roles_loop u desired ps) w = ((), w') \<and> only_grants w w' \<and>
    grants (w_db w') = grants (w_db w) - {(u, snd p) | p. p \<in> set ps \<and> fst p \<notin> set desired}"
  using assms
proof (induction ps arbitrary: w)
  case Nil
  then show ?case by (auto simp: run_simps only_grants_refl)
next
  case (Cons p ps)
  show ?case
  proof (cases "fst p \<in> set desired")
    case True
    from Cons.IH [OF Cons.prems] obtain w' where "run_state (remove_roles_loop u desired ps) w = ((), w')" "only_grants w w'"
      "grants (w_db w') = grants (w_db w) - {(u, snd p) | p. p \<in> set ps \<and> fst p \<notin> set desired}" by blast
    moreover have "{(u, snd q) | q. q \<in> set (p # ps) \<and> fst q \<notin> set desired} = {(u, snd q) | q. q \<in> set ps \<and> fst q \<notin> set desired}"
      using True by auto
    ultimately show ?thesis using True by (simp only: remove_roles_loop.simps run_simps if_True) simp
  next
    case False
    from run_RemoveRole [OF Cons.prems] obtain w1 where r: "run_state (RemoveRole u (snd p)) w = (Inr (), w1)" "only_grants w w1"
      "grants (w_db w1) = grants (w_db w) - {(u, snd p)}" by blast
    from Cons.IH [OF only_grantsD(1) [OF r(2)]] obtain w2 where l: "run_state (remove_roles_loop u desired ps) w1 = ((), w2)"
      "only_grants w1 w2" "grants (w_db w2) = grants (w_db w1) - {(u, snd p) | p. p \<in> set ps \<and> fst p \<notin> set desired}" by blast
    have "{(u, snd q) | q. q \<in> set (p # ps) \<and> fst q \<notin> set desired} =
        insert (u, snd p) {(u, snd q) | q. q \<in> set ps \<and> fst q \<notin> set desired}"
      using False by (cases p) auto
    with r l False only_grants_trans [OF r(2) l(2)] show ?thesis by (auto simp: run_simps)
  qed
qed

subsection \<open>The current roles by name\<close>

abbreviation by_name :: "Role list \<Rightarrow> (string \<times> string) list" where
  "by_name rs \<equiv> foldl (\<lambda>m r. AList.update (r_Name r) (r_ID r) m) [] rs"

lemma by_name_lookup:
  assumes "\<And>r r'. r \<in> set rs \<Longrightarrow> r' \<in> set rs \<Longrightarrow> r_Name r = r_Name r' \<Longrightarrow> r_ID r = r_ID r'"
  shows "distinct (map fst (by_name rs)) \<and>
    (\<forall>n i. map_of (by_name rs) n = Some i \<longleftrightarrow> (\<exists>r \<in> set rs. r_Name r = n \<and> r_ID r = i))"
  using assms
proof (induction rs rule: rev_induct)
  case (snoc r rs)
  have "r_ID r1 = r_ID r2" if "r1 \<in> set rs" "r2 \<in> set rs" "r_Name r1 = r_Name r2" for r1 r2
    using that by (intro snoc.prems) simp_all
  from snoc.IH [OF this] have IH: "distinct (map fst (by_name rs))"
    "\<And>n i. map_of (by_name rs) n = Some i \<longleftrightarrow> (\<exists>r \<in> set rs. r_Name r = n \<and> r_ID r = i)" by blast+
  have "((map_of (by_name rs))(r_Name r \<mapsto> r_ID r)) n = Some i \<longleftrightarrow> (\<exists>r' \<in> set (rs @ [r]). r_Name r' = n \<and> r_ID r' = i)" for n i
  proof (cases "n = r_Name r")
    case True
    have "r_ID r' = r_ID r" if "r' \<in> set (rs @ [r])" "r_Name r' = r_Name r" for r'
      using that by (intro snoc.prems) simp_all
    then have "(\<exists>r' \<in> set (rs @ [r]). r_Name r' = n \<and> r_ID r' = i) \<longleftrightarrow> r_ID r = i"
      using True by (metis in_set_conv_decomp)
    with True show ?thesis by simp
  next
    case False
    with IH(2) [of n i] show ?thesis by auto
  qed
  with IH(1) show ?case by (simp add: update_conv' distinct_update del: fun_upd_apply)
qed simp

lemma current_by_name:
  assumes "\<And>r r'. r \<in> set rs \<Longrightarrow> r' \<in> set rs \<Longrightarrow> r_Name r = r_Name r' \<Longrightarrow> r_ID r = r_ID r'"
  shows "set (by_name rs) = (\<lambda>r. (r_Name r, r_ID r)) ` set rs" "map_of (by_name rs) n = None \<longleftrightarrow> n \<notin> r_Name ` set rs"
proof -
  from by_name_lookup [OF assms] have d: "distinct (map fst (by_name rs))"
    and m: "\<And>n i. map_of (by_name rs) n = Some i \<longleftrightarrow> (\<exists>r \<in> set rs. r_Name r = n \<and> r_ID r = i)" by blast+
  show "set (by_name rs) = (\<lambda>r. (r_Name r, r_ID r)) ` set rs"
  proof (rule set_eqI)
    fix p
    show "p \<in> set (by_name rs) \<longleftrightarrow> p \<in> (\<lambda>r. (r_Name r, r_ID r)) ` set rs"
      using map_of_eq_Some_iff [OF d, of "fst p" "snd p"] m [of "fst p" "snd p"] by (cases p) auto
  qed
  show "map_of (by_name rs) n = None \<longleftrightarrow> n \<notin> r_Name ` set rs"
    using m [of n] by (cases "map_of (by_name rs) n") auto
qed

lemma roles_unique:
  assumes "db_ok d"
  shows "r \<in> set (t_roles d) \<Longrightarrow> r' \<in> set (t_roles d) \<Longrightarrow> r_Name r = r_Name r' \<Longrightarrow> r = r'"
    and "r \<in> set (t_roles d) \<Longrightarrow> r' \<in> set (t_roles d) \<Longrightarrow> r_ID r = r_ID r' \<Longrightarrow> r = r'"
  using assms by (auto simp: db_ok_def keys_ok_def unique_def dest: distinct_map_unique)

lemma role_current:
  "r \<in> set (t_roles d) \<Longrightarrow> r \<in> set (select_user_roles u d) \<longleftrightarrow> (u, r_ID r) \<in> grants d"
  unfolding set_select_user_roles by (force simp: grants_def)

lemma granted_role: "db_ok d \<Longrightarrow> (u, i) \<in> grants d \<Longrightarrow> \<exists>r \<in> set (t_roles d). r_ID r = i"
  by (fastforce simp: grants_def db_ok_def refs_ok_def references_def)

lemma pairs_image:
  "{(u, snd p) | p. p \<in> (\<lambda>r. (f r, g r)) ` A \<and> fst p \<notin> N} = (\<lambda>r. (u, g r)) ` {r \<in> A. f r \<notin> N}"
  by force

lemma run_syncRoles:
  assumes "healthy_driver w" "db_ok (w_db w)" "user_exists u (w_db w)" "\<And>m. set (ord m) = set m"
  shows "\<exists>w'. run_state (syncRoles ord u names) w = (Inr (), w') \<and> only_grants w w' \<and>
    grants (w_db w') = {p \<in> grants (w_db w). fst p \<noteq> u} \<union> Pair u ` named_roles (w_db w) names"
proof -
  let ?d = "w_db w" and ?cur = "select_user_roles u (w_db w)"
  let ?m = "by_name ?cur"
  let ?w1 = "w\<lparr>w_stmt_ix := Suc (w_stmt_ix w)\<rparr>"
  have sub: "r \<in> set (t_roles ?d)" if "r \<in> set ?cur" for r
    using that unfolding set_select_user_roles by blast
  have "r_ID r = r_ID r'" if "r \<in> set ?cur" "r' \<in> set ?cur" "r_Name r = r_Name r'" for r r'
    using roles_unique(1) [OF assms(2) sub [OF that(1)] sub [OF that(2)] that(3)] by simp
  note m = current_by_name [of ?cur, OF this]
  have w1: "healthy_driver ?w1" "db_ok (w_db ?w1)" "user_exists u (w_db ?w1)" using assms by simp_all
  have db: "w_db ?w1 = ?d" by simp
  from run_add_roles_loop [OF w1, unfolded db, of ?m names] obtain w2 where add: "run_state (add_roles_loop u ?m names) ?w1 = ((), w2)" "only_grants ?w1 w2"
    "grants (w_db w2) = grants ?d \<union> Pair u ` named_roles ?d (filter (\<lambda>n. map_of ?m n = None) names)" by blast
  from run_remove_roles_loop [OF only_grantsD(1) [OF add(2)]] obtain w3
    where rem: "run_state (remove_roles_loop u names (ord ?m)) w2 = ((), w3)" "only_grants w2 w3"
      "grants (w_db w3) = grants (w_db w2) - {(u, snd p) | p. p \<in> set (ord ?m) \<and> fst p \<notin> set names}" by blast
  have run: "run_state (syncRoles ord u names) w = (Inr (), w3)"
    using assms(1) add(1) rem(1)
    by (simp add: syncRoles_def GetUserRoles_def run_simps run_rows_method Let_def)
  have removed: "{(u, snd p) | p. p \<in> set (ord ?m) \<and> fst p \<notin> set names} = (\<lambda>r. (u, r_ID r)) ` {r \<in> set ?cur. r_Name r \<notin> set names}"
    using assms(4) m(1) by (simp only: pairs_image)
  have added: "named_roles ?d (filter (\<lambda>n. map_of ?m n = None) names) =
      r_ID ` {r \<in> set (t_roles ?d). r_Name r \<in> set names \<and> r_Name r \<notin> r_Name ` set ?cur}"
    by (auto simp: named_roles_def m(2))
  have "p \<in> grants (w_db w3) \<longleftrightarrow> p \<in> {p \<in> grants ?d. fst p \<noteq> u} \<union> Pair u ` named_roles ?d names" for p
  proof (cases "fst p = u \<and> (\<exists>r \<in> set (t_roles ?d). r_ID r = snd p)")
    case True
    then obtain r where r: "r \<in> set (t_roles ?d)" "p = (u, r_ID r)" by (cases p) auto
    have id: "r' = r" if "r' \<in> set (t_roles ?d)" "r_ID r' = r_ID r" for r' using roles_unique(2) [OF assms(2)] r(1) that by blast
    have nm: "r' = r" if "r' \<in> set (t_roles ?d)" "r_Name r' = r_Name r" for r' using roles_unique(1) [OF assms(2)] r(1) that by blast
    have "p \<in> grants ?d \<longleftrightarrow> r \<in> set ?cur" using role_current [OF r(1)] r(2) by simp
    moreover have pick: "p \<in> Pair u ` r_ID ` {x \<in> set (t_roles ?d). Q x} \<longleftrightarrow> Q r" for Q
    proof
      assume "p \<in> Pair u ` r_ID ` {x \<in> set (t_roles ?d). Q x}"
      then obtain x where "x \<in> set (t_roles ?d)" "Q x" "r_ID x = r_ID r" using r(2) by auto
      with id [of x] show "Q r" by simp
    next
      assume "Q r"
      then show "p \<in> Pair u ` r_ID ` {x \<in> set (t_roles ?d). Q x}" using r by blast
    qed
    moreover have "p \<in> Pair u ` named_roles ?d names \<longleftrightarrow> r_Name r \<in> set names"
      unfolding named_roles_image by (rule pick)
    moreover have "r_Name r \<in> r_Name ` set ?cur \<longleftrightarrow> r \<in> set ?cur"
    proof
      assume "r_Name r \<in> r_Name ` set ?cur"
      then obtain x where "x \<in> set ?cur" "r_Name x = r_Name r" by auto
      with nm [OF sub] show "r \<in> set ?cur" by metis
    qed simp
    moreover have "(\<lambda>r. (u, r_ID r)) ` {r \<in> set ?cur. r_Name r \<notin> set names} =
        Pair u ` r_ID ` {x \<in> set (t_roles ?d). x \<in> set ?cur \<and> r_Name x \<notin> set names}"
      using sub by (auto simp: image_image)
    ultimately show ?thesis using True unfolding rem(3) add(3) removed added by simp blast
  next
    case False
    then have "p \<notin> Pair u ` named_roles ?d ns" "fst p = u \<Longrightarrow> p \<notin> grants ?d" for ns
      using granted_role [OF assms(2), of u "snd p"] by (auto simp: named_roles_def)
    with False show ?thesis unfolding rem(3) add(3) removed by auto
  qed
  moreover have "only_grants w w3" using only_grants_trans [OF add(2) rem(2)] by (simp add: only_grants_def)
  ultimately show ?thesis using run by blast
qed

subsection \<open>A login\<close>

text \<open>What \<open>SyncUser\<close> has done when it comes to the roles of the user \<open>u\<close>.\<close>

definition known_user :: "string \<Rightarrow> 'z world_scheme \<Rightarrow> 'z world_scheme \<Rightarrow> bool" where
  "known_user u w w' =
     (healthy_driver w' \<and> db_ok (w_db w') \<and> user_exists u (w_db w') \<and> t_roles (w_db w') = t_roles (w_db w) \<and>
      {p \<in> grants (w_db w'). fst p \<noteq> u} = {p \<in> grants (w_db w). fst p \<noteq> u})"

lemma sync_and_get_roles:
  assumes "known_user u w w1" "\<And>m. set (ord m) = set m" "names \<noteq> []"
    and run: "run_state (sync_and_get ord u names) w1 = (Inr user, w')"
  shows "u_ID user = u \<and> set (u_Roles user) = {r \<in> set (t_roles (w_db w)). r_Name r \<in> set names} \<and>
    grants (w_db w') = {p \<in> grants (w_db w). fst p \<noteq> u} \<union> Pair u ` named_roles (w_db w) names"
proof -
  from assms(1) have w1: "healthy_driver w1" "db_ok (w_db w1)" "user_exists u (w_db w1)"
    and roles: "t_roles (w_db w1) = t_roles (w_db w)"
    and others: "{p \<in> grants (w_db w1). fst p \<noteq> u} = {p \<in> grants (w_db w). fst p \<noteq> u}" by (simp_all add: known_user_def)
  from run_syncRoles [OF w1 assms(2)] obtain w2 where sync: "run_state (syncRoles ord u names) w1 = (Inr (), w2)" "only_grants w1 w2"
    "grants (w_db w2) = {p \<in> grants (w_db w1). fst p \<noteq> u} \<union> Pair u ` named_roles (w_db w1) names" by blast
  have "named_roles (w_db w1) names = named_roles (w_db w) names" using roles by (simp add: named_roles_def)
  with sync(3) others have g: "grants (w_db w2) = {p \<in> grants (w_db w). fst p \<noteq> u} \<union> Pair u ` named_roles (w_db w) names" by simp
  from sync(1) assms(3) run have get: "run_state (GetUserByID u) w2 = (Inr user, w')"
    by (simp add: sync_and_get_def run_simps)
  have h2: "healthy_driver w2" by (rule only_grantsD(1) [OF sync(2)])
  define x where "x = hd (select_user u (w_db w2))"
  from get h2 have x: "x \<in> set (select_user u (w_db w2))" "user = x\<lparr>u_Roles := select_user_roles (u_ID x) (w_db w2)\<rparr>"
    and db: "w_db w' = w_db w2" unfolding x_def
    by (cases "select_user u (w_db w2)";
        auto simp: GetUserByID_def with_roles_def GetUserRoles_def run_simps run_row_method run_rows_method)+
  then have id: "u_ID user = u" "u_ID x = u" by (auto simp: select_user_def)
  have "t_roles (w_db w2) = t_roles (w_db w)" using only_grantsD(2) [OF sync(2)] roles by simp
  moreover have "(u, r_ID r) \<in> grants (w_db w2) \<longleftrightarrow> r_Name r \<in> set names" if r: "r \<in> set (t_roles (w_db w))" for r
  proof -
    have "r_ID r \<in> named_roles (w_db w) names \<longleftrightarrow> r_Name r \<in> set names"
    proof
      assume "r_ID r \<in> named_roles (w_db w) names"
      then obtain x where x: "x \<in> set (t_roles (w_db w))" "r_ID x = r_ID r" "r_Name x \<in> set names"
        by (auto simp: named_roles_def)
      from roles_unique(2) [OF w1(2), unfolded roles, OF x(1) r x(2)] x(3) show "r_Name r \<in> set names" by simp
    qed (use r in \<open>auto simp: named_roles_def\<close>)
    then show ?thesis unfolding g by auto
  qed
  ultimately have "set (select_user_roles u (w_db w2)) = {r \<in> set (t_roles (w_db w)). r_Name r \<in> set names}"
    using role_current [of _ "w_db w2" u] unfolding set_select_user_roles by auto
  with id x(2) g db show ?thesis by simp
qed

lemma update_user_known:
  assumes "db_ok (w_db w)" "update_user user (w_db w) = Inr (n, d)" "0 < n" "healthy_driver w1" "w_db w1 = d"
  shows "known_user (u_ID user) w w1"
proof -
  from assms(2) have d: "d = (w_db w)\<lparr>t_users := rows_update (\<lambda>r. u_ID r = u_ID user) (set_user_row user) (t_users (w_db w))\<rparr>"
    by (simp add: update_user_def Let_def)
  from assms(2,3) obtain x where "x \<in> set (t_users (w_db w))" "u_ID x = u_ID user"
    by (auto simp: update_user_def Let_def row_count_pos find_None_iff)
  then have "set_user_row user x \<in> set (t_users d)" "u_ID (set_user_row user x) = u_ID user"
    unfolding d by (auto simp: set_rows_update set_user_row_def image_iff)
  then have "user_exists (u_ID user) d" by (auto simp: user_exists_def)
  moreover have "db_ok d" using update_user_ok [OF assms(1,2)] .
  moreover have "t_roles d = t_roles (w_db w)" "grants d = grants (w_db w)" unfolding d by (simp_all add: grants_def)
  ultimately show ?thesis using assms(4,5) by (simp add: known_user_def)
qed

lemma run_GetUserBySubject:
  assumes "healthy_driver w"
  shows "\<exists>r w1. run_state (GetUserBySubject s) w = (r, w1) \<and> w_db w1 = w_db w \<and> healthy_driver w1"
  using assms
  by (cases "select_user_by_subject s (w_db w)")
    (simp_all add: GetUserBySubject_def with_roles_def GetUserRoles_def run_simps run_row_method run_rows_method)

lemma existing_user_known:
  assumes "healthy_driver w" "db_ok (w_db w)" "w_db w1 = w_db w" "healthy_driver w1"
    and "run_state (UpdateUser user) w1 = (Inr (), w2)"
  shows "known_user (u_ID user) w w2"
proof -
  obtain n d where up: "update_user user (w_db w) = Inr (n, d)" by (simp add: update_user_def Let_def)
  with assms(3-5) have "0 < n" "w_db w2 = d" "healthy_driver w2"
    by (auto simp: UpdateUser_def run_affect_method split: if_splits)
  with update_user_known [OF assms(2) up] show ?thesis by blast
qed

lemma new_user_known:
  assumes "healthy_driver w" "db_ok (w_db w)" "w_db w1 = w_db w" "healthy_driver w1"
    and create: "run_state (CreateUser user) w1 = ((user', Inr ()), w2)"
    and role: "run_state (GetRoleByName n) w2 = (Inr r, w3)"
    and assign: "run_state (AssignRole (u_ID user') (r_ID r) by) w3 = (Inr (), w4)"
  shows "known_user (u_ID user') w w4"
proof -
  have ok2: "db_ok (w_db w2)" using keeps_run [OF keeps_CreateUser _ create] assms(2,3) by simp
  have "healthy_driver w2 \<and> w_db w2 = (w_db w)\<lparr>t_users := t_users (w_db w2)\<rparr> \<and> user_exists (u_ID user') (w_db w2)"
    using create assms(3,4)
    by (cases "u_ID user = ''''"; cases "u_CreatedAt user = 0")
      (auto simp: CreateUser_def run_simps run_insert_method insert_user_def user_exists_def split: if_splits)
  then have h2: "healthy_driver w2" and u2: "user_exists (u_ID user') (w_db w2)"
    and t2: "t_roles (w_db w2) = t_roles (w_db w)" "grants (w_db w2) = grants (w_db w)"
    by (metis, metis, metis db.select_convs(8) db.surjective db.update_convs(7), metis grants_def db.select_convs(9) db.surjective db.update_convs(7))
  from run_GetRoleByName [OF h2 ok2, of n] role have w3: "w_db w3 = w_db w2" "healthy_driver w3"
    and r: "find (\<lambda>r. r_Name r = n) (t_roles (w_db w2)) = Some r"
    by (auto split: option.splits)
  then have "role_exists (r_ID r) (w_db w3)" by (auto simp: role_exists_def dest!: find_Some_mem)
  with run_AssignRole [OF w3(2)] u2 w3(1) assign have w4: "only_grants w3 w4"
    "grants (w_db w4) = insert (u_ID user', r_ID r) (grants (w_db w3))"
    by (metis Pair_inject)+
  have "db_ok (w_db w4)" using keeps_run [OF keeps_AssignRole _ assign] ok2 w3(1) by simp
  with w4 only_grantsD [OF w4(1)] w3 u2 t2 show ?thesis by (auto simp: known_user_def)
qed

text \<open>
  C14: A login gives the user exactly the local roles the identity provider names: on a driver that
  does not fail (errors of assigning and removing roles are only logged), whenever
  \<open>SyncUser\<close> succeeds with a list of role names that is not empty, the user it returns, whether known
  before or created, has exactly the local roles of those names, the assignments in the database
  are those, and no other user's assignment has changed.
\<close>

theorem SyncUser_roles:
  assumes "healthy_driver w" "db_ok (w_db w)" "\<And>m. set (ord m) = set m" "names \<noteq> []"
    and run: "run_state (SyncUser ord dflt oidcUser names) w = (Inr user, w')"
  shows "set (u_Roles user) = {r \<in> set (t_roles (w_db w)). r_Name r \<in> set names} \<and>
    grants (w_db w') = {p \<in> grants (w_db w). fst p \<noteq> u_ID user} \<union> Pair (u_ID user) ` named_roles (w_db w) names"
proof -
  from run_GetUserBySubject [OF assms(1), of "u_Subject oidcUser"] obtain r w1
    where get: "run_state (GetUserBySubject (u_Subject oidcUser)) w = (r, w1)" and w1: "w_db w1 = w_db w" "healthy_driver w1" by blast
  let ?w1 = "w1\<lparr>w_now_ix := Suc (w_now_ix w1)\<rparr>"
  have w1': "w_db ?w1 = w_db w" "healthy_driver ?w1" using w1 by simp_all
  have "\<exists>u w2. known_user u w w2 \<and> run_state (sync_and_get ord u names) w2 = (Inr user, w')"
  proof (cases r)
    case (Inr existing)
    let ?e = "existing\<lparr>u_Email := u_Email oidcUser, u_Name := u_Name oidcUser, u_LastLoginAt := w_now w1 (w_now_ix w1)\<rparr>"
    obtain x w2 where up: "run_state (UpdateUser ?e) ?w1 = (x, w2)" by (metis prod.collapse)
    from run get Inr up have "x = Inr ()" "run_state (sync_and_get ord (u_ID existing) names) w2 = (Inr user, w')"
      by (auto simp: SyncUser_def run_simps Let_def split: if_splits sum.splits)
    with existing_user_known [OF assms(1,2) w1', of ?e w2] up show ?thesis by auto
  next
    case (Inl e)
    let ?u = "oidcUser\<lparr>u_CreatedAt := w_now w1 (w_now_ix w1), u_LastLoginAt := w_now w1 (w_now_ix w1), u_IsActive := True\<rparr>"
    obtain u' x w2 where create: "run_state (CreateUser ?u) ?w1 = ((u', x), w2)" by (metis prod.collapse)
    obtain y w3 where role: "run_state (GetRoleByName dflt) w2 = (y, w3)" by (metis prod.collapse)
    from run get Inl create have x: "x = Inr ()"
      by (auto simp: SyncUser_def run_simps Let_def split: if_splits sum.splits)
    from run get Inl create role x obtain dr where y: "y = Inr dr"
      by (auto simp: SyncUser_def run_simps Let_def split: if_splits sum.splits)
    obtain z w4 where assign: "run_state (AssignRole (u_ID u') (r_ID dr) ''system'') w3 = (z, w4)" by (metis prod.collapse)
    from run get Inl create role x y assign have "z = Inr ()" "run_state (sync_and_get ord (u_ID u') names) w4 = (Inr user, w')"
      by (auto simp: SyncUser_def run_simps Let_def split: if_splits sum.splits)
    with new_user_known [OF assms(1,2) w1'] create role assign x y show ?thesis by blast
  qed
  then obtain u w2 where "known_user u w w2" "run_state (sync_and_get ord u names) w2 = (Inr user, w')" by blast
  from sync_and_get_roles [OF this(1) assms(3,4) this(2)] show ?thesis by auto
qed

lemma ex_access_db_ok: "db_ok ex_access_db"
  by (simp add: db_ok_def keys_ok_def refs_ok_def unique_def references_def ex_access_defs)

lemma ex_sync_known: "known_user ''ann'' ex_access_world w1 \<Longrightarrow>
  \<exists>user w'. run_state (sync_and_get (\<lambda>m. m) ''ann'' [''operator'']) w1 = (Inr user, w')"
proof -
  assume known: "known_user ''ann'' ex_access_world w1"
  then have w1: "healthy_driver w1" "db_ok (w_db w1)" "user_exists ''ann'' (w_db w1)" by (simp_all add: known_user_def)
  from run_syncRoles [OF w1, of "\<lambda>m. m" "[''operator'']"] obtain w2
    where sync: "run_state (syncRoles (\<lambda>m. m) ''ann'' [''operator'']) w1 = (Inr (), w2)" "only_grants w1 w2" by auto
  have "select_user ''ann'' (w_db w2) \<noteq> []"
    using only_grantsD(3) [OF sync(2)] w1(3) by (auto simp: select_user_def user_exists_def filter_empty_conv)
  with sync only_grantsD(1) [OF sync(2)] show ?thesis
    by (cases "select_user ''ann'' (w_db w2)")
      (simp_all add: sync_and_get_def run_simps GetUserByID_def with_roles_def GetUserRoles_def run_row_method run_rows_method)
qed

lemma ex_sync: "\<exists>user w'. run_state (SyncUser (\<lambda>m. m) ''viewer'' (ex_user ''ann'') [''operator'']) ex_access_world = (Inr user, w')"
proof -
  let ?w1 = "ex_access_world\<lparr>w_stmt_ix := 2, w_now_ix := 1\<rparr>"
  let ?e = "(ex_user ''ann'')\<lparr>u_Roles := select_user_roles ''ann'' ex_access_db, u_LastLoginAt := 5\<rparr>"
  have get: "run_state (GetUserBySubject ''sub-ann'') ex_access_world =
      (Inr ((ex_user ''ann'')\<lparr>u_Roles := select_user_roles ''ann'' ex_access_db\<rparr>), ex_access_world\<lparr>w_stmt_ix := 2\<rparr>)"
    by (simp add: GetUserBySubject_def with_roles_def GetUserRoles_def run_simps run_row_method run_rows_method
        select_user_by_subject_def ex_access_world_def ex_access_db_def ex_user_def empty_db_def)
  obtain w2 where up: "run_state (UpdateUser ?e) ?w1 = (Inr (), w2)"
    by (simp add: UpdateUser_def run_affect_method update_user_def Let_def ex_access_world_def ex_access_db_def ex_user_def
        row_count_def)
  have "known_user ''ann'' ex_access_world w2"
    using existing_user_known [OF _ _ _ _ up, of ex_access_world] ex_access_healthy
    by (simp add: ex_access_db_ok) (simp add: ex_user_def)
  from ex_sync_known [OF this] get up show ?thesis
    by (simp add: SyncUser_def run_simps ex_user_def ex_access_world_def Let_def)
qed

theorem SyncUser_roles_witness:
  "\<exists>user w'. run_state (SyncUser (\<lambda>m. m) ''viewer'' (ex_user ''ann'') [''operator'']) ex_access_world = (Inr user, w') \<and>
     set (u_Roles user) = {ex_role ''operator''}"
proof -
  obtain user w' where run: "run_state (SyncUser (\<lambda>m. m) ''viewer'' (ex_user ''ann'') [''operator'']) ex_access_world = (Inr user, w')"
    using ex_sync by blast
  have "{r \<in> set (t_roles ex_access_db). r_Name r \<in> set [''operator'']} = {ex_role ''operator''}"
    by (auto simp: ex_access_db_def ex_role_def)
  with SyncUser_roles [OF _ _ _ _ run] run show ?thesis by (auto simp: ex_access_healthy ex_access_db_ok)
qed

end
