(* ===== verification/Store_Refinement.thy ===== *)
theory Store_Refinement
  imports Store_Config
begin

section \<open>The configuration store as a finite map (internal/store/config.go)\<close>

text \<open>
  The abstract specification of the configuration store: a map from IDs to configurations. The four
  methods that read and write single configurations are calls, their results replies; the
  specification says which replies are possible and what the map is afterwards, and every run of the
  methods, with whatever the driver does, is a run of the specification.
\<close>

subsection \<open>Statements that fail\<close>

lemma affect_method_Inl:
  "run_state (affect_method wrap stmt) w = (Inl e, w') \<Longrightarrow>
   (\<exists>x. e = wrap x) \<and> w_db w' = w_db w \<or> (\<exists>x n. e = Wrap ''rows affected'' x \<and> stmt (w_db w) = Inr (n, w_db w')) \<or>
   e = ErrNotFound \<and> stmt (w_db w) = Inr (0, w_db w')"
  by (auto simp: affect_method_def run_simps split: prod.splits sum.splits if_splits dest: sql_exec_Inl sql_exec_Inr)

context keyed_store begin

text \<open>A write that reports an error either did not happen or lost its row count only; not found is exact.\<close>

lemma affect_failed:
  assumes "invar (w_db w)" "run_state (affect_method wrap (stmt x)) w = (Inl e, w')" "\<And>x. wrap x \<noteq> ErrNotFound"
  shows "invar (w_db w')"
    and "lookup (w_db w') = lookup (w_db w) \<or> e \<noteq> ErrNotFound \<and> lookup (w_db w') = map_op x (lookup (w_db w))
      \<or> e = ErrNotFound \<and> stmt x (w_db w) = Inr (0, w_db w')"
  using affect_method_Inl [OF assms(2)] stmt_refines [OF assms(1)] assms(1,3) by auto

lemma update_failed:
  assumes "invar (w_db w)" "run_state (affect_method wrap (upd u)) w = (Inl e, w')" "\<And>x. wrap x \<noteq> ErrNotFound"
  shows "invar (w_db w')" "e = ErrNotFound \<Longrightarrow> lookup (w_db w) (ukey u) = None \<and> lookup (w_db w') = lookup (w_db w)"
    "lookup (w_db w') = lookup (w_db w) \<or> lookup (w_db w') = map_op (Upd u) (lookup (w_db w))"
proof -
  note failed = affect_failed [of w wrap "Upd u" e w', simplified, OF assms]
  from failed show "invar (w_db w')" by blast
  have none: "lookup (w_db w) (ukey u) = None \<and> lookup (w_db w') = lookup (w_db w)"
    if st: "upd u (w_db w) = Inr (0, w_db w')"
    using upd_lookup [OF assms(1) st] by (auto simp: lookup_def fun_eq_iff)
  from failed none affect_method_Inl [OF assms(2)] assms(3) [symmetric]
  show "e = ErrNotFound \<Longrightarrow> lookup (w_db w) (ukey u) = None \<and> lookup (w_db w') = lookup (w_db w)" by auto
  from failed none show "lookup (w_db w') = lookup (w_db w) \<or> lookup (w_db w') = map_op (Upd u) (lookup (w_db w))" by auto
qed

lemma delete_failed:
  assumes "invar (w_db w)" "run_state (affect_method wrap (del k)) w = (Inl e, w')" "\<And>x. wrap x \<noteq> ErrNotFound"
  shows "invar (w_db w')" "e = ErrNotFound \<Longrightarrow> lookup (w_db w) k = None \<and> lookup (w_db w') = lookup (w_db w)"
    "lookup (w_db w') = lookup (w_db w) \<or> lookup (w_db w') = (lookup (w_db w))(k := None)"
proof -
  note failed = affect_failed [of w wrap "Del k" e w', simplified, OF assms]
  from failed show "invar (w_db w')" by blast
  have none: "lookup (w_db w) k = None \<and> lookup (w_db w') = lookup (w_db w)"
    if st: "del k (w_db w) = Inr (0, w_db w')"
    using del_lookup [OF assms(1) st] by (auto simp: lookup_def fun_eq_iff)
  from failed none affect_method_Inl [OF assms(2)] assms(3) [symmetric]
  show "e = ErrNotFound \<Longrightarrow> lookup (w_db w) k = None \<and> lookup (w_db w') = lookup (w_db w)" by auto
  from failed none show "lookup (w_db w') = lookup (w_db w) \<or> lookup (w_db w') = (lookup (w_db w))(k := None)" by auto
qed

end

subsection \<open>Calls, replies and the specification\<close>

datatype config_call = Call_Create Config | Call_Get string | Call_Update Config | Call_Delete string
datatype config_reply = Created Config | Found Config | Updated Config | Deleted | Failed err

definition call_config :: "config_call \<Rightarrow> ('z world_scheme, config_reply) state" where
  "call_config call =
     (case call of
        Call_Create cfg \<Rightarrow> do { (stamped, r) \<leftarrow> CreateConfig cfg; ret (case r of Inl e \<Rightarrow> Failed e | Inr _ \<Rightarrow> Created stamped) }
      | Call_Get i \<Rightarrow> do { r \<leftarrow> GetConfig i; ret (case r of Inl e \<Rightarrow> Failed e | Inr cfg \<Rightarrow> Found cfg) }
      | Call_Update cfg \<Rightarrow> do { (stamped, r) \<leftarrow> UpdateConfig cfg; ret (case r of Inl e \<Rightarrow> Failed e | Inr _ \<Rightarrow> Updated stamped) }
      | Call_Delete i \<Rightarrow> do { r \<leftarrow> DeleteConfig i; ret (case r of Inl e \<Rightarrow> Failed e | Inr _ \<Rightarrow> Deleted) })"

primrec call_configs :: "config_call list \<Rightarrow> ('z world_scheme, config_reply list) state" where
  "call_configs [] = ret []"
| "call_configs (call # calls) = do { r \<leftarrow> call_config call; rs \<leftarrow> call_configs calls; ret (r # rs) }"

definition config_map :: "db \<Rightarrow> string \<Rightarrow> Config option" where
  "config_map d = (\<lambda>i. first_row (select_config i d))"

text \<open>
  What the callers rely on. A creation needs a fresh key and keeps the request but for the key it
  may choose and the two times; an update keeps the creation time and the reconcile error of the
  stored row; not found means absent; any other error of a write leaves the map as it was or with
  the write done, since the driver may fail after the statement.
\<close>

fun config_spec :: "(string \<Rightarrow> Config option) \<Rightarrow> config_call \<Rightarrow> config_reply \<Rightarrow> (string \<Rightarrow> Config option) \<Rightarrow> bool" where
  "config_spec m (Call_Create cfg) (Created c) m' =
     (m (cfg_ID c) = None \<and> (cfg_ID cfg \<noteq> '''' \<longrightarrow> cfg_ID c = cfg_ID cfg) \<and>
      c = cfg\<lparr>cfg_ID := cfg_ID c, cfg_CreatedAt := cfg_CreatedAt c, cfg_UpdatedAt := cfg_UpdatedAt c\<rparr> \<and>
      m' = m(cfg_ID c \<mapsto> c\<lparr>cfg_LastReconcileError := ''''\<rparr>))"
| "config_spec m (Call_Create cfg) (Failed e) m' = (m' = m)"
| "config_spec m (Call_Get i) (Found c) m' = (m i = Some c \<and> m' = m)"
| "config_spec m (Call_Get i) (Failed e) m' = ((e = ErrNotFound \<longrightarrow> m i = None) \<and> m' = m)"
| "config_spec m (Call_Update cfg) (Updated c) m' =
     (\<exists>old. m (cfg_ID cfg) = Some old \<and> c = cfg\<lparr>cfg_UpdatedAt := cfg_UpdatedAt c\<rparr> \<and>
        m' = m(cfg_ID cfg \<mapsto> c\<lparr>cfg_CreatedAt := cfg_CreatedAt old, cfg_LastReconcileError := cfg_LastReconcileError old\<rparr>))"
| "config_spec m (Call_Update cfg) (Failed e) m' =
     ((e = ErrNotFound \<longrightarrow> m (cfg_ID cfg) = None \<and> m' = m) \<and>
      (m' = m \<or> (\<exists>old t. m (cfg_ID cfg) = Some old \<and>
         m' = m(cfg_ID cfg \<mapsto> cfg\<lparr>cfg_CreatedAt := cfg_CreatedAt old, cfg_UpdatedAt := t,
                                  cfg_LastReconcileError := cfg_LastReconcileError old\<rparr>))))"
| "config_spec m (Call_Delete i) Deleted m' = (m i \<noteq> None \<and> m' = m(i := None))"
| "config_spec m (Call_Delete i) (Failed e) m' =
     ((e = ErrNotFound \<longrightarrow> m i = None \<and> m' = m) \<and> (m' = m \<or> m' = m(i := None)))"
| "config_spec m _ _ m' = False"

fun config_specs :: "(string \<Rightarrow> Config option) \<Rightarrow> config_call list \<Rightarrow> config_reply list \<Rightarrow> (string \<Rightarrow> Config option) \<Rightarrow> bool" where
  "config_specs m [] [] m' = (m' = m)"
| "config_specs m (c # cs) (r # rs) m' = (\<exists>m1. config_spec m c r m1 \<and> config_specs m1 cs rs m')"
| "config_specs m _ _ m' = False"

subsection \<open>The methods refine the specification\<close>

lemma set_config_row_eq:
  "set_config_row c old = c\<lparr>cfg_CreatedAt := cfg_CreatedAt old, cfg_LastReconcileError := cfg_LastReconcileError old\<rparr>"
  if "cfg_ID c = cfg_ID old"
  using that by (simp add: set_config_row_def)

lemma config_map_key: "config_map d i = Some c \<Longrightarrow> cfg_ID c = i"
  by (auto simp: config_map_def first_select_config find_Some_iff)

lemma config_map_lookup: "config_table.lookup = config_map"
  by (simp add: fun_eq_iff config_table.lookup_def config_map_def)

lemma create_refines:
  assumes "db_ok (w_db w)" "run_state (call_config (Call_Create cfg)) w = (r, w')"
  shows "config_spec (config_map (w_db w)) (Call_Create cfg) r (config_map (w_db w')) \<and> db_ok (w_db w')"
proof -
  let ?new = "cfg_ID cfg = ''''"
  define c where "c = cfg\<lparr>cfg_ID := (if ?new then w_uuid w (w_uuid_ix w) else cfg_ID cfg),
    cfg_CreatedAt := w_now w (w_now_ix w), cfg_UpdatedAt := w_now w (Suc (w_now_ix w))\<rparr>"
  define w1 where "w1 = w\<lparr>w_uuid_ix := (if ?new then Suc (w_uuid_ix w) else w_uuid_ix w), w_now_ix := Suc (Suc (w_now_ix w))\<rparr>"
  have "run_state (CreateConfig cfg) w =
      (case run_state (insert_method (fk_wrap ''insert config'') (insert_config c)) w1 of (u, w2) \<Rightarrow> ((c, u), w2))"
    by (cases ?new) (simp_all add: CreateConfig_def run_simps Let_def c_def w1_def)
  then obtain u where run: "run_state (insert_method (fk_wrap ''insert config'') (insert_config c)) w1 = (u, w')"
    and r: "r = (case u of Inl e \<Rightarrow> Failed e | Inr _ \<Rightarrow> Created c)"
    using assms(2) by (auto simp: call_config_def run_simps split: prod.splits)
  have w1: "w_db w1 = w_db w" and c: "c = cfg\<lparr>cfg_ID := cfg_ID c, cfg_CreatedAt := cfg_CreatedAt c, cfg_UpdatedAt := cfg_UpdatedAt c\<rparr>"
    "cfg_ID cfg \<noteq> '''' \<longrightarrow> cfg_ID c = cfg_ID cfg"
    by (simp_all add: w1_def c_def)
  show ?thesis
  proof (cases u)
    case (Inl e)
    with insert_method_Inl run r w1 assms(1) show ?thesis by fastforce
  next
    case (Inr v)
    from config_table.method_insert [OF _ run [unfolded Inr]] w1 assms(1) c r Inr show ?thesis
      by (simp add: config_map_lookup new_config_row_def)
  qed
qed

lemma get_refines:
  assumes "db_ok (w_db w)" "run_state (call_config (Call_Get i)) w = (r, w')"
  shows "config_spec (config_map (w_db w)) (Call_Get i) r (config_map (w_db w')) \<and> db_ok (w_db w')"
  using assms
  by (auto simp: call_config_def GetConfig_def row_method_def sql_row_def run_simps config_map_def first_row_def
      split: option.splits fault.splits list.splits sum.splits)

lemma update_refines:
  assumes "db_ok (w_db w)" "run_state (call_config (Call_Update cfg)) w = (r, w')"
  shows "config_spec (config_map (w_db w)) (Call_Update cfg) r (config_map (w_db w')) \<and> db_ok (w_db w')"
proof -
  obtain c w1 u where run: "run_state (affect_method (Wrap ''update config'') (update_config c)) w1 = (u, w')"
    and w1: "w_db w1 = w_db w" and c: "c = cfg\<lparr>cfg_UpdatedAt := cfg_UpdatedAt c\<rparr>" "cfg_ID c = cfg_ID cfg"
    and r: "r = (case u of Inl e \<Rightarrow> Failed e | Inr _ \<Rightarrow> Updated c)"
    using assms(2) by (force simp: call_config_def UpdateConfig_def run_simps Let_def split: prod.splits)
  have row: "set_config_row c old = c\<lparr>cfg_CreatedAt := cfg_CreatedAt old, cfg_LastReconcileError := cfg_LastReconcileError old\<rparr>"
    if "config_map (w_db w) (cfg_ID cfg) = Some old" for old
    using set_config_row_eq [of c old] config_map_key [OF that] c(2) by simp
  show ?thesis
  proof (cases u)
    case (Inr v)
    from config_table.method_update [OF _ run [unfolded Inr]] w1 assms(1)
    obtain old where "config_map (w_db w) (cfg_ID cfg) = Some old"
      "config_map (w_db w') = (config_map (w_db w))(cfg_ID cfg \<mapsto> set_config_row c old)" "db_ok (w_db w')"
      by (auto simp: config_map_lookup c(2))
    with row r Inr c show ?thesis by simp
  next
    case (Inl e)
    note failed = config_table.update_failed [OF _ run [unfolded Inl], unfolded config_map_lookup c(2) w1, OF assms(1)]
    have "config_map (w_db w') = config_map (w_db w) \<or> (\<exists>old. config_map (w_db w) (cfg_ID cfg) = Some old \<and>
        config_map (w_db w') = (config_map (w_db w))(cfg_ID cfg \<mapsto> set_config_row c old))"
      using failed(3) c(2) by (cases "config_map (w_db w) (cfg_ID cfg)") (auto simp: fun_upd_idem)
    moreover have "c\<lparr>cfg_CreatedAt := a, cfg_LastReconcileError := b\<rparr> =
        cfg\<lparr>cfg_CreatedAt := a, cfg_UpdatedAt := cfg_UpdatedAt c, cfg_LastReconcileError := b\<rparr>" for a b
      by (subst c(1)) simp
    ultimately show ?thesis using failed(1,2) row r Inl by auto
  qed
qed

lemma delete_refines:
  assumes "db_ok (w_db w)" "run_state (call_config (Call_Delete i)) w = (r, w')"
  shows "config_spec (config_map (w_db w)) (Call_Delete i) r (config_map (w_db w')) \<and> db_ok (w_db w')"
proof -
  obtain u where run: "run_state (affect_method (Wrap ''delete config'') (delete_config i)) w = (u, w')"
    and r: "r = (case u of Inl e \<Rightarrow> Failed e | Inr _ \<Rightarrow> Deleted)"
    using assms(2) by (auto simp: call_config_def DeleteConfig_def run_simps split: prod.splits)
  show ?thesis
  proof (cases u)
    case (Inr v)
    from config_table.method_delete [OF assms(1) run [unfolded Inr]] r Inr show ?thesis by (simp add: config_map_lookup)
  next
    case (Inl e)
    from config_table.delete_failed [OF assms(1) run [unfolded Inl]] r Inl show ?thesis by (auto simp: config_map_lookup)
  qed
qed

lemma call_refines:
  assumes "db_ok (w_db w)" "run_state (call_config call) w = (r, w')"
  shows "config_spec (config_map (w_db w)) call r (config_map (w_db w')) \<and> db_ok (w_db w')"
  using assms by (cases call) (blast dest: create_refines get_refines update_refines delete_refines)+

text \<open>
  C19: The configuration store refines a map: whatever calls are made, in whatever order, and whatever
  the driver does, the replies are ones the specification allows from the stored map, and the map
  the specification reaches is the one stored at the end; the schema's constraints still hold.
\<close>

theorem config_store_refines_map:
  assumes "db_ok (w_db w)" "run_state (call_configs calls) w = (replies, w')"
  shows "config_specs (config_map (w_db w)) calls replies (config_map (w_db w')) \<and> db_ok (w_db w')"
  using assms
proof (induction calls arbitrary: w replies)
  case Nil
  then show ?case by (simp add: run_simps)
next
  case (Cons call calls)
  obtain r w1 where r: "run_state (call_config call) w = (r, w1)" by (cases "run_state (call_config call) w")
  obtain rs w2 where rs: "run_state (call_configs calls) w1 = (rs, w2)" by (cases "run_state (call_configs calls) w1")
  from Cons.prems(2) r rs have "replies = r # rs" "w2 = w'" by (simp_all add: run_simps)
  with call_refines [OF Cons.prems(1) r] Cons.IH rs show ?case by auto
qed

definition ex_config :: Config where
  "ex_config = \<lparr>cfg_ID = ''c1'', cfg_Name = ''web'', cfg_DNSName = ''app.example.com'', cfg_DNSTTL = 60,
     cfg_LBMethod = Weighted, cfg_CreatedAt = 0, cfg_UpdatedAt = 0, cfg_LastReconcileError = ''''\<rparr>"

definition ex_store_world :: world where
  "ex_store_world = \<lparr>w_db = empty_db, w_now = (\<lambda>n. int n + 5), w_now_ix = 0, w_uuid = (\<lambda>n. ''u''), w_uuid_ix = 0,
     w_fault = (\<lambda>n. if n = 2 then Some (Fail_After ''disk'') else None), w_stmt_ix = 0\<rparr>"

text \<open>The third statement fails after it ran: the error is reported, the configuration is gone.\<close>

definition ex_calls :: "config_call list" where
  "ex_calls = [Call_Create ex_config, Call_Get ''c1'', Call_Delete ''c1'', Call_Get ''c1'']"

lemma ex_store_ok: "db_ok (w_db ex_store_world)"
  by (simp add: db_ok_def keys_ok_def refs_ok_def unique_def references_def ex_store_world_def empty_db_def)

lemma ex_calls_run:
  "\<exists>c w'. run_state (call_configs ex_calls) ex_store_world =
     ([Created c, Found c, Failed (Wrap ''rows affected'' (Driver ''disk'')), Failed ErrNotFound], w')"
  by (simp add: ex_calls_def call_config_def CreateConfig_def GetConfig_def DeleteConfig_def insert_method_def row_method_def
      affect_method_def sql_exec_def sql_row_def run_simps Let_def ex_store_world_def ex_config_def insert_config_def new_config_row_def
      select_config_def delete_config_def cascade_def rows_delete_def row_count_def empty_db_def)

theorem config_store_refines_map_witness:
  "\<exists>c w'. run_state (call_configs ex_calls) ex_store_world =
       ([Created c, Found c, Failed (Wrap ''rows affected'' (Driver ''disk'')), Failed ErrNotFound], w') \<and>
     config_specs (config_map (w_db ex_store_world)) ex_calls
       [Created c, Found c, Failed (Wrap ''rows affected'' (Driver ''disk'')), Failed ErrNotFound] (config_map (w_db w')) \<and>
     db_ok (w_db w')"
  using ex_calls_run config_store_refines_map [OF ex_store_ok] by metis

end
