(* ===== verification/Guarantees.thy ===== *)
theory Guarantees
  imports Handlers_Auth Handlers_Backend
begin

section \<open>What the handlers guarantee (internal/handlers)\<close>

text \<open>
  Properties of single endpoints: the lists and counts they return, what a deletion takes along,
  what the audit log says of credentials, the gaps in the authorisation of updates, and what a
  login needs before it issues a session.
\<close>

subsection \<open>What an audit entry changes\<close>

text \<open>The database without its audit log.\<close>

definition audit_less :: "db \<Rightarrow> db" where
  "audit_less d = d\<lparr>t_audit_logs := []\<rparr>"

lemma keeps_logAudit_rest: "keeps (\<lambda>w. audit_less (w_db w) = x) (logAudit a b c d e f rq ctx)"
  unfolding logAudit_def CreateAuditLog_def Let_def
  by (intro keep_intros keeps_insert_method [where P = "\<lambda>d. audit_less d = x"])
    (auto simp: insert_audit_log_def audit_less_def split: if_splits)

lemma logAudit_rest: "run_state (logAudit a b c d e f rq ctx) w = (u, w') \<Longrightarrow> audit_less (w_db w') = audit_less (w_db w)"
  using keeps_run [OF keeps_logAudit_rest] by blast

lemma logAudit_details:
  assumes "run_state (logAudit a b c d e details rq ctx) w = (u, w')"
  shows "t_audit_logs (w_db w') = t_audit_logs (w_db w) \<or>
    (\<exists>l. t_audit_logs (w_db w') = t_audit_logs (w_db w) @ [l] \<and> al_Details l = details)"
proof -
  let ?w = "w\<lparr>w_uuid_ix := Suc (w_uuid_ix w), w_now_ix := Suc (w_now_ix w)\<rparr>"
  obtain l r where run: "run_state (insert_method (Wrap ''insert audit log'') (insert_audit_log l)) ?w = (r, w')"
    and l: "al_Details l = details"
    using assms by (force simp: logAudit_def CreateAuditLog_def run_simps Let_def split: prod.splits)
  show ?thesis
  proof (cases r)
    case (Inl e)
    with insert_method_Inl run show ?thesis by fastforce
  next
    case (Inr v)
    with insert_method_Inr run obtain n where "insert_audit_log l (w_db ?w) = Inr (n, w_db w')" by blast
    then have "w_db w' = (w_db w)\<lparr>t_audit_logs := t_audit_logs (w_db w) @ [l]\<rparr>"
      by (simp add: insert_audit_log_def split: if_splits)
    with l show ?thesis by simp
  qed
qed

subsection \<open>Lists and counts\<close>

text \<open>
  C25: With OIDC enabled and a driver that does not fail, the list of configurations shows a user who is
  no admin exactly the configurations one of the user's roles may access, in the order of the store,
  and nothing else.
\<close>

theorem list_shows_accessible:
  assumes "healthy_driver w" "ha_oidc h" "\<not> is_admin ctx" "context_user ctx \<noteq> ''''"
  shows "fst (run_state (H_ListConfigs h ctx) w) =
    Data (D_Configs (filter (\<lambda>cfg. may_access (w_db w) (context_user ctx) (cfg_ID cfg)) (select_configs (w_db w))))"
proof -
  let ?ids = "select_configs_for_user (context_user ctx) (w_db w)"
  have ids: "c \<in> set ?ids \<longleftrightarrow> may_access (w_db w) (context_user ctx) c" for c
    by (auto simp: select_configs_for_user_def set_access_rows may_access_def)
  from assms have "fst (run_state (H_ListConfigs h ctx) w) =
      (if length ?ids = 0 then Data (D_Configs []) else Data (D_Configs (filter (\<lambda>cfg. cfg_ID cfg \<in> set ?ids) (select_configs (w_db w)))))"
    by (simp add: H_ListConfigs_def ListConfigsForUser_def ListConfigs_def run_simps run_rows_method)
  then show ?thesis unfolding ids [symmetric] by (simp add: filter_False)
qed

lemma count_statuses_sum:
  "count_statuses states bs (h, u, n) =
   (h + length (filter (\<lambda>b. map_option hs_Status (states (b_ID b)) = Some StatusHealthy) bs),
    u + length (filter (\<lambda>b. map_option hs_Status (states (b_ID b)) = Some StatusUnhealthy) bs),
    n + length (filter (\<lambda>b. map_option hs_Status (states (b_ID b)) \<notin> {Some StatusHealthy, Some StatusUnhealthy}) bs))"
  by (induction bs arbitrary: h u n) (auto split: option.splits HealthStatus.splits)

lemma three_way:
  "(\<And>x. \<not> (P x \<and> Q x)) \<Longrightarrow>
   length (filter P xs) + length (filter Q xs) + length (filter (\<lambda>x. \<not> P x \<and> \<not> Q x) xs) = length xs"
  by (induction xs) auto

text \<open>
  The status of a configuration accounts for every backend: whatever the driver does, a status
  that is returned counts each of the configuration's backends once, as healthy or unhealthy by its
  stored state and as unknown otherwise.
\<close>

theorem status_counts_backends:
  assumes "run_state (H_GetConfigStatus rq) w = (Data (D_ConfigStatus st), w')"
  shows "st_BackendCount st = length (select_backends (rq_ID rq) (w_db w)) \<and>
    st_BackendCount st = st_HealthyCount st + st_UnhealthyCount st + st_UnknownCount st \<and>
    st_HealthyCount st = length (filter (\<lambda>b. map_option hs_Status (st_HealthStates st (b_ID b)) = Some StatusHealthy)
      (select_backends (rq_ID rq) (w_db w))) \<and>
    st_UnhealthyCount st = length (filter (\<lambda>b. map_option hs_Status (st_HealthStates st (b_ID b)) = Some StatusUnhealthy)
      (select_backends (rq_ID rq) (w_db w)))"
proof -
  from assms obtain cfg w1 bs w2 states h u n where cfg: "run_state (GetConfig (rq_ID rq)) w = (Inr cfg, w1)"
    and bs: "run_state (ListBackends (rq_ID rq)) w1 = (Inr bs, w2)"
    and st: "count_statuses states bs (0, 0, 0) = (h, u, n)"
      "st = \<lparr>st_ConfigID = cfg_ID cfg, st_Name = cfg_Name cfg, st_BackendCount = length bs, st_HealthyCount = h,
        st_UnhealthyCount = u, st_UnknownCount = n, st_HealthStates = states\<rparr>"
    by (auto simp: H_GetConfigStatus_def with_config_def run_simps handleStoreError_def sendValidationError_def
        sendNotFound_def sendInternalError_def split: if_splits sum.splits prod.splits)
  have "w_db w1 = w_db w" using cfg by (auto simp: GetConfig_def dest: row_method_db)
  with bs have "bs = select_backends (rq_ID rq) (w_db w)" by (auto simp: ListBackends_def dest: rows_method_Inr)
  moreover
  have "length (filter (\<lambda>b. f b = Some StatusHealthy) bs) + length (filter (\<lambda>b. f b = Some StatusUnhealthy) bs) +
      length (filter (\<lambda>b. f b \<noteq> Some StatusHealthy \<and> f b \<noteq> Some StatusUnhealthy) bs) = length bs" for f
    by (rule three_way) auto
  from this [of "\<lambda>b. map_option hs_Status (states (b_ID b))"] calculation show ?thesis
    using st unfolding count_statuses_sum by auto
qed

subsection \<open>Deleting a configuration\<close>

lemma audit_less_tables:
  "audit_less d = audit_less d' \<Longrightarrow>
   t_configs d = t_configs d' \<and> t_backends d = t_backends d' \<and> t_health_checks d = t_health_checks d' \<and>
   t_health_states d = t_health_states d' \<and> t_dns_providers d = t_dns_providers d' \<and> t_config_roles d = t_config_roles d' \<and>
   t_health_history d = t_health_history d'"
  unfolding audit_less_def by (metis db.select_convs db.surjective db.update_convs(6))

lemma delete_config_tables:
  assumes "delete_config i d = Inr (n, d')" "0 < n"
  shows "t_configs d' = filter (\<lambda>c. cfg_ID c \<noteq> i) (t_configs d)"
    "t_backends d' = filter (\<lambda>r. br_ConfigID r \<noteq> i) (t_backends d)"
    "t_health_checks d' = filter (\<lambda>r. hc_ConfigID r \<noteq> i) (t_health_checks d)"
    "t_dns_providers d' = filter (\<lambda>r. dp_ConfigID r \<noteq> i) (t_dns_providers d)"
    "t_config_roles d' = filter (\<lambda>r. cr_ConfigID r \<noteq> i) (t_config_roles d)"
    "t_health_history d' = t_health_history d"
proof -
  from assms have "\<exists>c \<in> set (t_configs d). cfg_ID c = i"
    by (auto simp: delete_config_def Let_def row_count_pos find_None_iff)
  then have hit: "(\<exists>c \<in> set (t_configs d). cfg_ID c = i \<and> cfg_ID c = x) \<longleftrightarrow> x = i" for x by auto
  from assms(1) have "d' = snd (case delete_config i d of Inr p \<Rightarrow> p)" by simp
  then show
    "t_configs d' = filter (\<lambda>c. cfg_ID c \<noteq> i) (t_configs d)"
    "t_backends d' = filter (\<lambda>r. br_ConfigID r \<noteq> i) (t_backends d)"
    "t_health_checks d' = filter (\<lambda>r. hc_ConfigID r \<noteq> i) (t_health_checks d)"
    "t_dns_providers d' = filter (\<lambda>r. dp_ConfigID r \<noteq> i) (t_dns_providers d)"
    "t_config_roles d' = filter (\<lambda>r. cr_ConfigID r \<noteq> i) (t_config_roles d)"
    "t_health_history d' = t_health_history d"
    by (simp_all add: delete_config_def Let_def cascade_def rows_delete_def hit del: bex_simps)
qed

text \<open>
  C26: A configuration that was deleted leaves nothing behind but its history, and takes nothing else
  along: after a deletion that was answered with success, the configurations, backends, health
  checks, DNS providers and role assignments are exactly those of the other configurations, and
  no health state refers to a backend that is gone. The rows of the health history stay as they
  were, those of the deleted backends included.
\<close>

theorem delete_config_exact:
  assumes "run_state (H_DeleteConfig rq ctx) w = (No_Content, w')" "db_ok (w_db w)"
  defines "i \<equiv> rq_ID rq"
  shows "t_configs (w_db w') = filter (\<lambda>c. cfg_ID c \<noteq> i) (t_configs (w_db w)) \<and>
    t_backends (w_db w') = filter (\<lambda>r. br_ConfigID r \<noteq> i) (t_backends (w_db w)) \<and>
    t_health_checks (w_db w') = filter (\<lambda>r. hc_ConfigID r \<noteq> i) (t_health_checks (w_db w)) \<and>
    t_dns_providers (w_db w') = filter (\<lambda>r. dp_ConfigID r \<noteq> i) (t_dns_providers (w_db w)) \<and>
    t_config_roles (w_db w') = filter (\<lambda>r. cr_ConfigID r \<noteq> i) (t_config_roles (w_db w)) \<and>
    references hs_BackendID (t_health_states (w_db w')) br_ID (t_backends (w_db w')) \<and>
    t_health_history (w_db w') = t_health_history (w_db w)"
proof -
  from assms(1) obtain cfg w1 w2 u a b c d e f where get: "run_state (GetConfig i) w = (Inr cfg, w1)"
    and del: "run_state (DeleteConfig i) w1 = (Inr (), w2)"
    and aud: "run_state (logAudit a b c d e f rq ctx) w2 = (u, w')"
    by (auto simp: H_DeleteConfig_def with_config_def i_def run_simps handleStoreError_def sendValidationError_def
        sendNotFound_def sendInternalError_def split: if_splits sum.splits prod.splits)
  have w1: "w_db w1 = w_db w" using get by (auto simp: GetConfig_def dest: row_method_db)
  from affect_method_Inr [OF del [unfolded DeleteConfig_def]] w1 obtain n
    where n: "0 < n" "delete_config i (w_db w) = Inr (n, w_db w2)" by auto
  from delete_config_ok [OF assms(2) n(2)] have "references hs_BackendID (t_health_states (w_db w2)) br_ID (t_backends (w_db w2))"
    by (simp add: db_ok_def refs_ok_def)
  with delete_config_tables [OF n(2,1)] audit_less_tables [OF logAudit_rest [OF aud]] show ?thesis by simp
qed

lemma ex_delete_config: "\<exists>w'. run_state (H_DeleteConfig rq ctx) ex_access_world = (No_Content, w')" if "rq_ID rq = ''c''"
  using that
  by (simp add: H_DeleteConfig_def with_config_def run_simps GetConfig_def run_row_method select_config_def DeleteConfig_def
      run_affect_method delete_config_def Let_def ex_access_defs logAudit_def CreateAuditLog_def row_count_def case_prod_unfold)

definition ex_config_request :: http_request where
  "ex_config_request = \<lparr>rq_Path = ''/api/v1/configs/c'', rq_Cookie = (\<lambda>_. None), rq_Authorization = '''', rq_ID = ''c'',
     hr_Method = ''PUT'', hr_Host = ''gslb'', hr_Origin = '''', hr_ClientIP = ''192.0.2.1'', hr_UserAgent = ''curl'',
     hr_Query = (\<lambda>_. None), hr_Param = (\<lambda>_. '''')\<rparr>"

lemma ex_world_ok: "db_ok (w_db ex_access_world)"
  by (simp add: ex_access_healthy) (simp add: db_ok_def keys_ok_def refs_ok_def unique_def references_def ex_access_defs)

theorem delete_config_exact_witness:
  "\<exists>w'. run_state (H_DeleteConfig ex_config_request empty_context) ex_access_world = (No_Content, w') \<and>
     t_configs (w_db w') = [] \<and> t_backends (w_db w') = [] \<and> t_config_roles (w_db w') = []"
proof -
  have rq: "rq_ID ex_config_request = ''c''" by (simp add: ex_config_request_def)
  from ex_delete_config [OF rq] obtain w' where run: "run_state (H_DeleteConfig ex_config_request empty_context) ex_access_world = (No_Content, w')"
    by blast
  from delete_config_exact [OF run ex_world_ok] run show ?thesis
    by (simp add: rq) (simp add: ex_access_world_def ex_access_db_def empty_db_def)
qed

subsection \<open>Moving a backend\<close>

lemma run_unit: "\<exists>w'. run_state m w = ((), w')"
  by (cases "run_state m w") simp

lemma keeps_trigger_rest: "keeps (\<lambda>w. audit_less (w_db w) = x) (triggerReconcile h i)"
  by (rule keeps_triggerReconcile)

text \<open>The request that only names another configuration.\<close>

definition move_request :: "string \<Rightarrow> UpdateBackendRequest" where
  "move_request c = \<lparr>uq_ConfigID = c, uq_IP = '''', uq_Port = None, uq_Weight = 0, uq_Enabled = None\<rparr>"

text \<open>
  C27: Updating a backend moves it into any configuration: a user who may access the backend's own
  configuration passes the guard of the route, and a request that names another configuration that
  exists puts the backend there, although nothing checks that the user may access that one.
\<close>

theorem backend_moves_anywhere:
  assumes "healthy_driver w" "db_ok (w_db w)" "rq_ID rq \<noteq> ''''"
    and b: "first_row (select_backend (rq_ID rq) (w_db w)) = Some b"
    and "may_access (w_db w) (context_user ctx) (b_ConfigID b)" "config_exists c (w_db w)" "c \<noteq> ''''"
  shows "\<exists>w1 w2. run_state (RequireBackendConfigAccess rq ctx) w = (Next ctx, w1) \<and>
    run_state (H_UpdateBackend h rq ctx (Decoded (move_request c) m)) w1 = (Data (D_Backend (b\<lparr>b_ConfigID := c\<rparr>)), w2) \<and>
    first_row (select_backend (rq_ID rq) (w_db w2)) = Some (b\<lparr>b_ConfigID := c\<rparr>)"
proof -
  obtain bs where bs: "select_backend (rq_ID rq) (w_db w) = b # bs"
    using b by (cases "select_backend (rq_ID rq) (w_db w)") auto
  then have id: "b_ID b = rq_ID rq" by (auto simp: select_backend_def filter_eq_Cons_iff map_eq_Cons_conv)
  obtain w1 where guard: "run_state (RequireBackendConfigAccess rq ctx) w = (Next ctx, w1)"
    and w1: "w_db w1 = w_db w" "healthy_driver w1"
    using assms(1,5) bs
    by (cases "is_admin ctx") (auto simp: RequireBackendConfigAccess_def run_simps GetBackend_def run_row_method run_CanAccess)
  let ?new = "b\<lparr>b_ConfigID := c\<rparr>" and ?w2 = "w1\<lparr>w_stmt_ix := Suc (w_stmt_ix w1)\<rparr>"
  have new: "apply_backend_request (move_request c) b = ?new"
    using assms(7) by (simp add: apply_backend_request_def move_request_def Let_def)
  obtain n d where up: "update_backend ?new (w_db w) = Inr (n, d)"
    using assms(6) by (cases "row_count (\<lambda>r. br_ID r = b_ID b) (t_backends (w_db w)) = 0")
      (simp_all add: update_backend_def Let_def)
  have new_id: "b_ID ?new = rq_ID rq" by (simp add: id)
  note upd = backend_table.upd_lookup [OF assms(2) up, unfolded new_id b]
  have n: "n \<noteq> 0" using upd [THEN conjunct1] by simp
  have d: "first_row (select_backend (rq_ID rq) d) = Some (set_backend_row ?new b)"
    using upd [THEN conjunct2, THEN spec, of "rq_ID rq"] b by simp
  let ?w3 = "?w2\<lparr>w_stmt_ix := Suc (w_stmt_ix ?w2), w_db := d\<rparr>"
  have up3: "run_state (UpdateBackend ?new) ?w2 = (Inr (), ?w3)"
    using w1 up n by (simp add: UpdateBackend_def run_affect_method)
  obtain w4 where aud: "run_state (logAudit ''backend:update'' ''backend'' (b_ID ?new) (b_IP ?new) (b_ConfigID ?new)
      (buildDetails (backend_changes b ?new)) rq ctx) ?w3 = ((), w4)" by (rule exE [OF run_unit])
  obtain w5 where trig: "run_state (triggerReconcile h (b_ConfigID ?new)) w4 = ((), w5)" by (rule exE [OF run_unit])
  have "audit_less (w_db w5) = audit_less d"
    using keeps_run [OF keeps_trigger_rest _ trig] logAudit_rest [OF aud] by simp
  then have "select_backend (rq_ID rq) (w_db w5) = select_backend (rq_ID rq) d"
    using audit_less_tables [of "w_db w5" d] by (simp add: select_backend_def)
  moreover have "set_backend_row ?new b = ?new" by (simp add: set_backend_row_def)
  moreover have "run_state (H_UpdateBackend h rq ctx (Decoded (move_request c) m)) w1 = (Data (D_Backend ?new), w5)"
    using assms(3) w1 bs up3 aud trig
    by (simp add: H_UpdateBackend_def ShouldBindJSON_def run_simps GetBackend_def run_row_method new Let_def)
  ultimately show ?thesis using guard d by metis
qed

subsection \<open>A database with two configurations\<close>

text \<open>Ann may access the configuration c, which has the backend b, and not the configuration d.\<close>

definition ex_two_db :: db where
  "ex_two_db = ex_access_db\<lparr>t_configs := t_configs ex_access_db @ [\<lparr>cfg_ID = ''d'', cfg_Name = ''mail'',
     cfg_DNSName = ''mx.example.com'', cfg_DNSTTL = 60, cfg_LBMethod = RoundRobin, cfg_CreatedAt = 2, cfg_UpdatedAt = 2,
     cfg_LastReconcileError = ''''\<rparr>]\<rparr>"

definition ex_two_world :: http_world where
  "ex_two_world = \<lparr>w_db = ex_two_db, w_now = (\<lambda>n. int n + 5), w_now_ix = 0, w_uuid = (\<lambda>n. ''u''), w_uuid_ix = 0,
     w_fault = (\<lambda>_. None), w_stmt_ix = 0, hw_triggered = []\<rparr>"

definition ex_two_handlers :: handlers where
  "ex_two_handlers = \<lparr>ha_oidc = True, ha_reconciler = True, ha_enc = None, ha_nonce = Inr '''', ha_isIP = (\<lambda>_. True),
     ha_parseTime = (\<lambda>_. None)\<rparr>"

lemma ex_two_healthy: "healthy_driver ex_two_world" "w_db ex_two_world = ex_two_db"
  by (simp_all add: healthy_driver_def ex_two_world_def)

lemma ex_two_ok: "db_ok ex_two_db"
  by (simp add: db_ok_def keys_ok_def refs_ok_def unique_def references_def ex_two_db_def ex_access_defs)

lemma ex_two_access: "may_access ex_two_db ''ann'' ''c''" "\<not> may_access ex_two_db ''ann'' ''d''"
  by (simp_all add: may_access_def ex_two_db_def ex_access_defs)

lemma ann_is_no_admin: "\<not> is_admin ann_context" "context_user ann_context = ''ann''"
  by (simp_all add: is_admin_def ann_context_def context_user_def)

theorem list_shows_accessible_witness:
  "\<exists>cfg. fst (run_state (H_ListConfigs ex_two_handlers ann_context) ex_two_world) = Data (D_Configs [cfg]) \<and> cfg_ID cfg = ''c''"
proof -
  have "map cfg_ID (select_configs ex_two_db) = [''d'', ''c'']"
    by (simp add: select_configs_def order_desc_def ex_two_db_def ex_access_db_def)
  then have "\<exists>cfg. filter (\<lambda>cfg. may_access ex_two_db ''ann'' (cfg_ID cfg)) (select_configs ex_two_db) = [cfg] \<and> cfg_ID cfg = ''c''"
    using ex_two_access by (auto simp: map_eq_Cons_conv)
  then show ?thesis
    using list_shows_accessible [of ex_two_world ex_two_handlers ann_context] ex_two_healthy ann_is_no_admin
    by (simp add: ex_two_handlers_def)
qed

definition ex_status_request :: http_request where
  "ex_status_request = \<lparr>rq_Path = ''/api/v1/configs/c/status'', rq_Cookie = (\<lambda>_. None), rq_Authorization = '''', rq_ID = ''c'',
     hr_Method = ''GET'', hr_Host = ''gslb'', hr_Origin = '''', hr_ClientIP = ''192.0.2.1'', hr_UserAgent = ''curl'',
     hr_Query = (\<lambda>_. None), hr_Param = (\<lambda>_. '''')\<rparr>"

lemma ex_status: "\<exists>st w'. run_state (H_GetConfigStatus ex_status_request) ex_two_world = (Data (D_ConfigStatus st), w')"
  by (simp add: H_GetConfigStatus_def with_config_def run_simps GetConfig_def run_row_method select_config_def ListBackends_def
      GetHealthStates_def run_rows_method ex_two_db_def ex_access_defs ex_two_world_def ex_status_request_def case_prod_unfold)

theorem status_counts_backends_witness:
  "\<exists>st w'. run_state (H_GetConfigStatus ex_status_request) ex_two_world = (Data (D_ConfigStatus st), w') \<and>
     st_BackendCount st = 1 \<and> 1 = st_HealthyCount st + st_UnhealthyCount st + st_UnknownCount st"
proof -
  obtain st w' where run: "run_state (H_GetConfigStatus ex_status_request) ex_two_world = (Data (D_ConfigStatus st), w')"
    using ex_status by blast
  have "length (select_backends (rq_ID ex_status_request) (w_db ex_two_world)) = 1"
    by (simp add: ex_two_healthy select_backends_def order_desc_def ex_two_db_def ex_access_db_def ex_status_request_def)
  with status_counts_backends [OF run] run show ?thesis by metis
qed

definition ex_move_request :: http_request where
  "ex_move_request = ex_status_request\<lparr>rq_ID := ''b'', hr_Method := ''PUT''\<rparr>"

theorem backend_moves_anywhere_witness:
  "\<exists>b w1 w2. run_state (RequireBackendConfigAccess ex_move_request ann_context) ex_two_world = (Next ann_context, w1) \<and>
     run_state (H_UpdateBackend ex_two_handlers ex_move_request ann_context (Decoded (move_request ''d'') '''')) w1 =
       (Data (D_Backend b), w2) \<and>
     b_ConfigID b = ''d'' \<and> \<not> may_access ex_two_db ''ann'' ''d''"
proof -
  obtain b where b: "first_row (select_backend ''b'' ex_two_db) = Some b" "b_ConfigID b = ''c''"
    by (simp add: first_select_backend ex_two_db_def ex_access_db_def)
  have "rq_ID ex_move_request = ''b''" by (simp add: ex_move_request_def)
  moreover have "config_exists ''d'' ex_two_db" by (simp add: config_exists_def ex_two_db_def)
  ultimately obtain w1 w2
    where "run_state (RequireBackendConfigAccess ex_move_request ann_context) ex_two_world = (Next ann_context, w1)"
      "run_state (H_UpdateBackend ex_two_handlers ex_move_request ann_context (Decoded (move_request ''d'') '''')) w1 =
        (Data (D_Backend (b\<lparr>b_ConfigID := ''d''\<rparr>)), w2)"
    using backend_moves_anywhere [OF ex_two_healthy(1), of ex_move_request b ann_context "''d''" ex_two_handlers "''''"]
      ex_two_healthy ex_two_ok ex_two_access b ann_is_no_admin by auto
  with ex_two_access(2) show ?thesis by (intro exI conjI) (auto)
qed

subsection \<open>What a login needs\<close>

lemma audit_less_sessions: "audit_less d = audit_less d' \<Longrightarrow> session_lookup d j = session_lookup d' j"
proof -
  assume "audit_less d = audit_less d'"
  then have "t_sessions (audit_less d) = t_sessions (audit_less d')" by simp
  then show ?thesis by (simp add: audit_less_def session_lookup_find)
qed

lemma CreateSession_stored:
  assumes "run_state (CreateSession lib cfg user) w = (Inr token, w')"
  obtains jti created expires where "jw_Sign lib (jc_Secret cfg) (session_claims jti user created expires) = Inr token"
    "session_lookup (w_db w') jti = Some \<lparr>sr_JTI = jti, sr_UserID = u_ID user, sr_CreatedAt = created,
       sr_ExpiresAt = expires, sr_RevokedAt = None\<rparr>"
proof -
  let ?jti = "w_uuid w (w_uuid_ix w)" and ?created = "w_now w (w_now_ix w)"
  let ?expires = "?created + (if jc_Expiry cfg = 0 then 24 * Hour else jc_Expiry cfg)"
  from assms have "jw_Sign lib (jc_Secret cfg) (session_claims ?jti user ?created ?expires) = Inr token"
    and "\<exists>n. insert_session \<lparr>sr_JTI = ?jti, sr_UserID = u_ID user, sr_CreatedAt = ?created,
      sr_ExpiresAt = ?expires, sr_RevokedAt = None\<rparr> (w_db w) = Inr (n, w_db w')"
    by (auto simp: CreateSession_def CreateSessionRecord_def Let_def run_simps split: prod.splits sum.splits
        dest!: insert_method_Inr)
  then show thesis by (intro that) (auto dest!: insert_session_Inr)
qed

lemma finish_login_cookies:
  assumes "run_state (finish_login svc rq ctx nonce verifier code) w = ((resp, cookies), w')" "cookies \<noteq> []"
  obtains token idToken info roles user sessionToken w1 w2 where
    "os_Exchange svc code verifier = Inr token" "VerifyIDToken (os_Verify svc) token nonce = Inr idToken"
    "ExtractUserInfo (os_RolesClaim svc) idToken = Inr (info, roles)"
    "run_state (SyncUser (os_MapOrder svc) (os_DefaultRole svc) info roles) w = (Inr user, w1)"
    "run_state (CreateSession (os_jwt svc) (os_jwtCfg svc) user) w1 = (Inr sessionToken, w2)"
    "audit_less (w_db w') = audit_less (w_db w2)" "resp = Redirect ''/''"
    "ck_Value (hd cookies) = sessionToken" "ck_Name (hd cookies) = jc_CookieName (os_jwtCfg svc)"
proof (cases "os_Exchange svc code verifier")
  case (Inl e)
  with assms show thesis by (simp add: finish_login_def run_simps)
next
  case (Inr token)
  note t1 = this
  show thesis
  proof (cases "VerifyIDToken (os_Verify svc) token nonce")
    case (Inl e)
    with assms t1 show thesis by (simp add: finish_login_def run_simps)
  next
    case (Inr idToken)
    note t2 = this
    show thesis
    proof (cases "ExtractUserInfo (os_RolesClaim svc) idToken")
      case (Inl e)
      with assms t1 t2 show thesis by (simp add: finish_login_def run_simps)
    next
      case (Inr p)
      then obtain info roles where t3: "ExtractUserInfo (os_RolesClaim svc) idToken = Inr (info, roles)" by (cases p) auto
      from assms t1 t2 t3 obtain user w1 sessionToken w2 u
        where "run_state (SyncUser (os_MapOrder svc) (os_DefaultRole svc) info roles) w = (Inr user, w1)"
          "run_state (CreateSession (os_jwt svc) (os_jwtCfg svc) user) w1 = (Inr sessionToken, w2)"
          "run_state (logAudit ''auth:login'' ''user'' (u_ID user) (u_Email user) '''' '''' rq ctx) w2 = (u, w')"
          "resp = Redirect ''/''" "ck_Value (hd cookies) = sessionToken" "ck_Name (hd cookies) = jc_CookieName (os_jwtCfg svc)"
        by (auto simp: finish_login_def run_simps Let_def set_cookie_def split: prod.splits sum.splits)
      with that [OF t1 t2 t3] logAudit_rest show thesis by blast
    qed
  qed
qed

text \<open>
  C11: A login issues a session only to the browser that began it and only for the identity the
  provider vouches for: whenever the callback sets a cookie, the state in the query is the one of the
  browser's state cookie, the code was exchanged with the PKCE verifier of its cookie, the ID token
  that came back verifies and carries the nonce of its cookie, the user was synchronised from the
  claims of that token, and the session token is signed over claims whose record is in the database
  for that user, not revoked.
\<close>

theorem callback_issues_safely:
  assumes "run_state (H_Callback svc rq ctx) w = ((resp, cookies), w')" "cookies \<noteq> []"
  shows "rq_Cookie rq ''oidc_state'' = Some (query rq ''state'') \<and>
    (\<exists>nonce verifier token idToken info roles user w1 jti created expires.
       rq_Cookie rq ''oidc_nonce'' = Some nonce \<and> rq_Cookie rq ''oidc_pkce'' = Some verifier \<and>
       os_Exchange svc (query rq ''code'') verifier = Inr token \<and>
       VerifyIDToken (os_Verify svc) token nonce = Inr idToken \<and>
       ExtractUserInfo (os_RolesClaim svc) idToken = Inr (info, roles) \<and>
       run_state (SyncUser (os_MapOrder svc) (os_DefaultRole svc) info roles) w = (Inr user, w1) \<and>
       jw_Sign (os_jwt svc) (jc_Secret (os_jwtCfg svc)) (session_claims jti user created expires) = Inr (ck_Value (hd cookies)) \<and>
       session_lookup (w_db w') jti = Some \<lparr>sr_JTI = jti, sr_UserID = u_ID user, sr_CreatedAt = created,
         sr_ExpiresAt = expires, sr_RevokedAt = None\<rparr>)"
proof -
  from assms obtain nonce verifier where c: "rq_Cookie rq ''oidc_state'' = Some (query rq ''state'')"
    "rq_Cookie rq ''oidc_nonce'' = Some nonce" "rq_Cookie rq ''oidc_pkce'' = Some verifier"
    "run_state (finish_login svc rq ctx nonce verifier (query rq ''code'')) w = ((resp, cookies), w')"
    by (auto simp: H_Callback_def run_simps split: if_splits option.splits)
  obtain token idToken info roles user sessionToken w1 w2 where ok:
    "os_Exchange svc (query rq ''code'') verifier = Inr token" "VerifyIDToken (os_Verify svc) token nonce = Inr idToken"
    "ExtractUserInfo (os_RolesClaim svc) idToken = Inr (info, roles)"
    "run_state (SyncUser (os_MapOrder svc) (os_DefaultRole svc) info roles) w = (Inr user, w1)"
    and cs: "run_state (CreateSession (os_jwt svc) (os_jwtCfg svc) user) w1 = (Inr sessionToken, w2)"
    and rest: "audit_less (w_db w') = audit_less (w_db w2)" "ck_Value (hd cookies) = sessionToken"
    by (rule finish_login_cookies [OF c(4) assms(2)])
  obtain jti created expires where
    "jw_Sign (os_jwt svc) (jc_Secret (os_jwtCfg svc)) (session_claims jti user created expires) = Inr (ck_Value (hd cookies))"
    "session_lookup (w_db w') jti = Some \<lparr>sr_JTI = jti, sr_UserID = u_ID user, sr_CreatedAt = created,
       sr_ExpiresAt = expires, sr_RevokedAt = None\<rparr>"
    by (rule CreateSession_stored [OF cs]) (simp add: rest audit_less_sessions [OF rest(1)])
  with c(1-3) ok show ?thesis by blast
qed

definition ex_login_oidc :: oidc_service where
  "ex_login_oidc = \<lparr>os_jwt = plain_jwt, os_jwtCfg = ex_jwt_config, os_RolesClaim = ''roles'', os_DefaultRole = ''viewer'',
     os_Random = (\<lambda>_. Inr ''r''), os_sha256 = (\<lambda>s. s), os_AuthCodeURL = (\<lambda>st n c. st),
     os_Exchange = (\<lambda>code v. if code = ''code'' \<and> v = ''pkce'' then Inr (Some ''raw'') else Inl (Driver ''denied'')),
     os_Verify = (\<lambda>raw. Inr (''nonce'', Inr [(''sub'', CStr ''sub-ann'')])), os_EndSessionURL = '''',
     os_LogoutURL = (\<lambda>_ _. None), os_MapOrder = (\<lambda>m. m)\<rparr>"

definition ex_login_request :: http_request where
  "ex_login_request = \<lparr>rq_Path = ''/auth/callback'',
     rq_Cookie = map_of [(''oidc_state'', ''st''), (''oidc_nonce'', ''nonce''), (''oidc_pkce'', ''pkce'')],
     rq_Authorization = '''', rq_ID = '''', hr_Method = ''GET'', hr_Host = ''gslb'', hr_Origin = '''', hr_ClientIP = ''192.0.2.1'',
     hr_UserAgent = ''curl'', hr_Query = map_of [(''state'', ''st''), (''code'', ''code'')], hr_Param = (\<lambda>_. '''')\<rparr>"

definition ex_login_user :: User where
  "ex_login_user = \<lparr>u_ID = '''', u_Subject = ''sub-ann'', u_Email = '''', u_Name = '''', u_CreatedAt = 0, u_LastLoginAt = 0,
     u_IsActive = False, u_Roles = []\<rparr>"

lemma ex_login_sync: "\<exists>user w1. run_state (SyncUser (\<lambda>m. m) ''viewer'' ex_login_user []) ex_access_world = (Inr user, w1) \<and>
  u_ID user = ''ann'' \<and> healthy_driver w1 \<and> user_exists ''ann'' (w_db w1) \<and> t_sessions (w_db w1) = t_sessions ex_access_db \<and>
  w_uuid w1 = w_uuid ex_access_world \<and> w_uuid_ix w1 = 0"
  by (simp add: SyncUser_def GetUserBySubject_def with_roles_def GetUserRoles_def run_simps run_row_method run_rows_method
      sync_and_get_def GetUserByID_def UpdateUser_def run_affect_method update_user_def set_user_row_def Let_def row_count_def
      select_user_by_subject_def select_user_def user_exists_def healthy_driver_def rows_update_def
      ex_access_world_def ex_access_db_def ex_user_def empty_db_def ex_login_user_def)

lemma ex_login_session:
  assumes "u_ID user = ''ann''" "healthy_driver w" "user_exists ''ann'' (w_db w)" "t_sessions (w_db w) = t_sessions ex_access_db"
    "w_uuid w (w_uuid_ix w) = ''j''"
  shows "\<exists>token w2. run_state (CreateSession plain_jwt ex_jwt_config user) w = (Inr token, w2)"
  using assms
  by (simp add: CreateSession_def CreateSessionRecord_def insert_session_def run_simps Let_def run_insert_method
      ex_access_db_def plain_jwt_def)

lemma ex_login: "\<exists>cookies w'. run_state (H_Callback ex_login_oidc ex_login_request empty_context) ex_access_world =
  ((Redirect ''/'', cookies), w') \<and> cookies \<noteq> []"
proof -
  obtain user w1 where sync: "run_state (SyncUser (\<lambda>m. m) ''viewer'' ex_login_user []) ex_access_world = (Inr user, w1)"
    and facts: "u_ID user = ''ann''" "healthy_driver w1" "user_exists ''ann'' (w_db w1)" "t_sessions (w_db w1) = t_sessions ex_access_db"
      "w_uuid w1 = w_uuid ex_access_world" "w_uuid_ix w1 = 0"
    using ex_login_sync by blast
  have uuid: "w_uuid w1 (w_uuid_ix w1) = ''j''" by (simp add: facts(5,6)) (simp add: ex_access_world_def)
  from ex_login_session [OF facts(1-4) uuid] obtain token w2
    where cs: "run_state (CreateSession plain_jwt ex_jwt_config user) w1 = (Inr token, w2)" by blast
  have cb: "H_Callback ex_login_oidc ex_login_request empty_context =
      finish_login ex_login_oidc ex_login_request empty_context ''nonce'' ''pkce'' ''code''"
    by (simp add: H_Callback_def ex_login_request_def query_def)
  have "ExtractUserInfo ''roles'' (Inr [(''sub'', CStr ''sub-ann'')]) = Inr (ex_login_user, [])"
    by (simp add: ExtractUserInfo_def claim_string_def ex_login_user_def)
  with sync cs show ?thesis unfolding cb
    by (simp add: finish_login_def ex_login_oidc_def VerifyIDToken_def run_simps Let_def case_prod_unfold)
qed

theorem callback_issues_safely_witness:
  "\<exists>cookies w' (user :: User). run_state (H_Callback ex_login_oidc ex_login_request empty_context) ex_access_world =
       ((Redirect ''/'', cookies), w') \<and>
     (\<exists>jti created expires. session_lookup (w_db w') jti = Some \<lparr>sr_JTI = jti, sr_UserID = u_ID user, sr_CreatedAt = created,
       sr_ExpiresAt = expires, sr_RevokedAt = None\<rparr>)"
proof -
  obtain cookies w' where run: "run_state (H_Callback ex_login_oidc ex_login_request empty_context) ex_access_world =
      ((Redirect ''/'', cookies), w')" "cookies \<noteq> []"
    using ex_login by blast
  from callback_issues_safely [OF run] obtain user :: User and jti created expires
    where "session_lookup (w_db w') jti = Some \<lparr>sr_JTI = jti, sr_UserID = u_ID user, sr_CreatedAt = created,
       sr_ExpiresAt = expires, sr_RevokedAt = None\<rparr>"
    by (elim conjE exE) (rule that)
  with run show ?thesis by blast
qed

end
