(* ===== verification/Pipeline.thy ===== *)
theory Pipeline
  imports Reconciler
begin

section \<open>From probes to DNS: the scheduler and the reconciler together\<close>

text \<open>
  The scheduler writes what it learned from probe results into the health states, the reconciler
  reads them: composed on one world, the addresses a name resolves to are a function of the outcomes
  of the probes, the thresholds and the policy of the configuration.
\<close>

subsection \<open>What results leave alone\<close>

definition counts_results :: "('a, 'z) rec_world_scheme \<Rightarrow> ('a, 'z) rec_world_scheme \<Rightarrow> bool" where
  "counts_results w w' = (only_health (w_db w) (w_db w') \<and> dw_mocks w' = dw_mocks w \<and>
     rw_lastRecords w' = rw_lastRecords w \<and> w_fault w' = w_fault w \<and> (db_ok (w_db w) \<longrightarrow> db_ok (w_db w')))"

lemma counts_results_refl: "counts_results w w"
  by (simp add: counts_results_def)

lemma counts_results_trans: "counts_results w w' \<Longrightarrow> counts_results w' w'' \<Longrightarrow> counts_results w w''"
  unfolding counts_results_def using only_health_trans by auto

lemma counts_results_healthy: "counts_results w w' \<Longrightarrow> healthy_driver w' = healthy_driver w"
  by (simp add: counts_results_def healthy_driver_def)

lemma counts_results_exists: "counts_results w w' \<Longrightarrow> backend_exists i (w_db w') = backend_exists i (w_db w)"
  by (auto simp: counts_results_def dest: only_health_exists)

lemma RecordProbe_counts: "counts_results w (exec (RecordProbe i h) w)"
  by (simp add: counts_results_def exec_RecordProbe)

lemma handleResult_counts:
  fixes w :: "('a, 'z) rec_world_scheme"
  assumes "healthy_driver w" "backend_exists (re_BackendID result) (w_db w)"
  shows "counts_results w (exec (handleResult attached result) w)"
proof -
  have detached: "counts_results v (exec (handleResult False result) v)"
    if v: "healthy_driver v" "backend_exists (re_BackendID result) (w_db v)" for v :: "('a, 'z) rec_world_scheme"
  proof -
    obtain n m d' where up: "upsert_health_state (next_state (w_db v) (w_now v (w_now_ix v)) result) (w_db v) = Inr (1, d')"
      and v': "exec (handleResult False result) v = v\<lparr>w_stmt_ix := n, w_now_ix := m, w_db := d'\<rparr>"
      using exec_handleResult_False [OF v] by blast
    have "only_health (w_db v) d'" using up by (rule upsert_only_health)
    moreover have "db_ok (w_db v) \<Longrightarrow> db_ok d'" using upsert_health_state_ok [OF _ up] by blast
    ultimately show ?thesis unfolding v' by (simp add: counts_results_def)
  qed
  show ?thesis
  proof (cases attached)
    case True
    let ?v = "exec (RecordProbe (re_BackendID result) (re_Healthy result \<and> re_Error result = None)) w"
    have v: "counts_results w ?v" by (rule RecordProbe_counts)
    with detached [of ?v] assms counts_results_healthy [OF v] counts_results_exists [OF v] True show ?thesis
      by (simp add: exec_handleResult_probe counts_results_trans [OF v])
  qed (use detached [OF assms] in simp)
qed

lemma handle_all_counts:
  fixes w :: "('a, 'z) rec_world_scheme"
  assumes "healthy_driver w" "\<forall>r \<in> set rs. backend_exists (re_BackendID r) (w_db w)"
  shows "counts_results w (exec (handle_all attached rs) w)"
  using assms
proof (induction rs arbitrary: w)
  case Nil
  then show ?case by (simp add: exec_def run_simps counts_results_refl)
next
  case (Cons r rs)
  let ?w = "exec (handleResult attached r) w"
  have w: "counts_results w ?w" using Cons.prems by (intro handleResult_counts) simp_all
  have "exec (handle_all attached (r # rs)) w = exec (handle_all attached rs) ?w"
    by (simp add: exec_def run_simps split: prod.splits)
  moreover have "counts_results ?w (exec (handle_all attached rs) ?w)"
    using Cons.prems by (intro Cons.IH) (simp_all add: counts_results_healthy [OF w] counts_results_exists [OF w])
  ultimately show ?case using counts_results_trans [OF w] by simp
qed

subsection \<open>The backends that deserve to be published\<close>

text \<open>The stored states are those of a history of outcomes for each backend.\<close>

definition tracked :: "db \<Rightarrow> (string \<Rightarrow> bool list) \<Rightarrow> bool" where
  "tracked d past = (\<forall>i. case health_lookup d i of
     None \<Rightarrow> past i = []
   | Some s \<Rightarrow> past i \<noteq> [] \<and> trailing_state (thresholds_of d i) (past i) s)"

text \<open>As many successes in a row, up to the last outcome, as the threshold asks.\<close>

definition proven :: "db \<Rightarrow> (string \<Rightarrow> bool list) \<Rightarrow> Backend \<Rightarrow> bool" where
  "proven d past b = (b_Enabled b \<and> fst (thresholds_of d (b_ID b)) \<le> int (trail True (past (b_ID b))))"

lemma tracked_publishable: "tracked d past \<Longrightarrow> publishable d b \<longleftrightarrow> proven d past b"
  using thresholds_pos(1) [of d "b_ID b"]
  by (auto simp: tracked_def publishable_def proven_def trailing_state_def trail_def split: option.splits if_splits
      dest!: spec [of _ "b_ID b"])

lemma handle_all_tracks:
  assumes "healthy_driver w" "\<forall>r \<in> set rs. backend_exists (re_BackendID r) (w_db w)" "tracked (w_db w) past"
  shows "tracked (w_db (exec (handle_all attached rs) w)) (\<lambda>i. past i @ outcomes i rs)"
proof -
  have "case health_lookup (w_db w) i of None \<Rightarrow> past i = []
      | Some s \<Rightarrow> past i \<noteq> [] \<and> trailing_state (thresholds_of (w_db w) i) (past i) s" for i
    using assms(3) by (simp add: tracked_def)
  note after = handle_all_trailing [OF assms(1,2) this, of attached]
  from after [THEN conjunct2] show ?thesis
    unfolding tracked_def only_health_thresholds [OF after [THEN conjunct1]] by blast
qed

lemma only_health_tables:
  "only_health d d' \<Longrightarrow> t_configs d' = t_configs d \<and> t_dns_providers d' = t_dns_providers d \<and>
     select_backends i d' = select_backends i d"
  by (auto simp: only_health_def select_backends_def)

text \<open>
  C3: From probes to DNS. The scheduler processes any sequence of probe results and the reconciler
  then makes a pass, on a driver that does not fail and with the mock provider: the pass succeeds and
  every configuration's name resolves to exactly the addresses its policy selects among its enabled
  backends whose last outcomes, those before and those now, are as many successes in a row as the
  threshold of the configuration's health check asks. One failed probe as the last takes a backend's
  address out of DNS, and only enough successes bring it back.
\<close>

theorem probes_decide_dns:
  assumes "rc_provider r = Some (mock_provider p name)" "callback_quiet (rc_OnBackendSelected r)"
    and "healthy_driver w" "db_ok (w_db w)" "t_dns_providers (w_db w) = []" "p < length (dw_mocks w)"
    and "\<forall>c \<in> set (t_configs (w_db w)). cfg_DNSName c \<noteq> '''' \<and> 0 < cfg_DNSTTL c \<and>
      (\<forall>ips. rw_lastRecords w (cfg_ID c) = Some ips \<longrightarrow> mock_published p w (cfg_DNSName c) = set ips)"
    and "\<forall>x \<in> set rs. backend_exists (re_BackendID x) (w_db w)" "tracked (w_db w) past"
    and "run_state (do { handle_all attached rs; ReconcileOnce r }) w = (res, w')"
  shows "res = Inr () \<and>
    (\<forall>c \<in> set (t_configs (w_db w)). mock_published p w' (cfg_DNSName c) = set (extractIPs
      (backends_for_DNS (cfg_LBMethod c)
        (filter (proven (w_db w) (\<lambda>i. past i @ outcomes i rs)) (select_backends (cfg_ID c) (w_db w))))))"
proof -
  let ?w1 = "exec (handle_all attached rs) w" and ?past = "\<lambda>i. past i @ outcomes i rs"
  have w1: "counts_results w ?w1" using assms(3,8) by (rule handle_all_counts)
  then have oh: "only_health (w_db w) (w_db ?w1)" by (simp add: counts_results_def)
  have run: "run_state (ReconcileOnce r) ?w1 = (res, w')"
    using assms(10) by (simp add: run_simps exec_def split: prod.splits)
  have pub: "mock_published p ?w1 n = mock_published p w n" for n
    using w1 by (simp add: counts_results_def mock_published_def)
  have "res = Inr () \<and> (\<forall>c \<in> set (t_configs (w_db ?w1)).
      mock_published p w' (cfg_DNSName c) = set (extractIPs (targets (w_db ?w1) c))) \<and>
    (\<forall>c \<in> set (t_configs (w_db w')). cfg_LastReconcileError c = '''')"
    using assms(3-8) w1 only_health_tables [OF oh] counts_results_healthy [OF w1] pub
    by (intro mock_reconciler.pass_converges [OF assms(1,2) _ _ _ _ _ run])
      (auto simp: mock_reconciler.valid_config_def mock_reconciler.coherent_def counts_results_def)
  moreover have "publishable (w_db ?w1) = proven (w_db w) ?past"
    by (rule ext) (simp add: tracked_publishable [OF handle_all_tracks [OF assms(3,8,9)]] proven_def only_health_thresholds [OF oh])
  then have "targets (w_db ?w1) c = backends_for_DNS (cfg_LBMethod c)
      (filter (proven (w_db w) ?past) (select_backends (cfg_ID c) (w_db w)))" for c
    using only_health_tables [OF oh] by (simp add: targets_def)
  ultimately show ?thesis using only_health_tables [OF oh] by simp
qed

definition ex_past :: "string \<Rightarrow> bool list" where
  "ex_past i = (if i = ''b'' then [True, True] else [])"

lemma ex_tracked: "tracked ex_db ex_past"
  using ex_db_thresholds ex_db_health
  by (auto simp: tracked_def ex_past_def trailing_state_def trail_def health_lookup_def first_select_health_state
      ex_db_def ex_healthy_def fresh_state_def)

definition ex_probe :: "string \<Rightarrow> bool \<Rightarrow> CheckResult" where
  "ex_probe i h = \<lparr>re_BackendID = i, re_Healthy = h, re_Error = None, re_Duration = 0\<rparr>"

text \<open>The backend b, published so far, fails once; the backend a succeeds twice, its threshold.\<close>

theorem probes_decide_dns_witness:
  "\<exists>w'. run_state (do { handle_all True [ex_probe ''b'' False, ex_probe ''a'' True, ex_probe ''a'' True];
       ReconcileOnce (ex_reconciler (Some (mock_provider 0 ''mock''))) }) ex_rec_world = (Inr (), w') \<and>
     mock_published 0 w' ''app.example.com'' = {''10.0.0.1''}"
proof -
  let ?r = "ex_reconciler (Some (mock_provider 0 ''mock''))"
  let ?rs = "[ex_probe ''b'' False, ex_probe ''a'' True, ex_probe ''a'' True]"
  obtain res w' where run: "run_state (do { handle_all True ?rs; ReconcileOnce ?r }) ex_rec_world = (res, w')"
    by (rule prod.exhaust)
  have r: "rc_provider ?r = Some (mock_provider 0 ''mock'')" by (simp add: ex_reconciler_def)
  have rs: "\<forall>x \<in> set ?rs. backend_exists (re_BackendID x) ex_db" using ex_db_backends by (simp add: ex_probe_def)
  have "filter (proven ex_db (\<lambda>i. ex_past i @ outcomes i ?rs)) (select_backends ''c'' ex_db)
      = [br_Backend (ex_row ''a'' ''10.0.0.1'' True)]"
    using ex_db_thresholds
    by (simp add: proven_def outcomes_def succeeded_def ex_probe_def ex_past_def trail_def select_backends_def order_desc_def
        ex_db_def ex_row_def)
  then have "extractIPs (backends_for_DNS (cfg_LBMethod ex_config)
      (filter (proven ex_db (\<lambda>i. ex_past i @ outcomes i ?rs)) (select_backends ''c'' ex_db))) = [''10.0.0.1'']"
    by (simp add: backends_for_DNS_def extractIPs_def selectWeighted_def ex_row_def split: LBMethod.splits)
  moreover have "res = Inr () \<and> mock_published 0 w' ''app.example.com'' = set (extractIPs (backends_for_DNS (cfg_LBMethod ex_config)
      (filter (proven ex_db (\<lambda>i. ex_past i @ outcomes i ?rs)) (select_backends ''c'' ex_db))))"
    using probes_decide_dns [OF r ex_callback ex_rec_simps(1) _ _ _ _ _ _ run, unfolded ex_rec_simps, OF ex_db_ok refl _ _ rs ex_tracked]
    by (simp add: ex_rec_simps)
  ultimately show ?thesis using run by (intro exI [of _ w']) simp
qed

end
