(* ===== verification/Migrations.thy ===== *)
theory Migrations
  imports Database
begin

section \<open>Migrations and the connection (internal/db)\<close>

text \<open>
  \<open>Migrate\<close> runs the statements of the schema in order, stops at the first that fails, and then adds
  the columns that were introduced later, whose errors it ignores. The database file has, besides its
  rows, tables with their columns and indexes with their names. Statements fail when the driver does,
  and as SQLite has it: an index needs its table and columns, a column is added once. A failure
  reported after the statement ran leaves its effect.
\<close>

record schema_world = world +
  sw_tables :: "(string \<times> string list) list"
  sw_indexes :: "string list"

datatype migration =
    Create_Table string "string list"
  | Create_Index string string "string list"
  | Seed_Roles "(string \<times> string \<times> string) list"
  | Add_Column string string

text \<open>\<open>INSERT OR IGNORE\<close> skips a row whose ID or name is taken; the default of \<open>created_at\<close> is the clock's second.\<close>

definition seed_role :: "time \<Rightarrow> string \<times> string \<times> string \<Rightarrow> db \<Rightarrow> db" where
  "seed_role now x d =
     (case x of (i, n, desc) \<Rightarrow>
        if \<exists>r \<in> set (t_roles d). r_ID r = i \<or> r_Name r = n then d
        else d\<lparr>t_roles := t_roles d @ [\<lparr>r_ID = i, r_Name = n, r_Description = desc, r_CreatedAt = now div Second * Second\<rparr>]\<rparr>)"

definition effect :: "migration \<Rightarrow> 'z schema_world_scheme \<Rightarrow> 'z schema_world_scheme result" where
  "effect m w =
     (case m of
        Create_Table t cols \<Rightarrow>
          Inr (if t \<in> fst ` set (sw_tables w) then w else w\<lparr>sw_tables := sw_tables w @ [(t, cols)]\<rparr>)
      | Create_Index i t cols \<Rightarrow>
          (if i \<in> set (sw_indexes w) then Inr w
           else case map_of (sw_tables w) t of
                  None \<Rightarrow> Inl (Driver (''no such table: '' @ t))
                | Some cs \<Rightarrow>
                    (case find (\<lambda>c. c \<notin> set cs) cols of
                       Some c \<Rightarrow> Inl (Driver (''no such column: '' @ c))
                     | None \<Rightarrow> Inr (w\<lparr>sw_indexes := sw_indexes w @ [i]\<rparr>)))
      | Seed_Roles rs \<Rightarrow> Inr (w\<lparr>w_db := fold (seed_role (w_now w (w_now_ix w))) rs (w_db w)\<rparr>)
      | Add_Column t c \<Rightarrow>
          (case map_of (sw_tables w) t of
             None \<Rightarrow> Inl (Driver (''no such table: '' @ t))
           | Some cs \<Rightarrow>
               if c \<in> set cs then Inl (Driver (''duplicate column name: '' @ c))
               else Inr (w\<lparr>sw_tables := map (\<lambda>(t', cs). (t', if t' = t then cs @ [c] else cs)) (sw_tables w)\<rparr>)))"

definition db_Exec :: "migration \<Rightarrow> ('z schema_world_scheme, unit result) state" where
  "db_Exec m = State (\<lambda>w.
     let w' = w\<lparr>w_stmt_ix := Suc (w_stmt_ix w)\<rparr>
     in case w_fault w (w_stmt_ix w) of
          Some (Fail_Exec e) \<Rightarrow> (Inl (Driver e), w')
        | fault \<Rightarrow>
            (case effect m w' of
               Inl e \<Rightarrow> (Inl e, w')
             | Inr w'' \<Rightarrow> (case fault of Some (Fail_After e) \<Rightarrow> Inl (Driver e) | _ \<Rightarrow> Inr (), w'')))"

definition default_roles :: "(string \<times> string \<times> string) list" where
  "default_roles =
     [(''00000000-0000-0000-0000-000000000001'', ''admin'', ''Full access to all configurations''),
     (''00000000-0000-0000-0000-000000000002'', ''operator'', ''Can manage assigned configurations''),
     (''00000000-0000-0000-0000-000000000003'', ''viewer'', ''Read-only access to assigned configurations'')]"

definition migrations :: "migration list" where
  "migrations =
     [Create_Table ''configs'' [''id'', ''name'', ''dns_name'', ''dns_ttl'', ''lb_method'', ''created_at'', ''updated_at''],
      Create_Table ''backends'' [''id'', ''config_id'', ''ip'', ''port'', ''weight'', ''enabled'', ''created_at''],
      Create_Table ''health_checks'' [''id'', ''config_id'', ''type'', ''interval_seconds'', ''timeout_seconds'',
        ''threshold_healthy'', ''threshold_unhealthy'', ''http_path'', ''http_expected_status''],
      Create_Table ''health_states'' [''backend_id'', ''status'', ''consecutive_successes'', ''consecutive_failures'',
        ''last_check_at'', ''last_healthy_at'', ''last_error''],
      Create_Table ''dns_providers'' [''id'', ''config_id'', ''provider_type'', ''config_json''],
      Create_Index ''idx_backends_config_id'' ''backends'' [''config_id''],
      Create_Index ''idx_health_states_backend_id'' ''health_states'' [''backend_id''],
      Create_Table ''audit_logs'' [''id'', ''action'', ''entity_type'', ''entity_id'', ''entity_name'', ''details'', ''user_id'',
        ''ip_address'', ''user_agent'', ''created_at''],
      Create_Index ''idx_audit_logs_created_at'' ''audit_logs'' [''created_at''],
      Create_Index ''idx_audit_logs_entity'' ''audit_logs'' [''entity_type'', ''entity_id''],
      Create_Index ''idx_audit_logs_user_id'' ''audit_logs'' [''user_id''],
      Create_Table ''users'' [''id'', ''subject'', ''email'', ''name'', ''created_at'', ''last_login_at'', ''is_active''],
      Create_Index ''idx_users_subject'' ''users'' [''subject''],
      Create_Index ''idx_users_email'' ''users'' [''email''],
      Create_Table ''roles'' [''id'', ''name'', ''description'', ''created_at''],
      Seed_Roles default_roles,
      Create_Table ''user_roles'' [''user_id'', ''role_id'', ''assigned_at'', ''assigned_by''],
      Create_Table ''config_roles'' [''config_id'', ''role_id''],
      Create_Index ''idx_config_roles_config'' ''config_roles'' [''config_id''],
      Create_Index ''idx_config_roles_role'' ''config_roles'' [''role_id''],
      Create_Table ''sessions'' [''jti'', ''user_id'', ''created_at'', ''expires_at'', ''revoked_at''],
      Create_Index ''idx_sessions_user_id'' ''sessions'' [''user_id''],
      Create_Index ''idx_sessions_expires_at'' ''sessions'' [''expires_at''],
      Create_Table ''health_history'' [''id'', ''backend_id'', ''bucket_start'', ''success_count'', ''failure_count'', ''selected'',
        ''created_at''],
      Create_Index ''idx_health_history_backend_bucket'' ''health_history'' [''backend_id'', ''bucket_start'']]"

definition optionalMigrations :: "migration list" where
  "optionalMigrations =
     [Add_Column ''audit_logs'' ''user_id'', Add_Column ''audit_logs'' ''config_id'',
      Add_Column ''configs'' ''last_reconcile_error'']"

primrec migrate_loop :: "nat \<Rightarrow> migration list \<Rightarrow> ('z schema_world_scheme, unit result) state" where
  "migrate_loop i [] = ret (Inr ())"
| "migrate_loop i (m # ms) = do {
     r \<leftarrow> db_Exec m;
     (case r of
        Inl e \<Rightarrow> ret (Inl (Wrap (''migration '' @ fmt_d (int i + 1) @ '' failed'') e))
      | Inr _ \<Rightarrow> migrate_loop (i + 1) ms)
   }"

primrec optional_loop :: "migration list \<Rightarrow> ('z schema_world_scheme, unit) state" where
  "optional_loop [] = ret ()"
| "optional_loop (m # ms) = do { _ \<leftarrow> db_Exec m; optional_loop ms }"

definition Migrate :: "('z schema_world_scheme, unit result) state" where
  "Migrate = do {
     r \<leftarrow> migrate_loop 0 migrations;
     (case r of Inl e \<Rightarrow> ret (Inl e) | Inr _ \<Rightarrow> do { optional_loop optionalMigrations; ret (Inr ()) })
   }"

text \<open>\<open>sql.Open\<close> and \<open>Ping\<close> are the driver's; the pragmas in the name are what makes SQLite enforce foreign keys.\<close>

definition NewDB :: "(string \<Rightarrow> 'c result) \<Rightarrow> ('c \<Rightarrow> err option) \<Rightarrow> string \<Rightarrow> 'c result" where
  "NewDB sql_Open ping dsn =
     (case sql_Open (dsn @ ''?_pragma=foreign_keys(1)&_pragma=journal_mode=WAL&_pragma=busy_timeout(5000)'') of
        Inl e \<Rightarrow> Inl (Wrap ''failed to open database'' e)
      | Inr c \<Rightarrow> (case ping c of Some e \<Rightarrow> Inl (Wrap ''failed to ping database'' e) | None \<Rightarrow> Inr c))"

subsection \<open>What migrations keep\<close>

lemma keeps_db_Exec: "(\<And>w w'. P w \<Longrightarrow> effect m w = Inr w' \<Longrightarrow> P w') \<Longrightarrow> (\<And>w n. P (w\<lparr>w_stmt_ix := n\<rparr>) = P w) \<Longrightarrow> keeps P (db_Exec m)"
  by (intro keepsI) (auto simp: db_Exec_def Let_def split: option.splits fault.splits sum.splits)

lemma keeps_migrate_loop: "(\<And>m. m \<in> set ms \<Longrightarrow> keeps P (db_Exec m)) \<Longrightarrow> keeps P (migrate_loop i ms)"
proof (induction ms arbitrary: i)
  case (Cons m ms)
  from Cons.prems have "keeps P (db_Exec m)" "\<And>i. keeps P (migrate_loop i ms)" by (simp_all add: Cons.IH)
  then show ?case by (auto intro!: keep_intros)
qed (auto intro: keep_intros)

lemma keeps_optional_loop: "(\<And>m. m \<in> set ms \<Longrightarrow> keeps P (db_Exec m)) \<Longrightarrow> keeps P (optional_loop ms)"
  by (induction ms) (auto intro!: keep_intros)

lemma keeps_Migrate: "(\<And>m. m \<in> set (migrations @ optionalMigrations) \<Longrightarrow> keeps P (db_Exec m)) \<Longrightarrow> keeps P Migrate"
  unfolding Migrate_def by (auto intro!: keep_intros keeps_migrate_loop keeps_optional_loop)

subsection \<open>What a successful migration established\<close>

lemma db_Exec_Inr:
  "run_state (db_Exec m) w = (Inr u, w') \<Longrightarrow> \<exists>n. effect m (w\<lparr>w_stmt_ix := n\<rparr>) = Inr w'"
  by (auto simp: db_Exec_def Let_def split: option.splits fault.splits sum.splits)

lemma migrate_loop_Inr:
  assumes "run_state (migrate_loop i ms) w = (Inr u, w')" "m \<in> set ms" "\<And>v v'. effect m v = Inr v' \<Longrightarrow> Q v'"
    and "\<And>m. m \<in> set ms \<Longrightarrow> keeps Q (db_Exec m)"
  shows "Q w'"
  using assms(1,2,4)
proof (induction ms arbitrary: i w)
  case (Cons a ms)
  from Cons.prems(1) obtain v w1 where a: "run_state (db_Exec a) w = (Inr v, w1)"
    and rest: "run_state (migrate_loop (i + 1) ms) w1 = (Inr u, w')"
    by (auto simp: run_simps split: prod.splits sum.splits)
  show ?case
  proof (cases "m \<in> set ms")
    case True
    with Cons.IH [OF rest] Cons.prems(3) show ?thesis by simp
  next
    case False
    with Cons.prems(2) a db_Exec_Inr have "Q w1" using assms(3) by fastforce
    moreover have "keeps Q (migrate_loop (i + 1) ms)" using Cons.prems(3) by (intro keeps_migrate_loop) simp
    ultimately show ?thesis using keeps_run [OF _ _ rest] by blast
  qed
qed simp

definition appends_roles :: "db \<Rightarrow> db \<Rightarrow> bool" where
  "appends_roles d d' = (\<exists>rs. d' = d\<lparr>t_roles := t_roles d @ rs\<rparr>)"

lemma appends_roles_trans: "appends_roles d d' \<Longrightarrow> appends_roles d' d'' \<Longrightarrow> appends_roles d d''"
  by (auto simp: appends_roles_def)

lemma appends_roles_refl: "appends_roles d d"
  unfolding appends_roles_def by (rule exI [of _ "[]"]) simp

lemma seed_role_appends: "appends_roles d (seed_role now x d)"
proof (cases x)
  case (fields i n desc)
  then show ?thesis
    by (cases "\<exists>r \<in> set (t_roles d). r_ID r = i \<or> r_Name r = n")
      (simp_all add: seed_role_def appends_roles_refl, auto simp: appends_roles_def)
qed

lemma fold_seed_appends: "appends_roles d (fold (seed_role now) xs d)"
proof (induction xs arbitrary: d)
  case (Cons x xs)
  show ?case using appends_roles_trans [OF seed_role_appends Cons.IH] by simp
qed (simp add: appends_roles_refl)

lemma seed_role_ok: "db_ok d \<Longrightarrow> db_ok (seed_role now x d)"
  by (cases x) (auto simp: seed_role_def db_ok_def keys_ok_def refs_ok_def sql_simps)

lemma fold_seed_ok: "db_ok d \<Longrightarrow> db_ok (fold (seed_role now) xs d)"
  by (induction xs arbitrary: d) (simp_all add: seed_role_ok)

text \<open>A role with the ID or the name of each default role.\<close>

definition seeded :: "(string \<times> string \<times> string) list \<Rightarrow> db \<Rightarrow> bool" where
  "seeded xs d = (\<forall>(i, n, _) \<in> set xs. \<exists>r \<in> set (t_roles d). r_ID r = i \<or> r_Name r = n)"

lemma seeded_mono: "seeded xs d \<Longrightarrow> appends_roles d d' \<Longrightarrow> seeded xs d'"
  by (fastforce simp: seeded_def appends_roles_def)

lemma fold_seed_seeded: "seeded xs (fold (seed_role now) xs d)"
proof (induction xs arbitrary: d)
  case (Cons x xs)
  have "seeded [x] (seed_role now x d)" by (cases x) (auto simp: seeded_def seed_role_def)
  then have "seeded [x] (fold (seed_role now) xs (seed_role now x d))" using fold_seed_appends by (rule seeded_mono)
  with Cons.IH [of "seed_role now x d"] show ?case by (simp add: seeded_def)
qed (simp add: seeded_def)

lemma effect_db:
  assumes "effect m w = Inr w'"
  shows "appends_roles (w_db w) (w_db w')" "db_ok (w_db w) \<Longrightarrow> db_ok (w_db w')"
  using assms fold_seed_appends fold_seed_ok
  by (auto simp: effect_def appends_roles_refl split: migration.splits option.splits if_splits)

text \<open>
  C35: Migrating never harms a database and a successful migration makes it fit for logins: whatever
  the driver does, the constraints of the schema hold on and no row of any table changes or goes,
  roles are only added; and when \<open>Migrate\<close> returns no error, each of the roles admin, operator and
  viewer is there (or another role has taken its ID).
\<close>

theorem Migrate_keeps_data:
  assumes "db_ok (w_db w)" "run_state Migrate w = (r, w')"
  shows "db_ok (w_db w') \<and> (\<exists>rs. w_db w' = (w_db w)\<lparr>t_roles := t_roles (w_db w) @ rs\<rparr>) \<and>
    (r = Inr () \<longrightarrow> (\<forall>(i, n, _) \<in> set default_roles. \<exists>x \<in> set (t_roles (w_db w')). r_ID x = i \<or> r_Name x = n))"
proof -
  have kept: "keeps (\<lambda>v. db_ok (w_db v) \<and> appends_roles (w_db w) (w_db v)) (db_Exec m)" for m
    using effect_db appends_roles_trans by (intro keeps_db_Exec) (fastforce, simp)
  have "keeps (\<lambda>v. db_ok (w_db v) \<and> appends_roles (w_db w) (w_db v)) Migrate" by (rule keeps_Migrate) (rule kept)
  from keeps_run [OF this _ assms(2)] assms(1) appends_roles_refl
  have "db_ok (w_db w') \<and> appends_roles (w_db w) (w_db w')" by blast
  moreover have "seeded default_roles (w_db w')" if ok: "r = Inr ()"
  proof -
    have still: "keeps (\<lambda>v. seeded default_roles (w_db v)) (db_Exec m)" for m
      using effect_db(1) seeded_mono by (intro keeps_db_Exec) (blast, simp)
    obtain w1 where loop: "run_state (migrate_loop 0 migrations) w = (Inr (), w1)"
      and opt: "run_state (optional_loop optionalMigrations) w1 = ((), w')"
      using assms(2) unfolding ok by (auto simp: Migrate_def run_simps split: prod.splits sum.splits)
    have "seeded default_roles (w_db w1)"
      by (rule migrate_loop_Inr [OF loop, of "Seed_Roles default_roles"])
        (auto simp: migrations_def effect_def fold_seed_seeded still)
    with keeps_run [OF keeps_optional_loop [OF still] _ opt] show ?thesis by blast
  qed
  ultimately show ?thesis by (simp add: seeded_def appends_roles_def)
qed

subsection \<open>A database with an audit log from before user IDs\<close>

definition old_audit_log :: "'z schema_world_scheme \<Rightarrow> bool" where
  "old_audit_log w = ((\<exists>cs. map_of (sw_tables w) ''audit_logs'' = Some cs \<and> ''user_id'' \<notin> set cs) \<and>
     ''idx_audit_logs_user_id'' \<notin> set (sw_indexes w))"

lemma keeps_old_audit_log:
  assumes "m \<in> set migrations"
  shows "keeps old_audit_log (db_Exec m)"
proof (rule keeps_db_Exec)
  fix w w' assume w: "old_audit_log w" "effect m w = Inr w'"
  then show "old_audit_log w'"
    using assms
    by (auto simp: effect_def old_audit_log_def migrations_def map_add_Some_iff split: migration.splits option.splits if_splits)
qed (simp add: old_audit_log_def)

lemma old_index_fails: "old_audit_log w \<Longrightarrow> \<exists>e. fst (run_state (db_Exec (Create_Index ''idx_audit_logs_user_id'' ''audit_logs'' [''user_id''])) w) = Inl e"
  by (auto simp: db_Exec_def effect_def old_audit_log_def Let_def split: option.splits fault.splits)

lemma migrate_loop_stuck:
  assumes "\<And>m. m \<in> set ms \<Longrightarrow> keeps P (db_Exec m)" "bad \<in> set ms" "\<And>v. P v \<Longrightarrow> \<exists>e. fst (run_state (db_Exec bad) v) = Inl e" "P w"
  shows "\<exists>e. fst (run_state (migrate_loop i ms) w) = Inl e"
  using assms(1,2,4)
proof (induction ms arbitrary: i w)
  case (Cons m ms)
  obtain r w1 where m: "run_state (db_Exec m) w = (r, w1)" by (cases "run_state (db_Exec m) w")
  show ?case
  proof (cases r)
    case (Inl e)
    with m show ?thesis by (simp add: run_simps)
  next
    case (Inr u)
    with m assms(3) [OF Cons.prems(3)] have "m \<noteq> bad" by auto
    with Cons.prems(2) have "bad \<in> set ms" by simp
    moreover have "P w1" by (rule keeps_run [OF _ _ m]) (use Cons.prems in simp_all)
    ultimately show ?thesis using Cons.IH [of w1 "i + 1"] Cons.prems(1) m Inr by (simp add: run_simps)
  qed
qed simp

text \<open>
  C36: An audit log from before user IDs blocks every migration: on a file whose \<open>audit_logs\<close> table has
  no \<open>user_id\<close> column, \<open>Migrate\<close> fails, because it creates the index on the column before the step
  that would add it, and the file stays as it was in that respect, so that the next start fails too.
\<close>

theorem old_audit_log_blocks_migration:
  assumes "map_of (sw_tables w) ''audit_logs'' = Some cs" "''user_id'' \<notin> set cs"
    and "''idx_audit_logs_user_id'' \<notin> set (sw_indexes w)"
    and "run_state Migrate w = (r, w')"
  shows "\<exists>e cs'. r = Inl e \<and> map_of (sw_tables w') ''audit_logs'' = Some cs' \<and> ''user_id'' \<notin> set cs' \<and>
    ''idx_audit_logs_user_id'' \<notin> set (sw_indexes w')"
proof -
  have old: "old_audit_log w" using assms(1-3) by (simp add: old_audit_log_def)
  obtain e where "fst (run_state (migrate_loop 0 migrations) w) = Inl e"
    using migrate_loop_stuck [of migrations old_audit_log, OF keeps_old_audit_log _ old_index_fails old]
    by (auto simp: migrations_def)
  then obtain w1 where loop: "run_state (migrate_loop 0 migrations) w = (Inl e, w1)" by (metis prod.collapse)
  with assms(4) have "r = Inl e" "w' = w1" by (simp_all add: Migrate_def run_simps)
  moreover have "old_audit_log w1"
    using keeps_run [OF keeps_migrate_loop [OF keeps_old_audit_log] old loop] .
  ultimately show ?thesis by (auto simp: old_audit_log_def)
qed

subsection \<open>Examples\<close>

definition ex_file :: schema_world where
  "ex_file = \<lparr>w_db = empty_db, w_now = (\<lambda>n. int n), w_now_ix = 0, w_uuid = (\<lambda>n. ''u''), w_uuid_ix = 0,
     w_fault = (\<lambda>_. None), w_stmt_ix = 0, sw_tables = [], sw_indexes = []\<rparr>"

lemma ex_file_migrates: "fst (run_state Migrate ex_file) = Inr ()"
  by code_simp

theorem Migrate_keeps_data_witness:
  "db_ok (w_db (exec Migrate ex_file)) \<and>
   (\<exists>x \<in> set (t_roles (w_db (exec Migrate ex_file))). r_ID x = ''00000000-0000-0000-0000-000000000001'' \<or> r_Name x = ''admin'')"
proof -
  have "db_ok (w_db ex_file)"
    by (simp add: db_ok_def keys_ok_def refs_ok_def unique_def references_def ex_file_def empty_db_def)
  from Migrate_keeps_data [OF this prod.collapse [symmetric]] ex_file_migrates show ?thesis
    by (simp add: default_roles_def exec_def)
qed

definition ex_old_file :: schema_world where
  "ex_old_file = ex_file\<lparr>sw_tables := [(''audit_logs'', [''id'', ''action'', ''entity_type'', ''entity_id'', ''created_at''])]\<rparr>"

theorem old_audit_log_blocks_migration_witness: "\<exists>e. fst (run_state Migrate ex_old_file) = Inl e"
  using old_audit_log_blocks_migration [of ex_old_file, OF _ _ _ prod.collapse [symmetric]]
  by (force simp: ex_old_file_def ex_file_def)

end
