(* ===== verification/Login.thy ===== *)
theory Login
  imports Guarantees
begin

section \<open>From login to API: the callback and the session middleware together\<close>

text \<open>
  The cookie a successful callback sets is accepted by the middleware in front of the API, as the user
  and with the roles the database has for the subject of the ID token.
\<close>

lemma Middleware_accepts:
  assumes "jwt_law lib" "jw_Sign lib (jc_Secret cfg) (session_claims jti user created expires) = Inr token" "token \<noteq> ''''"
    and "session_lookup (w_db w) jti = Some r" "sr_RevokedAt r = None" "jti \<noteq> ''''" "u_ID user \<noteq> ''''"
    and "getToken rq (jc_CookieName cfg) = token" "\<not> shouldSkipAuth (rq_Path rq)"
    and "unix (w_now w (w_now_ix w)) < unix expires" "w_fault w (w_stmt_ix w) = None"
  shows "\<exists>ctx'. fst (run_state (Middleware lib cfg rq ctx) w) = Next ctx' \<and> cx_userID ctx' = Some (u_ID user) \<and>
    cx_userRoles ctx' = Some (map r_Name (u_Roles user))"
proof -
  let ?s = "\<lparr>se_JTI = jti, se_UserID = u_ID user, se_Email = u_Email user, se_Roles = map r_Name (u_Roles user),
    se_ExpiresAt = unix expires * Second\<rparr>" and ?w = "w\<lparr>w_now_ix := Suc (w_now_ix w)\<rparr>"
  have parsed: "ParseSession lib cfg (w_now w (w_now_ix w)) token = Some (Inr ?s)"
    by (rule ParseSession_session_claims [OF assms(1,2,10,7)])
  have "fst (run_state (ValidateSession ?s) ?w) = Inr ()"
    using assms(4-6,11) by (simp add: run_ValidateSession)
  then obtain w2 where "run_state (ValidateSession ?s) ?w = (Inr (), w2)" by (metis prod.collapse)
  with parsed assms(3,8,9) show ?thesis by (simp add: Middleware_def Let_def run_simps)
qed

subsection \<open>What a login does to the table of sessions\<close>

lemma sessions_statements:
  "insert_user u d = Inr (n, d') \<Longrightarrow> t_sessions d' = t_sessions d"
  "update_user u d = Inr (n, d') \<Longrightarrow> t_sessions d' = t_sessions d"
  "insert_user_role ur d = Inr (n, d') \<Longrightarrow> t_sessions d' = t_sessions d"
  "delete_user_role i j d = Inr (n, d') \<Longrightarrow> t_sessions d' = t_sessions d"
  by (auto simp: insert_user_def update_user_def insert_user_role_def delete_user_role_def Let_def split: if_splits)

lemma keeps_sessions_users:
  "keeps (\<lambda>w. t_sessions (w_db w) = x) (CreateUser u)" "keeps (\<lambda>w. t_sessions (w_db w) = x) (UpdateUser u)"
  "keeps (\<lambda>w. t_sessions (w_db w) = x) (AssignRole i j k)" "keeps (\<lambda>w. t_sessions (w_db w) = x) (RemoveRole i j)"
  unfolding CreateUser_def UpdateUser_def AssignRole_def RemoveRole_def
  by (intro keep_intros keeps_insert_method [where P = "\<lambda>d. t_sessions d = x"] keeps_affect_method [where P = "\<lambda>d. t_sessions d = x"];
      simp add: sessions_statements)+

lemma keeps_sessions_loops:
  "keeps (\<lambda>w. t_sessions (w_db w) = x) (add_roles_loop u m names)" "keeps (\<lambda>w. t_sessions (w_db w) = x) (remove_roles_loop u names ps)"
proof -
  show "keeps (\<lambda>w. t_sessions (w_db w) = x) (add_roles_loop u m names)"
    by (induction names) (auto intro!: keep_intros keeps_sessions_users)
  show "keeps (\<lambda>w. t_sessions (w_db w) = x) (remove_roles_loop u names ps)"
    by (induction ps) (auto intro!: keep_intros keeps_sessions_users)
qed

lemma keeps_sessions_SyncUser: "keeps (\<lambda>w. t_sessions (w_db w) = x) (SyncUser ord d user names)"
  unfolding SyncUser_def sync_and_get_def syncRoles_def Let_def
  by (intro keep_intros keeps_sessions_users keeps_sessions_loops)

lemma insert_session_rows:
  "insert_session s d = Inr (n, d') \<Longrightarrow> session_lookup d (sr_JTI s) = None \<and> t_sessions d' = t_sessions d @ [s\<lparr>sr_RevokedAt := None\<rparr>]"
  by (auto simp: insert_session_def session_lookup_find find_None_iff split: if_splits)

lemma CreateSession_appends:
  assumes "run_state (CreateSession lib cfg user) w = (Inr token, w')"
  obtains jti created expires where "jw_Sign lib (jc_Secret cfg) (session_claims jti user created expires) = Inr token"
    "session_lookup (w_db w) jti = None"
    "t_sessions (w_db w') = t_sessions (w_db w) @ [\<lparr>sr_JTI = jti, sr_UserID = u_ID user, sr_CreatedAt = created,
       sr_ExpiresAt = expires, sr_RevokedAt = None\<rparr>]"
    "expires = created + (if jc_Expiry cfg = 0 then 24 * Hour else jc_Expiry cfg)"
proof -
  let ?jti = "w_uuid w (w_uuid_ix w)" and ?created = "w_now w (w_now_ix w)"
  let ?expires = "?created + (if jc_Expiry cfg = 0 then 24 * Hour else jc_Expiry cfg)"
  let ?row = "\<lparr>sr_JTI = ?jti, sr_UserID = u_ID user, sr_CreatedAt = ?created, sr_ExpiresAt = ?expires, sr_RevokedAt = None\<rparr>"
  from assms have sign: "jw_Sign lib (jc_Secret cfg) (session_claims ?jti user ?created ?expires) = Inr token"
    by (auto simp: CreateSession_def CreateSessionRecord_def Let_def run_simps split: prod.splits sum.splits)
  have "\<exists>n. insert_session ?row (w_db w) = Inr (n, w_db w')"
    using assms by (auto simp: CreateSession_def CreateSessionRecord_def Let_def run_simps split: prod.splits sum.splits
        dest!: insert_method_Inr)
  then have "session_lookup (w_db w) ?jti = None \<and> t_sessions (w_db w') = t_sessions (w_db w) @ [?row]"
    by (elim exE) (drule insert_session_rows, simp)
  then have "session_lookup (w_db w) ?jti = None" "t_sessions (w_db w') = t_sessions (w_db w) @ [?row]" by simp_all
  with sign show thesis by (intro that [of ?jti ?created ?expires]) simp_all
qed

text \<open>
  C12: A login works: whenever the callback sets cookies, the first of them is the session cookie, and
  it opens the API for the user of a verified ID token. The code was exchanged for a raw ID token with
  the verifier of the browser's cookie, the provider verified it with the nonce of the browser's cookie,
  and the user was synchronised from its claims; the login adds exactly one row to the table of
  sessions, with a new ID, for that user, not revoked and expiring after the configured time (24 hours when
  none is configured); the cookie's value is the signed token that
  names this ID; and every later request that carries it, in any state of the world in which the
  session has the record of this row, the driver answers and the expiry is not reached, passes the
  middleware as that user with exactly the roles the user had at the login (given that the two IDs are not empty).
\<close>

theorem login_opens_session:
  assumes "jwt_law (os_jwt svc)" "run_state (H_Callback svc rq ctx) w = ((resp, cookies), w')" "cookies \<noteq> []"
  shows "ck_Name (hd cookies) = jc_CookieName (os_jwtCfg svc) \<and>
    (\<exists>nonce verifier raw claims info roles user w1 jti created expires.
      rq_Cookie rq ''oidc_nonce'' = Some nonce \<and> rq_Cookie rq ''oidc_pkce'' = Some verifier \<and>
      os_Exchange svc (query rq ''code'') verifier = Inr (Some raw) \<and> os_Verify svc raw = Inr (nonce, claims) \<and>
      ExtractUserInfo (os_RolesClaim svc) claims = Inr (info, roles) \<and>
      run_state (SyncUser (os_MapOrder svc) (os_DefaultRole svc) info roles) w = (Inr user, w1) \<and>
      session_lookup (w_db w) jti = None \<and> expires = created + (if jc_Expiry (os_jwtCfg svc) = 0 then 24 * Hour else jc_Expiry (os_jwtCfg svc)) \<and>
      t_sessions (w_db w') = t_sessions (w_db w) @ [\<lparr>sr_JTI = jti, sr_UserID = u_ID user, sr_CreatedAt = created,
        sr_ExpiresAt = expires, sr_RevokedAt = None\<rparr>] \<and>
      jw_Sign (os_jwt svc) (jc_Secret (os_jwtCfg svc)) (session_claims jti user created expires) = Inr (ck_Value (hd cookies)) \<and>
      (\<forall>(v :: 'y world_scheme) (rq' :: 's Request_scheme) ctx'.
        jti \<noteq> '''' \<and> u_ID user \<noteq> '''' \<and> ck_Value (hd cookies) \<noteq> '''' \<and>
        session_lookup (w_db v) jti = session_lookup (w_db w') jti \<and> w_fault v (w_stmt_ix v) = None \<and>
        unix (w_now v (w_now_ix v)) < unix expires \<and> \<not> shouldSkipAuth (rq_Path rq') \<and>
        getToken rq' (jc_CookieName (os_jwtCfg svc)) = ck_Value (hd cookies) \<longrightarrow>
        (\<exists>ctx''. fst (run_state (Middleware (os_jwt svc) (os_jwtCfg svc) rq' ctx') v) = Next ctx'' \<and>
           cx_userID ctx'' = Some (u_ID user) \<and> cx_userRoles ctx'' = Some (map r_Name (u_Roles user)))))"
proof -
  from assms(2,3) obtain nonce verifier where
    c: "rq_Cookie rq ''oidc_nonce'' = Some nonce" "rq_Cookie rq ''oidc_pkce'' = Some verifier"
    and run: "run_state (finish_login svc rq ctx nonce verifier (query rq ''code'')) w = ((resp, cookies), w')"
    by (auto simp: H_Callback_def run_simps split: if_splits option.splits)
  obtain token claims info roles user sessionToken w1 w2 where
    ok: "os_Exchange svc (query rq ''code'') verifier = Inr token" "VerifyIDToken (os_Verify svc) token nonce = Inr claims"
      "ExtractUserInfo (os_RolesClaim svc) claims = Inr (info, roles)"
    and sync: "run_state (SyncUser (os_MapOrder svc) (os_DefaultRole svc) info roles) w = (Inr user, w1)"
    and cs: "run_state (CreateSession (os_jwt svc) (os_jwtCfg svc) user) w1 = (Inr sessionToken, w2)"
    and rest: "audit_less (w_db w') = audit_less (w_db w2)" "ck_Value (hd cookies) = sessionToken"
      "ck_Name (hd cookies) = jc_CookieName (os_jwtCfg svc)"
    by (rule finish_login_cookies [OF run assms(3)])
  obtain raw where raw: "token = Some raw" "os_Verify svc raw = Inr (nonce, claims)"
    using ok(2) by (auto simp: VerifyIDToken_def split: option.splits sum.splits if_splits)
  have old: "t_sessions (w_db w1) = t_sessions (w_db w)" using keeps_run [OF keeps_sessions_SyncUser _ sync] by simp
  have new: "t_sessions (w_db w') = t_sessions (w_db w2)" using arg_cong [OF rest(1), of t_sessions] by (simp add: audit_less_def)
  obtain jti created expires where
    sign: "jw_Sign (os_jwt svc) (jc_Secret (os_jwtCfg svc)) (session_claims jti user created expires) = Inr (ck_Value (hd cookies))"
    and fresh: "session_lookup (w_db w1) jti = None"
    and rows: "t_sessions (w_db w2) = t_sessions (w_db w1) @ [\<lparr>sr_JTI = jti, sr_UserID = u_ID user, sr_CreatedAt = created,
       sr_ExpiresAt = expires, sr_RevokedAt = None\<rparr>]"
    and expiry: "expires = created + (if jc_Expiry (os_jwtCfg svc) = 0 then 24 * Hour else jc_Expiry (os_jwtCfg svc))"
    by (rule CreateSession_appends [OF cs]) (simp add: rest(2))
  let ?row = "\<lparr>sr_JTI = jti, sr_UserID = u_ID user, sr_CreatedAt = created, sr_ExpiresAt = expires, sr_RevokedAt = None\<rparr>"
  have fresh': "session_lookup (w_db w) jti = None" using fresh by (simp add: session_lookup_find old)
  have rows': "t_sessions (w_db w') = t_sessions (w_db w) @ [?row]" by (simp add: new rows old)
  have stored: "session_lookup (w_db w') jti = Some ?row"
    using fresh' by (simp add: session_lookup_find rows' find_snoc)
  have opens: "\<exists>ctx''. fst (run_state (Middleware (os_jwt svc) (os_jwtCfg svc) rq' ctx') v) = Next ctx'' \<and>
       cx_userID ctx'' = Some (u_ID user) \<and> cx_userRoles ctx'' = Some (map r_Name (u_Roles user))"
    if "jti \<noteq> '''' \<and> u_ID user \<noteq> '''' \<and> ck_Value (hd cookies) \<noteq> '''' \<and>
        session_lookup (w_db v) jti = session_lookup (w_db w') jti \<and> w_fault v (w_stmt_ix v) = None \<and>
        unix (w_now v (w_now_ix v)) < unix expires \<and> \<not> shouldSkipAuth (rq_Path rq') \<and>
        getToken rq' (jc_CookieName (os_jwtCfg svc)) = ck_Value (hd cookies)"
    for v :: "'y world_scheme" and rq' :: "'s Request_scheme" and ctx'
    using that stored by (intro Middleware_accepts [OF assms(1) sign, where r = ?row]) auto
  from rest(3) show ?thesis
    by (rule conjI)
      (rule exI [of _ nonce], rule exI [of _ verifier], rule exI [of _ raw], rule exI [of _ claims], rule exI [of _ info],
       rule exI [of _ roles], rule exI [of _ user], rule exI [of _ w1], rule exI [of _ jti], rule exI [of _ created],
       rule exI [of _ expires], intro conjI allI impI c ok(1) [unfolded raw(1)] raw(2) ok(3) sync fresh' expiry rows' sign opens;
       elim conjE; assumption)
qed

definition ex_api_request :: "string \<Rightarrow> http_request" where
  "ex_api_request token = ex_status_request\<lparr>rq_Cookie := map_of [(''gslb'', token)]\<rparr>"

definition ex_logged_in where
  "ex_logged_in = run_state (H_Callback ex_login_oidc ex_login_request empty_context) ex_access_world"

lemma ex_logged_in_session:
  "t_sessions (w_db (snd ex_logged_in)) = t_sessions ex_access_db @ [\<lparr>sr_JTI = ''j'', sr_UserID = ''ann'', sr_CreatedAt = 6,
     sr_ExpiresAt = 60000000006, sr_RevokedAt = None\<rparr>]"
  by code_simp

lemma ex_logged_in_next:
  "w_fault (snd ex_logged_in) (w_stmt_ix (snd ex_logged_in)) = None" "w_now (snd ex_logged_in) (w_now_ix (snd ex_logged_in)) = 8"
  by code_simp+

lemma ex_api_skip: "\<not> shouldSkipAuth (rq_Path (ex_api_request token))"
  by (simp add: ex_api_request_def ex_status_request_def) code_simp

lemma ex_api_token: "getToken (ex_api_request token) ''gslb'' = token" if "token \<noteq> ''''"
  using that by (simp add: ex_api_request_def getToken_def)

theorem login_opens_session_witness:
  "\<exists>cookies w' ctx'. run_state (H_Callback ex_login_oidc ex_login_request empty_context) ex_access_world = ((Redirect ''/'', cookies), w') \<and>
     fst (run_state (Middleware plain_jwt ex_jwt_config (ex_api_request (ck_Value (hd cookies))) empty_context) w') = Next ctx' \<and>
     cx_userID ctx' = Some ''ann''"
proof -
  obtain cookies w' where run: "run_state (H_Callback ex_login_oidc ex_login_request empty_context) ex_access_world =
      ((Redirect ''/'', cookies), w')" "cookies \<noteq> []"
    using ex_login by blast
  then have w': "w' = snd ex_logged_in" by (simp add: ex_logged_in_def)
  have svc: "os_jwt ex_login_oidc = plain_jwt" "os_jwtCfg ex_login_oidc = ex_jwt_config" "jc_CookieName ex_jwt_config = ''gslb''"
    by (simp_all add: ex_login_oidc_def ex_jwt_config_def)
  have law: "jwt_law (os_jwt ex_login_oidc)" by (simp add: svc plain_jwt_law)
  obtain user :: User and jti created expires where
    row: "t_sessions (w_db w') = t_sessions (w_db ex_access_world) @ [\<lparr>sr_JTI = jti, sr_UserID = u_ID user,
       sr_CreatedAt = created, sr_ExpiresAt = expires, sr_RevokedAt = None\<rparr>]"
    and sign: "jw_Sign plain_jwt (jc_Secret ex_jwt_config) (session_claims jti user created expires) = Inr (ck_Value (hd cookies))"
    and opens: "jti \<noteq> '''' \<and> u_ID user \<noteq> '''' \<and> ck_Value (hd cookies) \<noteq> '''' \<and>
        session_lookup (w_db w') jti = session_lookup (w_db w') jti \<and> w_fault w' (w_stmt_ix w') = None \<and>
        unix (w_now w' (w_now_ix w')) < unix expires \<and>
        \<not> shouldSkipAuth (rq_Path (ex_api_request (ck_Value (hd cookies)))) \<and>
        getToken (ex_api_request (ck_Value (hd cookies))) ''gslb'' = ck_Value (hd cookies) \<longrightarrow>
        (\<exists>ctx'. fst (run_state (Middleware plain_jwt ex_jwt_config (ex_api_request (ck_Value (hd cookies))) empty_context) w') = Next ctx' \<and>
           cx_userID ctx' = Some (u_ID user) \<and> cx_userRoles ctx' = Some (map r_Name (u_Roles user)))"
    using login_opens_session [OF law run] unfolding svc by (elim conjE exE) (rule that, assumption+, erule allE, erule allE, erule allE, assumption)
  have vals: "jti = ''j''" "u_ID user = ''ann''" "expires = 60000000006"
    using row unfolding w' ex_logged_in_session ex_access_healthy(2) by simp_all
  have "ck_Value (hd cookies) \<noteq> ''''" using sign by (auto simp: plain_jwt_def enc_str_def enc_nat_def)
  moreover from this have "getToken (ex_api_request (ck_Value (hd cookies))) ''gslb'' = ck_Value (hd cookies)"
    by (rule ex_api_token)
  ultimately obtain ctx' where "fst (run_state (Middleware plain_jwt ex_jwt_config (ex_api_request (ck_Value (hd cookies))) empty_context) w') = Next ctx'"
    "cx_userID ctx' = Some (u_ID user)"
    using opens unfolding vals w' by (auto simp: ex_logged_in_next ex_api_skip unix_def time_units)
  with run vals(2) show ?thesis by (intro exI [of _ cookies] exI [of _ w'] exI [of _ ctx']) simp
qed

end
