(* ===== verification/Oidc_Service.thy ===== *)
theory Oidc_Service
  imports Login App_Config
begin

section \<open>The OIDC service and the login flow (internal/auth/oidc.go)\<close>

text \<open>
  How the service is made from the configuration, and the round trip of a login: what \<open>Login\<close> sends
  to the provider and leaves in the browser is what \<open>Callback\<close> finds and uses. The libraries
  (go-oidc, oauth2) are the record \<open>oauth_lib\<close>; the random source, the JWT library, SHA-256, URL
  building and the map order come with the service \<open>env\<close>, whose other fields are replaced.
\<close>

record oauth2_config =
  o2_ClientID :: string
  o2_ClientSecret :: string
  o2_RedirectURL :: string
  o2_Endpoint :: string
  o2_Scopes :: "string list"

text \<open>A discovered provider: its endpoint, its token verifier for a client, and the end-session claim.\<close>

record oidc_provider =
  pv_Endpoint :: string
  pv_Verifier :: "string \<Rightarrow> string \<Rightarrow> (string \<times> claims result) result"
  pv_Claims :: "string result"

record oauth_lib =
  oa_NewProvider :: "string \<Rightarrow> oidc_provider result"
  oa_AuthCodeURL :: "oauth2_config \<Rightarrow> string \<Rightarrow> (string \<times> string) list \<Rightarrow> string"
  oa_Exchange :: "oauth2_config \<Rightarrow> string \<Rightarrow> (string \<times> string) list \<Rightarrow> string option result"

definition GetAuthURL :: "oauth_lib \<Rightarrow> oauth2_config \<Rightarrow> string \<Rightarrow> string \<Rightarrow> string \<Rightarrow> string" where
  "GetAuthURL lib cfg st nonce pkceChallenge =
     oa_AuthCodeURL lib cfg st
       [(''nonce'', nonce), (''code_challenge'', pkceChallenge), (''code_challenge_method'', ''S256'')]"

definition Exchange :: "oauth_lib \<Rightarrow> oauth2_config \<Rightarrow> string \<Rightarrow> string \<Rightarrow> string option result" where
  "Exchange lib cfg code pkceVerifier = oa_Exchange lib cfg code [(''code_verifier'', pkceVerifier)]"

definition EndSessionURL :: "oidc_provider option \<Rightarrow> string" where
  "EndSessionURL provider =
     (case provider of
        None \<Rightarrow> ''''
      | Some pv \<Rightarrow> (case pv_Claims pv of Inl _ \<Rightarrow> '''' | Inr url \<Rightarrow> url))"

definition jwt_config :: "JWTSettings \<Rightarrow> JWTConfig" where
  "jwt_config js = \<lparr>jc_Secret = js_Secret js, jc_Expiry = js_Expiry js, jc_CookieName = js_CookieName js,
     jc_CookieSecure = js_CookieSecure js, jc_CookieHTTPOnly = js_CookieHTTPOnly js, jc_CookieSameSite = js_CookieSameSite js\<rparr>"

definition NewOIDCService :: "oauth_lib \<Rightarrow> oidc_service \<Rightarrow> OIDCConfig \<Rightarrow> JWTSettings \<Rightarrow> oidc_service result" where
  "NewOIDCService lib env oidcCfg jwtCfg =
     (case oa_NewProvider lib (oc_Issuer oidcCfg) of
        Inl e \<Rightarrow> Inl (Wrap ''discover OIDC provider'' e)
      | Inr provider \<Rightarrow>
          let oauth2Cfg = \<lparr>o2_ClientID = oc_ClientID oidcCfg, o2_ClientSecret = oc_ClientSecret oidcCfg,
                o2_RedirectURL = oc_RedirectURL oidcCfg, o2_Endpoint = pv_Endpoint provider, o2_Scopes = oc_Scopes oidcCfg\<rparr>
          in Inr (env\<lparr>os_jwtCfg := jwt_config jwtCfg, os_RolesClaim := oc_RolesClaim oidcCfg,
               os_DefaultRole := oc_DefaultRole oidcCfg, os_AuthCodeURL := GetAuthURL lib oauth2Cfg,
               os_Exchange := Exchange lib oauth2Cfg, os_Verify := pv_Verifier provider (oc_ClientID oidcCfg),
               os_EndSessionURL := EndSessionURL (Some provider)\<rparr>))"

subsection \<open>The verifier is well formed\<close>

text \<open>The unreserved characters of RFC 7636, without the two that base64 never produces.\<close>

definition verifier_chars :: string where
  "verifier_chars = ''ABCDEFGHIJKLMNOPQRSTUVWXYZabcdefghijklmnopqrstuvwxyz0123456789-_''"

definition well_formed_verifier :: "string \<Rightarrow> bool" where
  "well_formed_verifier v = (43 \<le> length v \<and> length v \<le> 128 \<and> set v \<subseteq> set verifier_chars)"

definition url_char :: "char \<Rightarrow> char" where
  "url_char c = (if c = CHR ''+'' then CHR ''-'' else if c = CHR ''/'' then CHR ''_'' else c)"

lemma b64_char_cases: "n < 64 \<Longrightarrow> b64_char n \<noteq> CHR ''='' \<and> url_char (b64_char n) \<in> set verifier_chars \<and> url_char (b64_char n) \<noteq> CHR ''=''"
proof -
  have "list_all (\<lambda>n. b64_char n \<noteq> CHR ''='' \<and> url_char (b64_char n) \<in> set verifier_chars \<and> url_char (b64_char n) \<noteq> CHR ''='')
      [0..<64]" by code_simp
  moreover assume "n < 64"
  ultimately show ?thesis by (simp add: list_all_iff)
qed

lemma b64_rawurl_map: "b64_rawurl b = filter (\<lambda>c. c \<noteq> CHR ''='') (map url_char (b64_encode b))"
  by (simp add: b64_rawurl_def b64_url_def url_char_def [abs_def])

lemma sextet_bounds:
  fixes a b c :: char
  defines "v \<equiv> byte a * 65536 + byte b * 256 + byte c"
  shows "v div 262144 < 64" "v div 4096 mod 64 < 64" "v div 64 mod 64 < 64" "v mod 64 < 64"
  using quad_bytes(2) [OF refl, of a b c] by (simp_all add: v_def)

lemma url_pad: "url_char (CHR ''='') = CHR ''=''"
  by (simp add: url_char_def)

lemma rawurl_groups:
  "set (b64_rawurl b) \<subseteq> set verifier_chars \<and>
   length (b64_rawurl b) = length b div 3 * 4 + (if length b mod 3 = 0 then 0 else length b mod 3 + 1)"
proof (induction b rule: b64_encode.induct)
  case (4 a b c rest)
  have "length (a # b # c # rest) div 3 = length rest div 3 + 1" "length (a # b # c # rest) mod 3 = length rest mod 3"
    by simp_all
  with 4 show ?case
    by (simp add: b64_rawurl_map Let_def b64_char_cases sextet_bounds del: length_Cons)
next
  case (2 a)
  show ?case using sextet_bounds [of a "CHR 0x00" "CHR 0x00"]
    by (simp add: b64_rawurl_map Let_def b64_char_cases byte_zero url_pad)
next
  case (3 a b)
  show ?case using sextet_bounds [of a b "CHR 0x00"]
    by (simp add: b64_rawurl_map Let_def b64_char_cases byte_zero url_pad)
qed (simp add: b64_rawurl_map)

text \<open>
  C13: The two halves of a login fit: with the service made from any configuration whose provider is
  discovered, when \<open>Login\<close> redirects and the browser comes back with the cookies of that answer and
  a code, \<open>Callback\<close> accepts exactly the state that was sent to the provider and then presents the
  code together with the one verifier whose S256 challenge was sent along, and checks the ID token
  against the nonce that was sent; any other state is refused with 400 before anything is exchanged.
  The verifier has the length and alphabet RFC 7636 demands as soon as the random source fills its 32 bytes.
\<close>

theorem login_flow_round_trip:
  assumes "NewOIDCService lib env oidcCfg jwtCfg = Inr svc" "H_Login svc = (Redirect url, cookies)"
    and "\<forall>c \<in> set cookies. rq_Cookie rq (ck_Name c) = Some (ck_Value c)" "query rq ''code'' \<noteq> ''''"
    and "\<And>b. os_Random svc 2 = Inr b \<Longrightarrow> length b = 32"
  shows "\<exists>cfg st nonce verifier.
    url = oa_AuthCodeURL lib cfg st [(''nonce'', nonce), (''code_challenge'', PKCEChallenge (os_sha256 svc) verifier),
      (''code_challenge_method'', ''S256'')] \<and>
    os_Exchange svc (query rq ''code'') verifier = oa_Exchange lib cfg (query rq ''code'') [(''code_verifier'', verifier)] \<and>
    H_Callback svc rq ctx = (if query rq ''state'' = st then (finish_login svc rq ctx nonce verifier (query rq ''code'') :: ('z world_scheme, reply) state)
                             else ret (Error 400 ''invalid state parameter'', [])) \<and>
    well_formed_verifier verifier"
proof -
  obtain cfg where cfg: "os_AuthCodeURL svc = GetAuthURL lib cfg" "os_Exchange svc = Exchange lib cfg"
    using assms(1) by (auto simp: NewOIDCService_def Let_def split: sum.splits)
  from assms(2) obtain st nonce b where rand: "GenerateStateNonce (os_Random svc 0) = Inr st"
    "GenerateStateNonce (os_Random svc 1) = Inr nonce" "os_Random svc 2 = Inr b"
    by (auto simp: H_Login_def GeneratePKCEVerifier_def Let_def sendInternalError_def split: sum.splits)
  define verifier where "verifier = b64_rawurl b"
  have "GeneratePKCEVerifier (os_Random svc 2) = Inr verifier" by (simp add: GeneratePKCEVerifier_def rand verifier_def)
  with assms(2) rand(1,2) have url: "url = os_AuthCodeURL svc st nonce (PKCEChallenge (os_sha256 svc) verifier)"
    and cookies: "\<exists>secure same. cookies = [set_cookie ''oidc_state'' st 600 secure True same,
      set_cookie ''oidc_nonce'' nonce 600 secure True same, set_cookie ''oidc_pkce'' verifier 600 secure True same]"
    by (auto simp: H_Login_def Let_def)
  from cookies assms(3) have browser: "rq_Cookie rq ''oidc_state'' = Some st" "rq_Cookie rq ''oidc_nonce'' = Some nonce"
    "rq_Cookie rq ''oidc_pkce'' = Some verifier"
    by (auto simp: set_cookie_def)
  have "length b = 32" using assms(5) rand(3) by blast
  then have wf: "well_formed_verifier verifier"
    using rawurl_groups [of b] by (simp add: well_formed_verifier_def verifier_def)
  have cb: "H_Callback svc rq ctx = (if query rq ''state'' = st
      then (finish_login svc rq ctx nonce verifier (query rq ''code'') :: ('z world_scheme, reply) state)
      else ret (Error 400 ''invalid state parameter'', []))"
    using assms(4) by (simp add: H_Callback_def browser)
  have ex: "os_Exchange svc (query rq ''code'') verifier = oa_Exchange lib cfg (query rq ''code'') [(''code_verifier'', verifier)]"
    by (simp add: cfg Exchange_def)
  show ?thesis by (intro exI conjI) (rule url [unfolded cfg GetAuthURL_def] ex cb wf)+
qed

subsection \<open>A concrete login\<close>

text \<open>A provider that puts the state in its address and accepts one code with the verifier of 32 bytes r.\<close>

definition ex_oauth :: oauth_lib where
  "ex_oauth = \<lparr>oa_NewProvider = (\<lambda>issuer. if issuer = ''https://id.example.com''
       then Inr \<lparr>pv_Endpoint = ''https://id.example.com/auth'', pv_Verifier = (\<lambda>_ _. Inr (''nonce'', Inr [])), pv_Claims = Inr ''''\<rparr>
       else Inl (Driver ''no such host'')),
     oa_AuthCodeURL = (\<lambda>cfg st ps. ''https://id.example.com/auth?state='' @ st),
     oa_Exchange = (\<lambda>cfg code ps. if ps = [(''code_verifier'', b64_rawurl (replicate 32 CHR ''r''))] then Inr (Some ''raw'')
       else Inl (Driver ''invalid_grant''))\<rparr>"

definition ex_oidc_config :: OIDCConfig where
  "ex_oidc_config = \<lparr>oc_Enabled = True, oc_Issuer = ''https://id.example.com'', oc_ClientID = ''gslb'', oc_ClientSecret = ''s'',
     oc_RedirectURL = ''https://gslb/api/v1/auth/callback'', oc_Scopes = [''openid''], oc_RolesClaim = ''roles'', oc_DefaultRole = ''viewer''\<rparr>"

definition ex_jwt_settings :: JWTSettings where
  "ex_jwt_settings = \<lparr>js_Secret = ''k'', js_Expiry = 60 * Second, js_CookieName = ''gslb'', js_CookieSecure = True,
     js_CookieHTTPOnly = True, js_CookieSameSite = ''Lax''\<rparr>"

definition ex_flow_env :: oidc_service where
  "ex_flow_env = ex_login_oidc\<lparr>os_Random := (\<lambda>_. Inr (replicate 32 CHR ''r''))\<rparr>"

definition ex_flow_service :: oidc_service where
  "ex_flow_service = (case NewOIDCService ex_oauth ex_flow_env ex_oidc_config ex_jwt_settings of Inr svc \<Rightarrow> svc | Inl _ \<Rightarrow> ex_flow_env)"

definition ex_flow_request :: http_request where
  "ex_flow_request = ex_login_request\<lparr>rq_Cookie := map_of (map (\<lambda>c. (ck_Name c, ck_Value c)) (snd (H_Login ex_flow_service))),
     hr_Query := map_of [(''state'', b64_url (replicate 32 CHR ''r'')), (''code'', ''c'')]\<rparr>"

lemma ex_flow_made: "NewOIDCService ex_oauth ex_flow_env ex_oidc_config ex_jwt_settings = Inr ex_flow_service"
  by (simp add: ex_flow_service_def NewOIDCService_def ex_oauth_def ex_oidc_config_def Let_def)

lemma ex_flow_fields: "os_Random ex_flow_service n = Inr (replicate 32 CHR ''r'')"
  "os_AuthCodeURL ex_flow_service st nonce challenge = ''https://id.example.com/auth?state='' @ st"
  by (simp_all add: ex_flow_service_def NewOIDCService_def ex_oauth_def ex_oidc_config_def Let_def ex_flow_env_def GetAuthURL_def)

lemma ex_flow_login:
  "H_Login ex_flow_service = (Redirect (''https://id.example.com/auth?state='' @ b64_url (replicate 32 CHR ''r'')),
     snd (H_Login ex_flow_service))"
  "distinct (map ck_Name (snd (H_Login ex_flow_service)))"
  by (simp_all add: H_Login_def ex_flow_fields GenerateStateNonce_def GeneratePKCEVerifier_def Let_def set_cookie_def)

lemma map_of_names: "distinct (map f xs) \<Longrightarrow> c \<in> set xs \<Longrightarrow> map_of (map (\<lambda>c. (f c, g c)) xs) (f c) = Some (g c)"
  by (induction xs) (auto simp: rev_image_eqI)

theorem login_flow_round_trip_witness:
  "\<exists>nonce verifier. H_Callback ex_flow_service ex_flow_request empty_context =
      (finish_login ex_flow_service ex_flow_request empty_context nonce verifier ''c'' :: (world, reply) state) \<and>
     well_formed_verifier verifier"
proof -
  have c: "\<forall>c \<in> set (snd (H_Login ex_flow_service)). rq_Cookie ex_flow_request (ck_Name c) = Some (ck_Value c)"
    using ex_flow_login(2) by (simp add: ex_flow_request_def map_of_names)
  have q: "query ex_flow_request ''code'' = ''c''" "query ex_flow_request ''state'' = b64_url (replicate 32 CHR ''r'')"
    by (simp_all add: query_def ex_flow_request_def)
  from login_flow_round_trip [OF ex_flow_made ex_flow_login(1) c, where ctx = empty_context and 'z = unit] q ex_flow_fields
  show ?thesis by (auto simp: ex_oauth_def)
qed

end
