(* ===== verification/Credentials.thy ===== *)
theory Credentials
  imports Guarantees
begin

section \<open>DNS credentials: at rest, in the audit log, in answers\<close>

text \<open>
  The configuration of a DNS provider holds its API token. It is encrypted in the table, its audit
  entries have constants in its place, and the API returns it in clear text.
\<close>

lemma keeps_logs_CreateDNSProvider: "keeps (\<lambda>w. t_audit_logs (w_db w) = x) (CreateDNSProvider enc nonce p)"
  unfolding CreateDNSProvider_def
  by (intro keep_intros keeps_insert_method [where P = "\<lambda>d. t_audit_logs d = x"])
    (auto simp: insert_dns_provider_def split: if_splits)

lemma keeps_logs_UpdateDNSProvider: "keeps (\<lambda>w. t_audit_logs (w_db w) = x) (UpdateDNSProvider enc nonce p)"
  unfolding UpdateDNSProvider_def
  by (intro keep_intros keeps_affect_method [where P = "\<lambda>d. t_audit_logs d = x"])
    (auto simp: update_dns_provider_def Let_def)

lemma logs_CreateDNSProvider:
  "run_state (CreateDNSProvider enc nonce p) w = (r, w') \<Longrightarrow> t_audit_logs (w_db w') = t_audit_logs (w_db w)"
  using keeps_run [OF keeps_logs_CreateDNSProvider] by blast

lemma logs_UpdateDNSProvider:
  "run_state (UpdateDNSProvider enc nonce p) w = (r, w') \<Longrightarrow> t_audit_logs (w_db w') = t_audit_logs (w_db w)"
  using keeps_run [OF keeps_logs_UpdateDNSProvider] by blast

lemma CreateDNSProvider_type:
  "run_state (CreateDNSProvider enc nonce p) w = ((q, u), w') \<Longrightarrow> dp_ProviderType q = dp_ProviderType p"
  by (auto simp: CreateDNSProvider_def run_simps split: prod.splits sum.splits if_splits)

text \<open>What the entries for credentials may say: constants, and the types of providers.\<close>

definition masked :: "string set \<Rightarrow> ChangeEntry list \<Rightarrow> bool" where
  "masked types es = (\<forall>e \<in> set es.
     e \<in> {change ''credentials'' '''' ''[configured]'', change ''credentials'' ''[redacted]'' ''[updated]''} \<or>
     (\<exists>old \<in> types. \<exists>new \<in> types. e = change ''provider_type'' old new))"

lemma masked_changes:
  "dp_ProviderType old \<in> types \<Longrightarrow> dp_ProviderType new \<in> types \<Longrightarrow> masked types (provider_changes old new)"
  by (auto simp: masked_def provider_changes_def diff_entry_def)

definition one_masked_entry :: "string set \<Rightarrow> AuditLog list \<Rightarrow> AuditLog list \<Rightarrow> bool" where
  "one_masked_entry types logs logs' =
     (logs' = logs \<or> (\<exists>l es. logs' = logs @ [l] \<and> al_Details l = buildDetails es \<and> masked types es))"

lemma logAudit_masked:
  assumes "run_state (logAudit a b c d e (buildDetails es) rq ctx) w = (u, w')" "masked types es"
    and "t_audit_logs (w_db w) = logs"
  shows "one_masked_entry types logs (t_audit_logs (w_db w'))"
  using logAudit_details [OF assms(1)] assms(2,3) by (auto simp: one_masked_entry_def)

lemma GetDNSProvider_type:
  assumes "run_state (GetDNSProvider enc k) w = (Inr p, w')"
  shows "dp_ProviderType p \<in> dp_ProviderType ` set (t_dns_providers (w_db w))"
proof -
  obtain row w1 where row: "run_state (row_method ''query dns provider'' (select_dns_provider k)) w = (Inr row, w1)"
    and p: "decrypt_row enc row = Inr p"
    using assms by (auto simp: GetDNSProvider_def run_simps split: prod.splits sum.splits)
  from row_method_Inr [OF row] have "row \<in> set (t_dns_providers (w_db w))"
    by (auto simp: select_dns_provider_def filter_eq_Cons_iff)
  moreover have "dp_ProviderType p = dp_ProviderType row"
    using p by (auto simp: decrypt_row_def split: sum.splits)
  ultimately show ?thesis by blast
qed

text \<open>
  C18: The audit log never learns a credential: whatever happens, configuring a DNS provider adds at
  most one audit entry, and its details are the serialisation of changes that name the type of the
  provider, the one stored or the one requested, and of credentials only the constants
  \<open>[configured]\<close>, \<open>[redacted]\<close> and \<open>[updated]\<close>, never a part of the configuration.
\<close>

theorem audit_hides_credentials:
  assumes "run_state (H_ConfigureDNSProvider h rq ctx (Decoded req m)) w = (resp, w')"
  shows "one_masked_entry ({'''', pq_ProviderType req} \<union> dp_ProviderType ` set (t_dns_providers (w_db w)))
    (t_audit_logs (w_db w)) (t_audit_logs (w_db w'))"
    (is "one_masked_entry ?types _ _")
proof -
  let ?p = "\<lparr>dp_ID = '''', dp_ConfigID = rq_ID rq, dp_ProviderType = pq_ProviderType req, dp_ConfigJSON = pq_ConfigJSON req\<rparr>"
  have same: ?thesis if "w_db w' = w_db w" using that by (simp add: one_masked_entry_def)
  obtain rc w1 where cfg: "run_state (GetConfig (rq_ID rq)) w = (rc, w1)" by (cases "run_state (GetConfig (rq_ID rq)) w")
  have w1: "w_db w1 = w_db w" using cfg by (auto simp: GetConfig_def dest: row_method_db)
  obtain g w2 where get: "run_state (GetDNSProvider (ha_enc h) (rq_ID rq)) w1 = (g, w2)"
    by (cases "run_state (GetDNSProvider (ha_enc h) (rq_ID rq)) w1")
  have w2: "w_db w2 = w_db w" using GetDNSProvider_frame [OF get] w1 by simp
  consider "w_db w' = w_db w"
    | (update) old u w3 v where "g = Inr old"
        "run_state (UpdateDNSProvider (ha_enc h) (ha_nonce h) (?p\<lparr>dp_ID := dp_ID old\<rparr>)) w2 = (u, w3)"
        "u \<noteq> Inr () \<and> w' = w3 \<or> run_state (logAudit ''dns_provider:update'' ''dns_provider'' (dp_ID old) (pq_ProviderType req) (rq_ID rq)
          (buildDetails (provider_changes old (?p\<lparr>dp_ID := dp_ID old\<rparr>))) rq ctx) w3 = (v, w')"
    | (create) q u w3 v where
        "run_state (CreateDNSProvider (ha_enc h) (ha_nonce h) ?p) w2 = ((q, u), w3)"
        "w' = w3 \<or> run_state (logAudit ''dns_provider:create'' ''dns_provider'' (dp_ID q) (dp_ProviderType q) (rq_ID rq)
          (buildDetails [change ''provider_type'' '''' (dp_ProviderType q), change ''credentials'' '''' ''[configured]'']) rq ctx) w3 = (v, w')"
        "dp_ProviderType q = pq_ProviderType req"
  proof (cases "rq_ID rq = '''' \<or> (\<exists>e. rc = Inl e) \<or> \<not> valid_provider_request req")
    case True
    then have "w' = w \<or> w' = w1"
      using assms cfg
      by (cases "rq_ID rq = ''''"; cases rc; cases "valid_provider_request req")
        (simp_all add: H_ConfigureDNSProvider_def with_config_def run_simps ShouldBindJSON_def)
    with w1 that(1) show ?thesis by auto
  next
    case False
    then obtain c where ok: "rq_ID rq \<noteq> ''''" "rc = Inr c" "valid_provider_request req" by (cases rc) auto
    show ?thesis
    proof (cases g)
      case (Inr old)
      obtain u w3 where up: "run_state (UpdateDNSProvider (ha_enc h) (ha_nonce h) (?p\<lparr>dp_ID := dp_ID old\<rparr>)) w2 = (u, w3)"
        by (cases "run_state (UpdateDNSProvider (ha_enc h) (ha_nonce h) (?p\<lparr>dp_ID := dp_ID old\<rparr>)) w2")
      show ?thesis
        by (rule that(2) [OF Inr up])
          (use assms cfg get ok Inr up in \<open>cases u; auto simp: H_ConfigureDNSProvider_def with_config_def run_simps ShouldBindJSON_def Let_def
            split: sum.splits prod.splits\<close>)
    next
      case (Inl e)
      obtain q u w3 where cr: "run_state (CreateDNSProvider (ha_enc h) (ha_nonce h) ?p) w2 = ((q, u), w3)"
        by (metis prod.collapse)
      have q: "dp_ProviderType q = pq_ProviderType req" using CreateDNSProvider_type [OF cr] by simp
      show ?thesis
        by (rule that(3) [OF cr _ q])
          (use assms cfg get ok Inl cr in \<open>cases u; auto simp: H_ConfigureDNSProvider_def with_config_def run_simps ShouldBindJSON_def Let_def
            split: sum.splits prod.splits\<close>)
    qed
  qed
  then show ?thesis
  proof cases
    case update
    then have "t_audit_logs (w_db w3) = t_audit_logs (w_db w)" using logs_UpdateDNSProvider w2 by metis
    moreover have "dp_ProviderType old \<in> ?types" using GetDNSProvider_type update(1) get w1 by fastforce
    then have "masked ?types (provider_changes old (?p\<lparr>dp_ID := dp_ID old\<rparr>))" by (intro masked_changes) simp_all
    ultimately show ?thesis using update(3) by (elim disjE conjE) (simp add: one_masked_entry_def, rule logAudit_masked)
  next
    case create
    then have "t_audit_logs (w_db w3) = t_audit_logs (w_db w)" using logs_CreateDNSProvider w2 by metis
    moreover have "masked ?types [change ''provider_type'' '''' (dp_ProviderType q), change ''credentials'' '''' ''[configured]'']"
      using create(3) by (auto simp: masked_def)
    ultimately show ?thesis using create(2) by (elim disjE) (simp add: one_masked_entry_def, rule logAudit_masked)
  qed (rule same)
qed


subsection \<open>A concrete request\<close>

definition ex_credentials_request :: ConfigureDNSProviderRequest where
  "ex_credentials_request = \<lparr>pq_ProviderType = ''mock'', pq_ConfigJSON = ''secret''\<rparr>"

lemma ex_credentials_logged:
  "length (t_audit_logs (w_db (snd (run_state (H_ConfigureDNSProvider ex_two_handlers ex_status_request ann_context
     (Decoded ex_credentials_request '''')) ex_two_world)))) = Suc (length (t_audit_logs ex_two_db))"
  by code_simp

theorem audit_hides_credentials_witness:
  "\<exists>w' l es. w' = snd (run_state (H_ConfigureDNSProvider ex_two_handlers ex_status_request ann_context
       (Decoded ex_credentials_request '''')) ex_two_world) \<and>
     t_audit_logs (w_db w') = t_audit_logs ex_two_db @ [l] \<and> al_Details l = buildDetails es \<and> masked {'''', ''mock''} es"
proof -
  let ?run = "run_state (H_ConfigureDNSProvider ex_two_handlers ex_status_request ann_context
    (Decoded ex_credentials_request '''')) ex_two_world"
  have none: "t_dns_providers ex_two_db = []" by (simp add: ex_two_db_def ex_access_defs)
  have "?run = (fst ?run, snd ?run)" by simp
  from audit_hides_credentials [OF this]
  have "one_masked_entry {'''', ''mock''} (t_audit_logs ex_two_db) (t_audit_logs (w_db (snd ?run)))"
    by (simp add: ex_two_healthy none ex_credentials_request_def)
  with ex_credentials_logged show ?thesis by (auto simp: one_masked_entry_def)
qed

end
