(* ===== verification/Audit_Trail.thy ===== *)
theory Audit_Trail
  imports Access
begin

section \<open>The audit trail is complete\<close>

text \<open>
  Every endpoint that changes the database writes one audit entry when it succeeds, and no other
  endpoint changes the database. A small calculus proves it: \<open>audit_ready\<close> is what every step before
  the entry keeps, \<open>audits\<close> says that a program that ends well adds the entry.
\<close>

definition audit_ready :: "AuditLog list \<Rightarrow> 'z world_scheme \<Rightarrow> bool" where
  "audit_ready logs w = (t_audit_logs (w_db w) = logs \<and> healthy_driver w \<and> (\<forall>n. w_uuid w n \<notin> al_ID ` set logs))"

lemma audit_ready_updates [simp]:
  "audit_ready logs (w\<lparr>w_stmt_ix := n\<rparr>) = audit_ready logs w"
  "audit_ready logs (w\<lparr>w_now_ix := n\<rparr>) = audit_ready logs w"
  "audit_ready logs (w\<lparr>w_uuid_ix := n\<rparr>) = audit_ready logs w"
  by (simp_all add: audit_ready_def)

lemma audit_ready_db: "audit_ready logs w \<Longrightarrow> t_audit_logs d = logs \<Longrightarrow> audit_ready logs (w\<lparr>w_db := d\<rparr>)"
  by (simp add: audit_ready_def)

lemma audit_ready_driver: "audit_ready logs w \<Longrightarrow> w_fault w n = None" "audit_ready logs w \<Longrightarrow> t_audit_logs (w_db w) = logs"
  by (simp_all add: audit_ready_def)

abbreviation quiet :: "AuditLog list \<Rightarrow> ('z world_scheme, 'a) state \<Rightarrow> bool" where
  "quiet logs m \<equiv> keeps (audit_ready logs) m"

named_theorems quiet_intros \<open>steps that leave the audit log alone\<close>

lemmas [quiet_intros] = keeps_bind keeps_return keeps_if keeps_case_sum keeps_case_prod keeps_case_option

lemma quiet_primitives [quiet_intros]: "quiet logs time_Now" "quiet logs uuid_New"
  by (simp_all add: keeps_def run_simps)

lemma quiet_queries [quiet_intros]:
  "quiet logs (row_method msg q)" "quiet logs (rows_method qw sw rw q)"
  by (simp_all add: keeps_def run_row_method run_rows_method audit_ready_driver(1))

text \<open>A statement that does not touch the audit log.\<close>

definition leaves_logs :: "(db \<Rightarrow> (nat \<times> db) result) \<Rightarrow> bool" where
  "leaves_logs stmt = (\<forall>d n d'. stmt d = Inr (n, d') \<longrightarrow> t_audit_logs d' = t_audit_logs d)"

lemma quiet_methods [quiet_intros]:
  "leaves_logs stmt \<Longrightarrow> quiet logs (insert_method wrap stmt)"
  "leaves_logs stmt \<Longrightarrow> quiet logs (affect_method wrap stmt)"
  by (auto simp: keeps_def run_insert_method run_affect_method audit_ready_driver leaves_logs_def intro!: audit_ready_db
      split: sum.splits)

lemma statements_leave_logs [quiet_intros]:
  "leaves_logs (insert_config c)" "leaves_logs (update_config c)" "leaves_logs (delete_config i)"
  "leaves_logs (insert_backend b)" "leaves_logs (update_backend b')" "leaves_logs (delete_backend i)"
  "leaves_logs (insert_health_check k)" "leaves_logs (update_health_check k)" "leaves_logs (delete_health_check i)"
  "leaves_logs (insert_dns_provider p)" "leaves_logs (update_dns_provider p)" "leaves_logs (delete_dns_provider i)"
  "leaves_logs (insert_config_role cr)" "leaves_logs (delete_config_role i j)"
  by (auto simp: leaves_logs_def insert_config_def update_config_def delete_config_def insert_backend_def update_backend_def
      delete_backend_def insert_health_check_def update_health_check_def delete_health_check_def insert_dns_provider_def
      update_dns_provider_def delete_dns_provider_def insert_config_role_def delete_config_role_def Let_def split: if_splits prod.splits)

lemma user_statements_leave_logs [quiet_intros]:
  "leaves_logs (insert_user u)" "leaves_logs (update_user u)" "leaves_logs (insert_user_role ur)"
  "leaves_logs (delete_user_role i j)" "leaves_logs (insert_session s)"
  by (auto simp: leaves_logs_def insert_user_def update_user_def insert_user_role_def delete_user_role_def insert_session_def
      Let_def split: if_splits)

lemma quiet_config_store [quiet_intros]:
  "quiet logs (CreateConfig c)" "quiet logs (GetConfig i)" "quiet logs (UpdateConfig c)" "quiet logs (DeleteConfig i)"
  "quiet logs (CreateBackend b)" "quiet logs (GetBackend i)" "quiet logs (UpdateBackend b)" "quiet logs (DeleteBackend i)"
  unfolding CreateConfig_def GetConfig_def UpdateConfig_def DeleteConfig_def CreateBackend_def GetBackend_def UpdateBackend_def
    DeleteBackend_def Let_def
  by (intro quiet_intros)+

lemma quiet_check_store [quiet_intros]:
  "quiet logs (CreateHealthCheck k)" "quiet logs (GetHealthCheck i)" "quiet logs (UpdateHealthCheck k)" "quiet logs (DeleteHealthCheck i)"
  "quiet logs (CreateDNSProvider enc nonce p)" "quiet logs (GetDNSProvider enc i)" "quiet logs (UpdateDNSProvider enc nonce p)"
  "quiet logs (DeleteDNSProvider i)"
  unfolding CreateHealthCheck_def GetHealthCheck_def UpdateHealthCheck_def DeleteHealthCheck_def CreateDNSProvider_def
    GetDNSProvider_def UpdateDNSProvider_def DeleteDNSProvider_def Let_def
  by (intro quiet_intros)+

lemma quiet_role_store [quiet_intros]:
  "quiet logs (GetRoleByName n)" "quiet logs (AssignConfigRole i j)" "quiet logs (RemoveConfigRole i j)" "quiet logs (GetConfigRoles i)"
  "quiet logs (AssignRole i j k)" "quiet logs (RemoveRole i j)" "quiet logs (GetUserRoles i)"
  unfolding GetRoleByName_def AssignConfigRole_def RemoveConfigRole_def GetConfigRoles_def AssignRole_def RemoveRole_def
    GetUserRoles_def Let_def
  by (intro quiet_intros)+

lemma quiet_user_store [quiet_intros]:
  "quiet logs (with_roles r)" "quiet logs (GetUserByID i)" "quiet logs (GetUserBySubject i)" "quiet logs (CreateUser u)"
  "quiet logs (UpdateUser u)" "quiet logs (CreateSessionRecord s)"
  unfolding GetUserByID_def GetUserBySubject_def with_roles_def CreateUser_def UpdateUser_def CreateSessionRecord_def Let_def
  by (intro quiet_intros)+

lemma quiet_loops [quiet_intros]:
  "quiet logs (assign_roles_loop i names)" "quiet logs (remove_config_roles_loop i rs)" "quiet logs (set_config_roles_loop i names)"
  "quiet logs (add_roles_loop u m names)" "quiet logs (remove_roles_loop u names ps)"
proof -
  show "quiet logs (assign_roles_loop i names)" by (induction names) (auto intro!: quiet_intros)
  show "quiet logs (remove_config_roles_loop i rs)" by (induction rs) (auto intro!: quiet_intros)
  show "quiet logs (set_config_roles_loop i names)" by (induction names) (auto intro!: quiet_intros)
  show "quiet logs (add_roles_loop u m names)" by (induction names) (auto intro!: quiet_intros)
  show "quiet logs (remove_roles_loop u names ps)" by (induction ps) (auto intro!: quiet_intros)
qed

lemma quiet_login [quiet_intros]:
  "quiet logs (SyncUser ord d user names)" "quiet logs (CreateSession lib cfg user)"
  unfolding SyncUser_def sync_and_get_def syncRoles_def CreateSession_def Let_def
  by (intro quiet_intros)+

subsection \<open>Programs that leave an entry\<close>

text \<open>What the entry says of the request it is for.\<close>

definition records_request :: "string set \<Rightarrow> 'r http_request_scheme \<Rightarrow> gin_context \<Rightarrow> AuditLog \<Rightarrow> bool" where
  "records_request actions rq ctx l =
     (al_Action l \<in> actions \<and> al_UserID l = (case cx_session ctx of Some s \<Rightarrow> se_UserID s | None \<Rightarrow> '''') \<and>
      al_IPAddress l = hr_ClientIP rq \<and> al_UserAgent l = hr_UserAgent rq)"

definition audits :: "string set \<Rightarrow> 'r http_request_scheme \<Rightarrow> gin_context \<Rightarrow> ('a \<Rightarrow> response) \<Rightarrow> ('z world_scheme, 'a) state \<Rightarrow> bool" where
  "audits actions rq ctx resp m =
     (\<forall>logs w. audit_ready logs w \<longrightarrow> status_of (resp (fst (run_state m w))) < 400 \<longrightarrow>
        (\<exists>l. t_audit_logs (w_db (snd (run_state m w))) = logs @ [l] \<and> records_request actions rq ctx l))"

named_theorems audit_intros \<open>programs that leave an audit entry when they succeed\<close>

lemma audits_bind [audit_intros]:
  assumes "\<And>logs. quiet logs m" "\<And>x. audits acts rq ctx resp (f x)"
  shows "audits acts rq ctx resp (State_Monad.bind m f)"
  unfolding audits_def
proof (intro allI impI)
  fix logs and w :: "'a world_scheme"
  obtain x w1 where m: "run_state m w = (x, w1)" by (cases "run_state m w")
  assume "audit_ready logs w" "status_of (resp (fst (run_state (State_Monad.bind m f) w))) < 400"
  with keeps_run [OF assms(1) _ m] assms(2) [of x]
  show "\<exists>l. t_audit_logs (w_db (snd (run_state (State_Monad.bind m f) w))) = logs @ [l] \<and> records_request acts rq ctx l"
    by (simp add: run_bind m audits_def)
qed

lemma audits_return [audit_intros]: "400 \<le> status_of (resp x) \<Longrightarrow> audits acts rq ctx resp (State_Monad.return x)"
  by (simp add: audits_def run_return)

lemma audits_if [audit_intros]:
  "audits acts rq ctx resp m \<Longrightarrow> audits acts rq ctx resp n \<Longrightarrow> audits acts rq ctx resp (if b then m else n)"
  by simp

lemma audits_case_sum [audit_intros]:
  "(\<And>e. audits acts rq ctx resp (f e)) \<Longrightarrow> (\<And>x. audits acts rq ctx resp (g x)) \<Longrightarrow>
   audits acts rq ctx resp (case r of Inl e \<Rightarrow> f e | Inr x \<Rightarrow> g x)"
  by (cases r) auto

lemma audits_case_prod [audit_intros]:
  "(\<And>a b. audits acts rq ctx resp (f a b)) \<Longrightarrow> audits acts rq ctx resp (case p of (a, b) \<Rightarrow> f a b)"
  by (simp split: prod.split)

lemma audits_case_option [audit_intros]:
  "audits acts rq ctx resp m \<Longrightarrow> (\<And>x. audits acts rq ctx resp (g x)) \<Longrightarrow>
   audits acts rq ctx resp (case r of None \<Rightarrow> m | Some x \<Rightarrow> g x)"
  by (cases r) auto

text \<open>After the entry the rest of the program leaves the database alone.\<close>

lemma run_logAudit:
  assumes "audit_ready logs w"
  shows "\<exists>l w'. run_state (logAudit a b c d e f rq ctx) w = ((), w') \<and> t_audit_logs (w_db w') = logs @ [l] \<and>
    records_request {a} rq ctx l"
proof -
  have "\<forall>r \<in> set logs. al_ID r \<noteq> w_uuid w (w_uuid_ix w)"
    using assms by (force simp: audit_ready_def)
  with assms show ?thesis
    by (auto simp: logAudit_def CreateAuditLog_def run_simps Let_def run_insert_method insert_audit_log_def audit_ready_def
        records_request_def SessionFromContext_def)
qed

lemma audits_log:
  assumes "a \<in> acts" "\<And>x P. keeps (\<lambda>w. P (w_db w)) (k x)"
  shows "audits acts rq ctx resp (State_Monad.bind (logAudit a b c d e f rq ctx) k)"
  unfolding audits_def
proof (intro allI impI)
  fix logs and w :: "'a world_scheme"
  assume "audit_ready logs w"
  then obtain l w1 where log: "run_state (logAudit a b c d e f rq ctx) w = ((), w1)" "t_audit_logs (w_db w1) = logs @ [l]"
    "records_request {a} rq ctx l" using run_logAudit by blast
  have "w_db (snd (run_state (k ()) w1)) = w_db w1"
    using keepsD [OF assms(2) [where P = "\<lambda>d. d = w_db w1"], of w1] by simp
  moreover have "records_request acts rq ctx l" using log(3) assms(1) by (auto simp: records_request_def)
  ultimately show "\<exists>l. t_audit_logs (w_db (snd (run_state (State_Monad.bind (logAudit a b c d e f rq ctx) k) w))) = logs @ [l] \<and>
      records_request acts rq ctx l"
    using log by (auto simp: run_bind)
qed

lemma error_responses [simp]: "400 \<le> status_of (handleStoreError e)" "400 \<le> status_of (sendValidationError m)"
  "400 \<le> status_of (sendInternalError m)"
  by (simp_all add: handleStoreError_def sendValidationError_def sendInternalError_def sendNotFound_def)

lemmas audit_rules = audits_log audit_intros quiet_intros

lemma audits_with_config [audit_intros]:
  "(\<And>x. audits acts rq ctx (\<lambda>r. r) (k x)) \<Longrightarrow> audits acts rq ctx (\<lambda>r. r) (with_config i k)"
  unfolding with_config_def by ((rule audit_rules | simp)+)

lemma audits_with_backend [audit_intros]:
  "(\<And>x. audits acts rq ctx (\<lambda>r. r) (k x)) \<Longrightarrow> audits acts rq ctx (\<lambda>r. r) (with_backend i k)"
  unfolding with_backend_def by ((rule audit_rules | simp)+)

lemma audits_config_handlers:
  "audits {''config:create''} rq ctx (\<lambda>r. r) (H_CreateConfig h rq ctx b)"
  "audits {''config:update''} rq ctx (\<lambda>r. r) (H_UpdateConfig rq ctx bu)"
  "audits {''config:delete''} rq ctx (\<lambda>r. r) (H_DeleteConfig rq ctx)"
  unfolding H_CreateConfig_def H_UpdateConfig_def H_DeleteConfig_def Let_def
  by ((rule audits_log audit_intros quiet_intros keep_intros | simp)+)

lemma audits_bind_result:
  assumes "\<And>logs. quiet logs m" "\<And>w x w'. run_state m w = (x, w') \<Longrightarrow> Q x" "\<And>x. Q x \<Longrightarrow> audits acts rq ctx resp (f x)"
  shows "audits acts rq ctx resp (State_Monad.bind m f)"
  unfolding audits_def
proof (intro allI impI)
  fix logs and w :: "'a world_scheme"
  obtain x w1 where m: "run_state m w = (x, w1)" by (cases "run_state m w")
  assume "audit_ready logs w" "status_of (resp (fst (run_state (State_Monad.bind m f) w))) < 400"
  with keeps_run [OF assms(1) _ m] assms(3) [OF assms(2) [OF m]]
  show "\<exists>l. t_audit_logs (w_db (snd (run_state (State_Monad.bind m f) w))) = logs @ [l] \<and> records_request acts rq ctx l"
    by (simp add: run_bind m audits_def)
qed

lemma roles_loops_fail:
  "run_state (remove_config_roles_loop i rs) w = (Some resp, w') \<Longrightarrow> 400 \<le> status_of resp"
  "run_state (set_config_roles_loop i names) w = (Some resp, w') \<Longrightarrow> 400 \<le> status_of resp"
proof -
  show "run_state (remove_config_roles_loop i rs) w = (Some resp, w') \<Longrightarrow> 400 \<le> status_of resp"
    by (induction rs arbitrary: w) (auto simp: run_simps split: prod.splits sum.splits)
  show "run_state (set_config_roles_loop i names) w = (Some resp, w') \<Longrightarrow> 400 \<le> status_of resp"
    by (induction names arbitrary: w) (auto simp: run_simps split: prod.splits sum.splits)
qed

lemma audits_loop:
  assumes "\<And>logs. quiet logs m" "\<And>w resp w'. run_state m w = (Some resp, w') \<Longrightarrow> 400 \<le> status_of resp"
    and "audits acts rq ctx (\<lambda>r. r) k"
  shows "audits acts rq ctx (\<lambda>r. r) (State_Monad.bind m (\<lambda>x. case x of None \<Rightarrow> k | Some resp \<Rightarrow> ret resp))"
  by (rule audits_bind_result [where Q = "\<lambda>x. \<forall>resp. x = Some resp \<longrightarrow> 400 \<le> status_of resp"])
    (use assms in \<open>auto intro: audits_return split: option.split\<close>)

lemma audits_roles_handler:
  "audits {''config:roles:update''} rq ctx (\<lambda>r. r) (H_UpdateConfigRoles rq ctx b)"
  unfolding H_UpdateConfigRoles_def
  by ((rule audits_loop audits_log audit_intros quiet_intros keep_intros | simp | erule roles_loops_fail)+)

lemma audits_backend_handlers:
  "audits {''backend:create''} rq ctx (\<lambda>r. r) (H_AddBackend h rq ctx b)"
  "audits {''backend:update''} rq ctx (\<lambda>r. r) (H_UpdateBackend h rq ctx bu)"
  "audits {''backend:delete''} rq ctx (\<lambda>r. r) (H_DeleteBackend h rq ctx)"
  unfolding H_AddBackend_def H_UpdateBackend_def H_DeleteBackend_def Let_def
  by ((rule audits_log audit_intros quiet_intros keep_intros | simp)+)

lemma audits_check_handlers:
  "audits {''health_check:create'', ''health_check:update''} rq ctx (\<lambda>r. r) (H_ConfigureHealthCheck rq ctx b)"
  "audits {''health_check:delete''} rq ctx (\<lambda>r. r) (H_DeleteHealthCheck rq ctx)"
  unfolding H_ConfigureHealthCheck_def H_DeleteHealthCheck_def Let_def
  by ((rule audits_log audit_intros quiet_intros keep_intros | simp)+)

lemma audits_provider_handlers:
  "audits {''dns_provider:create'', ''dns_provider:update''} rq ctx (\<lambda>r. r) (H_ConfigureDNSProvider h rq ctx b)"
  "audits {''dns_provider:delete''} rq ctx (\<lambda>r. r) (H_DeleteDNSProvider h rq ctx)"
  unfolding H_ConfigureDNSProvider_def H_DeleteDNSProvider_def Let_def
  by ((rule audits_log audit_intros quiet_intros keep_intros | simp)+)

lemma audits_user_handlers:
  "audits {''user:role:assign''} rq ctx (\<lambda>r. r) (H_AssignUserRole rq ctx b)"
  "audits {''user:role:remove''} rq ctx (\<lambda>r. r) (H_RemoveUserRole rq ctx)"
  unfolding H_AssignUserRole_def H_RemoveUserRole_def Let_def
  by ((rule audits_log audit_intros quiet_intros keep_intros | simp)+)

lemma audits_callback: "audits {''auth:login''} rq ctx fst (H_Callback svc rq ctx)"
  unfolding H_Callback_def finish_login_def Let_def
  by ((rule audits_log audit_intros quiet_intros keep_intros | simp)+)

lemma audits_plain: "audits acts rq ctx (\<lambda>r. r) m \<Longrightarrow> audits acts rq ctx fst (plain m)"
  by (simp add: audits_def plain_def run_simps case_prod_unfold)

subsection \<open>Every endpoint\<close>

fun audit_actions :: "endpoint \<Rightarrow> string set" where
  "audit_actions E_Callback = {''auth:login''}"
| "audit_actions E_CreateConfig = {''config:create''}"
| "audit_actions E_UpdateConfig = {''config:update''}"
| "audit_actions E_DeleteConfig = {''config:delete''}"
| "audit_actions E_UpdateConfigRoles = {''config:roles:update''}"
| "audit_actions E_AddBackend = {''backend:create''}"
| "audit_actions E_UpdateBackend = {''backend:update''}"
| "audit_actions E_DeleteBackend = {''backend:delete''}"
| "audit_actions E_ConfigureHealthCheck = {''health_check:create'', ''health_check:update''}"
| "audit_actions E_DeleteHealthCheck = {''health_check:delete''}"
| "audit_actions E_ConfigureDNS = {''dns_provider:create'', ''dns_provider:update''}"
| "audit_actions E_DeleteDNS = {''dns_provider:delete''}"
| "audit_actions E_AssignUserRole = {''user:role:assign''}"
| "audit_actions E_RemoveUserRole = {''user:role:remove''}"
| "audit_actions _ = {}"

lemma endpoint_audits: "audit_actions e \<noteq> {} \<Longrightarrow> audits (audit_actions e) rq ctx fst (run_endpoint rr rq ctx b e)"
  by (cases e) (simp_all add: audits_plain audits_callback audits_config_handlers audits_roles_handler audits_backend_handlers
      audits_check_handlers audits_provider_handlers audits_user_handlers)

lemma endpoint_reads: "audit_actions e = {} \<Longrightarrow> e \<noteq> E_Logout \<Longrightarrow> keeps (\<lambda>w. P (w_db w)) (run_endpoint rr rq ctx b e)"
  by (cases e) (auto intro!: keep_intros)

text \<open>
  C17: Every endpoint that changes the database is audited: with a driver that does not fail and fresh
  identifiers, an endpoint that answers with success has either left the whole database as it was or
  has added exactly one audit entry, which names the action of that endpoint, the user of the request's
  session, the client's address and its agent. Without a session the entry's user is empty: that is so
  with OIDC disabled, and, although SECURITY.md and AUDIT_SPEC.md give no other case, for every entry
  of a login, whose route runs before any session exists (its user is the entry's entity). \<open>Logout\<close> is
  left out: on its route it never finds a session.
\<close>

theorem mutations_are_audited:
  assumes "healthy_driver w" "\<forall>n. w_uuid w n \<notin> al_ID ` set (t_audit_logs (w_db w))" "e \<noteq> E_Logout"
    and "run_state (run_endpoint rr rq ctx b e) w = ((resp, cookies), w')" "status_of resp < 400"
  shows "if audit_actions e = {} then w_db w' = w_db w
    else \<exists>l. t_audit_logs (w_db w') = t_audit_logs (w_db w) @ [l] \<and> al_Action l \<in> audit_actions e \<and>
      al_UserID l = (case cx_session ctx of Some s \<Rightarrow> se_UserID s | None \<Rightarrow> '''') \<and>
      al_IPAddress l = hr_ClientIP rq \<and> al_UserAgent l = hr_UserAgent rq"
proof (cases "audit_actions e = {}")
  case True
  with keeps_run [OF endpoint_reads [where P = "\<lambda>d. d = w_db w"] _ assms(4)] assms(3) show ?thesis by simp
next
  case False
  have "audit_ready (t_audit_logs (w_db w)) w" using assms(1,2) by (simp add: audit_ready_def)
  with endpoint_audits [OF False, of rq ctx rr b] have
    "status_of (fst (fst (run_state (run_endpoint rr rq ctx b e) w))) < 400 \<longrightarrow>
       (\<exists>l. t_audit_logs (w_db (snd (run_state (run_endpoint rr rq ctx b e) w))) = t_audit_logs (w_db w) @ [l] \<and>
         records_request (audit_actions e) rq ctx l)" unfolding audits_def by blast
  with False show ?thesis by (simp add: assms(4,5) records_request_def)
qed

text \<open>The request of the administrator who deletes a configuration.\<close>

theorem mutations_are_audited_witness:
  "\<exists>w' l. run_state (run_endpoint ex_router (ex_delete_request\<lparr>rq_ID := ''c''\<rparr>) ex_admin_context ex_bodies E_DeleteConfig)
       ex_router_world = ((No_Content, []), w') \<and>
     t_audit_logs (w_db w') = [l] \<and> al_Action l = ''config:delete'' \<and> al_UserID l = ''bob''"
proof -
  let ?rq = "ex_delete_request\<lparr>rq_ID := ''c''\<rparr>"
  have "fst (run_state (H_DeleteConfig ?rq ex_admin_context) ex_router_world) = No_Content"
    by (rule ex_delete_handler) (simp_all add: healthy_driver_def ex_router_world_def)
  then obtain w' where run: "run_state (run_endpoint ex_router ?rq ex_admin_context ex_bodies E_DeleteConfig) ex_router_world =
      ((No_Content, []), w')"
    by (cases "run_state (H_DeleteConfig ?rq ex_admin_context) ex_router_world") (simp add: plain_def run_simps)
  have "healthy_driver ex_router_world" "t_audit_logs (w_db ex_router_world) = []"
    by (simp_all add: healthy_driver_def ex_router_world_def ex_access_defs)
  with mutations_are_audited [OF _ _ _ run] run show ?thesis
    by (auto simp: records_request_def ex_admin_context_def ex_admin_session_fields)
qed

end
