(* ===== verification/Failed_Requests.thy ===== *)
theory Failed_Requests
  imports Audit_Trail
begin

section \<open>A refused request changes nothing\<close>

text \<open>
  With a driver that does not fail, a request that is answered with an error has not changed the
  database. A small calculus proves it handler by handler: \<open>idle d\<close> is the world before any write,
  \<open>aborts m\<close> says that the write \<open>m\<close> takes effect or fails, never both, \<open>prospers m\<close> that \<open>m\<close> answers
  with success, and \<open>spares m\<close> that \<open>m\<close> leaves the database \<open>d\<close> when it answers with an error.
\<close>

definition idle :: "db \<Rightarrow> 'z world_scheme \<Rightarrow> bool" where
  "idle d w = (w_db w = d \<and> healthy_driver w \<and> db_ok d)"

lemma idle_updates [simp]:
  "idle d (w\<lparr>w_stmt_ix := n\<rparr>) = idle d w" "idle d (w\<lparr>w_now_ix := n\<rparr>) = idle d w" "idle d (w\<lparr>w_uuid_ix := n\<rparr>) = idle d w"
  by (simp_all add: idle_def)

lemma idleD: "idle d w \<Longrightarrow> w_fault w n = None" "idle d w \<Longrightarrow> w_db w = d" "idle d w \<Longrightarrow> db_ok d"
  by (simp_all add: idle_def)

subsection \<open>Reads\<close>

named_theorems read_intros \<open>steps that only read\<close>

lemmas [read_intros] = keeps_bind keeps_return keeps_if keeps_case_sum keeps_case_prod keeps_case_option

lemma reads_primitives [read_intros]: "keeps (idle d) time_Now" "keeps (idle d) uuid_New"
  by (simp_all add: keeps_def run_simps)

lemma reads_queries [read_intros]: "keeps (idle d) (row_method msg q)" "keeps (idle d) (rows_method qw sw rw q)"
  by (simp_all add: keeps_def run_row_method run_rows_method idleD(1))

lemma reads_store [read_intros]:
  "keeps (idle d) (GetConfig i)" "keeps (idle d) (GetBackend i)" "keeps (idle d) (GetHealthCheck i)"
  "keeps (idle d) (GetDNSProvider enc i)" "keeps (idle d) (GetConfigRoles i)" "keeps (idle d) (GetSessionRecord i)"
  unfolding GetConfig_def GetBackend_def GetHealthCheck_def GetDNSProvider_def GetConfigRoles_def GetSessionRecord_def
  by (intro read_intros)+

lemma reads_CanAccess [read_intros]: "keeps (idle d) (CanAccess u i)"
  by (auto simp: keeps_def CanAccess_def sql_row_def run_simps idleD(1) split: sum.splits)

lemma reads_guards [read_intros]:
  "keeps (idle d) (ValidateSession s)" "keeps (idle d) (Middleware lib cfg rq ctx)"
  "keeps (idle d) (RequireConfigAccess rq ctx)" "keeps (idle d) (RequireBackendConfigAccess rq ctx)"
  unfolding ValidateSession_def Middleware_def RequireConfigAccess_def RequireBackendConfigAccess_def Let_def
  by (intro read_intros)+

lemma reads_limits [read_intros]: "keeps (idle d) (limit_auth ip)" "keeps (idle d) (limit_global ip)"
  by (auto simp: keeps_def limit_auth_def limit_global_def run_simps idle_def healthy_driver_def split: prod.splits)

lemma reads_run_guards [read_intros]: "keeps (idle d) (run_guards rr rq gs ctx)"
proof (induction gs arbitrary: ctx)
  case (Cons g gs)
  have "keeps (idle d) (run_guard rr rq g ctx)" by (cases g) (auto simp: run_guard_def intro!: read_intros)
  with Cons show ?case by (auto intro!: read_intros split: outcome.split)
qed (simp add: read_intros)

subsection \<open>Writes take effect or fail\<close>

definition aborts :: "('z world_scheme, 'a result) state \<Rightarrow> bool" where
  "aborts m = (\<forall>d w e w'. idle d w \<longrightarrow> run_state m w = (Inl e, w') \<longrightarrow> w_db w' = d)"

lemma aborts_bind: "(\<And>d. keeps (idle d) m) \<Longrightarrow> (\<And>x. aborts (f x)) \<Longrightarrow> aborts (State_Monad.bind m f)"
  by (fastforce simp: aborts_def keeps_def run_bind split: prod.splits)

lemma aborts_insert: "aborts (insert_method wrap stmt)"
  by (auto simp: aborts_def run_insert_method idleD split: sum.splits)

text \<open>A statement that affects no row changes nothing.\<close>

definition harmless :: "(db \<Rightarrow> (nat \<times> db) result) \<Rightarrow> bool" where
  "harmless stmt = (\<forall>d d'. db_ok d \<longrightarrow> stmt d = Inr (0, d') \<longrightarrow> d' = d)"

lemma aborts_affect: "harmless stmt \<Longrightarrow> aborts (affect_method wrap stmt)"
  by (auto simp: aborts_def harmless_def run_affect_method idleD split: sum.splits if_splits)

lemma no_row: "row_count hit rows = 0 \<Longrightarrow> rows_update hit f rows = rows \<and> rows_delete hit rows = rows"
  by (auto simp: row_count_0_iff rows_update_def rows_delete_def intro!: map_idI filter_True)

lemma harmless_statements:
  "harmless (update_config c)" "harmless (update_backend b)" "harmless (update_health_check k)" "harmless (delete_health_check i)"
  "harmless (update_dns_provider p)" "harmless (delete_dns_provider i)"
  by (auto simp: harmless_def update_config_def update_backend_def update_health_check_def delete_health_check_def
      update_dns_provider_def delete_dns_provider_def Let_def no_row split: if_splits)

lemma harmless_deletes: "harmless (delete_config i)" "harmless (delete_backend i)"
  by (auto simp: harmless_def delete_config_def delete_backend_def Let_def no_row row_count_0_iff cascade_def rows_delete_def
      filter_id_conv)

lemma aborts_UpdateDNSProvider: "aborts (UpdateDNSProvider enc nonce p)"
proof (cases "Encrypt enc nonce (dp_ConfigJSON p)")
  case Inl
  then show ?thesis by (simp add: UpdateDNSProvider_def aborts_def run_return idleD)
next
  case Inr
  then show ?thesis by (simp add: UpdateDNSProvider_def aborts_affect harmless_statements)
qed

lemma aborts_store:
  "aborts (DeleteConfig i)" "aborts (UpdateBackend b)" "aborts (DeleteBackend i)" "aborts (UpdateHealthCheck hc)"
  "aborts (DeleteHealthCheck i)" "aborts (DeleteDNSProvider i)" "aborts (AssignRole i j k)" "aborts (RemoveRole i j)"
  unfolding DeleteConfig_def UpdateBackend_def DeleteBackend_def UpdateHealthCheck_def DeleteHealthCheck_def DeleteDNSProvider_def
    AssignRole_def RemoveRole_def
  by (intro aborts_affect aborts_insert aborts_bind read_intros harmless_statements harmless_deletes)+

text \<open>A create or update that also returns what it wrote.\<close>

definition aborts_with :: "('z world_scheme, 'b \<times> 'a result) state \<Rightarrow> bool" where
  "aborts_with m = (\<forall>d w x e w'. idle d w \<longrightarrow> run_state m w = ((x, Inl e), w') \<longrightarrow> w_db w' = d)"

lemma aborts_with_bind:
  assumes "\<And>d. keeps (idle d) m" "\<And>x. aborts_with (f x)"
  shows "aborts_with (State_Monad.bind m f)"
  unfolding aborts_with_def
proof (intro allI impI)
  fix d w x e w'
  assume idle: "idle d w" and run: "run_state (State_Monad.bind m f) w = ((x, Inl e), w')"
  obtain y w1 where m: "run_state m w = (y, w1)" by (cases "run_state m w")
  from keeps_run [OF assms(1) idle m] assms(2) [of y] run m show "w_db w' = d" by (simp add: aborts_with_def run_bind)
qed

lemma aborts_with_write: "aborts_with (State_Monad.bind m (\<lambda>r. State_Monad.return (x, r)))" if "aborts m"
  unfolding aborts_with_def
proof (intro allI impI)
  fix d w y e w'
  assume idle: "idle d w" and run: "run_state (State_Monad.bind m (\<lambda>r. State_Monad.return (x, r))) w = ((y, Inl e), w')"
  from run have "run_state m w = (Inl e, w')" by (cases "run_state m w") (simp add: run_bind run_return)
  with that idle show "w_db w' = d" unfolding aborts_def by blast
qed

lemma aborts_with_encrypt:
  "(\<And>s. aborts_with (g s)) \<Longrightarrow> aborts_with (case r of Inl e \<Rightarrow> State_Monad.return (p, Inl (f e)) | Inr s \<Rightarrow> g s)"
  by (auto simp: aborts_with_def run_return idleD split: sum.splits)

lemma aborts_with_store:
  "aborts_with (CreateConfig c)" "aborts_with (UpdateConfig c)" "aborts_with (CreateBackend b)" "aborts_with (CreateHealthCheck hc)"
  "aborts_with (CreateDNSProvider enc nonce p)"
  unfolding CreateConfig_def UpdateConfig_def CreateBackend_def CreateHealthCheck_def CreateDNSProvider_def Let_def
  by (intro aborts_with_write aborts_with_encrypt aborts_with_bind aborts_affect aborts_insert read_intros harmless_statements)+

subsection \<open>Handlers\<close>

definition prospers :: "('a \<Rightarrow> response) \<Rightarrow> ('z world_scheme, 'a) state \<Rightarrow> bool" where
  "prospers resp m = (\<forall>w. status_of (resp (fst (run_state m w))) < 400)"

lemma prospers_bind: "(\<And>x. prospers resp (f x)) \<Longrightarrow> prospers resp (State_Monad.bind m f)"
  by (simp add: prospers_def run_bind split: prod.split)

lemma prospers_return: "status_of (resp x) < 400 \<Longrightarrow> prospers resp (State_Monad.return x)"
  by (simp add: prospers_def run_return)

definition spares :: "('a \<Rightarrow> response) \<Rightarrow> ('z world_scheme, 'a) state \<Rightarrow> bool" where
  "spares resp m = (\<forall>d w. idle d w \<longrightarrow> 400 \<le> status_of (resp (fst (run_state m w))) \<longrightarrow> w_db (snd (run_state m w)) = d)"

lemma spares_bind:
  assumes "\<And>d. keeps (idle d) m" "\<And>x. spares resp (f x)"
  shows "spares resp (State_Monad.bind m f)"
  unfolding spares_def
proof (intro allI impI)
  fix d and w :: "'a world_scheme"
  assume idle: "idle d w" and err: "400 \<le> status_of (resp (fst (run_state (State_Monad.bind m f) w)))"
  obtain x w1 where m: "run_state m w = (x, w1)" by (cases "run_state m w")
  from keeps_run [OF assms(1) idle m] assms(2) [of x] err m show "w_db (snd (run_state (State_Monad.bind m f) w)) = d"
    by (simp add: spares_def run_bind)
qed

lemma spares_return: "spares resp (State_Monad.return x)"
  by (simp add: spares_def run_return idleD)

lemma spares_if: "spares resp m \<Longrightarrow> spares resp n \<Longrightarrow> spares resp (if b then m else n)"
  by simp

lemma spares_case_sum:
  "(\<And>e. spares resp (f e)) \<Longrightarrow> (\<And>x. spares resp (g x)) \<Longrightarrow> spares resp (case r of Inl e \<Rightarrow> f e | Inr x \<Rightarrow> g x)"
  by (cases r) auto

lemma spares_case_option:
  "spares resp m \<Longrightarrow> (\<And>x. spares resp (g x)) \<Longrightarrow> spares resp (case r of None \<Rightarrow> m | Some x \<Rightarrow> g x)"
  by (cases r) auto

lemma spares_write:
  assumes "aborts m" "\<And>x. prospers resp (g x)"
  shows "spares resp (State_Monad.bind m (\<lambda>r. case r of Inl e \<Rightarrow> State_Monad.return (f e) | Inr x \<Rightarrow> g x))"
  unfolding spares_def
proof (intro allI impI)
  fix d and w :: "'a world_scheme"
  let ?m = "State_Monad.bind m (\<lambda>r. case r of Inl e \<Rightarrow> State_Monad.return (f e) | Inr x \<Rightarrow> g x)"
  obtain r w1 where m: "run_state m w = (r, w1)" by (cases "run_state m w")
  assume idle: "idle d w" and err: "400 \<le> status_of (resp (fst (run_state ?m w)))"
  show "w_db (snd (run_state ?m w)) = d"
  proof (cases r)
    case (Inl e)
    with assms(1) idle m show ?thesis by (simp add: aborts_def run_simps)
  next
    case (Inr x)
    from assms(2) [of x] have "status_of (resp (fst (run_state (g x) w1))) < 400" by (simp add: prospers_def)
    with Inr err m show ?thesis by (simp add: run_bind)
  qed
qed

lemma spares_write_with:
  assumes "aborts_with m" "\<And>y x. prospers resp (g y x)"
  shows "spares resp (State_Monad.bind m (\<lambda>p. case p of (y, r) \<Rightarrow> case r of Inl e \<Rightarrow> State_Monad.return (f y e) | Inr x \<Rightarrow> g y x))"
  unfolding spares_def
proof (intro allI impI)
  fix d and w :: "'a world_scheme"
  let ?m = "State_Monad.bind m (\<lambda>p. case p of (y, r) \<Rightarrow> case r of Inl e \<Rightarrow> State_Monad.return (f y e) | Inr x \<Rightarrow> g y x)"
  obtain y r w1 where m: "run_state m w = ((y, r), w1)" by (metis prod.collapse)
  assume idle: "idle d w" and err: "400 \<le> status_of (resp (fst (run_state ?m w)))"
  show "w_db (snd (run_state ?m w)) = d"
  proof (cases r)
    case (Inl e)
    with assms(1) idle m show ?thesis by (simp add: aborts_with_def run_simps)
  next
    case (Inr x)
    from assms(2) [of y x] have "status_of (resp (fst (run_state (g y x) w1))) < 400" by (simp add: prospers_def)
    with Inr err m show ?thesis by (simp add: run_bind)
  qed
qed

lemma spares_with_config: "(\<And>x. spares (\<lambda>r. r) (k x)) \<Longrightarrow> spares (\<lambda>r. r) (with_config i k)"
  unfolding with_config_def by (intro spares_if spares_bind spares_case_sum spares_return read_intros)

lemma spares_with_backend: "(\<And>x. spares (\<lambda>r. r) (k x)) \<Longrightarrow> spares (\<lambda>r. r) (with_backend i k)"
  unfolding with_backend_def by (intro spares_if spares_bind spares_case_sum spares_return read_intros)

lemmas spares_intros = spares_with_config spares_with_backend spares_case_option
  aborts_store [THEN spares_write] aborts_UpdateDNSProvider [THEN spares_write] aborts_with_store [THEN spares_write_with]
  spares_if spares_case_sum spares_return

lemma spares_config_handlers:
  "spares (\<lambda>r. r) (H_CreateConfig h rq ctx b)" "spares (\<lambda>r. r) (H_UpdateConfig rq ctx bu)" "spares (\<lambda>r. r) (H_DeleteConfig rq ctx)"
  unfolding H_CreateConfig_def H_UpdateConfig_def H_DeleteConfig_def Let_def
  by (intro spares_intros prospers_bind prospers_return spares_bind read_intros; simp)+

lemma spares_backend_handlers:
  "spares (\<lambda>r. r) (H_AddBackend h rq ctx b)" "spares (\<lambda>r. r) (H_UpdateBackend h rq ctx bu)"
  "spares (\<lambda>r. r) (H_DeleteBackend h rq ctx)"
  unfolding H_AddBackend_def H_UpdateBackend_def H_DeleteBackend_def Let_def
  by (intro spares_intros prospers_bind prospers_return spares_bind read_intros; simp)+

lemma spares_check_handlers:
  "spares (\<lambda>r. r) (H_ConfigureHealthCheck rq ctx b)" "spares (\<lambda>r. r) (H_DeleteHealthCheck rq ctx)"
  unfolding H_ConfigureHealthCheck_def H_DeleteHealthCheck_def Let_def
  by (intro spares_intros prospers_bind prospers_return spares_bind read_intros; simp)+

lemma spares_provider_handlers:
  "spares (\<lambda>r. r) (H_ConfigureDNSProvider h rq ctx b)" "spares (\<lambda>r. r) (H_DeleteDNSProvider h rq ctx)"
  unfolding H_ConfigureDNSProvider_def H_DeleteDNSProvider_def Let_def
  by (intro spares_intros prospers_bind prospers_return spares_bind read_intros; simp)+

lemma spares_user_handlers:
  "spares (\<lambda>r. r) (H_AssignUserRole rq ctx b)" "spares (\<lambda>r. r) (H_RemoveUserRole rq ctx)"
  unfolding H_AssignUserRole_def H_RemoveUserRole_def Let_def
  by (intro spares_intros prospers_bind prospers_return spares_bind read_intros; simp)+

text \<open>Replacing the roles of a configuration writes many times; none of the writes can fail once the configuration is there.\<close>

definition roles_ready :: "string \<Rightarrow> 'z world_scheme \<Rightarrow> bool" where
  "roles_ready i w = (healthy_driver w \<and> config_exists i (w_db w))"

lemma run_remove_roles:
  "roles_ready i w \<Longrightarrow> \<exists>w'. run_state (remove_config_roles_loop i rs) w = (None, w') \<and> roles_ready i w'"
proof (induction rs arbitrary: w)
  case (Cons r rs)
  let ?w = "w\<lparr>w_stmt_ix := Suc (w_stmt_ix w), w_db := (w_db w)\<lparr>t_config_roles :=
    rows_delete (\<lambda>cr. cr_ConfigID cr = i \<and> cr_RoleID cr = r_ID r) (t_config_roles (w_db w))\<rparr>\<rparr>"
  have "run_state (RemoveConfigRole i (r_ID r)) w = (Inr (), ?w)"
    using Cons.prems by (simp add: roles_ready_def RemoveConfigRole_def run_insert_method delete_config_role_def Let_def)
  moreover have "roles_ready i ?w" using Cons.prems by (simp add: roles_ready_def config_exists_def)
  ultimately show ?case using Cons.IH by (simp add: run_bind)
qed (simp add: run_return)

lemma run_AssignConfigRole:
  "roles_ready i w \<Longrightarrow> role_exists j (w_db w) \<Longrightarrow>
   \<exists>w'. run_state (AssignConfigRole i j) w = (Inr (), w') \<and> roles_ready i w'"
  by (auto simp: roles_ready_def AssignConfigRole_def run_insert_method insert_config_role_def config_exists_def)

lemma run_set_roles:
  "roles_ready i w \<Longrightarrow> \<exists>w'. run_state (set_config_roles_loop i names) w = (None, w')"
proof (induction names arbitrary: w)
  case (Cons name names)
  let ?w = "w\<lparr>w_stmt_ix := Suc (w_stmt_ix w)\<rparr>"
  have ready: "roles_ready i ?w" using Cons.prems by (simp add: roles_ready_def)
  show ?case
  proof (cases "select_role_by_name name (w_db w)")
    case Nil
    with Cons ready show ?thesis by (simp add: run_bind GetRoleByName_def run_row_method roles_ready_def)
  next
    case (Cons role rest)
    then have "role \<in> set (select_role_by_name name (w_db w))" by simp
    then have "role_exists (r_ID role) (w_db ?w)" by (auto simp: role_exists_def select_role_by_name_def)
    from run_AssignConfigRole [OF ready this] obtain w1
      where w1: "run_state (AssignConfigRole i (r_ID role)) ?w = (Inr (), w1)" "roles_ready i w1" by blast
    have "run_state (GetRoleByName name) w = (Inr role, ?w)"
      using Cons.prems local.Cons by (simp add: GetRoleByName_def run_row_method roles_ready_def)
    with w1 Cons.IH [OF w1(2)] show ?thesis by (simp add: run_bind)
  qed
qed (simp add: run_return)

definition replace_roles :: "'r http_request_scheme \<Rightarrow> gin_context \<Rightarrow> string list \<Rightarrow> Role list \<Rightarrow> ('z world_scheme, response) state" where
  "replace_roles rq ctx roles existing = do {
     x \<leftarrow> remove_config_roles_loop (rq_ID rq) existing;
     (case x of
        Some resp \<Rightarrow> ret resp
      | None \<Rightarrow> do {
          y \<leftarrow> set_config_roles_loop (rq_ID rq) roles;
          (case y of
             Some resp \<Rightarrow> ret resp
           | None \<Rightarrow> do {
               logAudit ''config:roles:update'' ''config'' (rq_ID rq) '''' (rq_ID rq) '''' rq ctx;
               ret (Data (D_Text ''roles updated''))
             })
        })
   }"

lemma replace_roles_succeeds: "status_of (fst (run_state (replace_roles rq ctx roles existing) w)) < 400" if "roles_ready (rq_ID rq) w"
proof -
  from run_remove_roles [OF that] obtain w2
    where w2: "run_state (remove_config_roles_loop (rq_ID rq) existing) w = (None, w2)" "roles_ready (rq_ID rq) w2" by blast
  from run_set_roles [OF w2(2)] obtain w3 where "run_state (set_config_roles_loop (rq_ID rq) roles) w2 = (None, w3)" by blast
  with w2(1) show ?thesis by (simp add: replace_roles_def run_bind run_return split: prod.split)
qed

lemma spares_roles_handler: "spares (\<lambda>r. r) (H_UpdateConfigRoles rq ctx b)"
  unfolding spares_def
proof (intro allI impI)
  fix d and w :: "'a world_scheme"
  let ?i = "rq_ID rq" and ?m = "H_UpdateConfigRoles rq ctx b" and ?w = "w\<lparr>w_stmt_ix := Suc (w_stmt_ix w)\<rparr>"
  let ?w' = "?w\<lparr>w_stmt_ix := Suc (Suc (w_stmt_ix w))\<rparr>"
  assume idle: "idle d w" and err: "400 \<le> status_of (fst (run_state ?m w))"
  show "w_db (snd (run_state ?m w)) = d"
  proof (cases "?i = '''' \<or> select_config ?i d = []")
    case True
    with idle show ?thesis
      by (auto simp: H_UpdateConfigRoles_def with_config_def GetConfig_def run_bind run_return run_row_method idleD)
  next
    case False
    then obtain cfg rest where c: "?i \<noteq> ''''" "select_config ?i d = cfg # rest" by (cases "select_config ?i d") auto
    then have "cfg \<in> set (select_config ?i d)" by simp
    then have ready: "roles_ready ?i ?w" "roles_ready ?i ?w'"
      using idle by (auto simp: roles_ready_def idle_def config_exists_def select_config_def)
    show ?thesis
    proof (cases "ShouldBindJSON (\<lambda>_. True) b")
      case Inl
      with c idle show ?thesis
        by (simp add: H_UpdateConfigRoles_def with_config_def GetConfig_def run_bind run_return run_row_method idleD)
    next
      case (Inr roles)
      have g: "run_state (GetConfigRoles ?i) ?w = (Inr (select_config_roles ?i d), ?w')"
        using idle by (simp add: GetConfigRoles_def run_rows_method idleD)
      have "run_state (H_UpdateConfigRoles rq ctx b) w = run_state (with_config ?i (\<lambda>_. do {
          r \<leftarrow> GetConfigRoles ?i;
          (case r of
             Inl _ \<Rightarrow> ret (sendInternalError ''failed to get existing config roles'')
           | Inr existing \<Rightarrow> replace_roles rq ctx roles existing) })) w"
        unfolding H_UpdateConfigRoles_def replace_roles_def Inr sum.case by (rule HOL.refl)
      with c idle g have "run_state ?m w = run_state (replace_roles rq ctx roles (select_config_roles ?i d)) ?w'"
        by (simp add: with_config_def GetConfig_def run_bind run_row_method idleD)
      with replace_roles_succeeds [OF ready(2), of ctx roles "select_config_roles ?i d"] err show ?thesis by simp
    qed
  qed
qed

subsection \<open>Every endpoint but the login's\<close>

lemma spares_reads: "(\<And>P. keeps (\<lambda>w. P (w_db w)) m) \<Longrightarrow> spares resp m"
proof -
  assume reads: "\<And>P. keeps (\<lambda>w. P (w_db w)) m"
  have "w_db (snd (run_state m w)) = w_db w" for w
    using keepsD [OF reads [of "\<lambda>d. d = w_db w"], of w] by simp
  then show ?thesis by (simp add: spares_def idleD)
qed

lemma spares_plain: "spares (\<lambda>r. r) m \<Longrightarrow> spares fst (plain m)"
  by (simp add: spares_def plain_def run_simps case_prod_unfold)

lemma spares_Logout: "spares fst (H_Logout svc rq ctx)"
  by (simp add: spares_def H_Logout_def run_simps Let_def case_prod_unfold split: option.split)

lemma spares_run_endpoint: "spares fst (run_endpoint rr rq ctx b e)" if "e \<noteq> E_Callback"
proof (cases "audit_actions e = {} \<and> e \<noteq> E_Logout")
  case True
  then show ?thesis by (intro spares_reads endpoint_reads) simp_all
next
  case False
  with that show ?thesis
    by (cases e) (simp_all add: spares_plain spares_Logout spares_config_handlers spares_roles_handler spares_backend_handlers
        spares_check_handlers spares_provider_handlers spares_user_handlers)
qed

lemma spares_serve_route: "ro_Endpoint r \<noteq> E_Callback \<Longrightarrow> spares fst (serve_route rr rq b r)"
  unfolding serve_route_def
  by (intro spares_bind read_intros) (auto intro!: spares_run_endpoint spares_return split: outcome.split)

text \<open>
  C16: A refused request changes nothing: with a driver that does not fail and a database that satisfies
  the schema, whatever request is answered with an error (a status of 400 or more), be it by the rate
  limiter, the session or role middlewares, the validation of its body or path, a lookup that finds nothing
  or a write that fails a constraint, leaves every table as it was. The callback of the login is left
  out: it may synchronise the user's roles before it fails.
\<close>

theorem failed_requests_change_nothing:
  assumes "healthy_driver w" "db_ok (w_db w)" "run_state (serve rr rq b) w = ((resp, cookies), w')" "400 \<le> status_of resp"
    and "\<And>r vars. find_route (routes (ha_oidc (ro_handlers rr))) (hr_Method rq) (split_path (drop 1 (rq_Path rq))) = Some (r, vars) \<Longrightarrow>
      ro_Endpoint r \<noteq> E_Callback"
  shows "w_db w' = w_db w"
proof -
  have "spares fst (case find_route (routes (ha_oidc (ro_handlers rr))) (hr_Method rq) (split_path (drop 1 (rq_Path rq))) of
      None \<Rightarrow> ret (ro_frontend rr (rq_Path rq), [])
    | Some (r, vars) \<Rightarrow> serve_route rr (path_params vars rq) (MaxBodySize 1048576 b) r)"
    using assms(5) by (auto intro: spares_return spares_serve_route split: option.split)
  then have "spares fst (serve rr rq b)"
    unfolding serve_def by (auto intro!: spares_bind spares_return spares_if read_intros split: cors_outcome.split)
  moreover have "idle (w_db w) w" using assms(1,2) by (simp add: idle_def)
  ultimately show ?thesis using assms(3,4) unfolding spares_def by (metis fst_conv snd_conv)
qed

text \<open>The administrator's request to delete a configuration that is already gone.\<close>

definition ex_gone_world :: router_world where
  "ex_gone_world = ex_router_world\<lparr>w_db := ex_access_db\<lparr>t_configs := [], t_backends := [], t_health_states := [],
     t_health_checks := [], t_dns_providers := [], t_config_roles := []\<rparr>\<rparr>"

lemma ex_gone_valid:
  "w_fault w (w_stmt_ix w) = None \<Longrightarrow> w_db w = w_db ex_gone_world \<Longrightarrow>
   run_state (ValidateSession ex_admin_session) w = (Inr (), w\<lparr>w_stmt_ix := Suc (w_stmt_ix w)\<rparr>)"
  by (simp add: ValidateSession_def GetSessionRecord_def run_simps run_row_method select_session_def ex_admin_session_def ex_access_defs
      ex_gone_world_def)

lemma ex_gone_guards:
  assumes "unix (w_now w (w_now_ix w)) < 60" "healthy_driver w" "w_db w = w_db ex_gone_world"
  shows "run_state (run_guards ex_router (path_params vars ex_delete_request)
     [G_Auth, G_Role [''admin'', ''operator''], G_Config] empty_context) w =
   (Next ex_admin_context, w\<lparr>w_now_ix := Suc (w_now_ix w), w_stmt_ix := Suc (w_stmt_ix w)\<rparr>)"
proof -
  have "\<not> shouldSkipAuth (rq_Path (path_params vars ex_delete_request))"
    using ex_delete_not_skipped by (simp add: ex_delete_request_def)
  with assms ex_admin_token_not_empty have "run_state (Middleware plain_jwt ex_jwt_config (path_params vars ex_delete_request) empty_context) w =
      (Next ex_admin_context, w\<lparr>w_now_ix := Suc (w_now_ix w), w_stmt_ix := Suc (w_stmt_ix w)\<rparr>)"
    by (simp add: Middleware_def Let_def ex_delete_getToken run_simps ex_admin_parses ex_gone_valid ex_admin_session_fields
        ex_admin_context_def empty_context_def)
  then show ?thesis by (simp add: run_guard_def ex_router_def ex_oidc_def run_simps ex_admin_guards RequireConfigAccess_def)
qed

lemma ex_gone_handler:
  "healthy_driver w \<Longrightarrow> w_db w = w_db ex_gone_world \<Longrightarrow> rq_ID rq = ''c'' \<Longrightarrow>
   status_of (fst (run_state (H_DeleteConfig rq ctx) w)) = 404"
  by (simp add: H_DeleteConfig_def with_config_def run_simps GetConfig_def run_row_method select_config_def ex_gone_world_def
      handleStoreError_def sendNotFound_def)

lemma ex_gone_limit:
  "run_state (limit_global ip) ex_gone_world =
   (True, ex_gone_world\<lparr>w_now_ix := 1, rw_global := snd (Allow 5 ip (NewRateLimiter 100 Minute))\<rparr>)"
  by (simp add: limit_global_def run_simps ex_gone_world_def ex_router_world_def Allow_def NewRateLimiter_def Let_def)

lemma ex_gone_route:
  "find_route (routes (ha_oidc (ro_handlers ex_router))) (hr_Method ex_delete_request) (split_path (drop 1 (rq_Path ex_delete_request))) =
    Some (rt ''DELETE'' (config_path []) [G_Auth, G_Role [''admin'', ''operator''], G_Config] E_DeleteConfig, [(''id'', ''c'')])"
  using ex_delete_route by (simp add: ex_router_def ex_handlers_def ex_delete_request_def)

lemma ex_gone_serve_route:
  assumes "unix (w_now w (w_now_ix w)) < 60" "healthy_driver w" "w_db w = w_db ex_gone_world"
  shows "status_of (fst (fst (run_state (serve_route ex_router (path_params [(''id'', ''c'')] ex_delete_request) b
      (rt ''DELETE'' (config_path []) [G_Auth, G_Role [''admin'', ''operator''], G_Config] E_DeleteConfig)) w))) = 404"
proof -
  have "status_of (fst (run_state (H_DeleteConfig (path_params [(''id'', ''c'')] ex_delete_request) ex_admin_context)
      (w\<lparr>w_now_ix := Suc (w_now_ix w), w_stmt_ix := Suc (w_stmt_ix w)\<rparr>))) = 404"
    using assms by (intro ex_gone_handler) (simp_all add: path_params_def)
  then show ?thesis
    by (simp add: serve_route_def run_bind run_return ex_gone_guards [OF assms] rt_def plain_def case_prod_unfold del: run_guards.simps)
qed

lemma ex_gone_status: "status_of (fst (fst (run_state (serve ex_router ex_delete_request ex_bodies) ex_gone_world))) = 404"
proof -
  let ?w = "ex_gone_world\<lparr>w_now_ix := 1, rw_global := snd (Allow 5 ''192.0.2.1'' (NewRateLimiter 100 Minute))\<rparr>"
  have "CORS ex_delete_request = Cors_Next (snd (case CORS ex_delete_request of Cors_Next hs \<Rightarrow> (True, hs) | Cors_Abort _ hs \<Rightarrow> (False, hs)))"
    by (simp add: CORS_def ex_delete_request_def Let_def)
  then obtain hs where cors: "CORS ex_delete_request = Cors_Next hs" by blast
  have "unix (w_now ?w (w_now_ix ?w)) < 60" "healthy_driver ?w" "w_db ?w = w_db ex_gone_world"
    by (simp_all add: ex_gone_world_def ex_router_world_def healthy_driver_def unix_def time_units)
  from ex_gone_serve_route [OF this] show ?thesis
    unfolding serve_def ex_gone_route option.case prod.case cors cors_outcome.case
    by (simp add: run_bind ex_gone_limit) (simp add: ex_delete_request_def ex_gone_limit)
qed

theorem failed_requests_change_nothing_witness:
  "\<exists>resp cookies w'. run_state (serve ex_router ex_delete_request ex_bodies) ex_gone_world = ((resp, cookies), w') \<and>
     status_of resp = 404 \<and> w_db w' = w_db ex_gone_world"
proof -
  obtain resp cookies w' where run: "run_state (serve ex_router ex_delete_request ex_bodies) ex_gone_world = ((resp, cookies), w')"
    by (metis prod.collapse)
  then have err: "status_of resp = 404" using ex_gone_status by simp
  have "healthy_driver ex_gone_world" by (simp add: healthy_driver_def ex_gone_world_def ex_router_world_def)
  moreover have "db_ok (w_db ex_gone_world)"
    by (simp add: ex_gone_world_def db_ok_def keys_ok_def refs_ok_def unique_def references_def ex_access_defs)
  ultimately have "w_db w' = w_db ex_gone_world"
    by (rule failed_requests_change_nothing [OF _ _ run]) (auto simp: err ex_gone_route [simplified] rt_def)
  with run err show ?thesis by blast
qed

end
