(* ===== verification/Role_Gaps.thy ===== *)
theory Role_Gaps
  imports Access
begin

section \<open>What the route table lets viewers do\<close>

text \<open>
  The README gives writing to admins and operators. The route table asks for these roles on deletions
  and role assignments only: on the other writing routes the session and the access to the
  configuration are the whole check.
\<close>

text \<open>The writing endpoints that are no deletions, no role assignments and not under \<open>/admin\<close>.\<close>

definition plain_writes :: "endpoint set" where
  "plain_writes = {E_CreateConfig, E_UpdateConfig, E_AddBackend, E_ConfigureHealthCheck, E_ConfigureDNS, E_UpdateBackend}"

lemma plain_write_guards:
  "r \<in> set oidc_api_routes \<Longrightarrow> ro_Endpoint r \<in> plain_writes \<Longrightarrow>
   ro_Guards r = (if ro_Endpoint r = E_CreateConfig then [G_Auth]
                  else if ro_Endpoint r = E_UpdateBackend then [G_Auth, G_Backend] else [G_Auth, G_Config])"
  by (auto simp: oidc_api_routes_def rt_def plain_writes_def)

text \<open>The configuration a request to such a route is about.\<close>

definition write_target :: "db \<Rightarrow> route \<Rightarrow> string \<Rightarrow> string option" where
  "write_target d r k = (if ro_Endpoint r = E_UpdateBackend then map_option b_ConfigID (first_row (select_backend k d)) else Some k)"

lemma healthy_Middleware:
  assumes "run_state (Middleware lib cfg rq ctx) w = (r, w')" "healthy_driver w"
  shows "w_db w' = w_db w \<and> healthy_driver w'"
proof (cases "shouldSkipAuth (rq_Path rq) \<or> getToken rq (jc_CookieName cfg) = ''''")
  case False
  let ?w = "w\<lparr>w_now_ix := Suc (w_now_ix w)\<rparr>"
  show ?thesis
  proof (cases "ParseSession lib cfg (w_now w (w_now_ix w)) (getToken rq (jc_CookieName cfg))")
    case (Some p)
    with False assms show ?thesis
      by (cases p) (auto simp: Middleware_def Let_def run_simps ValidateSession_def GetSessionRecord_def run_row_method split: if_splits)
  qed (use False assms in \<open>auto simp: Middleware_def Let_def run_simps\<close>)
qed (use assms in \<open>cases "shouldSkipAuth (rq_Path rq)"; auto simp: Middleware_def Let_def run_simps\<close>)

lemma RequireConfigAccess_admits:
  "healthy_driver w \<Longrightarrow> may_access (w_db w) (context_user ctx) (rq_ID rq) \<Longrightarrow>
   \<exists>w'. run_state (RequireConfigAccess rq ctx) w = (Next ctx, w')"
  by (cases "is_admin ctx") (simp_all add: RequireConfigAccess_def run_simps run_CanAccess)

lemma RequireBackendConfigAccess_admits:
  "healthy_driver w \<Longrightarrow> first_row (select_backend (rq_ID rq) (w_db w)) = Some b \<Longrightarrow>
   may_access (w_db w) (context_user ctx) (b_ConfigID b) \<Longrightarrow>
   \<exists>w'. run_state (RequireBackendConfigAccess rq ctx) w = (Next ctx, w')"
  by (cases "is_admin ctx"; cases "select_backend (rq_ID rq) (w_db w)")
    (auto simp: RequireBackendConfigAccess_def run_simps GetBackend_def run_row_method run_CanAccess)

text \<open>
  C38: No role is asked of whoever creates or changes something: on each of the six routes that create or
  update (configurations, backends, health checks, DNS providers) every session that the middleware
  accepts passes all checks in front of the handler, on creating a configuration with no further
  condition and on the others as soon as its user may access the configuration, whatever the roles in
  the session are; a viewer writes like an operator.
\<close>

theorem viewers_may_write:
  assumes "r \<in> set oidc_api_routes" "ro_Endpoint r \<in> plain_writes" "healthy_driver w"
    and "run_state (Middleware (os_jwt (ro_oidc rr)) (os_jwtCfg (ro_oidc rr)) rq empty_context) w = (Next ctx, w1)"
    and "ro_Endpoint r = E_CreateConfig \<or>
      (\<exists>c. write_target (w_db w) r (rq_ID rq) = Some c \<and> may_access (w_db w) (context_user ctx) c)"
  shows "\<exists>w'. run_state (run_guards rr rq (ro_Guards r) empty_context) w = (Next ctx, w')"
proof -
  have w1: "w_db w1 = w_db w" "healthy_driver w1" using healthy_Middleware [OF assms(4,3)] by simp_all
  consider (create) "ro_Guards r = [G_Auth]"
    | (backend) "ro_Endpoint r = E_UpdateBackend" "ro_Guards r = [G_Auth, G_Backend]"
    | (config) "ro_Endpoint r \<noteq> E_CreateConfig" "ro_Endpoint r \<noteq> E_UpdateBackend" "ro_Guards r = [G_Auth, G_Config]"
    using plain_write_guards [OF assms(1,2)] by (auto split: if_splits)
  then show ?thesis
  proof cases
    case create
    with assms(4) show ?thesis by (simp add: run_guard_def run_simps)
  next
    case backend
    with assms(5) obtain b where "first_row (select_backend (rq_ID rq) (w_db w)) = Some b" "may_access (w_db w) (context_user ctx) (b_ConfigID b)"
      by (auto simp: write_target_def)
    with RequireBackendConfigAccess_admits [of w1 rq b ctx] w1
    obtain w' where "run_state (RequireBackendConfigAccess rq ctx) w1 = (Next ctx, w')" by auto
    with assms(4) backend show ?thesis by (simp add: run_guard_def run_simps)
  next
    case config
    with assms(5) have "may_access (w_db w) (context_user ctx) (rq_ID rq)" by (simp add: write_target_def)
    with RequireConfigAccess_admits [of w1 ctx rq] w1
    obtain w' where "run_state (RequireConfigAccess rq ctx) w1 = (Next ctx, w')" by auto
    with assms(4) config show ?thesis by (simp add: run_guard_def run_simps)
  qed
qed

subsection \<open>A viewer who updates a configuration\<close>

definition ex_viewer :: User where
  "ex_viewer = (ex_user ''ann'')\<lparr>u_Roles := [ex_role ''viewer'']\<rparr>"

definition ex_viewer_token :: string where
  "ex_viewer_token = enc_str ''k'' @ enc_list enc_claim (session_claims ''j1'' ex_viewer 0 (60 * Second))"

lemma ex_viewer_parses:
  "unix now < 60 \<Longrightarrow> \<exists>s. ParseSession plain_jwt ex_jwt_config now ex_viewer_token = Some (Inr s) \<and> se_JTI s = ''j1'' \<and>
     se_UserID s = ''ann'' \<and> se_Roles s = [''viewer'']"
  using ParseSession_session_claims [OF plain_jwt_law, of ex_jwt_config "''j1''" ex_viewer 0 "60 * Second" ex_viewer_token now]
  by (simp add: plain_jwt_def ex_jwt_config_def ex_viewer_token_def ex_viewer_def ex_user_def ex_role_def unix_def Second_def
      Millisecond_def)

definition ex_viewer_request :: http_request where
  "ex_viewer_request = ex_delete_request\<lparr>rq_Authorization := ''Bearer '' @ ex_viewer_token, rq_ID := ''c'', hr_Method := ''PUT''\<rparr>"

lemma ex_viewer_middleware:
  "\<exists>ctx w'. run_state (Middleware plain_jwt ex_jwt_config ex_viewer_request empty_context) ex_router_world = (Next ctx, w') \<and>
     context_user ctx = ''ann'' \<and> context_roles ctx = [''viewer'']"
proof -
  obtain s where s: "ParseSession plain_jwt ex_jwt_config 5 ex_viewer_token = Some (Inr s)" "se_JTI s = ''j1''" "se_UserID s = ''ann''"
      "se_Roles s = [''viewer'']"
    using ex_viewer_parses [of 5] by (auto simp: unix_def time_units)
  have skip: "\<not> shouldSkipAuth (rq_Path ex_viewer_request)"
    using ex_delete_not_skipped by (simp add: ex_viewer_request_def ex_delete_request_def)
  have "getToken ex_viewer_request (jc_CookieName ex_jwt_config) = ex_viewer_token"
    by (simp add: getToken_def ex_viewer_request_def ex_delete_request_def)
  moreover have "ex_viewer_token \<noteq> ''''" by (simp add: ex_viewer_token_def enc_str_def enc_nat_def)
  moreover obtain w1 where "run_state (ValidateSession s) (ex_router_world\<lparr>w_now_ix := 1\<rparr>) = (Inr (), w1)"
    using run_ValidateSession [of "ex_router_world\<lparr>w_now_ix := 1\<rparr>" s]
    by (cases "run_state (ValidateSession s) (ex_router_world\<lparr>w_now_ix := 1\<rparr>)")
      (simp add: s ex_router_world_def ex_session_lookup)
  ultimately show ?thesis
    using skip s by (simp add: Middleware_def Let_def run_simps ex_router_world_def context_user_def context_roles_def)
qed

theorem viewers_may_write_witness:
  "\<exists>ctx w'. run_state (run_guards ex_router ex_viewer_request [G_Auth, G_Config] empty_context) ex_router_world = (Next ctx, w') \<and>
     context_roles ctx = [''viewer'']"
proof -
  obtain ctx w1 where "run_state (Middleware plain_jwt ex_jwt_config ex_viewer_request empty_context) ex_router_world = (Next ctx, w1)"
    and ctx: "context_user ctx = ''ann''" "context_roles ctx = [''viewer'']"
    using ex_viewer_middleware by blast
  then have mw: "run_state (Middleware (os_jwt (ro_oidc ex_router)) (os_jwtCfg (ro_oidc ex_router)) ex_viewer_request empty_context)
      ex_router_world = (Next ctx, w1)"
    by (simp add: ex_router_def ex_oidc_def)
  let ?r = "rt ''PUT'' (config_path []) [G_Auth, G_Config] E_UpdateConfig"
  have r: "?r \<in> set oidc_api_routes" "ro_Endpoint ?r \<in> plain_writes" "healthy_driver ex_router_world"
    by (simp add: oidc_api_routes_def, simp add: plain_writes_def rt_def, simp add: healthy_driver_def ex_router_world_def)
  have "may_access ex_access_db ''ann'' ''c''" by (simp add: may_access_def ex_access_defs)
  then have "\<exists>c. write_target (w_db ex_router_world) ?r (rq_ID ex_viewer_request) = Some c \<and>
      may_access (w_db ex_router_world) (context_user ctx) c"
    by (simp add: write_target_def rt_def ex_viewer_request_def ex_delete_path ctx)
  from viewers_may_write [OF r mw disjI2 [OF this]] ctx(2) show ?thesis by (auto simp: rt_def)
qed

subsection \<open>What a session does not depend on\<close>

lemma same_answer_GetSessionRecord:
  assumes "t_sessions d = t_sessions (w_db w)"
  shows "fst (run_state (GetSessionRecord j) (w\<lparr>w_db := d\<rparr>)) = fst (run_state (GetSessionRecord j) w)"
proof -
  have "select_session j d = select_session j (w_db w)" using assms by (simp add: select_session_def)
  then show ?thesis
    by (cases "w_fault w (w_stmt_ix w)") (simp_all add: GetSessionRecord_def row_method_def sql_row_def run_simps split: fault.split)
qed

lemma same_answer_ValidateSession:
  assumes "t_sessions d = t_sessions (w_db w)"
  shows "fst (run_state (ValidateSession s) (w\<lparr>w_db := d\<rparr>)) = fst (run_state (ValidateSession s) w)"
  using same_answer_GetSessionRecord [OF assms, of "se_JTI s"]
  by (auto simp: ValidateSession_def run_simps split: prod.splits sum.splits)

text \<open>
  C37: What the middleware answers depends on the table of sessions alone: with any other users, user
  roles, roles or configurations in the database, a user who was deactivated or lost every role
  included, it gives the same answer with the same user and the same roles in the context. So an
  account that is disabled keeps its sessions until they expire, against what SECURITY.md says.
\<close>

theorem disabled_accounts_keep_sessions:
  assumes "t_sessions d = t_sessions (w_db w)"
  shows "fst (run_state (Middleware lib cfg rq ctx) (w\<lparr>w_db := d\<rparr>)) = fst (run_state (Middleware lib cfg rq ctx) w)"
proof (cases "ParseSession lib cfg (w_now w (w_now_ix w)) (getToken rq (jc_CookieName cfg))")
  case None
  then show ?thesis by (simp add: Middleware_def Let_def run_simps)
next
  case (Some p)
  have swap: "w\<lparr>w_db := d, w_now_ix := n\<rparr> = w\<lparr>w_now_ix := n, w_db := d\<rparr>" for n by simp
  have "fst (run_state (ValidateSession s) (w\<lparr>w_db := d, w_now_ix := n\<rparr>)) = fst (run_state (ValidateSession s) (w\<lparr>w_now_ix := n\<rparr>))" for s n
    unfolding swap by (rule same_answer_ValidateSession) (simp add: assms)
  with Some show ?thesis
    by (cases p) (simp_all add: Middleware_def Let_def run_simps case_prod_unfold)
qed

text \<open>The viewer of the example, deactivated and with no row of a role left.\<close>

theorem disabled_accounts_keep_sessions_witness:
  "\<exists>ctx. fst (run_state (Middleware plain_jwt ex_jwt_config ex_viewer_request empty_context)
       (ex_router_world\<lparr>w_db := ex_access_db\<lparr>t_users := map (\<lambda>u. u\<lparr>u_IsActive := False\<rparr>) (t_users ex_access_db),
          t_user_roles := []\<rparr>\<rparr>)) = Next ctx \<and> context_roles ctx = [''viewer'']"
proof -
  let ?d = "ex_access_db\<lparr>t_users := map (\<lambda>u. u\<lparr>u_IsActive := False\<rparr>) (t_users ex_access_db), t_user_roles := []\<rparr>"
  obtain ctx w' where "run_state (Middleware plain_jwt ex_jwt_config ex_viewer_request empty_context) ex_router_world = (Next ctx, w')"
    "context_roles ctx = [''viewer'']" using ex_viewer_middleware by blast
  moreover have "t_sessions ?d = t_sessions (w_db ex_router_world)" by (simp add: ex_delete_path)
  ultimately show ?thesis unfolding disabled_accounts_keep_sessions [OF \<open>t_sessions ?d = _\<close>] by (intro exI [of _ ctx]) simp
qed

end
