(* ===== verification/Spec2Isabelle.thy ===== *)
theory Spec2Isabelle
  imports Selector Health_State Reconciler Access Check_Scheduler App_Config Web Transactions User_Sync Store_Refinement
    Guarantees Pipeline Migrations Oidc_Service Credentials Audit_Trail Failed_Requests Role_Gaps
begin

text \<open>
  A verification development for GSLB, a global server load balancer that probes the backends of
  each configuration and publishes the addresses of the healthy ones in DNS.

  \<^bold>\<open>The program.\<close> A configuration (\<open>internal/types\<close>) is a DNS name with backends, a health check, an
  optional DNS provider and the roles that may access it; SQLite holds them (\<open>internal/db\<close>,
  \<open>internal/store\<close>). The scheduler (\<open>internal/health/scheduler.go\<close>) submits one check per enabled
  backend to the engine (\<open>engine.go\<close>), whose workers run a TCP or ICMP checker; the results come back
  to the scheduler, which counts them in the backend's stored state and in the history aggregator
  (\<open>aggregator.go\<close>). The reconciler (\<open>internal/dns/reconciler.go\<close>) reads these states and publishes the
  addresses of the healthy backends through a DNS provider. The HTTP API (\<open>internal/handlers\<close>) changes
  configurations behind rate limits, OIDC sessions and roles (\<open>internal/auth\<close>), writes audit entries and
  triggers reconciliations; every other path serves the embedded front end (\<open>web/embed.go\<close>).

  \<^bold>\<open>Conventions.\<close> A struct is a record with its fields prefixed, an operation the definition of the
  same name; a handler has the prefix \<open>H_\<close>, a method whose name several types have the type's name
  (\<open>Engine_Start\<close>, \<open>Mock_UpsertRecord\<close>). Errors are the datatype \<open>err\<close>, with \<open>%w\<close> chains, so that \<open>==\<close> and
  \<open>errors.Is\<close> differ as in Go; a fallible function returns \<open>err + 'a\<close>, a panic is None. Effects are the
  state monad over a world record: the database, the clock and the UUIDs as streams, and the
  failures of the database driver as a function of the statement's number, so that any statement
  may fail before it runs, while its rows are read, or after it ran. The record is extended by the
  aggregator's buckets, the DNS providers' state, the reconciler's memory, and the routers' state;
  a definition works on every extension. Times and durations are nanoseconds; weights, thresholds
  and ports are integers; the selectors' counters and sums are 64-bit words, as they wrap there. The
  counters of consecutive results and the product of a timeout in seconds with \<open>time.Second\<close> are unbounded
  here: the first would need 2^63 probes of one backend to wrap, and the API bounds a timeout to 60 seconds.

  \<^bold>\<open>Theories, with what they model and show.\<close>
  \<^item> \<open>Prelude\<close>: errors, formatting and scanning of numbers, the monad's rules, and \<open>keeps\<close>, the
    preservation of a predicate by a program with the collection \<open>keep_intros\<close> that proves it.
  \<^item> \<open>Types\<close>, \<open>Database\<close>: the data of \<open>internal/types\<close>; the schema of \<open>migrations.go\<close> as lists of rows with
    its keys, foreign keys and cascades (\<open>db_ok\<close>), and SQL statements with driver failures.
    \<open>Migrations\<close>: \<open>Migrate\<close> on a database file with any tables, columns and indexes, and \<open>NewDB\<close>; it
    loses no row, seeds the roles, may be repeated, and fails on a file from before \<open>audit_logs.user_id\<close>.
  \<^item> \<open>Keyed_Store\<close>: the shapes of the store methods, and the locale \<open>keyed_store\<close>, the contract of a table
    that is a map from keys to rows, interpreted on configurations, backends, health checks and DNS
    providers in \<open>Store_Config\<close>, \<open>Store_Health\<close> and \<open>Store_DNS\<close>. \<open>Store_User\<close> and \<open>Store_Audit\<close> have the
    other tables; a client that pages through the audit log sees every entry once. Every statement keeps
    \<open>db_ok\<close>. \<open>Store_Refinement\<close>: the configuration store refines a
    map, for any sequence of calls and any failures. \<open>Transactions\<close>: \<open>WithTx\<close> is all or nothing.
  \<^item> \<open>Crypto\<close>: encryption at rest on top of AES-GCM, with Base64 written out; round trips.
  \<^item> \<open>Selector\<close>: \<open>internal/lb\<close>; the locale \<open>selector\<close> is the interface both selectors meet; the weighted one
    is proved fair on its slots while the counter does not wrap.
  \<^item> \<open>Health_State\<close>: the state machine; it equals a specification on the history of results.
  \<^item> \<open>Checker\<close>, \<open>Engine\<close>, \<open>Check_Scheduler\<close>: the checkers on a network environment; the worker pool as a
    step relation over interleavings, with an accounting invariant (no request is lost or checked
    twice) and the termination of \<open>Stop\<close>; the scheduler over several engines and its merged results.
  \<^item> \<open>Aggregator\<close>: the history buckets; counts are conserved from probe to table.
  \<^item> \<open>Scheduler\<close>: passes, results and their effect on stored states, as a function of the outcomes.
  \<^item> \<open>Provider\<close>, \<open>Cloudflare\<close>, \<open>Reconciler\<close>: validation, the mock and the Cloudflare provider behind the
    locale \<open>dns_provider\<close>; selection, change detection and publication; the locales
    \<open>reconciler_provider\<close> and \<open>reliable_provider\<close> extend it for the proofs that passes converge.
    \<open>Pipeline\<close>: the results of probes, handled and then reconciled, determine what DNS answers.
  \<^item> \<open>Auth\<close>, \<open>User_Sync\<close>: sessions, role synchronisation and the middlewares; soundness of each guard,
    permanence of revocation, the exact roles after a login. \<open>Oidc_Service\<close>: the service made from the
    configuration, and the state, nonce and PKCE verifier from \<open>Login\<close> to \<open>Callback\<close>; \<open>Login\<close>: the cookie of
    a callback opens the API to exactly that user.
  \<^item> \<open>Http\<close>, \<open>Handlers_Config\<close>, \<open>Handlers_Backend\<close>, \<open>Handlers_Auth\<close>: every handler with its validation, errors,
    audit entry and response. \<open>Rate_Limiter\<close>, \<open>Routes\<close>, \<open>Access\<close>: the limiter equals a sliding window;
    the route table with its guards, the service of a request, and what reaches a handler.
    \<open>Guarantees\<close>: what single endpoints promise. \<open>Audit_Trail\<close>: a calculus by
    which every endpoint that changes the database leaves one audit entry when it succeeds;
    \<open>Failed_Requests\<close>: its counterpart for errors, a refused request changes no table;
    \<open>Credentials\<close>: no entry has a part of a DNS credential; \<open>Role_Gaps\<close>: the writes that ask for no role, and what a
    session does not depend on.
  \<^item> \<open>App_Config\<close>, \<open>Web\<close>: configuration loading and the static handler.

  \<^bold>\<open>Parameters.\<close> Code outside the repository is an argument: AES-GCM (\<open>aead\<close>, with the law that opening
  undoes sealing), the JWT library (\<open>jwt_lib\<close>, \<open>jwt_law\<close>: parsing what was signed before it expires
  returns its claims; the key function's check that the method is HMAC is part of \<open>jw_Parse\<close>), the
  Cloudflare client (\<open>cloudflare_client\<close>, \<open>api_laws\<close>: the documented effect of its calls on a zone, idealised
  in that a call that reports an error has changed nothing and that a list matches names exactly), the OIDC libraries (\<open>oauth_lib\<close>, and the service's record \<open>oidc_service\<close>), the network (\<open>net_env\<close>), reading files, the
  environment and YAML decoding (\<open>os_env\<close>), JSON decoding (\<open>body\<close>), RFC 3339 and IP parsing. Each law is
  shown to hold of a concrete instance, on which the witnesses run. The iteration order of a Go map
  is an argument that permutes an association list.

  \<^bold>\<open>Bounds.\<close> No definition uses fuel: loops are structural recursions over what they range over, or
  recursions with a measure (\<open>skip_space\<close>, \<open>duration_terms\<close>, Base64). The endless loops of goroutines
  are functions of the finite sequence of events they have received; the engine and the merged
  results, where the interleaving matters, are inductive step relations.

  \<^bold>\<open>Not modelled.\<close> Logging and the format of the request log, timers as such (a tick is an event), what the
  OIDC libraries do on the network and the URLs they build (the record \<open>oauth_lib\<close>), the text of JSON responses (a response is the value that is encoded, except for audit
  details, whose text is stored), gin's redirect of a path with or without a trailing slash to its route
  (such a path goes to the front end), the order SQLite gives rows that its ORDER BY does not separate
  (they keep the order of the table), concurrent requests (each handler runs to its end), and the Vue
  front end. The start-up code (a \<open>main\<close> package) is not in the repository.
\<close>

end
